(* ===== verification/Prelude.thy ===== *)
theory Prelude
  imports Main
begin

text \<open>
  Shared vocabulary of the development: the names of the model's basic types, the
  Python idioms the handlers of \<open>src/backend/medical_integration/views.py\<close> rely on
  (truthiness of request values, \<open>str.strip\<close>, \<open>sep.join\<close>, \<open>dict.get\<close> with a
  default) and generic lemmas on lists and association lists that the component
  theories use through the collection \<open>model_simps\<close>.
\<close>

named_theorems model_simps "rewrite rules of the shared helpers, used by the component proofs"

type_synonym uuid = string
type_synonym orthanc_pid = string
type_synonym tag_map = "(string \<times> string) list"
type_synonym timestamp = nat

text \<open>A handler's answer: the HTTP status code and the body.\<close>

type_synonym 'b response = "nat \<times> 'b"

text \<open>
  An external call of the archive (Orthanc) or the registry (OpenMRS) either answers
  or raises; a raised exception is a value of \<open>ext_error\<close> carrying the text
  \<open>str(e)\<close> that the handlers put into their responses.
\<close>

datatype ext_error = ExternalUnavailable string

type_synonym 'a ext = "ext_error + 'a"

subsection \<open>Python truthiness of optional strings\<close>

text \<open>
  \<open>request.data.get(k)\<close> is \<open>None\<close> or a string; \<open>not x\<close> holds for both
  \<open>None\<close> and the empty string.
\<close>

definition py_truthy :: "string option \<Rightarrow> bool" where
  "py_truthy x = (case x of None \<Rightarrow> False | Some s \<Rightarrow> s \<noteq> [])"

subsection \<open>Python idioms\<close>

text \<open>\<open>str.isdigit()\<close> on one ASCII character.\<close>

definition is_digit :: "char \<Rightarrow> bool" where
  "is_digit c = (let n = (of_char c :: nat) in 48 \<le> n \<and> n \<le> 57)"

text \<open>\<open>str.strip()\<close> on ASCII strings: the whitespace characters it removes.\<close>

definition is_py_space :: "char \<Rightarrow> bool" where
  "is_py_space c \<longleftrightarrow> c \<in> set [CHR '' '', CHR 0x09, CHR 0x0A, CHR 0x0B, CHR 0x0C, CHR 0x0D]"

definition py_strip :: "string \<Rightarrow> string" where
  "py_strip s = rev (dropWhile is_py_space (rev (dropWhile is_py_space s)))"

text \<open>\<open>sep.join(xs)\<close>\<close>

fun py_join :: "string \<Rightarrow> string list \<Rightarrow> string" where
  "py_join sep [] = []"
| "py_join sep [x] = x"
| "py_join sep (x # y # ys) = x @ sep @ py_join sep (y # ys)"

text \<open>\<open>dict.get(k, default)\<close> on an association list\<close>

definition lookup_default :: "'b \<Rightarrow> ('a \<times> 'b) list \<Rightarrow> 'a \<Rightarrow> 'b" where
  "lookup_default d xs k = (case map_of xs k of None \<Rightarrow> d | Some v \<Rightarrow> v)"

text \<open>
  An ORM \<open>save()\<close> on one row is modelled as a map over the table that rewrites the
  rows with the saved primary key.
\<close>

definition update_where :: "('a \<Rightarrow> bool) \<Rightarrow> ('a \<Rightarrow> 'a) \<Rightarrow> 'a list \<Rightarrow> 'a list" where
  "update_where P f xs = map (\<lambda>x. if P x then f x else x) xs"

text \<open>\<open>list.sort(key=f, reverse=True)\<close> as CPython implements it: the list is reversed,
  sorted stably and reversed again, so elements with equal keys keep their order.\<close>

text \<open>\<open>str(n)\<close> of a non-negative integer: its decimal digits.\<close>

fun show_dec :: "nat \<Rightarrow> string" where
  "show_dec n = (if n < 10 then [char_of (48 + n)] else show_dec (n div 10) @ [char_of (48 + n mod 10)])"

definition sort_desc_key :: "('a \<Rightarrow> 'b::linorder) \<Rightarrow> 'a list \<Rightarrow> 'a list" where
  "sort_desc_key f xs = rev (sort_key f (rev xs))"

subsection \<open>Lemmas: truthiness\<close>

lemma py_truthy_simps [simp, model_simps]:
  "py_truthy None = False"
  "py_truthy (Some s) = (s \<noteq> [])"
  by (simp_all add: py_truthy_def)

lemma py_truthy_iff: "py_truthy x \<longleftrightarrow> (\<exists>s. x = Some s \<and> s \<noteq> [])"
  by (cases x) auto

subsection \<open>\<open>str.strip()\<close> on ASCII strings\<close>

lemma dropWhile_idem [simp]: "dropWhile P (dropWhile P xs) = dropWhile P xs"
  by (induction xs) auto

lemma dropWhile_hd_not:
  "dropWhile P xs \<noteq> [] \<Longrightarrow> \<not> P (hd (dropWhile P xs))"
  by (induction xs) auto

lemma dropWhile_rev_dropWhile:
  assumes "xs = [] \<or> \<not> P (hd xs)"
  shows "dropWhile P (rev (dropWhile P (rev xs))) = rev (dropWhile P (rev xs))"
proof (cases "rev (dropWhile P (rev xs))")
  case Nil
  then show ?thesis by (simp only: Nil dropWhile.simps(1))
next
  case (Cons y ys)
  have "rev (dropWhile P (rev xs)) @ rev (takeWhile P (rev xs)) = xs"
    by (metis rev_append rev_rev_ident takeWhile_dropWhile_id)
  with Cons have "xs = y # ys @ rev (takeWhile P (rev xs))" by simp
  then have "xs \<noteq> [] \<and> hd xs = y" by (metis list.distinct(1) list.sel(1))
  with assms have "\<not> P y" by auto
  with Cons show ?thesis by simp
qed

lemma py_strip_dropWhile: "dropWhile is_py_space (py_strip s) = py_strip s"
proof -
  let ?a = "dropWhile is_py_space s"
  have "?a = [] \<or> \<not> is_py_space (hd ?a)"
    using dropWhile_hd_not by blast
  then have "dropWhile is_py_space (rev (dropWhile is_py_space (rev ?a))) =
        rev (dropWhile is_py_space (rev ?a))"
    by (rule dropWhile_rev_dropWhile)
  then show ?thesis by (simp add: py_strip_def)
qed

lemma py_strip_idem [model_simps]: "py_strip (py_strip s) = py_strip s"
  using py_strip_dropWhile [of s] by (simp add: py_strip_def)

lemma py_strip_no_leading_space:
  "py_strip s \<noteq> [] \<Longrightarrow> \<not> is_py_space (hd (py_strip s))"
  by (metis dropWhile_hd_not py_strip_dropWhile)

subsection \<open>\<open>sep.join(xs)\<close>\<close>

lemma py_join_nonempty [model_simps]:
  "(\<exists>x \<in> set xs. x \<noteq> []) \<Longrightarrow> py_join sep xs \<noteq> []"
  by (induction sep xs rule: py_join.induct) auto

lemma py_join_Nil_iff: "py_join sep xs = [] \<longleftrightarrow> (\<forall>x \<in> set xs. x = []) \<and> (sep = [] \<or> length xs \<le> 1)"
  by (induction sep xs rule: py_join.induct) auto

subsection \<open>Association lists: \<open>dict.get(k, default)\<close>\<close>

lemma lookup_default_simps [simp, model_simps]:
  "lookup_default d [] k = d"
  "lookup_default d ((a, b) # xs) k = (if k = a then b else lookup_default d xs k)"
  by (simp_all add: lookup_default_def)

subsection \<open>Updating the elements of a list that satisfy a predicate\<close>

lemma update_where_simps [simp, model_simps]:
  "update_where P f [] = []"
  "update_where P f (x # xs) = (if P x then f x else x) # update_where P f xs"
  by (simp_all add: update_where_def)

lemma length_update_where [simp, model_simps]: "length (update_where P f xs) = length xs"
  by (simp add: update_where_def)

lemma map_update_where [model_simps]:
  "(\<And>x. P x \<Longrightarrow> g (f x) = g x) \<Longrightarrow> map g (update_where P f xs) = map g xs"
  by (induction xs) auto

lemma update_where_nomatch [model_simps]:
  "(\<forall>x \<in> set xs. \<not> P x) \<Longrightarrow> update_where P f xs = xs"
  by (induction xs) auto

lemma set_update_where_cases:
  "y \<in> set (update_where P f xs) \<Longrightarrow> (\<exists>x \<in> set xs. P x \<and> y = f x) \<or> (y \<in> set xs \<and> \<not> P y)"
  by (auto simp: update_where_def)

lemma filter_map_same:
  "(\<And>x. x \<in> set xs \<Longrightarrow> Q (f x) = Q x) \<Longrightarrow>
   length (filter Q (map f xs)) = length (filter Q xs)"
  by (induction xs) auto

lemma length_filter_mono_pred:
  "(\<And>x. P x \<Longrightarrow> Q x) \<Longrightarrow> length (filter P xs) \<le> length (filter Q xs)"
  by (induction xs) auto

lemma find_append_miss [model_simps]:
  "(\<forall>x \<in> set xs. \<not> P x) \<Longrightarrow> find P (xs @ ys) = find P ys"
  by (induction xs) auto

subsection \<open>Descending stable sort\<close>

lemma set_sort_desc_key [simp, model_simps]: "set (sort_desc_key f xs) = set xs"
  by (simp add: sort_desc_key_def)

lemma length_sort_desc_key [simp, model_simps]: "length (sort_desc_key f xs) = length xs"
  by (simp add: sort_desc_key_def)

lemma sorted_wrt_sort_desc_key: "sorted_wrt (\<lambda>a b. f b \<le> f a) (sort_desc_key f xs)"
proof -
  have "sorted (map f (sort_key f (rev xs)))" by simp
  then have "sorted_wrt (\<lambda>a b. f a \<le> f b) (sort_key f (rev xs))"
    by (simp add: sorted_wrt_map)
  then show ?thesis by (simp add: sort_desc_key_def sorted_wrt_rev)
qed

lemma sort_desc_key_stable:
  "filter (\<lambda>y. f y = k) (sort_desc_key f xs) = filter (\<lambda>y. f y = k) xs"
  by (simp add: sort_desc_key_def rev_filter [symmetric] sort_key_stable)

lemma take_sort_desc_key_top:
  assumes "y \<in> set xs" "y \<notin> set (take k (sort_desc_key f xs))"
    "x \<in> set (take k (sort_desc_key f xs))"
  shows "f y \<le> f x"
proof -
  let ?ys = "sort_desc_key f xs"
  have "y \<in> set (drop k ?ys)"
    using assms(1,2) by (metis Un_iff append_take_drop_id set_append set_sort_desc_key)
  moreover have "sorted_wrt (\<lambda>a b. f b \<le> f a) (take k ?ys @ drop k ?ys)"
    unfolding append_take_drop_id by (rule sorted_wrt_sort_desc_key)
  ultimately show ?thesis using assms(3) unfolding sorted_wrt_append by blast
qed

lemma sorted_wrt_partition:
  assumes "sorted_wrt (\<lambda>a b. f b \<le> f a) xs"
    and "\<And>x y. x \<in> set xs \<Longrightarrow> y \<in> set xs \<Longrightarrow> P x \<Longrightarrow> \<not> P y \<Longrightarrow> f y < (f x :: 'b::linorder)"
  shows "xs = filter P xs @ filter (\<lambda>x. \<not> P x) xs"
  using assms
proof (induction xs)
  case Nil
  then show ?case by simp
next
  case (Cons a xs)
  then have IH: "xs = filter P xs @ filter (\<lambda>x. \<not> P x) xs" by simp
  show ?case
  proof (cases "P a")
    case True
    then show ?thesis using IH by simp
  next
    case False
    have "\<not> P b" if "b \<in> set xs" for b
      using Cons.prems(1) Cons.prems(2) [of b a] that False by fastforce
    then show ?thesis using False by (simp add: filter_id_conv)
  qed
qed

lemma insort_key_max: "\<forall>y \<in> set ys. f y < f x \<Longrightarrow> insort_key f x ys = ys @ [x]"
  by (induction ys) (auto simp: not_le)

lemma sort_desc_key_append_max:
  "\<forall>y \<in> set xs. f y < f x \<Longrightarrow> sort_desc_key f (xs @ [x]) = x # sort_desc_key f xs"
  by (simp add: sort_desc_key_def insort_key_max)

lemma sort_desc_key_id:
  "sorted_wrt (\<lambda>a b. f b \<le> f a) xs \<Longrightarrow> sort_desc_key f xs = xs"
  by (simp add: sort_desc_key_def sort_key_id_if_sorted sorted_wrt_rev sorted_wrt_map flip: rev_map)

text \<open>\<open>show_dec\<close> unfolds only through the two rules below.\<close>

declare show_dec.simps [simp del]

lemma show_dec_small: "n < 10 \<Longrightarrow> show_dec n = [char_of (48 + n)]"
  by (simp add: show_dec.simps)

lemma show_dec_big: "10 \<le> n \<Longrightarrow> show_dec n = show_dec (n div 10) @ [char_of (48 + n mod 10)]"
  by (subst show_dec.simps) simp

end
