(* ===== verification/MappingStore.thy ===== *)
theory MappingStore
  imports Prelude "HOL-Library.Sublist"
begin

text \<open>
  The persisted \<open>PatientMapping\<close> table (spec section 3; the Django model module
  \<open>medical_integration/models.py\<close> is not part of the sources, so the fields and the
  model methods \<open>update_sync_time\<close> and \<open>get_active_mappings\<close> follow the spec and the
  way \<open>views.py\<close> uses them). The table is a list of rows in primary-key order with the
  next auto-increment key; every ORM call of the handlers is one function on it.
  The invariant \<open>store_inv\<close> (distinct keys below the counter, status and message
  coherent) is kept by every operation, rows are never removed, and the identity
  fields of a row (key, both endpoints, type, creation time) never change.
\<close>

datatype mapping_type = AUTO | MANUAL

text \<open>
  \<open>PENDING\<close> stands for the model's default status, which a row has between
  \<open>objects.create\<close> and the first \<open>update_sync_time\<close>; every handler that creates a
  row overwrites it before it returns.
\<close>

datatype sync_status = PENDING | SYNCED | ERROR | AUTO_MAPPED | MANUAL_MAPPED

record patient_mapping =
  mapping_id :: nat
  orthanc_patient_id :: orthanc_pid
  openmrs_patient_uuid :: uuid
  mapping_type :: mapping_type
  sync_status :: sync_status
  error_message :: "string option"
  created_date :: timestamp
  last_sync :: "timestamp option"
  is_active :: bool

record mapping_store =
  rows :: "patient_mapping list"
  next_id :: nat

definition empty_store :: mapping_store where
  "empty_store = \<lparr>rows = [], next_id = 1\<rparr>"

subsection \<open>ORM operations\<close>

text \<open>\<open>PatientMapping.objects.create(...)\<close>: a new active row with the next key.\<close>

definition objects_create ::
  "mapping_type \<Rightarrow> orthanc_pid \<Rightarrow> uuid \<Rightarrow> timestamp \<Rightarrow> mapping_store \<Rightarrow> patient_mapping \<times> mapping_store" where
  "objects_create ty opid u now st =
     (let m = \<lparr>mapping_id = next_id st, orthanc_patient_id = opid, openmrs_patient_uuid = u,
               mapping_type = ty, sync_status = PENDING, error_message = None,
               created_date = now, last_sync = None, is_active = True\<rparr>
      in (m, st\<lparr>rows := rows st @ [m], next_id := Suc (next_id st)\<rparr>))"

text \<open>\<open>.filter(...).first()\<close> and \<open>.get(...)\<close>: the first row, in key order, that matches.\<close>

definition find_row :: "(patient_mapping \<Rightarrow> bool) \<Rightarrow> mapping_store \<Rightarrow> patient_mapping option" where
  "find_row P st = find P (rows st)"

definition get_by_id :: "nat \<Rightarrow> mapping_store \<Rightarrow> patient_mapping option" where
  "get_by_id i st = find_row (\<lambda>m. mapping_id m = i) st"

text \<open>\<open>PatientMapping.objects.get(mapping_id=i, is_active=True)\<close>\<close>

definition get_active_by_id :: "nat \<Rightarrow> mapping_store \<Rightarrow> patient_mapping option" where
  "get_active_by_id i st = find_row (\<lambda>m. mapping_id m = i \<and> is_active m) st"

text \<open>\<open>PatientMapping.objects.filter(orthanc_patient_id=o, openmrs_patient_uuid=u).first()\<close>:
  the filter has no \<open>is_active\<close> condition.\<close>

definition first_pair :: "orthanc_pid \<Rightarrow> uuid \<Rightarrow> mapping_store \<Rightarrow> patient_mapping option" where
  "first_pair opid u st = find_row (\<lambda>m. orthanc_patient_id m = opid \<and> openmrs_patient_uuid m = u) st"

text \<open>The same filter restricted to active rows, as the mapper's duplicate checks use it.\<close>

definition active_pair :: "orthanc_pid \<Rightarrow> uuid \<Rightarrow> mapping_store \<Rightarrow> patient_mapping option" where
  "active_pair opid u st =
     find_row (\<lambda>m. is_active m \<and> orthanc_patient_id m = opid \<and> openmrs_patient_uuid m = u) st"

definition active_for_archive :: "orthanc_pid \<Rightarrow> mapping_store \<Rightarrow> patient_mapping option" where
  "active_for_archive opid st = find_row (\<lambda>m. is_active m \<and> orthanc_patient_id m = opid) st"

text \<open>\<open>mapping.save()\<close>: the row with the saved key is overwritten.\<close>

definition save_row :: "patient_mapping \<Rightarrow> mapping_store \<Rightarrow> mapping_store" where
  "save_row m st = st\<lparr>rows := update_where (\<lambda>r. mapping_id r = mapping_id m) (\<lambda>_. m) (rows st)\<rparr>"

text \<open>\<open>mapping.update_sync_time(status, error_message)\<close>: status, message and sync time
  are written together and saved.\<close>

definition update_sync_time ::
  "sync_status \<Rightarrow> string option \<Rightarrow> timestamp \<Rightarrow> patient_mapping \<Rightarrow> mapping_store \<Rightarrow> patient_mapping \<times> mapping_store" where
  "update_sync_time status err now m st =
     (let m' = m\<lparr>sync_status := status, error_message := err, last_sync := Some now\<rparr>
      in (m', save_row m' st))"

text \<open>\<open>mapping.is_active = False; mapping.save(update_fields=['is_active'])\<close>\<close>

definition deactivate :: "patient_mapping \<Rightarrow> mapping_store \<Rightarrow> mapping_store" where
  "deactivate m st = save_row (m\<lparr>is_active := False\<rparr>) st"

text \<open>\<open>PatientMapping.get_active_mappings()\<close> and
  \<open>filter(is_active=True).values_list('orthanc_patient_id', flat=True)\<close>\<close>

definition get_active_mappings :: "mapping_store \<Rightarrow> patient_mapping list" where
  "get_active_mappings st = filter is_active (rows st)"

definition mapped_patient_ids :: "mapping_store \<Rightarrow> orthanc_pid list" where
  "mapped_patient_ids st = map orthanc_patient_id (get_active_mappings st)"

subsection \<open>Invariant\<close>

text \<open>Status and message agree: a message is present exactly in the \<open>ERROR\<close> state,
  and it is not empty.\<close>

definition status_coherent :: "sync_status \<Rightarrow> string option \<Rightarrow> bool" where
  "status_coherent s e =
     (case e of None \<Rightarrow> s \<noteq> ERROR | Some msg \<Rightarrow> s = ERROR \<and> msg \<noteq> [])"

definition store_inv :: "mapping_store \<Rightarrow> bool" where
  "store_inv st \<longleftrightarrow>
     distinct (map mapping_id (rows st)) \<and>
     list_all (\<lambda>m. mapping_id m < next_id st \<and> status_coherent (sync_status m) (error_message m))
       (rows st)"

text \<open>The fields a row keeps for its whole life.\<close>

definition row_identity :: "patient_mapping \<Rightarrow> nat \<times> orthanc_pid \<times> uuid \<times> mapping_type \<times> timestamp" where
  "row_identity m = (mapping_id m, orthanc_patient_id m, openmrs_patient_uuid m, mapping_type m, created_date m)"

definition keeps_history :: "mapping_store \<Rightarrow> mapping_store \<Rightarrow> bool" where
  "keeps_history st st' \<longleftrightarrow>
     prefix (map row_identity (rows st)) (map row_identity (rows st')) \<and> next_id st \<le> next_id st'"

text \<open>At most one active row per archive patient: the condition the automatic paths keep.\<close>

definition archive_unique :: "mapping_store \<Rightarrow> bool" where
  "archive_unique st = distinct (mapped_patient_ids st)"

lemmas store_defs = objects_create_def save_row_def update_sync_time_def deactivate_def
  get_active_mappings_def mapped_patient_ids_def find_row_def get_by_id_def
  get_active_by_id_def first_pair_def active_pair_def active_for_archive_def

subsection \<open>Lemmas on the operations\<close>

lemma find_row_Some [model_simps]:
  "find_row P st = Some m \<Longrightarrow> m \<in> set (rows st) \<and> P m"
  by (auto simp: find_row_def find_Some_iff nth_mem)

lemma find_row_None [model_simps]:
  "find_row P st = None \<longleftrightarrow> (\<forall>m \<in> set (rows st). \<not> P m)"
  by (auto simp: find_row_def find_None_iff)

lemma objects_create_result [model_simps]:
  "objects_create ty opid u now st = (m, st') \<Longrightarrow>
     rows st' = rows st @ [m] \<and> next_id st' = Suc (next_id st) \<and>
     mapping_id m = next_id st \<and> orthanc_patient_id m = opid \<and> openmrs_patient_uuid m = u \<and>
     mapping_type m = ty \<and> sync_status m = PENDING \<and> error_message m = None \<and>
     is_active m \<and> created_date m = now"
  by (auto simp: objects_create_def Let_def)

lemma rows_save_row [model_simps]:
  "rows (save_row m st) = update_where (\<lambda>r. mapping_id r = mapping_id m) (\<lambda>_. m) (rows st)"
  "next_id (save_row m st) = next_id st"
  by (simp_all add: save_row_def)

lemma update_sync_time_fst [model_simps]:
  "fst (update_sync_time s e now m st) = m\<lparr>sync_status := s, error_message := e, last_sync := Some now\<rparr>"
  by (simp add: update_sync_time_def Let_def)

lemma find_update_where_same_id:
  "mapping_id m' = i \<Longrightarrow>
   find (\<lambda>r. mapping_id r = i) (update_where (\<lambda>r. mapping_id r = i) (\<lambda>_. m') xs) =
   (if i \<in> mapping_id ` set xs then Some m' else None)"
  by (induction xs) auto

lemma get_by_id_save_row [model_simps]:
  "m \<in> set (rows st) \<Longrightarrow> mapping_id m' = mapping_id m \<Longrightarrow>
   get_by_id (mapping_id m) (save_row m' st) = Some m'"
  by (simp add: get_by_id_def find_row_def save_row_def find_update_where_same_id)

lemma save_row_inv:
  assumes inv: "store_inv st" and mem: "m \<in> set (rows st)"
    and same: "mapping_id m' = mapping_id m"
    and coh: "status_coherent (sync_status m') (error_message m')"
  shows "store_inv (save_row m' st)"
proof -
  have ids: "map mapping_id (rows (save_row m' st)) = map mapping_id (rows st)"
    unfolding rows_save_row by (rule map_update_where) (simp add: same)
  have "mapping_id m' < next_id st"
    using inv mem same by (auto simp: store_inv_def list_all_iff)
  then have "list_all (\<lambda>m. mapping_id m < next_id st \<and> status_coherent (sync_status m) (error_message m))
               (update_where (\<lambda>r. mapping_id r = mapping_id m') (\<lambda>_. m') (rows st))"
    using inv coh by (auto simp: store_inv_def list_all_iff dest: set_update_where_cases)
  with inv ids show ?thesis by (simp add: store_inv_def save_row_def)
qed

lemma row_identity_update_where:
  "(\<And>r. P r \<Longrightarrow> row_identity (f r) = row_identity r) \<Longrightarrow>
   map row_identity (update_where P f xs) = map row_identity xs"
  by (rule map_update_where)

lemma save_row_history:
  assumes "m \<in> set (rows st)" and "mapping_id m' = mapping_id m"
    and "row_identity m' = row_identity m"
    and "distinct (map mapping_id (rows st))"
  shows "keeps_history st (save_row m' st)"
proof -
  have "\<And>r. r \<in> set (rows st) \<Longrightarrow> mapping_id r = mapping_id m' \<Longrightarrow> r = m"
    using assms by (metis distinct_map inj_onD)
  then have "map row_identity (update_where (\<lambda>r. mapping_id r = mapping_id m') (\<lambda>_. m') (rows st))
           = map row_identity (rows st)"
    using assms(3) by (auto simp: update_where_def)
  then show ?thesis by (simp add: keeps_history_def save_row_def)
qed

lemma keeps_history_refl [simp]: "keeps_history st st"
  by (simp add: keeps_history_def)

lemma keeps_history_trans:
  "keeps_history st1 st2 \<Longrightarrow> keeps_history st2 st3 \<Longrightarrow> keeps_history st1 st3"
  by (auto simp: keeps_history_def intro: prefix_order.order_trans)

lemma row_in_store_coherent:
  "store_inv st \<Longrightarrow> m \<in> set (rows st) \<Longrightarrow> status_coherent (sync_status m) (error_message m)"
  by (auto simp: store_inv_def list_all_iff)

lemma objects_create_inv:
  assumes "store_inv st"
  shows "store_inv (snd (objects_create ty opid u now st))"
proof -
  have "next_id st \<notin> set (map mapping_id (rows st))"
    using assms by (auto simp: store_inv_def list_all_iff)
  with assms show ?thesis
    by (auto simp: store_inv_def objects_create_def Let_def list_all_iff status_coherent_def)
qed

lemma objects_create_history: "keeps_history st (snd (objects_create ty opid u now st))"
  by (simp add: keeps_history_def objects_create_def Let_def)

lemma update_sync_time_inv:
  "store_inv st \<Longrightarrow> m \<in> set (rows st) \<Longrightarrow> status_coherent s e \<Longrightarrow>
   store_inv (snd (update_sync_time s e now m st))"
  by (simp add: update_sync_time_def Let_def save_row_inv)

lemma update_sync_time_history:
  "store_inv st \<Longrightarrow> m \<in> set (rows st) \<Longrightarrow> keeps_history st (snd (update_sync_time s e now m st))"
  by (simp add: update_sync_time_def Let_def save_row_history row_identity_def store_inv_def)

lemma deactivate_inv:
  "store_inv st \<Longrightarrow> m \<in> set (rows st) \<Longrightarrow> store_inv (deactivate m st)"
  by (simp add: deactivate_def save_row_inv row_in_store_coherent)

lemma deactivate_history:
  "store_inv st \<Longrightarrow> m \<in> set (rows st) \<Longrightarrow> keeps_history st (deactivate m st)"
  by (simp add: deactivate_def save_row_history row_identity_def store_inv_def)

lemma update_sync_time_row [model_simps]:
  "m \<in> set (rows st) \<Longrightarrow>
   get_by_id (mapping_id m) (snd (update_sync_time s e now m st)) =
     Some (m\<lparr>sync_status := s, error_message := e, last_sync := Some now\<rparr>)"
  by (simp add: update_sync_time_def Let_def get_by_id_save_row)

lemma deactivate_row [model_simps]:
  "m \<in> set (rows st) \<Longrightarrow> get_by_id (mapping_id m) (deactivate m st) = Some (m\<lparr>is_active := False\<rparr>)"
  by (simp add: deactivate_def get_by_id_save_row)

lemma deactivate_not_active:
  assumes "store_inv st" and "m \<in> set (rows st)"
  shows "mapping_id m \<notin> mapping_id ` set (get_active_mappings (deactivate m st))"
proof
  assume "mapping_id m \<in> mapping_id ` set (get_active_mappings (deactivate m st))"
  then obtain r where r: "r \<in> set (update_where (\<lambda>r. mapping_id r = mapping_id m) (\<lambda>_. m\<lparr>is_active := False\<rparr>) (rows st))"
    and act: "is_active r" and rid: "mapping_id r = mapping_id m"
    by (auto simp: get_active_mappings_def deactivate_def save_row_def)
  from set_update_where_cases [OF r] rid act show False by auto
qed

lemma active_ids_update_where:
  "(\<forall>x \<in> set xs. P x \<longrightarrow> is_active (f x) = is_active x \<and> orthanc_patient_id (f x) = orthanc_patient_id x) \<Longrightarrow>
   map orthanc_patient_id (filter is_active (update_where P f xs)) =
   map orthanc_patient_id (filter is_active xs)"
  by (induction xs) auto

lemma mapped_ids_update_sync_time [model_simps]:
  "mapped_patient_ids (snd (update_sync_time s e now m st)) = mapped_patient_ids st"
  if "\<forall>r \<in> set (rows st). mapping_id r = mapping_id m \<longrightarrow> is_active r = is_active m \<and> orthanc_patient_id r = orthanc_patient_id m"
  using that by (simp add: update_sync_time_def Let_def mapped_patient_ids_def get_active_mappings_def
      save_row_def active_ids_update_where)

lemma mapped_ids_objects_create [model_simps]:
  "mapped_patient_ids (snd (objects_create ty opid u now st)) = mapped_patient_ids st @ [opid]"
  by (simp add: objects_create_def Let_def mapped_patient_ids_def get_active_mappings_def)

lemma active_for_archive_None_iff:
  "active_for_archive opid st = None \<longleftrightarrow> opid \<notin> set (mapped_patient_ids st)"
  by (auto simp: active_for_archive_def find_row_None mapped_patient_ids_def get_active_mappings_def)

lemma find_conj_same:
  "(\<forall>r \<in> set xs. Q r \<longrightarrow> R r) \<Longrightarrow> find (\<lambda>r. Q r \<and> R r) xs = find Q xs"
  by (induction xs) auto

lemma get_active_by_id_save_row [model_simps]:
  assumes "m \<in> set (rows st)" and "mapping_id m' = mapping_id m"
  shows "get_active_by_id (mapping_id m) (save_row m' st) = (if is_active m' then Some m' else None)"
proof -
  let ?xs = "update_where (\<lambda>r. mapping_id r = mapping_id m') (\<lambda>_. m') (rows st)"
  have only: "\<forall>r \<in> set ?xs. mapping_id r = mapping_id m \<longrightarrow> r = m'"
    using assms(2) by (auto dest: set_update_where_cases)
  show ?thesis
  proof (cases "is_active m'")
    case True
    with only have "find (\<lambda>r. mapping_id r = mapping_id m \<and> is_active r) ?xs =
                    find (\<lambda>r. mapping_id r = mapping_id m) ?xs"
      by (intro find_conj_same) auto
    with True assms show ?thesis
      by (simp add: get_active_by_id_def find_row_def save_row_def find_update_where_same_id)
  next
    case False
    with only have "find (\<lambda>r. mapping_id r = mapping_id m \<and> is_active r) ?xs = None"
      by (auto simp: find_None_iff)
    with False show ?thesis
      by (simp add: get_active_by_id_def find_row_def save_row_def assms(2))
  qed
qed

lemma get_active_by_id_Some:
  "get_active_by_id i st = Some m \<Longrightarrow> m \<in> set (rows st) \<and> mapping_id m = i \<and> is_active m"
  by (auto simp: get_active_by_id_def dest: find_row_Some)

end
