(* ===== verification/Services.thy ===== *)
theory Services
  imports Prelude
begin

text \<open>
  The two external systems the handlers call, as the engine sees them (spec section 6;
  the client modules \<open>openmrs_api.py\<close> and \<open>orthanc_api.py\<close> are not part of the
  sources). The registry (OpenMRS) is the list of its patients; the archive (Orthanc)
  is a snapshot of what each of its calls answers, an exception being an
  \<open>ext_error\<close>. A resource the snapshot does not list answers the empty list, the
  falsy value the handlers test with \<open>if studies:\<close>.
\<close>

subsection \<open>Registry\<close>

record reg_identifier =
  ident_value :: "string option"
  ident_preferred :: bool

record reg_patient =
  rp_uuid :: uuid
  rp_identifiers :: "reg_identifier list"
  rp_family :: string
  rp_given :: string
  rp_gender :: "string option"
  rp_birthdate :: "string option"

type_synonym registry = "reg_patient list"

text \<open>\<open>str.lower()\<close> on ASCII characters.\<close>

definition lower_char :: "char \<Rightarrow> char" where
  "lower_char c = (let n = (of_char c :: nat) in if 65 \<le> n \<and> n \<le> 90 then char_of (n + 32) else c)"

definition py_lower :: "string \<Rightarrow> string" where
  "py_lower s = map lower_char s"

text \<open>\<open>PatientDirectory.findByIdentifier\<close>: the patients one of whose identifiers is the
  given string.\<close>

definition find_by_identifier :: "registry \<Rightarrow> string \<Rightarrow> reg_patient list" where
  "find_by_identifier reg i = filter (\<lambda>p. Some i \<in> set (map ident_value (rp_identifiers p))) reg"

text \<open>\<open>PatientDirectory.findByDemographics\<close>: family and given name equal up to case and
  the same birth date.\<close>

definition find_by_demographics :: "registry \<Rightarrow> string \<Rightarrow> string \<Rightarrow> string \<Rightarrow> reg_patient list" where
  "find_by_demographics reg fam giv birth =
     filter (\<lambda>p. py_lower (rp_family p) = py_lower fam \<and> py_lower (rp_given p) = py_lower giv
                 \<and> rp_birthdate p = Some birth) reg"

definition reg_get :: "registry \<Rightarrow> uuid \<Rightarrow> reg_patient option" where
  "reg_get reg u = find (\<lambda>p. rp_uuid p = u) reg"

definition reg_exists :: "registry \<Rightarrow> uuid \<Rightarrow> bool" where
  "reg_exists reg u = (reg_get reg u \<noteq> None)"

definition check_identifier_exists :: "registry \<Rightarrow> string \<Rightarrow> bool" where
  "check_identifier_exists reg i = (find_by_identifier reg i \<noteq> [])"

subsection \<open>Archive\<close>

record archive =
  ar_patient_ids :: "string list ext"
  ar_patient_tags :: "(orthanc_pid \<times> tag_map) list"
  ar_studies :: "(string \<times> string list ext) list"
  ar_series :: "(string \<times> string list ext) list"
  ar_instances :: "(string \<times> string list ext) list"
  ar_files :: "(string \<times> tag_map option ext) list"

text \<open>\<open>OrthancAPI.get_patients()\<close>\<close>

definition get_patients :: "archive \<Rightarrow> string list ext" where
  "get_patients a = ar_patient_ids a"

text \<open>\<open>OrthancAPI.get_patient(pid)\<close>: the patient's main tags, \<open>None\<close> when unknown.\<close>

definition get_patient :: "archive \<Rightarrow> orthanc_pid \<Rightarrow> tag_map option" where
  "get_patient a pid = map_of (ar_patient_tags a) pid"

definition ar_exists :: "archive \<Rightarrow> orthanc_pid \<Rightarrow> bool" where
  "ar_exists a pid = (get_patient a pid \<noteq> None)"

definition get_patient_studies :: "archive \<Rightarrow> orthanc_pid \<Rightarrow> string list ext" where
  "get_patient_studies a pid = lookup_default (Inr []) (ar_studies a) pid"

definition get_study_series :: "archive \<Rightarrow> string \<Rightarrow> string list ext" where
  "get_study_series a sid = lookup_default (Inr []) (ar_series a) sid"

definition get_series_instances :: "archive \<Rightarrow> string \<Rightarrow> string list ext" where
  "get_series_instances a sid = lookup_default (Inr []) (ar_instances a) sid"

text \<open>\<open>OrthancAPI.get_instance_file(iid)\<close>: the decoded tag map of the instance's bytes,
  \<open>None\<close> for empty bytes.\<close>

definition get_instance_file :: "archive \<Rightarrow> string \<Rightarrow> tag_map option ext" where
  "get_instance_file a iid = lookup_default (Inr None) (ar_files a) iid"

lemma lower_char_idem [simp]: "lower_char (lower_char c) = lower_char c"
  by (simp add: lower_char_def Let_def)

lemma py_lower_idem [simp]: "py_lower (py_lower s) = py_lower s"
  by (simp add: py_lower_def comp_def)

lemma find_by_identifier_sub: "set (find_by_identifier reg i) \<subseteq> set reg"
  by (auto simp: find_by_identifier_def)

lemma find_by_demographics_sub: "set (find_by_demographics reg f g b) \<subseteq> set reg"
  by (auto simp: find_by_demographics_def)

end
