(* ===== verification/Mapper.thy ===== *)
theory Mapper
  imports MappingStore Services
begin

text \<open>
  The reconciliation engine that \<open>views.py\<close> calls as \<open>DicomPatientMapper\<close>
  (spec sections 4.1 to 4.4; the module \<open>dicom_patient_mapper.py\<close> is not part of the
  sources): the tag extractor, the identity matcher with its priority order, the
  validator of a mapping's two endpoints, the per-image reconciliation
  \<open>process_dicom_upload\<close> shared by the live upload and the batch sweep, and
  \<open>create_manual_mapping\<close>. Each operation returns its outcome and the new mapping
  table; the registry and the archive are only read.
\<close>

subsection \<open>TagExtractor\<close>

datatype sex = Male | Female | Other | Unknown_sex

record patient_key =
  pk_identifier :: "string option"
  pk_family :: string
  pk_given :: string
  pk_birth :: "string option"
  pk_sex :: sex

text \<open>A DICOM date \<open>YYYYMMDD\<close> as the ISO date \<open>YYYY-MM-DD\<close>; anything else is null.\<close>

definition dicom_date_to_iso :: "string \<Rightarrow> string option" where
  "dicom_date_to_iso d =
     (if length d = 8 \<and> list_all is_digit d
      then Some (take 4 d @ ''-'' @ take 2 (drop 4 d) @ ''-'' @ drop 6 d) else None)"

definition parse_sex :: "string option \<Rightarrow> sex" where
  "parse_sex s = (if s = Some ''M'' then Male else if s = Some ''F'' then Female
                  else if s = Some ''O'' then Other else Unknown_sex)"

text \<open>\<open>PatientName\<close> is \<open>Family^Given^...\<close>: the text before the first caret and the
  text between the first and the second.\<close>

definition family_part :: "string \<Rightarrow> string" where
  "family_part s = takeWhile (\<lambda>c. c \<noteq> CHR ''^'') s"

definition given_part :: "string \<Rightarrow> string" where
  "given_part s = takeWhile (\<lambda>c. c \<noteq> CHR ''^'') (drop 1 (dropWhile (\<lambda>c. c \<noteq> CHR ''^'') s))"

definition extract_patient_info :: "tag_map \<Rightarrow> patient_key" where
  "extract_patient_info tags =
     (let name = lookup_default [] tags ''PatientName'' in
      \<lparr>pk_identifier = map_of tags ''PatientID'',
       pk_family = family_part name, pk_given = given_part name,
       pk_birth = (case map_of tags ''PatientBirthDate'' of None \<Rightarrow> None | Some d \<Rightarrow> dicom_date_to_iso d),
       pk_sex = parse_sex (map_of tags ''PatientSex'')\<rparr>)"

subsection \<open>IdentityMatcher\<close>

datatype match_result = Unique uuid | Ambiguous "uuid list" | NoMatch

text \<open>One, many or no candidates.\<close>

definition classify :: "uuid list \<Rightarrow> match_result" where
  "classify cs = (case cs of [] \<Rightarrow> NoMatch | [u] \<Rightarrow> Unique u | _ \<Rightarrow> Ambiguous cs)"

definition identifier_candidates :: "registry \<Rightarrow> patient_key \<Rightarrow> uuid list" where
  "identifier_candidates reg key =
     (case pk_identifier key of None \<Rightarrow> [] | Some i \<Rightarrow>
        if i = [] then [] else map rp_uuid (find_by_identifier reg i))"

definition demographic_candidates :: "registry \<Rightarrow> patient_key \<Rightarrow> uuid list" where
  "demographic_candidates reg key =
     (case pk_birth key of None \<Rightarrow> [] | Some b \<Rightarrow>
        map rp_uuid (find_by_demographics reg (pk_family key) (pk_given key) b))"

text \<open>Identifier first; the demographic channel only when it yields nothing.\<close>

definition resolve :: "registry \<Rightarrow> patient_key \<Rightarrow> match_result" where
  "resolve reg key =
     (let c1 = identifier_candidates reg key in
      if c1 \<noteq> [] then classify c1 else classify (demographic_candidates reg key))"

subsection \<open>MappingValidator\<close>

text \<open>Both checks run; one message per failed check.\<close>

definition validate_mapping :: "registry \<Rightarrow> archive \<Rightarrow> patient_mapping \<Rightarrow> string list" where
  "validate_mapping reg arch m =
     (if ar_exists arch (orthanc_patient_id m) then []
      else [''Orthanc patient not found: '' @ orthanc_patient_id m]) @
     (if reg_exists reg (openmrs_patient_uuid m) then []
      else [''OpenMRS patient not found: '' @ openmrs_patient_uuid m])"

text \<open>Recording a validation: \<open>ERROR\<close> with the joined messages, or the given success
  status with the message cleared.\<close>

definition record_validation ::
  "registry \<Rightarrow> archive \<Rightarrow> sync_status \<Rightarrow> timestamp \<Rightarrow> patient_mapping \<Rightarrow> mapping_store \<Rightarrow>
   patient_mapping \<times> mapping_store" where
  "record_validation reg arch ok now m st =
     (let errs = validate_mapping reg arch m in
      if errs \<noteq> [] then update_sync_time ERROR (Some (py_join ''; '' errs)) now m st
      else update_sync_time ok None now m st)"

definition first_sync_status :: "mapping_type \<Rightarrow> sync_status" where
  "first_sync_status ty = (case ty of AUTO \<Rightarrow> AUTO_MAPPED | MANUAL \<Rightarrow> MANUAL_MAPPED)"

subsection \<open>ReconciliationEngine\<close>

datatype mapping_outcome =
    Mapped patient_mapping
  | AlreadyMapped patient_mapping
  | AmbiguousMatch "uuid list"
  | NoMatchFound
  | NoArchivePatient
  | DuplicateMapping patient_mapping
  | InvalidIds

text \<open>The \<open>success\<close> field of the outcome dictionary.\<close>

fun outcome_success :: "mapping_outcome \<Rightarrow> bool" where
  "outcome_success (Mapped _) = True"
| "outcome_success (AlreadyMapped _) = True"
| "outcome_success _ = False"

text \<open>Creation of a row followed by its first validation.\<close>

definition create_and_validate ::
  "registry \<Rightarrow> archive \<Rightarrow> mapping_type \<Rightarrow> orthanc_pid \<Rightarrow> uuid \<Rightarrow> timestamp \<Rightarrow> mapping_store \<Rightarrow>
   patient_mapping \<times> mapping_store" where
  "create_and_validate reg arch ty opid u now st =
     (let (m, st1) = objects_create ty opid u now st
      in record_validation reg arch (first_sync_status ty) now m st1)"

text \<open>\<open>process_dicom_upload(dicom_data, upload_result)\<close>: the archive patient comes
  from the upload result (\<open>ParentPatient\<close>), the key from the image's tags.\<close>

definition process_dicom_upload ::
  "registry \<Rightarrow> archive \<Rightarrow> tag_map \<Rightarrow> string option \<Rightarrow> timestamp \<Rightarrow> mapping_store \<Rightarrow>
   mapping_outcome \<times> mapping_store" where
  "process_dicom_upload reg arch tags parent now st =
     (case parent of
        None \<Rightarrow> (NoArchivePatient, st)
      | Some opid \<Rightarrow>
          if opid = [] then (NoArchivePatient, st)
          else (case active_for_archive opid st of
                  Some m \<Rightarrow> (AlreadyMapped m, st)
                | None \<Rightarrow>
                    (case resolve reg (extract_patient_info tags) of
                       Unique u \<Rightarrow>
                         (let (m, st') = create_and_validate reg arch AUTO opid u now st
                          in (Mapped m, st'))
                     | Ambiguous cs \<Rightarrow> (AmbiguousMatch cs, st)
                     | NoMatch \<Rightarrow> (NoMatchFound, st))))"

text \<open>\<open>create_manual_mapping(orthanc_patient_id, openmrs_patient_uuid)\<close>: both ids
  non-empty, no active row for the exact pair, then a \<open>MANUAL\<close> row, validated;
  validation errors do not block the creation.\<close>

definition create_manual_mapping ::
  "registry \<Rightarrow> archive \<Rightarrow> orthanc_pid \<Rightarrow> uuid \<Rightarrow> timestamp \<Rightarrow> mapping_store \<Rightarrow>
   mapping_outcome \<times> mapping_store" where
  "create_manual_mapping reg arch opid u now st =
     (if opid = [] \<or> u = [] then (InvalidIds, st)
      else (case active_pair opid u st of
              Some m \<Rightarrow> (DuplicateMapping m, st)
            | None \<Rightarrow>
                (let (m, st') = create_and_validate reg arch MANUAL opid u now st
                 in (Mapped m, st'))))"

subsection \<open>Lemmas: validation and creation\<close>

lemma validate_mapping_messages_nonempty: "x \<in> set (validate_mapping reg arch m) \<Longrightarrow> x \<noteq> []"
  by (auto simp: validate_mapping_def split: if_splits)

lemma validate_mapping_Nil_iff [model_simps]:
  "validate_mapping reg arch m = [] \<longleftrightarrow>
     ar_exists arch (orthanc_patient_id m) \<and> reg_exists reg (openmrs_patient_uuid m)"
  by (simp add: validate_mapping_def)

lemma join_validation_nonempty:
  "validate_mapping reg arch m \<noteq> [] \<Longrightarrow> py_join ''; '' (validate_mapping reg arch m) \<noteq> []"
  by (metis last_in_set py_join_nonempty validate_mapping_messages_nonempty)

lemma first_sync_status_not_error [simp]: "first_sync_status ty \<noteq> ERROR"
  by (cases ty) (simp_all add: first_sync_status_def)

lemma first_sync_status_not_pending [simp]: "first_sync_status ty \<noteq> PENDING"
  by (cases ty) (simp_all add: first_sync_status_def)

lemma record_validation_eq:
  "record_validation reg arch ok now m st =
     (let errs = validate_mapping reg arch m;
          m' = m\<lparr>sync_status := (if errs \<noteq> [] then ERROR else ok),
                 error_message := (if errs \<noteq> [] then Some (py_join ''; '' errs) else None),
                 last_sync := Some now\<rparr>
      in (m', save_row m' st))"
  by (simp add: record_validation_def update_sync_time_def Let_def)

lemma validation_status_coherent:
  "ok \<noteq> ERROR \<Longrightarrow>
   status_coherent (if validate_mapping reg arch m \<noteq> [] then ERROR else ok)
     (if validate_mapping reg arch m \<noteq> [] then Some (py_join ''; '' (validate_mapping reg arch m)) else None)"
  by (simp add: status_coherent_def join_validation_nonempty)

lemma validate_mapping_update [simp]:
  "validate_mapping reg arch (m\<lparr>sync_status := s, error_message := e, last_sync := t\<rparr>) =
   validate_mapping reg arch m"
  "validate_mapping reg arch (m\<lparr>is_active := b\<rparr>) = validate_mapping reg arch m"
  by (simp_all add: validate_mapping_def)

lemma update_where_snoc_fresh:
  "mapping_id m \<notin> set (map mapping_id xs) \<Longrightarrow> mapping_id m' = mapping_id m \<Longrightarrow>
   update_where (\<lambda>r. mapping_id r = mapping_id m') (\<lambda>_. m') (xs @ [m]) = xs @ [m']"
  by (induction xs) auto


text \<open>Creating a row and recording its first validation with a success status
  \<open>ok\<close> appends exactly one row, active, with the requested endpoints and type, whose
  status is \<open>ok\<close> or \<open>ERROR\<close>, \<open>ERROR\<close> exactly when a check failed.\<close>

lemma create_then_validate_result:
  assumes inv: "store_inv st" and ok: "ok \<noteq> ERROR"
    and c: "objects_create ty opid u now st = (m0, st1)"
    and rv: "record_validation reg arch ok now m0 st1 = (m, st')"
  shows "rows st' = rows st @ [m] \<and> next_id st' = Suc (next_id st) \<and>
         mapping_id m = next_id st \<and> orthanc_patient_id m = opid \<and> openmrs_patient_uuid m = u \<and>
         mapping_type m = ty \<and> is_active m \<and> created_date m = now \<and>
         status_coherent (sync_status m) (error_message m) \<and>
         (sync_status m = ok \<or> sync_status m = ERROR) \<and>
         (sync_status m = ERROR \<longleftrightarrow> validate_mapping reg arch m \<noteq> [])"
proof -
  note c0 = objects_create_result [OF c]
  define errs where "errs = validate_mapping reg arch m0"
  define m1 where "m1 = m0\<lparr>sync_status := (if errs \<noteq> [] then ERROR else ok),
                 error_message := (if errs \<noteq> [] then Some (py_join ''; '' errs) else None),
                 last_sync := Some now\<rparr>"
  have "(m, st') = record_validation reg arch ok now m0 st1"
    using rv by simp
  also have "\<dots> = (m1, save_row m1 st1)"
    unfolding record_validation_eq Let_def errs_def m1_def ..
  finally have m: "m = m1" and st': "st' = save_row m1 st1" by simp_all
  have fresh: "mapping_id m0 \<notin> set (map mapping_id (rows st))"
    using inv c0 by (auto simp: store_inv_def list_all_iff)
  have "update_where (\<lambda>r. mapping_id r = mapping_id m) (\<lambda>_. m) (rows st @ [m0]) = rows st @ [m]"
    by (rule update_where_snoc_fresh) (use fresh in \<open>simp_all add: m m1_def\<close>)
  then have "rows st' = rows st @ [m]"
    using st' c0 m by (simp add: rows_save_row)
  moreover have "status_coherent (sync_status m) (error_message m)"
    using validation_status_coherent [OF ok, of reg arch m0]
    by (cases "errs = []") (simp_all add: m m1_def errs_def)
  ultimately show ?thesis
    using c0 st' ok by (simp add: m m1_def errs_def rows_save_row)
qed

lemma create_and_validate_result:
  assumes inv: "store_inv st"
    and eq: "create_and_validate reg arch ty opid u now st = (m, st')"
  shows "rows st' = rows st @ [m] \<and> next_id st' = Suc (next_id st) \<and>
         mapping_id m = next_id st \<and> orthanc_patient_id m = opid \<and> openmrs_patient_uuid m = u \<and>
         mapping_type m = ty \<and> is_active m \<and> created_date m = now \<and>
         status_coherent (sync_status m) (error_message m) \<and>
         (sync_status m = first_sync_status ty \<or> sync_status m = ERROR) \<and>
         (sync_status m = ERROR \<longleftrightarrow> validate_mapping reg arch m \<noteq> [])"
proof -
  obtain m0 st1 where c: "objects_create ty opid u now st = (m0, st1)"
    by (cases "objects_create ty opid u now st")
  then have "record_validation reg arch (first_sync_status ty) now m0 st1 = (m, st')"
    using eq by (simp add: create_and_validate_def)
  from create_then_validate_result [OF inv first_sync_status_not_error c this] show ?thesis .
qed

lemma create_and_validate_inv:
  assumes "store_inv st"
  shows "store_inv (snd (create_and_validate reg arch ty opid u now st))"
proof -
  obtain m st' where eq: "create_and_validate reg arch ty opid u now st = (m, st')"
    by (cases "create_and_validate reg arch ty opid u now st")
  note r = create_and_validate_result [OF assms eq]
  have "next_id st \<notin> set (map mapping_id (rows st))"
    using assms by (auto simp: store_inv_def list_all_iff)
  with assms r eq show ?thesis
    by (auto simp: store_inv_def list_all_iff)
qed

lemma create_and_validate_history:
  "store_inv st \<Longrightarrow> keeps_history st (snd (create_and_validate reg arch ty opid u now st))"
  using create_and_validate_result [of st reg arch ty opid u now]
  by (cases "create_and_validate reg arch ty opid u now st") (simp add: keeps_history_def)

lemma create_and_validate_mapped_ids:
  "store_inv st \<Longrightarrow>
   mapped_patient_ids (snd (create_and_validate reg arch ty opid u now st)) = mapped_patient_ids st @ [opid]"
  using create_and_validate_result [of st reg arch ty opid u now]
  by (cases "create_and_validate reg arch ty opid u now st")
     (simp add: mapped_patient_ids_def get_active_mappings_def)

subsection \<open>Lemmas: the per-image reconciliation\<close>

text \<open>Every run of \<open>process_dicom_upload\<close> either leaves the table as it was, and then
  reports no new mapping, or creates one row through \<open>create_and_validate\<close> for a
  unique match of an archive patient that had no active mapping.\<close>

lemma process_dicom_upload_cases:
  assumes "process_dicom_upload reg arch tags parent now st = (out, st')"
  shows "(st' = st \<and> (\<forall>m. out \<noteq> Mapped m)) \<or>
         (\<exists>opid u m. parent = Some opid \<and> opid \<noteq> [] \<and> active_for_archive opid st = None \<and>
            resolve reg (extract_patient_info tags) = Unique u \<and>
            create_and_validate reg arch AUTO opid u now st = (m, st') \<and> out = Mapped m)"
  using assms
  by (auto simp: process_dicom_upload_def split: option.splits if_splits match_result.splits prod.splits)

lemma process_dicom_upload_inv:
  "store_inv st \<Longrightarrow> store_inv (snd (process_dicom_upload reg arch tags parent now st))"
  using process_dicom_upload_cases [of reg arch tags parent now st]
  by (cases "process_dicom_upload reg arch tags parent now st")
     (metis create_and_validate_inv snd_conv)

lemma process_dicom_upload_history:
  "store_inv st \<Longrightarrow> keeps_history st (snd (process_dicom_upload reg arch tags parent now st))"
  using process_dicom_upload_cases [of reg arch tags parent now st]
  by (cases "process_dicom_upload reg arch tags parent now st")
     (metis create_and_validate_history keeps_history_refl snd_conv)

lemma process_dicom_upload_archive_unique:
  assumes "store_inv st" and "archive_unique st"
  shows "archive_unique (snd (process_dicom_upload reg arch tags parent now st))"
proof (cases "process_dicom_upload reg arch tags parent now st")
  case (Pair out st')
  from process_dicom_upload_cases [OF Pair] show ?thesis
  proof
    assume "st' = st \<and> (\<forall>m. out \<noteq> Mapped m)"
    with Pair assms show ?thesis by simp
  next
    assume "\<exists>opid u m. parent = Some opid \<and> opid \<noteq> [] \<and> active_for_archive opid st = None \<and>
            resolve reg (extract_patient_info tags) = Unique u \<and>
            create_and_validate reg arch AUTO opid u now st = (m, st') \<and> out = Mapped m"
    then obtain opid u m where none: "active_for_archive opid st = None"
      and cv: "create_and_validate reg arch AUTO opid u now st = (m, st')" by blast
    have "mapped_patient_ids st' = mapped_patient_ids st @ [opid]"
      using create_and_validate_mapped_ids [OF assms(1), of reg arch AUTO opid u now] cv by simp
    with none assms(2) Pair show ?thesis
      by (simp add: archive_unique_def active_for_archive_None_iff)
  qed
qed

lemma process_dicom_upload_Unique:
  "opid \<noteq> [] \<Longrightarrow> active_for_archive opid st = None \<Longrightarrow>
   resolve reg (extract_patient_info tags) = Unique u \<Longrightarrow>
   process_dicom_upload reg arch tags (Some opid) now st =
     (Mapped (fst (create_and_validate reg arch AUTO opid u now st)),
      snd (create_and_validate reg arch AUTO opid u now st))"
  by (simp add: process_dicom_upload_def split: prod.splits)

lemma process_dicom_upload_already:
  "opid \<noteq> [] \<Longrightarrow> active_for_archive opid st = Some m \<Longrightarrow>
   process_dicom_upload reg arch tags (Some opid) now st = (AlreadyMapped m, st)"
  by (simp add: process_dicom_upload_def)

lemma process_dicom_upload_maps_parent:
  assumes "store_inv st" and "process_dicom_upload reg arch tags (Some opid) now st = (Mapped m, st')"
  shows "active_for_archive opid st' \<noteq> None"
proof -
  from process_dicom_upload_cases [OF assms(2)] obtain u where
    "create_and_validate reg arch AUTO opid u now st = (m, st')" by auto
  then have "opid \<in> set (mapped_patient_ids st')"
    using create_and_validate_mapped_ids [OF assms(1), of reg arch AUTO opid u now] by simp
  then show ?thesis by (simp add: active_for_archive_None_iff)
qed

text \<open>Running the reconciliation a second time on the same image, at any time, leaves
  the table as the first run left it.\<close>

lemma process_dicom_upload_idempotent:
  assumes inv: "store_inv st"
  shows "snd (process_dicom_upload reg arch tags parent now2
                (snd (process_dicom_upload reg arch tags parent now1 st))) =
         snd (process_dicom_upload reg arch tags parent now1 st)"
proof (cases "process_dicom_upload reg arch tags parent now1 st")
  case (Pair out st')
  from process_dicom_upload_cases [OF Pair] show ?thesis
  proof
    assume same: "st' = st \<and> (\<forall>m. out \<noteq> Mapped m)"
    obtain out2 st2 where p2: "process_dicom_upload reg arch tags parent now2 st = (out2, st2)"
      by (cases "process_dicom_upload reg arch tags parent now2 st")
    from process_dicom_upload_cases [OF p2] have "st2 = st"
    proof
      assume "\<exists>opid u m. parent = Some opid \<and> opid \<noteq> [] \<and> active_for_archive opid st = None \<and>
            resolve reg (extract_patient_info tags) = Unique u \<and>
            create_and_validate reg arch AUTO opid u now2 st = (m, st2) \<and> out2 = Mapped m"
      then obtain opid u where "parent = Some opid" "opid \<noteq> []" "active_for_archive opid st = None"
        "resolve reg (extract_patient_info tags) = Unique u" by blast
      with Pair same have False by (auto simp add: process_dicom_upload_Unique)
      then show ?thesis ..
    qed simp
    with same Pair p2 show ?thesis by simp
  next
    assume "\<exists>opid u m. parent = Some opid \<and> opid \<noteq> [] \<and> active_for_archive opid st = None \<and>
            resolve reg (extract_patient_info tags) = Unique u \<and>
            create_and_validate reg arch AUTO opid u now1 st = (m, st') \<and> out = Mapped m"
    then obtain opid m where par: "parent = Some opid" "opid \<noteq> []" and o: "out = Mapped m" by blast
    with Pair have "active_for_archive opid st' \<noteq> None"
      using process_dicom_upload_maps_parent [OF inv] by simp
    then obtain m' where "active_for_archive opid st' = Some m'" by blast
    with par Pair show ?thesis by (simp add: process_dicom_upload_already)
  qed
qed

subsection \<open>Lemmas: manual mappings\<close>

lemma create_manual_mapping_cases:
  assumes "create_manual_mapping reg arch opid u now st = (out, st')"
  shows "(st' = st \<and> (\<forall>m. out \<noteq> Mapped m)) \<or>
         (opid \<noteq> [] \<and> u \<noteq> [] \<and> active_pair opid u st = None \<and>
            (\<exists>m. create_and_validate reg arch MANUAL opid u now st = (m, st') \<and> out = Mapped m))"
  using assms
  by (auto simp: create_manual_mapping_def split: option.splits if_splits prod.splits)

lemma create_manual_mapping_inv:
  "store_inv st \<Longrightarrow> store_inv (snd (create_manual_mapping reg arch opid u now st))"
  using create_manual_mapping_cases [of reg arch opid u now st]
  by (cases "create_manual_mapping reg arch opid u now st") (metis create_and_validate_inv snd_conv)

lemma create_manual_mapping_history:
  "store_inv st \<Longrightarrow> keeps_history st (snd (create_manual_mapping reg arch opid u now st))"
  using create_manual_mapping_cases [of reg arch opid u now st]
  by (cases "create_manual_mapping reg arch opid u now st")
     (metis create_and_validate_history keeps_history_refl snd_conv)

lemma create_manual_mapping_active_pair:
  assumes "store_inv st" and "create_manual_mapping reg arch opid u now st = (Mapped m, st')"
  shows "active_pair opid u st' = Some m"
proof -
  from create_manual_mapping_cases [OF assms(2)]
  have none: "active_pair opid u st = None"
    and cv: "create_and_validate reg arch MANUAL opid u now st = (m, st')" by auto
  note r = create_and_validate_result [OF assms(1) cv]
  from none have "\<forall>x \<in> set (rows st). \<not> (is_active x \<and> orthanc_patient_id x = opid \<and> openmrs_patient_uuid x = u)"
    by (simp add: active_pair_def find_row_None)
  with r show ?thesis by (simp add: active_pair_def find_row_def find_append_miss)
qed

lemma resolve_identifier_unique:
  "map_of tags ''PatientID'' = Some i \<Longrightarrow> i \<noteq> [] \<Longrightarrow> find_by_identifier reg i = [p] \<Longrightarrow>
   resolve reg (extract_patient_info tags) = Unique (rp_uuid p)"
  by (simp add: resolve_def identifier_candidates_def extract_patient_info_def Let_def classify_def)

end
