(* ===== verification/MappingViews.thy ===== *)
theory MappingViews
  imports Mapper
begin

text \<open>
  The mapping handlers of \<open>src/backend/medical_integration/views.py\<close>, one definition
  per handler, each a function from the request's values, the two external systems
  and the mapping table to the HTTP status with the response body and the new table.
  The bodies are datatypes with one constructor per \<open>return Response(...)\<close> of the
  handler. A request value \<open>request.data.get(k)\<close> is a \<open>string option\<close>, the
  uploaded file a decoded tag map, and what Orthanc answered to the upload an input
  (the archive is an external collaborator).
\<close>

text \<open>The \<open>mapping_type\<close> a row gets from \<open>objects.create\<close> when the caller does not
  choose one (the model's field default).\<close>

definition default_mapping_type :: mapping_type where
  "default_mapping_type = MANUAL"

subsection \<open>\<open>get_patient_mappings\<close>\<close>

definition get_patient_mappings :: "mapping_store \<Rightarrow> (patient_mapping list) response" where
  "get_patient_mappings st = (200, get_active_mappings st)"

subsection \<open>\<open>create_patient_mapping\<close>\<close>

datatype create_mapping_body =
    CMMissingIds
  | CMExisting nat
  | CMCreated patient_mapping "string list option"

definition create_patient_mapping ::
  "registry \<Rightarrow> archive \<Rightarrow> string option \<Rightarrow> string option \<Rightarrow> timestamp \<Rightarrow> mapping_store \<Rightarrow>
   create_mapping_body response \<times> mapping_store" where
  "create_patient_mapping reg arch o_req u_req now st =
     (if \<not> py_truthy o_req \<or> \<not> py_truthy u_req then ((400, CMMissingIds), st)
      else
        let opid = the o_req; u = the u_req in
        case first_pair opid u st of
          Some existing \<Rightarrow> ((400, CMExisting (mapping_id existing)), st)
        | None \<Rightarrow>
            let (m, st1) = objects_create default_mapping_type opid u now st;
                errs = validate_mapping reg arch m;
                (m', st2) = (if errs \<noteq> [] then update_sync_time ERROR (Some (py_join ''; '' errs)) now m st1
                             else update_sync_time SYNCED None now m st1)
            in ((201, CMCreated m' (if errs \<noteq> [] then Some errs else None)), st2))"

subsection \<open>\<open>get_patient_mapping\<close>\<close>

datatype get_mapping_body =
    GMNotFound
  | GMFound patient_mapping "tag_map option" "reg_patient option"

definition get_patient_mapping ::
  "registry \<Rightarrow> archive \<Rightarrow> nat \<Rightarrow> mapping_store \<Rightarrow> get_mapping_body response" where
  "get_patient_mapping reg arch i st =
     (case get_active_by_id i st of
        None \<Rightarrow> (404, GMNotFound)
      | Some m \<Rightarrow> (200, GMFound m (get_patient arch (orthanc_patient_id m))
                                   (reg_get reg (openmrs_patient_uuid m))))"

subsection \<open>\<open>delete_patient_mapping\<close>\<close>

text \<open>\<open>views.py\<close> defines this handler twice; the second definition (the one the URL
  table binds, since it rebinds the module name) is modelled.\<close>

datatype delete_body = DelNotFound | DelDone

definition delete_patient_mapping ::
  "nat \<Rightarrow> mapping_store \<Rightarrow> delete_body response \<times> mapping_store" where
  "delete_patient_mapping i st =
     (case get_active_by_id i st of
        None \<Rightarrow> ((404, DelNotFound), st)
      | Some m \<Rightarrow> ((200, DelDone), deactivate m st))"

subsection \<open>\<open>sync_patient_mapping\<close>\<close>

datatype sync_body = SyncNotFound | SyncFailed string timestamp | SyncDone timestamp

definition sync_patient_mapping ::
  "registry \<Rightarrow> archive \<Rightarrow> nat \<Rightarrow> timestamp \<Rightarrow> mapping_store \<Rightarrow> sync_body response \<times> mapping_store" where
  "sync_patient_mapping reg arch i now st =
     (case get_active_by_id i st of
        None \<Rightarrow> ((404, SyncNotFound), st)
      | Some m \<Rightarrow>
          let errs = validate_mapping reg arch m in
          if errs \<noteq> [] then
            let (m', st') = update_sync_time ERROR (Some (py_join ''; '' errs)) now m st
            in ((200, SyncFailed (py_join ''; '' errs) (the (last_sync m'))), st')
          else
            let (m', st') = update_sync_time SYNCED None now m st
            in ((200, SyncDone (the (last_sync m'))), st'))"

subsection \<open>\<open>upload_dicom_with_auto_mapping\<close>\<close>

record upload_result =
  ur_id :: "string option"
  ur_parent_patient :: "string option"
  ur_parent_study :: "string option"
  ur_parent_series :: "string option"
  ur_status :: "string option"

datatype upload_body =
    UpNoFile
  | UpArchiveFailed
  | UpDone upload_result mapping_outcome bool

text \<open>\<open>file\<close> is \<open>request.FILES.get('dicom_file')\<close> decoded to its tags; \<open>reply\<close> is
  what \<open>orthanc_api.upload_dicom(dicom_data)\<close> returned (\<open>None\<close> for a failed or empty
  answer).\<close>

definition upload_dicom_with_auto_mapping ::
  "registry \<Rightarrow> archive \<Rightarrow> tag_map option \<Rightarrow> upload_result option \<Rightarrow> timestamp \<Rightarrow> mapping_store \<Rightarrow>
   upload_body response \<times> mapping_store" where
  "upload_dicom_with_auto_mapping reg arch file reply now st =
     (case file of
        None \<Rightarrow> ((400, UpNoFile), st)
      | Some tags \<Rightarrow>
          (case reply of
             None \<Rightarrow> ((500, UpArchiveFailed), st)
           | Some ur \<Rightarrow>
               let (res, st') = process_dicom_upload reg arch tags (ur_parent_patient ur) now st
               in if outcome_success res then ((201, UpDone ur res True), st')
                  else ((206, UpDone ur res False), st')))"

subsection \<open>\<open>create_manual_patient_mapping\<close>\<close>

datatype manual_body = MMMissingIds | MMResult mapping_outcome

definition create_manual_patient_mapping ::
  "registry \<Rightarrow> archive \<Rightarrow> string option \<Rightarrow> string option \<Rightarrow> timestamp \<Rightarrow> mapping_store \<Rightarrow>
   manual_body response \<times> mapping_store" where
  "create_manual_patient_mapping reg arch o_req u_req now st =
     (if \<not> py_truthy o_req \<or> \<not> py_truthy u_req then ((400, MMMissingIds), st)
      else
        let (res, st') = create_manual_mapping reg arch (the o_req) (the u_req) now st
        in if outcome_success res then ((201, MMResult res), st') else ((400, MMResult res), st'))"

subsection \<open>\<open>get_unmapped_orthanc_patients\<close>\<close>

datatype unmapped_body = UnmappedList "(orthanc_pid \<times> tag_map) list" | UnmappedError ext_error

definition unmapped_entries :: "archive \<Rightarrow> orthanc_pid list \<Rightarrow> orthanc_pid list \<Rightarrow> (orthanc_pid \<times> tag_map) list" where
  "unmapped_entries arch mapped pids =
     concat (map (\<lambda>pid. if pid \<notin> set mapped then
                         (case get_patient arch pid of None \<Rightarrow> [] | Some tags \<Rightarrow> [(pid, tags)])
                       else []) pids)"

definition get_unmapped_orthanc_patients ::
  "archive \<Rightarrow> mapping_store \<Rightarrow> unmapped_body response" where
  "get_unmapped_orthanc_patients arch st =
     (case get_patients arch of
        Inl e \<Rightarrow> (500, UnmappedError e)
      | Inr pids \<Rightarrow>
          if pids = [] then (200, UnmappedList [])
          else (200, UnmappedList (unmapped_entries arch (mapped_patient_ids st) pids)))"

subsection \<open>Example data\<close>

text \<open>The registry of spec section 8's example: patients A (\<open>P100\<close>) and B (\<open>P999\<close>)
  with the same name and birth date, and an archive holding one patient whose one image
  carries \<open>PatientID = P100\<close>.\<close>

definition ex_tags :: tag_map where
  "ex_tags = [(''PatientID'', ''P100''), (''PatientName'', ''Kim^Min''),
              (''PatientBirthDate'', ''19850315''), (''PatientSex'', ''M'')]"

definition ex_patient :: "uuid \<Rightarrow> string \<Rightarrow> reg_patient" where
  "ex_patient u i = \<lparr>rp_uuid = u, rp_identifiers = [\<lparr>ident_value = Some i, ident_preferred = True\<rparr>],
                     rp_family = ''Kim'', rp_given = ''Min'', rp_gender = Some ''M'',
                     rp_birthdate = Some ''1985-03-15''\<rparr>"

definition ex_registry :: registry where
  "ex_registry = [ex_patient ''uuid-a'' ''P100'', ex_patient ''uuid-b'' ''P999'']"

definition ex_archive :: archive where
  "ex_archive = \<lparr>ar_patient_ids = Inr [''o1''], ar_patient_tags = [(''o1'', ex_tags)],
                 ar_studies = [(''o1'', Inr [''st1''])], ar_series = [(''st1'', Inr [''se1''])],
                 ar_instances = [(''se1'', Inr [''i1''])], ar_files = [(''i1'', Inr (Some ex_tags))]\<rparr>"

definition ex_reply :: upload_result where
  "ex_reply = \<lparr>ur_id = Some ''i1'', ur_parent_patient = Some ''o1'', ur_parent_study = Some ''st1'',
               ur_parent_series = Some ''se1'', ur_status = Some ''Success''\<rparr>"

lemmas ex_defs = ex_tags_def ex_patient_def ex_registry_def ex_archive_def ex_reply_def

definition ex_deleted_row :: patient_mapping where
  "ex_deleted_row = \<lparr>mapping_id = 1, orthanc_patient_id = ''o1'', openmrs_patient_uuid = ''uuid-a'',
     mapping_type = MANUAL, sync_status = MANUAL_MAPPED, error_message = None, created_date = 5,
     last_sync = Some 5, is_active = False\<rparr>"

definition ex_deleted_store :: mapping_store where
  "ex_deleted_store = \<lparr>rows = [ex_deleted_row], next_id = 2\<rparr>"

definition ex_synced_row :: patient_mapping where
  "ex_synced_row = ex_deleted_row\<lparr>is_active := True, openmrs_patient_uuid := ''uuid-c''\<rparr>"

abbreviation ex_upload :: "timestamp \<Rightarrow> mapping_store \<Rightarrow> upload_body response \<times> mapping_store" where
  "ex_upload now st \<equiv> upload_dicom_with_auto_mapping ex_registry ex_archive (Some ex_tags) (Some ex_reply) now st"


subsection \<open>Lemmas\<close>

lemma upload_store:
  "snd (upload_dicom_with_auto_mapping reg arch file reply now st) =
     (case file of None \<Rightarrow> st | Some tags \<Rightarrow>
        (case reply of None \<Rightarrow> st | Some ur \<Rightarrow>
           snd (process_dicom_upload reg arch tags (ur_parent_patient ur) now st)))"
  by (simp add: upload_dicom_with_auto_mapping_def split: option.splits prod.splits)

lemma empty_store_inv: "store_inv empty_store"
  by (simp add: store_inv_def empty_store_def)

text \<open>C1: uploading the same image twice (spec section 8): the second upload leaves
  the mapping table exactly as the first left it, whatever the first did.\<close>

theorem upload_dicom_idempotent:
  assumes "store_inv st"
  shows "snd (upload_dicom_with_auto_mapping reg arch file reply now2
                (snd (upload_dicom_with_auto_mapping reg arch file reply now1 st))) =
         snd (upload_dicom_with_auto_mapping reg arch file reply now1 st)"
  using process_dicom_upload_idempotent [OF assms]
  by (simp add: upload_store split: option.splits)

theorem upload_dicom_idempotent_witness:
  "store_inv empty_store \<and>
   snd (upload_dicom_with_auto_mapping ex_registry ex_archive (Some ex_tags) (Some ex_reply) 7
          (snd (upload_dicom_with_auto_mapping ex_registry ex_archive (Some ex_tags) (Some ex_reply) 5 empty_store))) =
   snd (upload_dicom_with_auto_mapping ex_registry ex_archive (Some ex_tags) (Some ex_reply) 5 empty_store)"
  using upload_dicom_idempotent [OF empty_store_inv] empty_store_inv by simp

lemma upload_some_eq:
  "upload_dicom_with_auto_mapping reg arch (Some tags) (Some ur) now st =
     (let (res, st') = process_dicom_upload reg arch tags (ur_parent_patient ur) now st
      in if outcome_success res then ((201, UpDone ur res True), st') else ((206, UpDone ur res False), st'))"
  by (simp add: upload_dicom_with_auto_mapping_def)

lemma ex_resolve: "resolve ex_registry (extract_patient_info ex_tags) = Unique ''uuid-a''"
  by (simp add: resolve_def identifier_candidates_def extract_patient_info_def ex_defs
      find_by_identifier_def classify_def Let_def)

lemma ex_free: "active_for_archive ''o1'' empty_store = None"
  by (simp add: active_for_archive_def find_row_def empty_store_def)

text \<open>C2: a unique match creates exactly one row (spec section 8).\<close>

theorem upload_unique_creates_auto_row:
  assumes inv: "store_inv st"
    and par: "ur_parent_patient ur = Some opid" and ne: "opid \<noteq> []"
    and free: "active_for_archive opid st = None"
    and uniq: "resolve reg (extract_patient_info tags) = Unique x"
    and run: "upload_dicom_with_auto_mapping reg arch (Some tags) (Some ur) now st = (resp, st')"
  shows "fst resp = 201 \<and>
         (\<exists>m. rows st' = rows st @ [m] \<and> orthanc_patient_id m = opid \<and>
              openmrs_patient_uuid m = x \<and> mapping_type m = AUTO \<and> is_active m) \<and>
         length (filter (\<lambda>r. is_active r \<and> orthanc_patient_id r = opid \<and> openmrs_patient_uuid r = x)
                   (rows st')) = 1"
proof -
  obtain m st2 where cv: "create_and_validate reg arch AUTO opid x now st = (m, st2)"
    by (cases "create_and_validate reg arch AUTO opid x now st")
  note r = create_and_validate_result [OF inv cv]
  have p: "process_dicom_upload reg arch tags (Some opid) now st = (Mapped m, st2)"
    using process_dicom_upload_Unique [OF ne free uniq] cv by simp
  then have resp: "resp = (201, UpDone ur (Mapped m) True)" and st': "st' = st2"
    using run par by (simp_all add: upload_some_eq)
  have "\<forall>r \<in> set (rows st). \<not> (is_active r \<and> orthanc_patient_id r = opid)"
    using free by (simp add: active_for_archive_def find_row_None)
  then have "filter (\<lambda>r. is_active r \<and> orthanc_patient_id r = opid \<and> openmrs_patient_uuid r = x) (rows st) = []"
    by (auto simp: filter_empty_conv)
  with r resp st' show ?thesis by auto
qed

theorem upload_unique_creates_auto_row_witness:
  "store_inv empty_store \<and> ur_parent_patient ex_reply = Some ''o1'' \<and> ''o1'' \<noteq> [] \<and>
   active_for_archive ''o1'' empty_store = None \<and>
   resolve ex_registry (extract_patient_info ex_tags) = Unique ''uuid-a'' \<and>
   fst (fst (ex_upload 5 empty_store)) = 201 \<and>
   (\<exists>m. rows (snd (ex_upload 5 empty_store)) = rows empty_store @ [m] \<and> orthanc_patient_id m = ''o1'' \<and>
        openmrs_patient_uuid m = ''uuid-a'' \<and> mapping_type m = AUTO \<and> is_active m) \<and>
   length (filter (\<lambda>r. is_active r \<and> orthanc_patient_id r = ''o1'' \<and> openmrs_patient_uuid r = ''uuid-a'')
             (rows (snd (ex_upload 5 empty_store)))) = 1"
proof -
  have par: "ur_parent_patient ex_reply = Some ''o1''" by (simp add: ex_reply_def)
  note th = upload_unique_creates_auto_row [OF empty_store_inv par _ ex_free ex_resolve surjective_pairing]
  show ?thesis using th empty_store_inv par ex_free ex_resolve by simp
qed

text \<open>C3: identifier match wins over the demographic channel (spec section 8): when
  exactly one registry patient carries the image's \<open>PatientID\<close>, the upload maps the
  archive patient to that registry patient, whoever else has the same name and birth
  date.\<close>

theorem upload_identifier_match_wins:
  assumes inv: "store_inv st"
    and par: "ur_parent_patient ur = Some opid" and ne: "opid \<noteq> []"
    and free: "active_for_archive opid st = None"
    and pid: "map_of tags ''PatientID'' = Some i" and ine: "i \<noteq> []"
    and one: "find_by_identifier reg i = [p]"
  shows "\<exists>m. fst (upload_dicom_with_auto_mapping reg arch (Some tags) (Some ur) now st) =
               (201, UpDone ur (Mapped m) True) \<and> openmrs_patient_uuid m = rp_uuid p"
proof -
  have uniq: "resolve reg (extract_patient_info tags) = Unique (rp_uuid p)"
    using pid ine one by (rule resolve_identifier_unique)
  obtain m st2 where cv: "create_and_validate reg arch AUTO opid (rp_uuid p) now st = (m, st2)"
    by (cases "create_and_validate reg arch AUTO opid (rp_uuid p) now st")
  note r = create_and_validate_result [OF inv cv]
  have "process_dicom_upload reg arch tags (Some opid) now st = (Mapped m, st2)"
    using process_dicom_upload_Unique [OF ne free uniq] cv by simp
  with par r show ?thesis by (simp add: upload_some_eq)
qed

theorem upload_identifier_match_wins_witness:
  "store_inv empty_store \<and> ur_parent_patient ex_reply = Some ''o1'' \<and> ''o1'' \<noteq> [] \<and>
   active_for_archive ''o1'' empty_store = None \<and> map_of ex_tags ''PatientID'' = Some ''P100'' \<and>
   ''P100'' \<noteq> [] \<and> find_by_identifier ex_registry ''P100'' = [ex_patient ''uuid-a'' ''P100''] \<and>
   length (find_by_demographics ex_registry ''Kim'' ''Min'' ''1985-03-15'') = 2 \<and>
   (\<exists>m. fst (ex_upload 5 empty_store) = (201, UpDone ex_reply (Mapped m) True) \<and>
        openmrs_patient_uuid m = rp_uuid (ex_patient ''uuid-a'' ''P100''))"
proof -
  have par: "ur_parent_patient ex_reply = Some ''o1''" by (simp add: ex_reply_def)
  have pid: "map_of ex_tags ''PatientID'' = Some ''P100''" by (simp add: ex_tags_def)
  have one: "find_by_identifier ex_registry ''P100'' = [ex_patient ''uuid-a'' ''P100'']"
    by (simp add: find_by_identifier_def ex_registry_def ex_patient_def)
  have two: "length (find_by_demographics ex_registry ''Kim'' ''Min'' ''1985-03-15'') = 2"
    by (simp add: find_by_demographics_def ex_registry_def ex_patient_def)
  show ?thesis
    using upload_identifier_match_wins [OF empty_store_inv par _ ex_free pid _ one, of ex_archive 5]
      empty_store_inv par ex_free pid one two by simp
qed

lemma create_patient_mapping_cases:
  assumes "create_patient_mapping reg arch o_req u_req now st = ((code, body), st')"
  shows "(st' = st \<and> code = 400 \<and> (\<forall>m e. body \<noteq> CMCreated m e)) \<or>
         (\<exists>opid u m0 st1 m. o_req = Some opid \<and> u_req = Some u \<and> opid \<noteq> [] \<and> u \<noteq> [] \<and>
            first_pair opid u st = None \<and>
            objects_create default_mapping_type opid u now st = (m0, st1) \<and>
            record_validation reg arch SYNCED now m0 st1 = (m, st') \<and> code = 201 \<and>
            body = CMCreated m (if validate_mapping reg arch m0 \<noteq> [] then Some (validate_mapping reg arch m0) else None))"
  using assms
  by (cases o_req; cases u_req)
     (auto simp: create_patient_mapping_def record_validation_def Let_def
           split: option.splits prod.splits if_splits)

lemma create_patient_mapping_inv:
  assumes inv: "store_inv st"
  shows "store_inv (snd (create_patient_mapping reg arch o_req u_req now st))"
proof (cases "create_patient_mapping reg arch o_req u_req now st")
  case (Pair r st')
  obtain code body where r: "r = (code, body)" by (cases r)
  from create_patient_mapping_cases [OF Pair [unfolded r]] show ?thesis
  proof
    assume "st' = st \<and> code = 400 \<and> (\<forall>m e. body \<noteq> CMCreated m e)"
    with Pair inv show ?thesis by simp
  next
    assume "\<exists>opid u m0 st1 m. o_req = Some opid \<and> u_req = Some u \<and> opid \<noteq> [] \<and> u \<noteq> [] \<and>
            first_pair opid u st = None \<and>
            objects_create default_mapping_type opid u now st = (m0, st1) \<and>
            record_validation reg arch SYNCED now m0 st1 = (m, st') \<and> code = 201 \<and>
            body = CMCreated m (if validate_mapping reg arch m0 \<noteq> [] then Some (validate_mapping reg arch m0) else None)"
    then obtain opid u m0 st1 m where c: "objects_create default_mapping_type opid u now st = (m0, st1)"
      and rv: "record_validation reg arch SYNCED now m0 st1 = (m, st')" by blast
    note res = create_then_validate_result [OF inv _ c rv]
    have "next_id st \<notin> set (map mapping_id (rows st))"
      using inv by (auto simp: store_inv_def list_all_iff)
    with res inv Pair show ?thesis by (auto simp: store_inv_def list_all_iff)
  qed
qed

text \<open>C4: creating the same manual mapping twice (spec section 8): the second request
  is refused with status 400 and leaves the table as the first left it.\<close>

lemma create_manual_mapping_pair_active:
  assumes inv: "store_inv st" and ne: "opid \<noteq> []" "u \<noteq> []"
  shows "active_pair opid u (snd (create_manual_mapping reg arch opid u now st)) \<noteq> None"
proof (cases "create_manual_mapping reg arch opid u now st")
  case (Pair out st')
  show ?thesis
  proof (cases "active_pair opid u st")
    case None
    then obtain m where "out = Mapped m"
      using Pair ne by (auto simp: create_manual_mapping_def split: prod.splits)
    with create_manual_mapping_active_pair [OF inv] Pair show ?thesis by simp
  next
    case (Some m)
    with Pair ne show ?thesis by (simp add: create_manual_mapping_def)
  qed
qed

theorem manual_mapping_twice_rejected:
  assumes inv: "store_inv st"
  shows "fst (fst (create_manual_patient_mapping reg arch o_req u_req now2
                    (snd (create_manual_patient_mapping reg arch o_req u_req now1 st)))) = 400 \<and>
         snd (create_manual_patient_mapping reg arch o_req u_req now2
                (snd (create_manual_patient_mapping reg arch o_req u_req now1 st))) =
         snd (create_manual_patient_mapping reg arch o_req u_req now1 st)"
proof (cases "py_truthy o_req \<and> py_truthy u_req")
  case False
  then show ?thesis by (auto simp: create_manual_patient_mapping_def)
next
  case True
  then obtain opid u where o: "o_req = Some opid" "opid \<noteq> []" and u: "u_req = Some u" "u \<noteq> []"
    by (auto simp: py_truthy_iff)
  let ?st1 = "snd (create_manual_mapping reg arch opid u now1 st)"
  have st1: "snd (create_manual_patient_mapping reg arch o_req u_req now1 st) = ?st1"
    using o u by (simp add: create_manual_patient_mapping_def split: prod.splits)
  obtain m where dup: "active_pair opid u ?st1 = Some m"
    using create_manual_mapping_pair_active [OF inv o(2) u(2)] by blast
  then have "create_manual_mapping reg arch opid u now2 ?st1 = (DuplicateMapping m, ?st1)"
    using o u by (simp add: create_manual_mapping_def)
  then show ?thesis
    using o u st1 by (simp add: create_manual_patient_mapping_def)
qed

theorem manual_mapping_twice_rejected_witness:
  "store_inv empty_store \<and>
   fst (fst (create_manual_patient_mapping ex_registry ex_archive (Some ''o1'') (Some ''uuid-a'') 6
              (snd (create_manual_patient_mapping ex_registry ex_archive (Some ''o1'') (Some ''uuid-a'') 5 empty_store)))) = 400 \<and>
   snd (create_manual_patient_mapping ex_registry ex_archive (Some ''o1'') (Some ''uuid-a'') 6
          (snd (create_manual_patient_mapping ex_registry ex_archive (Some ''o1'') (Some ''uuid-a'') 5 empty_store))) =
   snd (create_manual_patient_mapping ex_registry ex_archive (Some ''o1'') (Some ''uuid-a'') 5 empty_store)"
  using manual_mapping_twice_rejected [OF empty_store_inv] empty_store_inv by simp

lemma ex_deleted_store_inv: "store_inv ex_deleted_store"
  by (simp add: store_inv_def ex_deleted_store_def ex_deleted_row_def status_coherent_def)

text \<open>C5: \<open>create_patient_mapping\<close> looks for an existing row of the pair among all rows,
  deactivated ones included: a pair whose only row was deactivated is refused with
  status 400, although the spec's duplicate rule (active rows only), which the manual
  mapping path follows, accepts it.\<close>

theorem create_patient_mapping_refuses_deactivated_pair:
  assumes inv: "store_inv st" and mem: "m \<in> set (rows st)"
    and pair: "orthanc_patient_id m = opid" "openmrs_patient_uuid m = u"
    and ne: "opid \<noteq> []" "u \<noteq> []"
    and no_active: "active_pair opid u st = None"
  shows "fst (fst (create_patient_mapping reg arch (Some opid) (Some u) now st)) = 400 \<and>
         snd (create_patient_mapping reg arch (Some opid) (Some u) now st) = st \<and>
         (\<exists>m'. fst (create_manual_mapping reg arch opid u now st) = Mapped m')"
proof -
  obtain e where e: "first_pair opid u st = Some e"
    using mem pair by (cases "first_pair opid u st") (auto simp: first_pair_def find_row_None)
  have "create_patient_mapping reg arch (Some opid) (Some u) now st = ((400, CMExisting (mapping_id e)), st)"
    using e ne by (simp add: create_patient_mapping_def)
  moreover have "\<exists>m'. fst (create_manual_mapping reg arch opid u now st) = Mapped m'"
    using ne no_active by (simp add: create_manual_mapping_def split: prod.splits)
  ultimately show ?thesis by simp
qed

theorem create_patient_mapping_refuses_deactivated_pair_witness:
  "store_inv ex_deleted_store \<and> ex_deleted_row \<in> set (rows ex_deleted_store) \<and>
   \<not> is_active ex_deleted_row \<and>
   orthanc_patient_id ex_deleted_row = ''o1'' \<and> openmrs_patient_uuid ex_deleted_row = ''uuid-a'' \<and>
   ''o1'' \<noteq> [] \<and> ''uuid-a'' \<noteq> [] \<and> active_pair ''o1'' ''uuid-a'' ex_deleted_store = None \<and>
   fst (fst (create_patient_mapping ex_registry ex_archive (Some ''o1'') (Some ''uuid-a'') 9 ex_deleted_store)) = 400 \<and>
   snd (create_patient_mapping ex_registry ex_archive (Some ''o1'') (Some ''uuid-a'') 9 ex_deleted_store) = ex_deleted_store \<and>
   (\<exists>m'. fst (create_manual_mapping ex_registry ex_archive ''o1'' ''uuid-a'' 9 ex_deleted_store) = Mapped m')"
proof -
  have mem: "ex_deleted_row \<in> set (rows ex_deleted_store)" by (simp add: ex_deleted_store_def)
  have pr: "orthanc_patient_id ex_deleted_row = ''o1''" "openmrs_patient_uuid ex_deleted_row = ''uuid-a''"
    by (simp_all add: ex_deleted_row_def)
  have na: "active_pair ''o1'' ''uuid-a'' ex_deleted_store = None"
    by (simp add: active_pair_def find_row_def ex_deleted_store_def ex_deleted_row_def)
  have ina: "\<not> is_active ex_deleted_row" by (simp add: ex_deleted_row_def)
  show ?thesis
    using create_patient_mapping_refuses_deactivated_pair [OF ex_deleted_store_inv mem pr _ _ na,
        of ex_registry ex_archive 9]
      ex_deleted_store_inv mem pr na ina by simp
qed

text \<open>C6: the first validation that \<open>create_patient_mapping\<close> records is \<open>SYNCED\<close> when
  both endpoints resolve and \<open>ERROR\<close> with the joined messages otherwise; the row is
  appended, active, with the model's default type, and the table invariant holds.\<close>

theorem create_patient_mapping_first_status:
  assumes inv: "store_inv st"
    and run: "create_patient_mapping reg arch o_req u_req now st = ((201, CMCreated m errs), st')"
  shows "rows st' = rows st @ [m] \<and> store_inv st' \<and> is_active m \<and>
         mapping_type m = default_mapping_type \<and>
         sync_status m = (if errs = None then SYNCED else ERROR) \<and>
         error_message m = map_option (py_join ''; '') errs"
proof -
  from create_patient_mapping_cases [OF run]
  obtain opid u m0 st1 where c: "objects_create default_mapping_type opid u now st = (m0, st1)"
    and rv: "record_validation reg arch SYNCED now m0 st1 = (m, st')"
    and errs: "errs = (if validate_mapping reg arch m0 \<noteq> [] then Some (validate_mapping reg arch m0) else None)"
    by auto
  note res = create_then_validate_result [OF inv _ c rv]
  have m: "m = m0\<lparr>sync_status := (if validate_mapping reg arch m0 \<noteq> [] then ERROR else SYNCED),
                 error_message := (if validate_mapping reg arch m0 \<noteq> []
                                   then Some (py_join ''; '' (validate_mapping reg arch m0)) else None),
                 last_sync := Some now\<rparr>"
    using rv by (simp add: record_validation_eq Let_def)
  have "store_inv st'"
    using create_patient_mapping_inv [OF inv, of reg arch o_req u_req now] run by simp
  with res errs m show ?thesis by auto
qed

theorem create_patient_mapping_first_status_witness:
  "store_inv empty_store \<and>
   create_patient_mapping ex_registry ex_archive (Some ''o1'') (Some ''uuid-a'') 5 empty_store =
     ((201, CMCreated (fst (objects_create MANUAL ''o1'' ''uuid-a'' 5 empty_store)
                        \<lparr>sync_status := SYNCED, error_message := None, last_sync := Some 5\<rparr>) None),
      snd (create_patient_mapping ex_registry ex_archive (Some ''o1'') (Some ''uuid-a'') 5 empty_store)) \<and>
   sync_status (fst (objects_create MANUAL ''o1'' ''uuid-a'' 5 empty_store)
                 \<lparr>sync_status := SYNCED, error_message := None, last_sync := Some 5\<rparr>) = SYNCED"
proof -
  have run: "create_patient_mapping ex_registry ex_archive (Some ''o1'') (Some ''uuid-a'') 5 empty_store =
     ((201, CMCreated (fst (objects_create MANUAL ''o1'' ''uuid-a'' 5 empty_store)
                        \<lparr>sync_status := SYNCED, error_message := None, last_sync := Some 5\<rparr>) None),
      snd (create_patient_mapping ex_registry ex_archive (Some ''o1'') (Some ''uuid-a'') 5 empty_store))"
    by (simp add: create_patient_mapping_def default_mapping_type_def objects_create_def empty_store_def first_pair_def find_row_def
        validate_mapping_def ar_exists_def get_patient_def reg_exists_def reg_get_def ex_defs
        update_sync_time_def Let_def)
  show ?thesis
    using create_patient_mapping_first_status [OF empty_store_inv run] empty_store_inv run by simp
qed

lemma sync_patient_mapping_found:
  "get_active_by_id i st = Some m \<Longrightarrow>
   sync_patient_mapping reg arch i now st =
     (if validate_mapping reg arch m \<noteq> [] then
        ((200, SyncFailed (py_join ''; '' (validate_mapping reg arch m)) now),
         save_row (m\<lparr>sync_status := ERROR, error_message := Some (py_join ''; '' (validate_mapping reg arch m)),
                     last_sync := Some now\<rparr>) st)
      else ((200, SyncDone now),
            save_row (m\<lparr>sync_status := SYNCED, error_message := None, last_sync := Some now\<rparr>) st))"
  by (simp add: sync_patient_mapping_def update_sync_time_def Let_def)

text \<open>C7: re-validation follows the registry (spec section 8): syncing a mapping whose
  registry patient is gone records \<open>ERROR\<close> with a non-empty message; syncing it
  again once the patient is back records \<open>SYNCED\<close> and clears the message.\<close>

theorem sync_error_then_restored:
  assumes inv: "store_inv st" and act: "get_active_by_id i st = Some m"
    and arch: "ar_exists arch (orthanc_patient_id m)"
    and gone: "\<not> reg_exists reg (openmrs_patient_uuid m)"
    and restored: "reg_exists reg' (openmrs_patient_uuid m)"
  shows "(\<exists>msg. msg \<noteq> [] \<and> fst (sync_patient_mapping reg arch i t1 st) = (200, SyncFailed msg t1) \<and>
            get_by_id i (snd (sync_patient_mapping reg arch i t1 st)) =
              Some (m\<lparr>sync_status := ERROR, error_message := Some msg, last_sync := Some t1\<rparr>)) \<and>
         fst (sync_patient_mapping reg' arch i t2 (snd (sync_patient_mapping reg arch i t1 st))) =
           (200, SyncDone t2) \<and>
         get_by_id i (snd (sync_patient_mapping reg' arch i t2 (snd (sync_patient_mapping reg arch i t1 st)))) =
           Some (m\<lparr>sync_status := SYNCED, error_message := None, last_sync := Some t2\<rparr>)"
proof -
  from get_active_by_id_Some [OF act] have mem: "m \<in> set (rows st)" and i: "i = mapping_id m"
    and a: "is_active m" by simp_all
  let ?msg = "py_join ''; '' (validate_mapping reg arch m)"
  let ?m1 = "m\<lparr>sync_status := ERROR, error_message := Some ?msg, last_sync := Some t1\<rparr>"
  let ?st1 = "save_row ?m1 st"
  have errs: "validate_mapping reg arch m \<noteq> []" using gone by (simp add: validate_mapping_Nil_iff)
  then have msg: "?msg \<noteq> []" by (rule join_validation_nonempty)
  have s1: "sync_patient_mapping reg arch i t1 st = ((200, SyncFailed ?msg t1), ?st1)"
    using sync_patient_mapping_found [OF act] errs by simp
  have g1: "get_by_id i ?st1 = Some ?m1" using mem i by (simp add: get_by_id_save_row)
  have a1: "get_active_by_id i ?st1 = Some ?m1"
    using get_active_by_id_save_row [OF mem, of ?m1] i a by simp
  have mem1: "?m1 \<in> set (rows ?st1)" using get_active_by_id_Some [OF a1] by simp
  have ok: "validate_mapping reg' arch ?m1 = []" using arch restored by (simp add: validate_mapping_Nil_iff)
  let ?m2 = "?m1\<lparr>sync_status := SYNCED, error_message := None, last_sync := Some t2\<rparr>"
  have s2: "sync_patient_mapping reg' arch i t2 ?st1 = ((200, SyncDone t2), save_row ?m2 ?st1)"
    using sync_patient_mapping_found [OF a1] ok by simp
  have g2: "get_by_id i (save_row ?m2 ?st1) = Some ?m2"
    using get_by_id_save_row [OF mem1, of ?m2] i by simp
  show ?thesis using s1 s2 g1 g2 msg by simp
qed

theorem sync_error_then_restored_witness:
  "store_inv \<lparr>rows = [ex_synced_row], next_id = 2\<rparr> \<and>
   get_active_by_id 1 \<lparr>rows = [ex_synced_row], next_id = 2\<rparr> = Some ex_synced_row \<and>
   ar_exists ex_archive (orthanc_patient_id ex_synced_row) \<and>
   \<not> reg_exists ex_registry (openmrs_patient_uuid ex_synced_row) \<and>
   reg_exists (ex_patient ''uuid-c'' ''P300'' # ex_registry) (openmrs_patient_uuid ex_synced_row) \<and>
   (\<exists>msg. msg \<noteq> [] \<and>
      fst (sync_patient_mapping ex_registry ex_archive 1 10 \<lparr>rows = [ex_synced_row], next_id = 2\<rparr>) =
        (200, SyncFailed msg 10) \<and>
      get_by_id 1 (snd (sync_patient_mapping ex_registry ex_archive 1 10 \<lparr>rows = [ex_synced_row], next_id = 2\<rparr>)) =
        Some (ex_synced_row\<lparr>sync_status := ERROR, error_message := Some msg, last_sync := Some 10\<rparr>)) \<and>
   fst (sync_patient_mapping (ex_patient ''uuid-c'' ''P300'' # ex_registry) ex_archive 1 11
          (snd (sync_patient_mapping ex_registry ex_archive 1 10 \<lparr>rows = [ex_synced_row], next_id = 2\<rparr>))) =
     (200, SyncDone 11) \<and>
   get_by_id 1 (snd (sync_patient_mapping (ex_patient ''uuid-c'' ''P300'' # ex_registry) ex_archive 1 11
          (snd (sync_patient_mapping ex_registry ex_archive 1 10 \<lparr>rows = [ex_synced_row], next_id = 2\<rparr>)))) =
     Some (ex_synced_row\<lparr>sync_status := SYNCED, error_message := None, last_sync := Some 11\<rparr>)"
proof -
  let ?st = "\<lparr>rows = [ex_synced_row], next_id = 2\<rparr>"
  have inv: "store_inv ?st"
    by (simp add: store_inv_def ex_synced_row_def ex_deleted_row_def status_coherent_def)
  have act: "get_active_by_id 1 ?st = Some ex_synced_row"
    by (simp add: get_active_by_id_def find_row_def ex_synced_row_def ex_deleted_row_def)
  have arch: "ar_exists ex_archive (orthanc_patient_id ex_synced_row)"
    by (simp add: ar_exists_def get_patient_def ex_archive_def ex_synced_row_def ex_deleted_row_def)
  have gone: "\<not> reg_exists ex_registry (openmrs_patient_uuid ex_synced_row)"
    by (simp add: reg_exists_def reg_get_def ex_registry_def ex_patient_def ex_synced_row_def)
  have restored: "reg_exists (ex_patient ''uuid-c'' ''P300'' # ex_registry) (openmrs_patient_uuid ex_synced_row)"
    by (simp add: reg_exists_def reg_get_def ex_patient_def ex_synced_row_def)
  show ?thesis
    using sync_error_then_restored [OF inv act arch gone restored, of 10 11] inv act arch gone restored by simp
qed

text \<open>C8: deleting a mapping is a soft delete (spec section 8): the row stays, readable
  by its key for audit, but inactive, out of the active list and out of every handler
  that looks rows up as active.\<close>

theorem delete_keeps_audit_row:
  assumes inv: "store_inv st" and act: "get_active_by_id i st = Some m"
  shows "delete_patient_mapping i st = ((200, DelDone), deactivate m st) \<and>
         store_inv (deactivate m st) \<and> length (rows (deactivate m st)) = length (rows st) \<and>
         get_by_id i (deactivate m st) = Some (m\<lparr>is_active := False\<rparr>) \<and>
         i \<notin> mapping_id ` set (get_active_mappings (deactivate m st)) \<and>
         get_active_by_id i (deactivate m st) = None"
proof -
  from get_active_by_id_Some [OF act] have mem: "m \<in> set (rows st)" and i: "i = mapping_id m" by simp_all
  have none: "get_active_by_id i (deactivate m st) = None"
    using get_active_by_id_save_row [OF mem, of "m\<lparr>is_active := False\<rparr>"] i by (simp add: deactivate_def)
  have len: "length (rows (deactivate m st)) = length (rows st)"
    by (simp add: deactivate_def rows_save_row)
  show ?thesis
    using act none len i deactivate_inv [OF inv mem] deactivate_row [OF mem] deactivate_not_active [OF inv mem]
    by (simp add: delete_patient_mapping_def)
qed

theorem delete_keeps_audit_row_witness:
  "store_inv \<lparr>rows = [ex_synced_row], next_id = 2\<rparr> \<and>
   get_active_by_id 1 \<lparr>rows = [ex_synced_row], next_id = 2\<rparr> = Some ex_synced_row \<and>
   delete_patient_mapping 1 \<lparr>rows = [ex_synced_row], next_id = 2\<rparr> =
     ((200, DelDone), deactivate ex_synced_row \<lparr>rows = [ex_synced_row], next_id = 2\<rparr>) \<and>
   get_by_id 1 (deactivate ex_synced_row \<lparr>rows = [ex_synced_row], next_id = 2\<rparr>) =
     Some (ex_synced_row\<lparr>is_active := False\<rparr>) \<and>
   get_active_by_id 1 (deactivate ex_synced_row \<lparr>rows = [ex_synced_row], next_id = 2\<rparr>) = None"
proof -
  let ?st = "\<lparr>rows = [ex_synced_row], next_id = 2\<rparr>"
  have inv: "store_inv ?st"
    by (simp add: store_inv_def ex_synced_row_def ex_deleted_row_def status_coherent_def)
  have act: "get_active_by_id 1 ?st = Some ex_synced_row"
    by (simp add: get_active_by_id_def find_row_def ex_synced_row_def ex_deleted_row_def)
  show ?thesis using delete_keeps_audit_row [OF inv act] inv act by simp
qed

end
