(* ===== verification/BatchSweep.thy ===== *)
theory BatchSweep
  imports MappingViews
begin

text \<open>
  The batch reconciliation sweep, \<open>batch_auto_mapping\<close> of
  \<open>src/backend/medical_integration/views.py\<close>: the archive's patient list minus the
  patients with an active mapping, then, for each remaining patient in list order, the
  first study, its first series, its first instance and that instance's file, fed to
  the same \<open>process_dicom_upload\<close> as a live upload with \<open>ParentPatient\<close> set to the
  patient. Every per-patient failure, an exception of the archive included, becomes
  that patient's result and the loop goes on. The loop is structural recursion over the
  list of unmapped patients; the whole sweep runs at one timestamp.
\<close>

datatype sweep_result =
    SweepMapped mapping_outcome
  | NoStudy
  | NoSeries
  | NoInstance
  | NoDicomData
  | SweepError string

text \<open>\<open>r['mapping_result'].get('success')\<close>\<close>

fun sweep_success :: "sweep_result \<Rightarrow> bool" where
  "sweep_success (SweepMapped out) = outcome_success out"
| "sweep_success _ = False"

text \<open>The body of the \<open>try\<close> for one patient; \<open>except Exception as e\<close> is each
  \<open>Inl\<close> branch.\<close>

definition sweep_one ::
  "registry \<Rightarrow> archive \<Rightarrow> timestamp \<Rightarrow> orthanc_pid \<Rightarrow> mapping_store \<Rightarrow> sweep_result \<times> mapping_store" where
  "sweep_one reg arch now pid st =
     (case get_patient_studies arch pid of
        Inl (ExternalUnavailable e) \<Rightarrow> (SweepError e, st)
      | Inr [] \<Rightarrow> (NoStudy, st)
      | Inr (study_id # _) \<Rightarrow>
          (case get_study_series arch study_id of
             Inl (ExternalUnavailable e) \<Rightarrow> (SweepError e, st)
           | Inr [] \<Rightarrow> (NoSeries, st)
           | Inr (series_id # _) \<Rightarrow>
               (case get_series_instances arch series_id of
                  Inl (ExternalUnavailable e) \<Rightarrow> (SweepError e, st)
                | Inr [] \<Rightarrow> (NoInstance, st)
                | Inr (instance_id # _) \<Rightarrow>
                    (case get_instance_file arch instance_id of
                       Inl (ExternalUnavailable e) \<Rightarrow> (SweepError e, st)
                     | Inr None \<Rightarrow> (NoDicomData, st)
                     | Inr (Some tags) \<Rightarrow>
                         (let (out, st') = process_dicom_upload reg arch tags (Some pid) now st
                          in (SweepMapped out, st'))))))"

fun sweep_loop ::
  "registry \<Rightarrow> archive \<Rightarrow> timestamp \<Rightarrow> orthanc_pid list \<Rightarrow> mapping_store \<Rightarrow>
   (orthanc_pid \<times> sweep_result) list \<times> mapping_store" where
  "sweep_loop reg arch now [] st = ([], st)"
| "sweep_loop reg arch now (pid # pids) st =
     (let (r, st1) = sweep_one reg arch now pid st;
          (rs, st2) = sweep_loop reg arch now pids st1
      in ((pid, r) # rs, st2))"

datatype batch_body =
    BatchNoPatients
  | BatchAllMapped
  | BatchReport nat nat nat "(orthanc_pid \<times> sweep_result) list"
  | BatchError ext_error

definition unmapped_patients :: "orthanc_pid list \<Rightarrow> mapping_store \<Rightarrow> orthanc_pid list" where
  "unmapped_patients all st = filter (\<lambda>pid. pid \<notin> set (mapped_patient_ids st)) all"

definition batch_auto_mapping ::
  "registry \<Rightarrow> archive \<Rightarrow> timestamp \<Rightarrow> mapping_store \<Rightarrow> batch_body response \<times> mapping_store" where
  "batch_auto_mapping reg arch now st =
     (case get_patients arch of
        Inl e \<Rightarrow> ((500, BatchError e), st)
      | Inr all \<Rightarrow>
          if all = [] then ((200, BatchNoPatients), st)
          else
            let unmapped = unmapped_patients all st in
            if unmapped = [] then ((200, BatchAllMapped), st)
            else
              let (results, st') = sweep_loop reg arch now unmapped st;
                  successful = filter (\<lambda>r. sweep_success (snd r)) results;
                  failed = filter (\<lambda>r. \<not> sweep_success (snd r)) results
              in ((200, BatchReport (length results) (length successful) (length failed) results), st'))"

subsection \<open>Example data\<close>

definition ex_auto_row :: patient_mapping where
  "ex_auto_row = \<lparr>mapping_id = 1, orthanc_patient_id = ''o1'', openmrs_patient_uuid = ''uuid-a'',
     mapping_type = AUTO, sync_status = AUTO_MAPPED, error_message = None, created_date = 5,
     last_sync = Some 5, is_active = True\<rparr>"

subsection \<open>Lemmas\<close>

lemma process_dicom_upload_AlreadyMapped:
  "process_dicom_upload reg arch tags (Some pid) now st = (AlreadyMapped m, st') \<Longrightarrow>
   st' = st \<and> pid \<in> set (mapped_patient_ids st)"
  using active_for_archive_None_iff [of pid st]
  by (auto simp: process_dicom_upload_def split: if_splits option.splits match_result.splits prod.splits)

lemma process_dicom_upload_mapped_ids:
  assumes inv: "store_inv st"
    and run: "process_dicom_upload reg arch tags (Some pid) now st = (out, st')"
  shows "set (mapped_patient_ids st') =
         set (mapped_patient_ids st) \<union> (if outcome_success out then {pid} else {})"
proof (cases out)
  case (Mapped m)
  from process_dicom_upload_cases [OF run] Mapped obtain u where
    "create_and_validate reg arch AUTO pid u now st = (m, st')" by auto
  with create_and_validate_mapped_ids [OF inv, of reg arch AUTO pid u now] Mapped show ?thesis by auto
next
  case (AlreadyMapped m)
  with process_dicom_upload_AlreadyMapped [of reg arch tags pid now st m st'] run show ?thesis by auto
qed (use process_dicom_upload_cases [OF run] in auto)

lemma sweep_one_cases:
  assumes "sweep_one reg arch now pid st = (r, st')"
  shows "(st' = st \<and> (\<forall>out. r \<noteq> SweepMapped out)) \<or>
         (\<exists>tags out. process_dicom_upload reg arch tags (Some pid) now st = (out, st') \<and> r = SweepMapped out)"
  using assms
  by (auto simp: sweep_one_def split: sum.splits list.splits option.splits ext_error.splits prod.splits)

lemma sweep_one_inv:
  "store_inv st \<Longrightarrow> store_inv (snd (sweep_one reg arch now pid st))"
  using sweep_one_cases [of reg arch now pid st]
  by (cases "sweep_one reg arch now pid st") (metis process_dicom_upload_inv snd_conv)

lemma sweep_one_history:
  "store_inv st \<Longrightarrow> keeps_history st (snd (sweep_one reg arch now pid st))"
  using sweep_one_cases [of reg arch now pid st]
  by (cases "sweep_one reg arch now pid st") (metis process_dicom_upload_history keeps_history_refl snd_conv)

lemma sweep_one_archive_unique:
  "store_inv st \<Longrightarrow> archive_unique st \<Longrightarrow> archive_unique (snd (sweep_one reg arch now pid st))"
  using sweep_one_cases [of reg arch now pid st]
  by (cases "sweep_one reg arch now pid st") (metis process_dicom_upload_archive_unique snd_conv)

lemma sweep_one_mapped_ids:
  assumes inv: "store_inv st" and run: "sweep_one reg arch now pid st = (r, st')"
  shows "set (mapped_patient_ids st') =
         set (mapped_patient_ids st) \<union> (if sweep_success r then {pid} else {})"
  using sweep_one_cases [OF run]
proof
  assume "st' = st \<and> (\<forall>out. r \<noteq> SweepMapped out)"
  then show ?thesis by (cases r) auto
next
  assume "\<exists>tags out. process_dicom_upload reg arch tags (Some pid) now st = (out, st') \<and> r = SweepMapped out"
  then obtain tags out where p: "process_dicom_upload reg arch tags (Some pid) now st = (out, st')"
    and r: "r = SweepMapped out" by blast
  from process_dicom_upload_mapped_ids [OF inv p] r show ?thesis by simp
qed

lemma sweep_loop_Cons_eq:
  "sweep_one reg arch now pid st = (r, st1) \<Longrightarrow>
   sweep_loop reg arch now (pid # pids) st =
     ((pid, r) # fst (sweep_loop reg arch now pids st1), snd (sweep_loop reg arch now pids st1))"
  by (simp split: prod.splits)

declare sweep_loop.simps(2) [simp del]

lemma sweep_loop_results: "map fst (fst (sweep_loop reg arch now pids st)) = pids"
proof (induction pids arbitrary: st)
  case Nil
  then show ?case by simp
next
  case (Cons pid pids)
  obtain r st1 where "sweep_one reg arch now pid st = (r, st1)"
    by (cases "sweep_one reg arch now pid st")
  with Cons.IH [of st1] show ?case by (simp add: sweep_loop_Cons_eq)
qed

lemma sweep_loop_preserves:
  assumes "store_inv st"
  shows "store_inv (snd (sweep_loop reg arch now pids st)) \<and>
         keeps_history st (snd (sweep_loop reg arch now pids st)) \<and>
         (archive_unique st \<longrightarrow> archive_unique (snd (sweep_loop reg arch now pids st)))"
  using assms
proof (induction pids arbitrary: st)
  case Nil
  then show ?case by simp
next
  case (Cons pid pids)
  obtain r st1 where s1: "sweep_one reg arch now pid st = (r, st1)"
    by (cases "sweep_one reg arch now pid st")
  have inv1: "store_inv st1" and h1: "keeps_history st st1"
    and u1: "archive_unique st \<longrightarrow> archive_unique st1"
    using sweep_one_inv [OF Cons.prems, of reg arch now pid] sweep_one_history [OF Cons.prems, of reg arch now pid]
      sweep_one_archive_unique [OF Cons.prems, of reg arch now pid] s1 by simp_all
  note IH = Cons.IH [OF inv1]
  have "snd (sweep_loop reg arch now (pid # pids) st) = snd (sweep_loop reg arch now pids st1)"
    using s1 by (simp add: sweep_loop_Cons_eq)
  with IH h1 u1 show ?case by (auto intro: keeps_history_trans)
qed

lemma sweep_loop_mapped_ids:
  assumes "store_inv st"
  shows "set (mapped_patient_ids (snd (sweep_loop reg arch now pids st))) =
         set (mapped_patient_ids st) \<union>
         {pid. \<exists>r. (pid, r) \<in> set (fst (sweep_loop reg arch now pids st)) \<and> sweep_success r}"
  using assms
proof (induction pids arbitrary: st)
  case Nil
  then show ?case by simp
next
  case (Cons pid pids)
  obtain r st1 where s1: "sweep_one reg arch now pid st = (r, st1)"
    by (cases "sweep_one reg arch now pid st")
  have inv1: "store_inv st1" using sweep_one_inv [OF Cons.prems, of reg arch now pid] s1 by simp
  have m1: "set (mapped_patient_ids st1) = set (mapped_patient_ids st) \<union> (if sweep_success r then {pid} else {})"
    by (rule sweep_one_mapped_ids [OF Cons.prems s1])
  have loop: "sweep_loop reg arch now (pid # pids) st =
              ((pid, r) # fst (sweep_loop reg arch now pids st1), snd (sweep_loop reg arch now pids st1))"
    using s1 by (rule sweep_loop_Cons_eq)
  show ?case using Cons.IH [OF inv1] m1 loop by auto
qed
lemma batch_store:
  "snd (batch_auto_mapping reg arch now st) =
     (case get_patients arch of
        Inl e \<Rightarrow> st
      | Inr all \<Rightarrow> if unmapped_patients all st = [] then st
                   else snd (sweep_loop reg arch now (unmapped_patients all st) st))"
  by (auto simp: batch_auto_mapping_def unmapped_patients_def Let_def split: sum.splits prod.splits)

lemma ex_unmapped: "unmapped_patients [''o1''] empty_store = [''o1'']"
  by (simp add: unmapped_patients_def mapped_patient_ids_def get_active_mappings_def empty_store_def)

lemma ex_get_patients: "get_patients ex_archive = Inr [''o1'']"
  by (simp add: get_patients_def ex_archive_def)

lemma empty_store_archive_unique: "archive_unique empty_store"
  by (simp add: archive_unique_def mapped_patient_ids_def get_active_mappings_def empty_store_def)

text \<open>C9: the sweep's report (spec section 8): one result per unmapped archive patient,
  in the archive's order, whatever fails for any of them, and the successful and failed
  counts add up to the number processed.\<close>

theorem batch_report_counts:
  assumes pats: "get_patients arch = Inr all" and some: "unmapped_patients all st \<noteq> []"
  shows "\<exists>ok bad results.
           batch_auto_mapping reg arch now st =
             ((200, BatchReport (length (unmapped_patients all st)) ok bad results),
              snd (sweep_loop reg arch now (unmapped_patients all st) st)) \<and>
           map fst results = unmapped_patients all st \<and> ok + bad = length (unmapped_patients all st)"
proof -
  let ?u = "unmapped_patients all st"
  let ?res = "fst (sweep_loop reg arch now ?u st)"
  have ne: "all \<noteq> []" using some by (auto simp: unmapped_patients_def)
  have len: "length ?res = length ?u"
    using sweep_loop_results [of reg arch now ?u st] by (metis length_map)
  have "batch_auto_mapping reg arch now st =
          ((200, BatchReport (length ?res) (length (filter (\<lambda>r. sweep_success (snd r)) ?res))
                 (length (filter (\<lambda>r. \<not> sweep_success (snd r)) ?res)) ?res),
           snd (sweep_loop reg arch now ?u st))"
    using pats ne some by (simp add: batch_auto_mapping_def Let_def split: prod.splits)
  moreover have "length (filter (\<lambda>r. sweep_success (snd r)) ?res) +
                 length (filter (\<lambda>r. \<not> sweep_success (snd r)) ?res) = length ?res"
    by (rule sum_length_filter_compl)
  ultimately show ?thesis using len sweep_loop_results [of reg arch now ?u st] by auto
qed

theorem batch_report_counts_witness:
  "get_patients ex_archive = Inr [''o1''] \<and> unmapped_patients [''o1''] empty_store \<noteq> [] \<and>
   (\<exists>ok bad results.
      batch_auto_mapping ex_registry ex_archive 5 empty_store =
        ((200, BatchReport (length (unmapped_patients [''o1''] empty_store)) ok bad results),
         snd (sweep_loop ex_registry ex_archive 5 (unmapped_patients [''o1''] empty_store) empty_store)) \<and>
      map fst results = unmapped_patients [''o1''] empty_store \<and>
      ok + bad = length (unmapped_patients [''o1''] empty_store))"
  using batch_report_counts [OF ex_get_patients, of empty_store ex_registry 5] ex_get_patients ex_unmapped
  by simp

text \<open>C10: the sweep keeps the table invariant, keeps at most one active mapping per
  archive patient, and only appends rows (existing rows keep their identity).\<close>

theorem batch_keeps_invariants:
  assumes inv: "store_inv st" and uniq: "archive_unique st"
  shows "store_inv (snd (batch_auto_mapping reg arch now st)) \<and>
         archive_unique (snd (batch_auto_mapping reg arch now st)) \<and>
         keeps_history st (snd (batch_auto_mapping reg arch now st))"
  using sweep_loop_preserves [OF inv] inv uniq
  by (simp add: batch_store split: sum.splits)

theorem batch_keeps_invariants_witness:
  "store_inv empty_store \<and> archive_unique empty_store \<and>
   store_inv (snd (batch_auto_mapping ex_registry ex_archive 5 empty_store)) \<and>
   archive_unique (snd (batch_auto_mapping ex_registry ex_archive 5 empty_store)) \<and>
   keeps_history empty_store (snd (batch_auto_mapping ex_registry ex_archive 5 empty_store))"
  using batch_keeps_invariants [OF empty_store_inv empty_store_archive_unique, of ex_registry ex_archive 5]
    empty_store_inv empty_store_archive_unique by simp

text \<open>C11: after the sweep, the archive patients with an active mapping are those that
  had one before and exactly those the report lists as successful.\<close>

theorem batch_mapped_after:
  assumes inv: "store_inv st"
    and run: "batch_auto_mapping reg arch now st = ((code, BatchReport n ok bad results), st')"
  shows "set (mapped_patient_ids st') =
         set (mapped_patient_ids st) \<union> {pid. \<exists>r. (pid, r) \<in> set results \<and> sweep_success r}"
proof -
  obtain all where pats: "get_patients arch = Inr all"
    and some: "unmapped_patients all st \<noteq> []"
    and res: "results = fst (sweep_loop reg arch now (unmapped_patients all st) st)"
    and st': "st' = snd (sweep_loop reg arch now (unmapped_patients all st) st)"
    using run by (auto simp: batch_auto_mapping_def Let_def split: sum.splits if_splits prod.splits)
  show ?thesis using sweep_loop_mapped_ids [OF inv] res st' by simp
qed

lemma ex_batch_run:
  "batch_auto_mapping ex_registry ex_archive 5 empty_store =
     ((200, BatchReport 1 1 0 [(''o1'', SweepMapped (Mapped ex_auto_row))]),
      \<lparr>rows = [ex_auto_row], next_id = 2\<rparr>)"
  by code_simp

theorem batch_mapped_after_witness:
  "store_inv empty_store \<and>
   batch_auto_mapping ex_registry ex_archive 5 empty_store =
     ((200, BatchReport 1 1 0 [(''o1'', SweepMapped (Mapped ex_auto_row))]),
      \<lparr>rows = [ex_auto_row], next_id = 2\<rparr>) \<and>
   set (mapped_patient_ids \<lparr>rows = [ex_auto_row], next_id = 2\<rparr>) =
     set (mapped_patient_ids empty_store) \<union>
     {pid. \<exists>r. (pid, r) \<in> set [(''o1'', SweepMapped (Mapped ex_auto_row))] \<and> sweep_success r}"
  using batch_mapped_after [OF empty_store_inv ex_batch_run] empty_store_inv ex_batch_run by simp

text \<open>C12: one code path for both cases (spec section 4.3): for an archive patient
  whose first study, series and instance exist, the sweep's step changes the table
  exactly as a live upload of that instance, answered by the archive with that patient,
  and it succeeds exactly when the upload answers 201.\<close>

theorem sweep_matches_upload:
  assumes st: "get_patient_studies arch pid = Inr (s # ss)"
    and se: "get_study_series arch s = Inr (sr # srs)"
    and ins: "get_series_instances arch sr = Inr (i # iss)"
    and fi: "get_instance_file arch i = Inr (Some tags)"
    and par: "ur_parent_patient ur = Some pid"
  shows "snd (sweep_one reg arch now pid st0) =
           snd (upload_dicom_with_auto_mapping reg arch (Some tags) (Some ur) now st0) \<and>
         (sweep_success (fst (sweep_one reg arch now pid st0)) \<longleftrightarrow>
           fst (fst (upload_dicom_with_auto_mapping reg arch (Some tags) (Some ur) now st0)) = 201)"
proof -
  obtain out st' where p: "process_dicom_upload reg arch tags (Some pid) now st0 = (out, st')"
    by (cases "process_dicom_upload reg arch tags (Some pid) now st0")
  have "sweep_one reg arch now pid st0 = (SweepMapped out, st')"
    using st se ins fi p by (simp add: sweep_one_def)
  moreover have "upload_dicom_with_auto_mapping reg arch (Some tags) (Some ur) now st0 =
      (if outcome_success out then ((201, UpDone ur out True), st') else ((206, UpDone ur out False), st'))"
    using par p by (simp add: upload_some_eq)
  ultimately show ?thesis by simp
qed

theorem sweep_matches_upload_witness:
  "get_patient_studies ex_archive ''o1'' = Inr [''st1''] \<and>
   get_study_series ex_archive ''st1'' = Inr [''se1''] \<and>
   get_series_instances ex_archive ''se1'' = Inr [''i1''] \<and>
   get_instance_file ex_archive ''i1'' = Inr (Some ex_tags) \<and>
   ur_parent_patient ex_reply = Some ''o1'' \<and>
   snd (sweep_one ex_registry ex_archive 5 ''o1'' empty_store) =
     snd (upload_dicom_with_auto_mapping ex_registry ex_archive (Some ex_tags) (Some ex_reply) 5 empty_store) \<and>
   (sweep_success (fst (sweep_one ex_registry ex_archive 5 ''o1'' empty_store)) \<longleftrightarrow>
     fst (fst (upload_dicom_with_auto_mapping ex_registry ex_archive (Some ex_tags) (Some ex_reply) 5 empty_store)) = 201)"
proof -
  have h: "get_patient_studies ex_archive ''o1'' = Inr [''st1'']"
    "get_study_series ex_archive ''st1'' = Inr [''se1'']"
    "get_series_instances ex_archive ''se1'' = Inr [''i1'']"
    "get_instance_file ex_archive ''i1'' = Inr (Some ex_tags)"
    "ur_parent_patient ex_reply = Some ''o1''"
    by (simp_all add: get_patient_studies_def get_study_series_def get_series_instances_def
        get_instance_file_def ex_archive_def ex_reply_def)
  show ?thesis using sweep_matches_upload [OF h, of ex_registry 5 empty_store] h by simp
qed

end
