(* ===== verification/PatientViews.thy ===== *)
theory PatientViews
  imports Services
begin

text \<open>
  The registry-side handlers of \<open>src/backend/medical_integration/views.py\<close>:
  \<open>search_patients\<close>, which picks each patient's primary identifier (the one the
  DICOM mapping matches on), and \<open>create_patient\<close>, which checks the required fields,
  strips and checks the requested identifier or generates one, and creates the patient.
  The request body is an association list; what OpenMRS answers to the search and to
  the creation are inputs of the handlers, and the registry after a creation is the
  registry with the new patient appended.
\<close>

type_synonym request_data = "(string \<times> string) list"

subsection \<open>\<open>search_patients\<close>: the primary identifier\<close>

text \<open>The loop of lines 91 to 96: every truthy identifier is collected; the first
  truthy preferred one becomes primary.\<close>

fun scan_identifiers ::
  "reg_identifier list \<Rightarrow> string option \<Rightarrow> string list \<Rightarrow> string option \<times> string list" where
  "scan_identifiers [] primary acc = (primary, acc)"
| "scan_identifiers (info # infos) primary acc =
     (case ident_value info of
        Some v \<Rightarrow>
          if v \<noteq> [] then
            scan_identifiers infos
              (if ident_preferred info \<and> primary = None then Some v else primary) (acc @ [v])
          else scan_identifiers infos primary acc
      | None \<Rightarrow> scan_identifiers infos primary acc)"

text \<open>Lines 98 to 100: without a preferred one, the first identifier.\<close>

definition primary_identifier :: "reg_identifier list \<Rightarrow> string option \<times> string list" where
  "primary_identifier ids =
     (let (primary, all_ids) = scan_identifiers ids None []
      in (if primary = None \<and> all_ids \<noteq> [] then Some (hd all_ids) else primary, all_ids))"

text \<open>The per-result dictionary of lines 102 to 112; \<open>name\<close> and \<open>display\<close> both carry
  \<open>result.get('display', '')\<close>, the display text the registry reports with each search
  result (its \<open>''\<close> when absent). The registry model has no \<open>age\<close>, and the raw
  \<open>identifiers\<close> the dictionary repeats are not kept.\<close>

record patient_summary =
  ps_uuid :: uuid
  ps_patient_identifier :: "string option"
  ps_all_identifiers :: "string list"
  ps_name :: string
  ps_display :: string
  ps_gender :: "string option"
  ps_birthdate :: "string option"

definition summarize_patient :: "string \<Rightarrow> reg_patient \<Rightarrow> patient_summary" where
  "summarize_patient display_name p =
     (let (primary, all_ids) = primary_identifier (rp_identifiers p)
      in \<lparr>ps_uuid = rp_uuid p, ps_patient_identifier = primary, ps_all_identifiers = all_ids,
          ps_name = display_name, ps_display = display_name, ps_gender = rp_gender p,
          ps_birthdate = rp_birthdate p\<rparr>)"

datatype search_body = SearchNoQuery | SearchFailed | SearchResults "patient_summary list" nat string

text \<open>\<open>answer\<close> is what \<open>api.search_patients(query)\<close> returned, \<open>None\<close> on failure:
  each result's display text and patient.\<close>

definition search_patients ::
  "string \<Rightarrow> (string \<times> reg_patient) list option \<Rightarrow> search_body response" where
  "search_patients query answer =
     (if query = [] then (400, SearchNoQuery)
      else case answer of
             None \<Rightarrow> (500, SearchFailed)
           | Some results \<Rightarrow>
               let patients = map (\<lambda>(d, p). summarize_patient d p) results
               in (200, SearchResults patients (length patients) query))"

text \<open>The reference the loop implements: the first truthy preferred identifier, else
  the first truthy identifier.\<close>

definition truthy_identifiers :: "reg_identifier list \<Rightarrow> string list" where
  "truthy_identifiers ids = [v. Some v \<leftarrow> map ident_value ids, v \<noteq> []]"

definition preferred_identifiers :: "reg_identifier list \<Rightarrow> string list" where
  "preferred_identifiers ids =
     [v. Some v \<leftarrow> map ident_value (filter ident_preferred ids), v \<noteq> []]"

subsection \<open>\<open>create_patient\<close>\<close>

definition required_fields :: "string list" where
  "required_fields = [''givenName'', ''familyName'', ''gender'', ''birthdate'']"

text \<open>\<open>[field for field in required_fields if field not in data or not data[field]]\<close>\<close>

definition missing_fields :: "request_data \<Rightarrow> string list" where
  "missing_fields data = filter (\<lambda>f. \<not> py_truthy (map_of data f)) required_fields"

text \<open>\<open>api.generate_unique_identifier()\<close>: an identifier no registry patient carries;
  the model takes \<open>P\<close> followed by more zeros than any identifier in use is long.\<close>

definition all_identifiers :: "registry \<Rightarrow> string list" where
  "all_identifiers reg = concat (map (\<lambda>p. [v. Some v \<leftarrow> map ident_value (rp_identifiers p)]) reg)"

definition generate_unique_identifier :: "registry \<Rightarrow> string" where
  "generate_unique_identifier reg =
     CHR ''P'' # replicate (Suc (fold max (map length (all_identifiers reg)) 0)) CHR ''0''"

text \<open>\<open>api.create_patient_with_identifier(data, identifier)\<close>: the patient OpenMRS
  creates, with the uuid it assigned.\<close>

definition new_patient :: "request_data \<Rightarrow> string \<Rightarrow> uuid \<Rightarrow> reg_patient" where
  "new_patient data ident u =
     \<lparr>rp_uuid = u, rp_identifiers = [\<lparr>ident_value = Some ident, ident_preferred = True\<rparr>],
      rp_family = lookup_default [] data ''familyName'', rp_given = lookup_default [] data ''givenName'',
      rp_gender = map_of data ''gender'', rp_birthdate = map_of data ''birthdate''\<rparr>"

datatype create_patient_body =
    CPOptions
  | CPMissing "string list"
  | CPDuplicateIdentifier string
  | CPFailed
  | CPCreated uuid string

datatype http_method = POST | OPTIONS

text \<open>\<open>created\<close> is the uuid OpenMRS answered for the new patient, \<open>None\<close> when the
  creation call returned nothing.\<close>

definition create_patient ::
  "http_method \<Rightarrow> request_data \<Rightarrow> uuid option \<Rightarrow> registry \<Rightarrow> create_patient_body response \<times> registry" where
  "create_patient meth data created reg =
     (if meth = OPTIONS then ((200, CPOptions), reg)
      else
        let missing = missing_fields data in
        if missing \<noteq> [] then ((400, CPMissing missing), reg)
        else
          let requested = py_strip (lookup_default [] data ''patient_identifier'') in
          if requested \<noteq> [] \<and> check_identifier_exists reg requested
          then ((400, CPDuplicateIdentifier requested), reg)
          else
            let ident = (if requested \<noteq> [] then requested else generate_unique_identifier reg) in
            case created of
              None \<Rightarrow> ((500, CPFailed), reg)
            | Some u \<Rightarrow> ((201, CPCreated u ident), reg @ [new_patient data ident u]))"

subsection \<open>Example data\<close>

definition ex_request :: request_data where
  "ex_request = [(''givenName'', ''Min''), (''familyName'', ''Kim''), (''gender'', ''M''),
                 (''birthdate'', ''1985-03-15''), (''patient_identifier'', '' P200 '')]"

definition ex_reg_one :: registry where
  "ex_reg_one = [\<lparr>rp_uuid = ''uuid-a'', rp_identifiers = [\<lparr>ident_value = Some ''P100'', ident_preferred = True\<rparr>],
                  rp_family = ''Kim'', rp_given = ''Min'', rp_gender = Some ''M'', rp_birthdate = Some ''1985-03-15''\<rparr>]"

subsection \<open>Lemmas\<close>

lemma scan_identifiers_eq:
  "scan_identifiers ids p acc =
     ((case p of None \<Rightarrow> (case preferred_identifiers ids of [] \<Rightarrow> None | v # _ \<Rightarrow> Some v) | Some x \<Rightarrow> Some x),
      acc @ truthy_identifiers ids)"
proof (induction ids arbitrary: p acc)
  case Nil
  then show ?case
    by (cases p) (simp_all add: preferred_identifiers_def truthy_identifiers_def)
next
  case (Cons info infos)
  then show ?case
    by (cases p; cases "ident_value info"; cases "ident_preferred info")
       (auto simp: preferred_identifiers_def truthy_identifiers_def)
qed

lemma preferred_sub_truthy: "set (preferred_identifiers ids) \<subseteq> set (truthy_identifiers ids)"
  by (induction ids) (auto simp: preferred_identifiers_def truthy_identifiers_def split: option.splits)

text \<open>C13: the identifier loop of \<open>search_patients\<close> computes the first non-empty
  preferred identifier, or else the first non-empty identifier, and lists every
  non-empty identifier in order.\<close>

theorem summarize_primary_identifier:
  "ps_patient_identifier (summarize_patient d p) =
     (case preferred_identifiers (rp_identifiers p) of
        v # _ \<Rightarrow> Some v
      | [] \<Rightarrow> (case truthy_identifiers (rp_identifiers p) of v # _ \<Rightarrow> Some v | [] \<Rightarrow> None)) \<and>
   ps_all_identifiers (summarize_patient d p) = truthy_identifiers (rp_identifiers p)"
  by (simp add: summarize_patient_def primary_identifier_def scan_identifiers_eq Let_def
      split: list.splits)

lemma fold_max_ge: "a \<le> fold max xs a \<and> (\<forall>x \<in> set xs. x \<le> fold max xs (a::nat))"
proof (induction xs arbitrary: a)
  case Nil
  then show ?case by simp
next
  case (Cons y ys)
  from Cons.IH [of "max y a"] show ?case by auto
qed

lemma check_identifier_in_all:
  "check_identifier_exists reg i \<Longrightarrow> i \<in> set (all_identifiers reg)"
  by (auto simp: check_identifier_exists_def find_by_identifier_def all_identifiers_def filter_empty_conv)

lemma generate_unique_identifier_fresh:
  "\<not> check_identifier_exists reg (generate_unique_identifier reg)"
proof
  assume "check_identifier_exists reg (generate_unique_identifier reg)"
  then have "generate_unique_identifier reg \<in> set (all_identifiers reg)"
    by (rule check_identifier_in_all)
  then have "length (generate_unique_identifier reg) \<le> fold max (map length (all_identifiers reg)) 0"
    using fold_max_ge [of 0 "map length (all_identifiers reg)"] by auto
  then show False by (simp add: generate_unique_identifier_def)
qed

lemma find_by_identifier_append_new:
  "\<not> check_identifier_exists reg i \<Longrightarrow>
   find_by_identifier (reg @ [new_patient data i u]) i = [new_patient data i u]"
  by (simp add: check_identifier_exists_def find_by_identifier_def new_patient_def)

lemma create_patient_201:
  assumes run: "create_patient meth data created reg = ((201, body), reg')"
  shows "missing_fields data = [] \<and>
         (\<exists>u ident. body = CPCreated u ident \<and> created = Some u \<and> ident \<noteq> [] \<and>
            reg' = reg @ [new_patient data ident u] \<and> \<not> check_identifier_exists reg ident)"
proof -
  let ?req = "py_strip (lookup_default [] data ''patient_identifier'')"
  let ?ident = "if ?req \<noteq> [] then ?req else generate_unique_identifier reg"
  have post: "meth \<noteq> OPTIONS" and nomiss: "missing_fields data = []"
    and nodup: "\<not> (?req \<noteq> [] \<and> check_identifier_exists reg ?req)"
    using run by (auto simp: create_patient_def Let_def split: if_splits option.splits)
  obtain u where c: "created = Some u"
    using run post nomiss nodup by (cases created) (auto simp: create_patient_def Let_def)
  have res: "body = CPCreated u ?ident" "reg' = reg @ [new_patient data ?ident u]"
    using run post nomiss nodup c by (auto simp: create_patient_def Let_def)
  have fresh: "\<not> check_identifier_exists reg ?ident"
    using nodup generate_unique_identifier_fresh by auto
  have ne: "?ident \<noteq> []" by (simp add: generate_unique_identifier_def)
  show ?thesis using nomiss res c fresh ne by blast
qed

text \<open>C14: \<open>create_patient\<close> answers 201 only when every required field is present and
  non-empty; the registry then grows by exactly the new patient, whose identifier
  (the stripped requested one, or a generated one) no patient carried before, so the
  identifier now finds exactly that patient.\<close>

theorem create_patient_created:
  assumes run: "create_patient meth data created reg = ((201, body), reg')"
  shows "(\<forall>f \<in> set required_fields. py_truthy (map_of data f)) \<and>
         (\<exists>u ident. body = CPCreated u ident \<and> created = Some u \<and> ident \<noteq> [] \<and>
            reg' = reg @ [new_patient data ident u] \<and> \<not> check_identifier_exists reg ident \<and>
            find_by_identifier reg' ident = [new_patient data ident u])"
  using create_patient_201 [OF run]
  by (auto simp: missing_fields_def filter_empty_conv find_by_identifier_append_new)

lemma ex_create_run:
  "create_patient POST ex_request (Some ''uuid-n'') ex_reg_one =
     ((201, CPCreated ''uuid-n'' ''P200''), ex_reg_one @ [new_patient ex_request ''P200'' ''uuid-n''])"
  by code_simp

theorem create_patient_created_witness:
  "create_patient POST ex_request (Some ''uuid-n'') ex_reg_one =
     ((201, CPCreated ''uuid-n'' ''P200''), ex_reg_one @ [new_patient ex_request ''P200'' ''uuid-n'']) \<and>
   list_all (\<lambda>f. py_truthy (map_of ex_request f)) required_fields \<and>
   (\<exists>u ident. CPCreated ''uuid-n'' ''P200'' = CPCreated u ident \<and> Some ''uuid-n'' = Some u \<and> ident \<noteq> [] \<and>
      ex_reg_one @ [new_patient ex_request ''P200'' ''uuid-n''] = ex_reg_one @ [new_patient ex_request ident u] \<and>
      \<not> check_identifier_exists ex_reg_one ident \<and>
      find_by_identifier (ex_reg_one @ [new_patient ex_request ''P200'' ''uuid-n'']) ident = [new_patient ex_request ident u])"
  using create_patient_created [OF ex_create_run] ex_create_run by (simp add: list_all_iff)

end
