(* ===== verification/Maintenance.thy ===== *)
theory Maintenance
  imports MappingStore Services
begin

text \<open>
  The maintenance handlers of \<open>views.py\<close> that read or change the mapping table outside
  the reconciliation paths: \<open>clear_dummy_data\<close> (soft-deletes the active mappings whose
  archive id contains \<open>DUMMY\<close>), \<open>get_mapping_test_status\<close> (statistics over the same
  rows), \<open>get_mapping_status\<close> (statistics over all active rows and the ten newest) and
  \<open>create_test_mapping\<close> (checks its two request values and echoes them). The lemmas
  show what \<open>clear_dummy_data\<close> changes, that it keeps the table invariants, that the
  statistics add up, and that the recent list holds the newest active rows.
\<close>

subsection \<open>Django lookups\<close>

text \<open>\<open>field__icontains=needle\<close>: case-insensitive containment; both sides are compared
  in lower case, as the database's \<open>UPPER(..) LIKE UPPER(..)\<close> or case-insensitive
  collation does for ASCII text.\<close>

definition icontains :: "string \<Rightarrow> string \<Rightarrow> bool" where
  "icontains hay needle \<longleftrightarrow> sublist (py_lower needle) (py_lower hay)"

text \<open>\<open>PatientMapping.objects.filter(orthanc_patient_id__icontains='DUMMY', is_active=True)\<close>;
  the query has no \<open>order_by\<close>, and the rows are taken in key order.\<close>

definition dummy_mappings :: "mapping_store \<Rightarrow> patient_mapping list" where
  "dummy_mappings st = filter (\<lambda>m. icontains (orthanc_patient_id m) ''DUMMY'' \<and> is_active m) (rows st)"

subsection \<open>\<open>clear_dummy_data\<close>\<close>

text \<open>The loop \<open>for mapping in dummy_mappings: mapping.is_active = False; mapping.save();
  deleted_count += 1\<close>: each row is saved whole, as it was loaded, with the flag cleared.\<close>

fun clear_loop :: "patient_mapping list \<Rightarrow> nat \<Rightarrow> mapping_store \<Rightarrow> nat \<times> mapping_store" where
  "clear_loop [] n st = (n, st)"
| "clear_loop (m # ms) n st = clear_loop ms (Suc n) (save_row (m\<lparr>is_active := False\<rparr>) st)"

datatype clear_body = ClearDone nat

definition clear_dummy_data :: "mapping_store \<Rightarrow> clear_body response \<times> mapping_store" where
  "clear_dummy_data st =
     (let (n, st') = clear_loop (dummy_mappings st) 0 st in ((200, ClearDone n), st'))"

subsection \<open>\<open>get_mapping_test_status\<close>\<close>

text \<open>\<open>sync_status__in=['SYNCED', 'AUTO_MAPPED', 'MANUAL_MAPPED']\<close>\<close>

definition successful_status :: "sync_status \<Rightarrow> bool" where
  "successful_status s \<longleftrightarrow> s \<in> set [SYNCED, AUTO_MAPPED, MANUAL_MAPPED]"

record test_statistics =
  ts_total :: nat
  ts_auto :: nat
  ts_manual :: nat
  ts_successful :: nat

datatype test_status_body = TestStatus test_statistics "patient_mapping list"

definition get_mapping_test_status :: "mapping_store \<Rightarrow> test_status_body response" where
  "get_mapping_test_status st =
     (let ms = dummy_mappings st in
      (200, TestStatus
              \<lparr>ts_total = length ms,
               ts_auto = length (filter (\<lambda>m. mapping_type m = AUTO) ms),
               ts_manual = length (filter (\<lambda>m. mapping_type m = MANUAL) ms),
               ts_successful = length (filter (\<lambda>m. successful_status (sync_status m)) ms)\<rparr>
              ms))"

subsection \<open>\<open>get_mapping_status\<close>\<close>

text \<open>\<open>filter(is_active=True).order_by('-created_date')[:10]\<close>; rows created at the same
  time keep their key order.\<close>

definition recent_mappings :: "mapping_store \<Rightarrow> patient_mapping list" where
  "recent_mappings st = take 10 (sort_desc_key created_date (get_active_mappings st))"

datatype status_body = MappingStatus nat nat nat "patient_mapping list"

definition get_mapping_status :: "mapping_store \<Rightarrow> status_body response" where
  "get_mapping_status st =
     (let act = get_active_mappings st in
      (200, MappingStatus (length act)
              (length (filter (\<lambda>m. mapping_type m = AUTO) act))
              (length (filter (\<lambda>m. mapping_type m = MANUAL) act))
              (recent_mappings st)))"

subsection \<open>\<open>create_test_mapping\<close>\<close>

datatype test_mapping_body = TMMissing | TMReady string string

definition create_test_mapping :: "string option \<Rightarrow> string option \<Rightarrow> test_mapping_body response" where
  "create_test_mapping openmrs_uuid patient_id =
     (if \<not> py_truthy openmrs_uuid \<or> \<not> py_truthy patient_id then (400, TMMissing)
      else (200, TMReady (the openmrs_uuid) (the patient_id)))"

subsection \<open>Archive identifiers\<close>

text \<open>Orthanc names a patient by a hash of its DICOM identifiers, written as groups of
  lower-case hexadecimal digits separated by dashes; the \<open>ParentPatient\<close> of an upload
  answer, which the reconciliation stores as \<open>orthanc_patient_id\<close>, has this form.\<close>

definition orthanc_id_char :: "char \<Rightarrow> bool" where
  "orthanc_id_char c \<longleftrightarrow> c \<in> set ''0123456789abcdef-''"

definition orthanc_format :: "string \<Rightarrow> bool" where
  "orthanc_format s \<longleftrightarrow> list_all orthanc_id_char s"

subsection \<open>The effect of \<open>clear_dummy_data\<close>\<close>

text \<open>Soft deletion of the rows a predicate selects, all other fields unchanged.\<close>

definition deactivate_where :: "(patient_mapping \<Rightarrow> bool) \<Rightarrow> patient_mapping list \<Rightarrow> patient_mapping list" where
  "deactivate_where P rs = map (\<lambda>r. if P r then r\<lparr>is_active := False\<rparr> else r) rs"

subsection \<open>Example tables\<close>

text \<open>A table with one test row whose archive id carries the \<open>DUMMY\<close> marker and one
  row with an archive id of Orthanc's form, and a table of eleven active rows created
  at times 1 to 11.\<close>

definition ex_dummy_row :: patient_mapping where
  "ex_dummy_row = \<lparr>mapping_id = 1, orthanc_patient_id = ''dummy-01'', openmrs_patient_uuid = ''uuid-a'',
     mapping_type = AUTO, sync_status = AUTO_MAPPED, error_message = None, created_date = 3,
     last_sync = Some 3, is_active = True\<rparr>"

definition ex_live_row :: patient_mapping where
  "ex_live_row = \<lparr>mapping_id = 2, orthanc_patient_id = ''5f1c0a2e-9b7d41c3-00aa12ef-7c3b9d01-e4f5a6b7'',
     openmrs_patient_uuid = ''uuid-b'', mapping_type = MANUAL, sync_status = SYNCED, error_message = None,
     created_date = 4, last_sync = Some 4, is_active = True\<rparr>"

definition ex_maint_store :: mapping_store where
  "ex_maint_store = \<lparr>rows = [ex_dummy_row, ex_live_row], next_id = 3\<rparr>"

definition ex_many_store :: mapping_store where
  "ex_many_store = \<lparr>rows = map (\<lambda>i. ex_live_row\<lparr>mapping_id := i, created_date := i\<rparr>) [1..<12], next_id = 12\<rparr>"

subsection \<open>Lemmas\<close>

lemma clear_loop_result:
  assumes "\<forall>m \<in> set ms. \<forall>r \<in> set (rows st).
             mapping_id r = mapping_id m \<longrightarrow> r\<lparr>is_active := False\<rparr> = m\<lparr>is_active := False\<rparr>"
  shows "clear_loop ms n st =
           (n + length ms, st\<lparr>rows := deactivate_where (\<lambda>r. mapping_id r \<in> mapping_id ` set ms) (rows st)\<rparr>)"
  using assms
proof (induction ms arbitrary: n st)
  case Nil
  then show ?case by (simp add: deactivate_where_def)
next
  case (Cons m ms)
  let ?st1 = "save_row (m\<lparr>is_active := False\<rparr>) st"
  have r1: "rows ?st1 = deactivate_where (\<lambda>r. mapping_id r = mapping_id m) (rows st)"
    using Cons.prems by (auto simp: save_row_def update_where_def deactivate_where_def)
  have "\<forall>m' \<in> set ms. \<forall>r \<in> set (rows ?st1).
          mapping_id r = mapping_id m' \<longrightarrow> r\<lparr>is_active := False\<rparr> = m'\<lparr>is_active := False\<rparr>"
    using Cons.prems unfolding r1 by (auto simp: deactivate_where_def)
  from Cons.IH [OF this, of "Suc n"] r1 show ?case
    by (auto simp: deactivate_where_def save_row_def)
qed

lemma ids_deactivate_where [simp]:
  "map mapping_id (deactivate_where P rs) = map mapping_id rs"
  by (induction rs) (auto simp: deactivate_where_def)

lemma deactivate_where_inv:
  "store_inv st \<Longrightarrow> store_inv (st\<lparr>rows := deactivate_where P (rows st)\<rparr>)"
proof -
  assume inv: "store_inv st"
  have "distinct (map mapping_id (deactivate_where P (rows st)))"
    using inv by (simp add: store_inv_def)
  moreover have "list_all (\<lambda>m. mapping_id m < next_id st \<and> status_coherent (sync_status m) (error_message m))
                   (deactivate_where P (rows st))"
    using inv by (auto simp: store_inv_def list_all_iff deactivate_where_def)
  ultimately show ?thesis by (simp add: store_inv_def)
qed

lemma deactivate_where_history:
  "keeps_history st (st\<lparr>rows := deactivate_where P (rows st)\<rparr>)"
proof -
  have "map row_identity (deactivate_where P (rows st)) = map row_identity (rows st)"
    by (simp add: deactivate_where_def row_identity_def comp_def)
  then show ?thesis by (simp add: keeps_history_def)
qed

lemma inactive_update_same: "\<not> is_active r \<Longrightarrow> r\<lparr>is_active := False\<rparr> = r"
  by (cases r) simp

lemma store_row_unique:
  assumes "store_inv st" "r \<in> set (rows st)" "m \<in> set (rows st)" "mapping_id r = mapping_id m"
  shows "r = m"
proof -
  have "inj_on mapping_id (set (rows st))" using assms(1) by (simp add: store_inv_def distinct_map)
  then show ?thesis using assms(2-4) by (auto dest: inj_onD)
qed

lemma clear_dummy_data_rows:
  assumes inv: "store_inv st"
  shows "clear_dummy_data st =
           ((200, ClearDone (length (dummy_mappings st))),
            st\<lparr>rows := deactivate_where (\<lambda>r. icontains (orthanc_patient_id r) ''DUMMY'') (rows st)\<rparr>)"
proof -
  have mem: "set (dummy_mappings st) \<subseteq> set (rows st)" by (auto simp: dummy_mappings_def)
  have pre: "\<forall>m \<in> set (dummy_mappings st). \<forall>r \<in> set (rows st).
               mapping_id r = mapping_id m \<longrightarrow> r\<lparr>is_active := False\<rparr> = m\<lparr>is_active := False\<rparr>"
    using mem store_row_unique [OF inv] by blast
  have "deactivate_where (\<lambda>r. mapping_id r \<in> mapping_id ` set (dummy_mappings st)) (rows st) =
        deactivate_where (\<lambda>r. icontains (orthanc_patient_id r) ''DUMMY'') (rows st)"
    unfolding deactivate_where_def
  proof (rule map_cong [OF refl])
    fix r assume r: "r \<in> set (rows st)"
    have "mapping_id r \<in> mapping_id ` set (dummy_mappings st) \<longleftrightarrow>
          icontains (orthanc_patient_id r) ''DUMMY'' \<and> is_active r"
      using r mem store_row_unique [OF inv r] by (auto simp: dummy_mappings_def)
    then show "(if mapping_id r \<in> mapping_id ` set (dummy_mappings st) then r\<lparr>is_active := False\<rparr> else r) =
               (if icontains (orthanc_patient_id r) ''DUMMY'' then r\<lparr>is_active := False\<rparr> else r)"
      by (auto simp: inactive_update_same)
  qed
  with clear_loop_result [OF pre, of 0] show ?thesis by (simp add: clear_dummy_data_def)
qed

text \<open>C16: \<open>clear_dummy_data\<close> soft-deletes exactly the active rows whose archive id
  contains \<open>DUMMY\<close> in any case, reports their number, leaves every other row and the
  key counter as they were, and keeps the table invariant and its history: afterwards
  no active row carries the marker.\<close>
theorem clear_dummy_data_effect:
  assumes inv: "store_inv st" and run: "clear_dummy_data st = ((code, ClearDone n), st')"
  shows "code = 200 \<and> n = length (dummy_mappings st) \<and>
         rows st' = deactivate_where (\<lambda>r. icontains (orthanc_patient_id r) ''DUMMY'') (rows st) \<and>
         next_id st' = next_id st \<and> dummy_mappings st' = [] \<and>
         store_inv st' \<and> keeps_history st st'"
proof -
  have st': "st' = st\<lparr>rows := deactivate_where (\<lambda>r. icontains (orthanc_patient_id r) ''DUMMY'') (rows st)\<rparr>"
    and c: "code = 200" "n = length (dummy_mappings st)"
    using run clear_dummy_data_rows [OF inv] by simp_all
  have "dummy_mappings st' = []"
    unfolding st' by (auto simp: dummy_mappings_def deactivate_where_def filter_empty_conv)
  with st' c inv show ?thesis by (simp add: deactivate_where_inv deactivate_where_history)
qed

lemma orthanc_id_char_not_u: "orthanc_id_char c \<Longrightarrow> lower_char c \<noteq> CHR ''u''"
  unfolding orthanc_id_char_def by (auto simp: lower_char_def)
lemma py_lower_DUMMY: "py_lower ''DUMMY'' = ''dummy''"
  by code_simp

lemma orthanc_format_not_dummy:
  assumes "orthanc_format s" shows "\<not> icontains s ''DUMMY''"
proof
  assume "icontains s ''DUMMY''"
  then have "set (py_lower ''DUMMY'') \<subseteq> set (py_lower s)"
    unfolding icontains_def by (rule set_mono_sublist)
  then have "CHR ''u'' \<in> lower_char ` set s" unfolding py_lower_DUMMY by (simp add: py_lower_def)
  then obtain c where "c \<in> set s" "lower_char c = CHR ''u''" by auto
  with assms show False by (auto simp: orthanc_format_def list_all_iff dest: orthanc_id_char_not_u)
qed

lemma orthanc_rows_no_dummy:
  "list_all (\<lambda>r. orthanc_format (orthanc_patient_id r)) (rows st) \<Longrightarrow> dummy_mappings st = []"
  using orthanc_format_not_dummy by (auto simp: dummy_mappings_def filter_empty_conv list_all_iff)

text \<open>C17: the \<open>DUMMY\<close> filter of \<open>clear_dummy_data\<close> and \<open>get_mapping_test_status\<close>
  looks at \<open>orthanc_patient_id\<close>, which holds the archive's own patient id. When every
  stored archive id has Orthanc's form (hexadecimal digits and dashes), neither handler
  finds a row: the clean-up deletes nothing and the test statistics are all zero,
  whatever test data the table holds.\<close>
theorem clear_dummy_data_misses_archive_ids:
  assumes "list_all (\<lambda>r. orthanc_format (orthanc_patient_id r)) (rows st)"
  shows "clear_dummy_data st = ((200, ClearDone 0), st) \<and>
         get_mapping_test_status st = (200, TestStatus \<lparr>ts_total = 0, ts_auto = 0, ts_manual = 0, ts_successful = 0\<rparr> [])"
  using orthanc_rows_no_dummy [OF assms] by (simp add: clear_dummy_data_def get_mapping_test_status_def)
text \<open>C18: the recent list of \<open>get_mapping_status\<close> holds the newest active rows: ten
  of them, or all when there are fewer, in order of creation time, newest first, and no
  active row left out is newer than one listed.\<close>
theorem recent_mappings_newest:
  "length (recent_mappings st) = min 10 (length (get_active_mappings st)) \<and>
   set (recent_mappings st) \<subseteq> set (get_active_mappings st) \<and>
   sorted_wrt (\<lambda>a b. created_date b \<le> created_date a) (recent_mappings st) \<and>
   (\<forall>r \<in> set (get_active_mappings st). r \<notin> set (recent_mappings st) \<longrightarrow>
      (\<forall>x \<in> set (recent_mappings st). created_date r \<le> created_date x))"
proof (intro conjI)
  show "set (recent_mappings st) \<subseteq> set (get_active_mappings st)"
    by (auto simp: recent_mappings_def dest: in_set_takeD)
  show "sorted_wrt (\<lambda>a b. created_date b \<le> created_date a) (recent_mappings st)"
    unfolding recent_mappings_def by (rule sorted_wrt_take) (rule sorted_wrt_sort_desc_key)
  show "\<forall>r \<in> set (get_active_mappings st). r \<notin> set (recent_mappings st) \<longrightarrow>
          (\<forall>x \<in> set (recent_mappings st). created_date r \<le> created_date x)"
    unfolding recent_mappings_def by (blast intro: take_sort_desc_key_top)
qed (simp add: recent_mappings_def)

theorem recent_mappings_newest_witness:
  "length (recent_mappings ex_many_store) = 10 \<and>
   list_all (\<lambda>x. created_date (ex_live_row\<lparr>mapping_id := 1, created_date := 1\<rparr>) \<le> created_date x)
     (recent_mappings ex_many_store)"
proof -
  have act: "ex_live_row\<lparr>mapping_id := 1, created_date := 1\<rparr> \<in> set (get_active_mappings ex_many_store)"
    by (simp add: get_active_mappings_def ex_many_store_def ex_live_row_def)
  have out: "ex_live_row\<lparr>mapping_id := 1, created_date := 1\<rparr> \<notin> set (recent_mappings ex_many_store)"
    by (simp add: recent_mappings_def get_active_mappings_def ex_many_store_def ex_live_row_def
        sort_desc_key_def upt_rec)
  have len: "length (get_active_mappings ex_many_store) = 11"
    by (simp add: get_active_mappings_def ex_many_store_def ex_live_row_def)
  show ?thesis using recent_mappings_newest [of ex_many_store] act out len by (auto simp: list_all_iff)
qed

lemma ex_maint_store_inv: "store_inv ex_maint_store"
  by (simp add: store_inv_def ex_maint_store_def ex_dummy_row_def ex_live_row_def status_coherent_def)

theorem clear_dummy_data_effect_witness:
  "store_inv ex_maint_store \<and>
   clear_dummy_data ex_maint_store =
     ((200, ClearDone 1), \<lparr>rows = [ex_dummy_row\<lparr>is_active := False\<rparr>, ex_live_row], next_id = 3\<rparr>) \<and>
   1 = length (dummy_mappings ex_maint_store) \<and>
   dummy_mappings \<lparr>rows = [ex_dummy_row\<lparr>is_active := False\<rparr>, ex_live_row], next_id = 3\<rparr> = [] \<and>
   keeps_history ex_maint_store \<lparr>rows = [ex_dummy_row\<lparr>is_active := False\<rparr>, ex_live_row], next_id = 3\<rparr>"
proof -
  have run: "clear_dummy_data ex_maint_store =
     ((200, ClearDone 1), \<lparr>rows = [ex_dummy_row\<lparr>is_active := False\<rparr>, ex_live_row], next_id = 3\<rparr>)"
    by code_simp
  show ?thesis using clear_dummy_data_effect [OF ex_maint_store_inv run] ex_maint_store_inv run by blast
qed

theorem clear_dummy_data_misses_archive_ids_witness:
  "list_all (\<lambda>r. orthanc_format (orthanc_patient_id r)) (rows \<lparr>rows = [ex_live_row], next_id = 3\<rparr>) \<and>
   clear_dummy_data \<lparr>rows = [ex_live_row], next_id = 3\<rparr> = ((200, ClearDone 0), \<lparr>rows = [ex_live_row], next_id = 3\<rparr>)"
proof -
  have fmt: "list_all (\<lambda>r. orthanc_format (orthanc_patient_id r)) (rows \<lparr>rows = [ex_live_row], next_id = 3\<rparr>)"
    by (simp add: ex_live_row_def orthanc_format_def orthanc_id_char_def)
  show ?thesis using clear_dummy_data_misses_archive_ids [OF fmt] fmt by simp
qed

end
