(* ===== verification/DummyData.thy ===== *)
theory DummyData
  imports MappingViews Maintenance
begin

text \<open>
  The test-data handler \<open>create_dummy_data\<close> of \<open>views.py\<close> and its helper
  \<open>create_simple_dummy_dicom\<close>. The handler creates three registry patients, then
  builds one image per patient, uploads it, and feeds it to the reconciliation engine
  when the patient's position in the list is below the number of registry patients
  created. The registry is threaded through the creation loop; what the registry and
  the archive answer to the two creating calls is an input of the handler, one answer
  per test patient; the reconciliation is the engine's \<open>process_dicom_upload\<close>.
  Names are Python strings; the Korean names of the test patients are written as their
  UTF-8 bytes, which compare and concatenate as the strings do.
\<close>

subsection \<open>The test patients\<close>

record dummy_patient =
  dp_family :: string
  dp_given :: string
  dp_gender :: string
  dp_birth :: string
  dp_pid :: string

definition dummy_patients :: "dummy_patient list" where
  "dummy_patients =
     [\<lparr>dp_family = [CHR 0xEA, CHR 0xB9, CHR 0x80],
       dp_given = [CHR 0xEC, CHR 0xB2, CHR 0xA0, CHR 0xEC, CHR 0x88, CHR 0x98],
       dp_gender = ''M'', dp_birth = ''1985-03-15'', dp_pid = ''DUMMY001''\<rparr>,
      \<lparr>dp_family = [CHR 0xEC, CHR 0x9D, CHR 0xB4],
       dp_given = [CHR 0xEC, CHR 0x98, CHR 0x81, CHR 0xED, CHR 0x9D, CHR 0xAC],
       dp_gender = ''F'', dp_birth = ''1990-07-22'', dp_pid = ''DUMMY002''\<rparr>,
      \<lparr>dp_family = [CHR 0xEB, CHR 0xB0, CHR 0x95],
       dp_given = [CHR 0xEB, CHR 0xAF, CHR 0xBC, CHR 0xEC, CHR 0x88, CHR 0x98],
       dp_gender = ''M'', dp_birth = ''1978-11-08'', dp_pid = ''DUMMY003''\<rparr>]"

subsection \<open>Step 1: registry patients\<close>

text \<open>What \<open>openmrs_api.create_patient(openmrs_data)\<close> answers: \<open>None\<close> when it returns a
  falsy value or raises (the handler skips the patient either way), or the new
  patient's uuid with the identifiers the registry assigned.\<close>

type_synonym create_answer = "(uuid \<times> reg_identifier list) option"

text \<open>The registry patient the call creates from \<open>openmrs_data\<close> (given name, family
  name, gender, birth date).\<close>

definition registry_patient :: "dummy_patient \<Rightarrow> uuid \<Rightarrow> reg_identifier list \<Rightarrow> reg_patient" where
  "registry_patient d u ids =
     \<lparr>rp_uuid = u, rp_identifiers = ids, rp_family = dp_family d, rp_given = dp_given d,
      rp_gender = Some (dp_gender d), rp_birthdate = Some (dp_birth d)\<rparr>"

text \<open>The loop over \<open>dummy_patients\<close>: \<open>created_patients\<close> collects the uuid and test
  identifier of each patient the registry created.\<close>

fun create_dummy_patients ::
  "(dummy_patient \<times> create_answer) list \<Rightarrow> registry \<Rightarrow> (uuid \<times> string) list \<times> registry" where
  "create_dummy_patients [] reg = ([], reg)"
| "create_dummy_patients ((d, a) # ds) reg =
     (case a of
        None \<Rightarrow> create_dummy_patients ds reg
      | Some (u, ids) \<Rightarrow>
          (let (cs, reg') = create_dummy_patients ds (reg @ [registry_patient d u ids])
           in ((u, dp_pid d) # cs, reg')))"

subsection \<open>Step 2: images, uploads and reconciliation\<close>

text \<open>\<open>create_simple_dummy_dicom\<close>: the tags of the generated image that do not depend on
  the clock or the random generator (the UIDs, study date and time and accession
  number do, and the engine reads none of them).\<close>

definition create_simple_dummy_dicom :: "dummy_patient \<Rightarrow> tag_map" where
  "create_simple_dummy_dicom d =
     [(''PatientName'', dp_family d @ ''^'' @ dp_given d),
      (''PatientID'', dp_pid d),
      (''PatientBirthDate'', removeAll CHR ''-'' (dp_birth d)),
      (''PatientSex'', dp_gender d),
      (''StudyDescription'', ''Dummy Chest X-Ray''),
      (''SeriesNumber'', ''1''),
      (''Modality'', ''CR''),
      (''SeriesDescription'', ''Dummy CR Series''),
      (''SOPClassUID'', ''1.2.840.10008.5.1.4.1.1.1.1''),
      (''InstanceNumber'', ''1'')]"

text \<open>The loop \<open>for i, patient_data in enumerate(dummy_patients)\<close>: an image whose
  upload answered is recorded in \<open>created_dicoms\<close>, and reconciled when
  \<open>created_patients and i < len(created_patients)\<close>.\<close>

fun upload_dummies ::
  "nat \<Rightarrow> nat \<Rightarrow> registry \<Rightarrow> archive \<Rightarrow> timestamp \<Rightarrow> (dummy_patient \<times> upload_result option) list \<Rightarrow>
   mapping_store \<Rightarrow> (string option \<times> dummy_patient) list \<times> mapping_outcome list \<times> mapping_store" where
  "upload_dummies i n reg arch now [] st = ([], [], st)"
| "upload_dummies i n reg arch now ((d, up) # ds) st =
     (case up of
        None \<Rightarrow> upload_dummies (Suc i) n reg arch now ds st
      | Some ur \<Rightarrow>
          (if 0 < n \<and> i < n then
             (let (res, st1) = process_dicom_upload reg arch (create_simple_dummy_dicom d)
                                 (ur_parent_patient ur) now st;
                  (dcs, ms, st2) = upload_dummies (Suc i) n reg arch now ds st1
              in ((ur_parent_patient ur, d) # dcs, res # ms, st2))
           else
             (let (dcs, ms, st2) = upload_dummies (Suc i) n reg arch now ds st
              in ((ur_parent_patient ur, d) # dcs, ms, st2))))"

record dummy_summary =
  ds_patients :: nat
  ds_dicoms :: nat
  ds_attempted :: nat
  ds_successful :: nat

datatype dummy_body =
  DummyCreated (dc_summary: dummy_summary) (dc_created: "(uuid \<times> string) list")
    (dc_dicoms: "(string option \<times> dummy_patient) list") (dc_results: "mapping_outcome list")

definition create_dummy_data ::
  "create_answer list \<Rightarrow> upload_result option list \<Rightarrow> registry \<Rightarrow> archive \<Rightarrow> timestamp \<Rightarrow>
   mapping_store \<Rightarrow> (dummy_body response \<times> registry) \<times> mapping_store" where
  "create_dummy_data answers uploads reg arch now st =
     (let (created, reg1) = create_dummy_patients (zip dummy_patients answers) reg;
          (dicoms, ms, st1) = upload_dummies 0 (length created) reg1 arch now (zip dummy_patients uploads) st
      in (((201, DummyCreated
                   \<lparr>ds_patients = length created, ds_dicoms = length dicoms,
                    ds_attempted = length ms, ds_successful = length (filter outcome_success ms)\<rparr>
                   created dicoms ms),
           reg1), st1))"

subsection \<open>Archive answers\<close>

text \<open>An upload answer whose \<open>ParentPatient\<close>, when present, has Orthanc's form.\<close>

definition upload_in_orthanc_format :: "upload_result option \<Rightarrow> bool" where
  "upload_in_orthanc_format u =
     (case u of None \<Rightarrow> True
      | Some ur \<Rightarrow> (case ur_parent_patient ur of None \<Rightarrow> True | Some p \<Rightarrow> orthanc_format p))"

text \<open>Example answers of the archive to the three uploads.\<close>

definition ex_ur :: "string \<Rightarrow> upload_result" where
  "ex_ur p = \<lparr>ur_id = Some ''i'', ur_parent_patient = Some p, ur_parent_study = None,
              ur_parent_series = None, ur_status = Some ''Success''\<rparr>"

definition ex_dummy_uploads :: "upload_result option list" where
  "ex_dummy_uploads = [Some (ex_ur ''0a1b2c3d-4e5f6071-8293a4b5-c6d7e8f9-0a1b2c3d''),
                       Some (ex_ur ''1b2c3d4e-5f607182-93a4b5c6-d7e8f90a-1b2c3d4e''),
                       Some (ex_ur ''2c3d4e5f-60718293-a4b5c6d7-e8f90a1b-2c3d4e5f'')]"

subsection \<open>Lemmas\<close>

lemma create_dummy_patients_eq:
  "create_dummy_patients ds reg =
     (concat (map (\<lambda>(d, a). case a of None \<Rightarrow> [] | Some (u, ids) \<Rightarrow> [(u, dp_pid d)]) ds),
      reg @ concat (map (\<lambda>(d, a). case a of None \<Rightarrow> [] | Some (u, ids) \<Rightarrow> [registry_patient d u ids]) ds))"
  by (induction ds reg rule: create_dummy_patients.induct) (auto split: option.splits)

lemma upload_dummies_preserves:
  assumes step: "\<And>d ur st. (d, Some ur) \<in> set ds \<Longrightarrow> Q st \<Longrightarrow>
                   Q (snd (process_dicom_upload reg arch (create_simple_dummy_dicom d) (ur_parent_patient ur) now st))"
    and q: "Q st"
  shows "Q (snd (snd (upload_dummies i n reg arch now ds st)))"
  using step q
proof (induction i n reg arch now ds st rule: upload_dummies.induct)
  case (1 i n reg arch now st)
  then show ?case by simp
next
  case (2 i n reg arch now d up ds st)
  show ?case
  proof (cases up)
    case None
    with 2 show ?thesis by simp
  next
    case (Some ur)
    obtain res st1 where p: "process_dicom_upload reg arch (create_simple_dummy_dicom d) (ur_parent_patient ur) now st = (res, st1)"
      by (cases "process_dicom_upload reg arch (create_simple_dummy_dicom d) (ur_parent_patient ur) now st")
    have q1: "Q st1" using "2.prems"(1) [of d ur st] "2.prems"(2) p Some by simp
    show ?thesis
    proof (cases "0 < n \<and> i < n")
      case True
      have "Q (snd (snd (upload_dummies (Suc i) n reg arch now ds st1)))"
        using "2.IH"(2) [OF Some True p [symmetric]] "2.prems"(1) q1 by auto
      with Some True p show ?thesis
        by (cases "upload_dummies (Suc i) n reg arch now ds st1") simp
    next
      case False
      have "Q (snd (snd (upload_dummies (Suc i) n reg arch now ds st)))"
        using "2.IH"(3) [OF Some False] "2.prems" by auto
      with Some False show ?thesis
        by (cases "upload_dummies (Suc i) n reg arch now ds st") auto
    qed
  qed
qed

lemma process_dicom_upload_rows:
  assumes inv: "store_inv st"
    and r: "r \<in> set (rows (snd (process_dicom_upload reg arch tags par now st)))"
  shows "r \<in> set (rows st) \<or> par = Some (orthanc_patient_id r)"
proof (cases "process_dicom_upload reg arch tags par now st")
  case (Pair out st')
  from process_dicom_upload_cases [OF Pair] show ?thesis
  proof
    assume "st' = st \<and> (\<forall>m. out \<noteq> Mapped m)"
    with Pair r show ?thesis by simp
  next
    assume "\<exists>opid u m. par = Some opid \<and> opid \<noteq> [] \<and> active_for_archive opid st = None \<and>
              resolve reg (extract_patient_info tags) = Unique u \<and>
              create_and_validate reg arch AUTO opid u now st = (m, st') \<and> out = Mapped m"
    then obtain opid u m where p: "par = Some opid"
      and cv: "create_and_validate reg arch AUTO opid u now st = (m, st')" by blast
    from create_and_validate_result [OF inv cv] Pair r p show ?thesis by auto
  qed
qed

lemma process_dicom_upload_other_free:
  assumes inv: "store_inv st" and free: "active_for_archive p st = None" and other: "par \<noteq> Some p"
  shows "active_for_archive p (snd (process_dicom_upload reg arch tags par now st)) = None"
proof -
  have "\<forall>r \<in> set (rows (snd (process_dicom_upload reg arch tags par now st))).
          \<not> (is_active r \<and> orthanc_patient_id r = p)"
  proof
    fix r assume "r \<in> set (rows (snd (process_dicom_upload reg arch tags par now st)))"
    from process_dicom_upload_rows [OF inv this] show "\<not> (is_active r \<and> orthanc_patient_id r = p)"
    proof
      assume "r \<in> set (rows st)"
      with free show ?thesis by (auto simp: active_for_archive_def find_row_None)
    qed (use other in auto)
  qed
  then show ?thesis by (simp add: active_for_archive_def find_row_None)
qed

lemma create_dummy_data_gating_run:
  assumes ans: "answers = [None, Some ab, Some ac]"
    and up: "uploads = [Some ura, Some urb, Some urc]"
    and par: "ur_parent_patient urc = Some pc" "ur_parent_patient ura \<noteq> Some pc"
      "ur_parent_patient urb \<noteq> Some pc"
    and inv: "store_inv st" and free: "active_for_archive pc st = None"
    and run: "create_dummy_data answers uploads reg arch now st = (((c, DummyCreated s cs dcs ms), reg'), st')"
  shows "ds_patients s = 2 \<and> ds_dicoms s = 3 \<and> ds_attempted s = 2 \<and> reg_exists reg' (fst ac) \<and>
         active_for_archive pc st' = None"
proof -
  obtain u2 ids2 u3 ids3 where a: "ab = (u2, ids2)" "ac = (u3, ids3)" by (cases ab, cases ac)
  let ?reg1 = "reg @ [registry_patient (dummy_patients ! 1) u2 ids2, registry_patient (dummy_patients ! 2) u3 ids3]"
  have cr: "create_dummy_patients (zip dummy_patients answers) reg =
              ([(u2, ''DUMMY002''), (u3, ''DUMMY003'')], ?reg1)"
    by (simp add: ans a create_dummy_patients_eq dummy_patients_def)
  let ?tags = "\<lambda>k. create_simple_dummy_dicom (dummy_patients ! k)"
  obtain res1 st1 where p1: "process_dicom_upload ?reg1 arch (?tags 0) (ur_parent_patient ura) now st = (res1, st1)"
    by (cases "process_dicom_upload ?reg1 arch (?tags 0) (ur_parent_patient ura) now st")
  obtain res2 st2 where p2: "process_dicom_upload ?reg1 arch (?tags 1) (ur_parent_patient urb) now st1 = (res2, st2)"
    by (cases "process_dicom_upload ?reg1 arch (?tags 1) (ur_parent_patient urb) now st1")
  have ud: "upload_dummies 0 (length [(u2, ''DUMMY002''), (u3, ''DUMMY003'')]) ?reg1 arch now (zip dummy_patients uploads) st =
              ([(ur_parent_patient ura, dummy_patients ! 0), (ur_parent_patient urb, dummy_patients ! 1),
                (ur_parent_patient urc, dummy_patients ! 2)], [res1, res2], st2)"
    using p1 p2 by (simp add: up dummy_patients_def)
  have fields: "ds_patients s = 2 \<and> ds_dicoms s = 3 \<and> ds_attempted s = 2 \<and> reg' = ?reg1 \<and> st' = st2"
    using run cr ud by (auto simp: create_dummy_data_def)
  have inv1: "store_inv st1" using process_dicom_upload_inv [OF inv] p1 by (metis snd_conv)
  have "active_for_archive pc st1 = None"
    using process_dicom_upload_other_free [OF inv free par(2)] p1 by (metis snd_conv)
  then have "active_for_archive pc st2 = None"
    using process_dicom_upload_other_free [OF inv1 _ par(3)] p2 by (metis snd_conv)
  moreover have "reg_exists ?reg1 u3"
  proof -
    have "registry_patient (dummy_patients ! 2) u3 ids3 \<in> set ?reg1"
      and "rp_uuid (registry_patient (dummy_patients ! 2) u3 ids3) = u3"
      by (simp_all add: registry_patient_def)
    then show ?thesis unfolding reg_exists_def reg_get_def find_None_iff by blast
  qed
  ultimately show ?thesis using fields a by simp
qed

text \<open>C20: \<open>create_dummy_data\<close> decides whether to reconcile the \<open>i\<close>-th image by
  comparing \<open>i\<close> with the number of registry patients created, not by whether the
  \<open>i\<close>-th patient was created. When the first registry call fails and the other two
  succeed, with all three uploads answered, the report counts two patients, three
  images and two reconciliation attempts, the third test patient exists in the
  registry, and its image's archive patient is left without an active mapping.\<close>
theorem create_dummy_data_position_gating:
  assumes "answers = [None, Some ab, Some ac]" and "uploads = [Some ura, Some urb, Some urc]"
    and "ur_parent_patient urc = Some pc" "ur_parent_patient ura \<noteq> Some pc"
      "ur_parent_patient urb \<noteq> Some pc"
    and "store_inv st" and "active_for_archive pc st = None"
  shows "case create_dummy_data answers uploads reg arch now st of (((c, b), reg'), st') \<Rightarrow>
           ds_patients (dc_summary b) = 2 \<and> ds_dicoms (dc_summary b) = 3 \<and>
           ds_attempted (dc_summary b) = 2 \<and> reg_exists reg' (fst ac) \<and> active_for_archive pc st' = None"
proof -
  obtain c b reg' st' where run: "create_dummy_data answers uploads reg arch now st = (((c, b), reg'), st')"
    by (metis prod.exhaust)
  obtain s cs dcs ms where b: "b = DummyCreated s cs dcs ms" by (cases b)
  from create_dummy_data_gating_run [OF assms run [unfolded b]] run b show ?thesis by simp
qed

theorem create_dummy_data_position_gating_witness:
  "case create_dummy_data [None, Some (''uuid-2'', []), Some (''uuid-3'', [])] ex_dummy_uploads [] ex_archive 1
          empty_store of (((c, b), reg'), st') \<Rightarrow>
     ds_patients (dc_summary b) = 2 \<and> ds_dicoms (dc_summary b) = 3 \<and> ds_attempted (dc_summary b) = 2 \<and>
     reg_exists reg' ''uuid-3'' \<and> active_for_archive ''2c3d4e5f-60718293-a4b5c6d7-e8f90a1b-2c3d4e5f'' st' = None"
  using create_dummy_data_position_gating
      [where ab = "(''uuid-2'', [])" and ac = "(''uuid-3'', [])"
         and pc = "''2c3d4e5f-60718293-a4b5c6d7-e8f90a1b-2c3d4e5f''" and st = empty_store
         and reg = "[]" and arch = ex_archive and now = 1, OF refl ex_dummy_uploads_def]
  by (simp add: ex_ur_def store_inv_def active_for_archive_def find_row_def empty_store_def)

lemma create_dummy_data_store:
  "snd (create_dummy_data answers uploads reg arch now st) =
   snd (snd (upload_dummies 0 (length (fst (create_dummy_patients (zip dummy_patients answers) reg)))
               (snd (create_dummy_patients (zip dummy_patients answers) reg)) arch now
               (zip dummy_patients uploads) st))"
  by (simp add: create_dummy_data_def split: prod.splits)

text \<open>C21: \<open>create_dummy_data\<close> keeps the table invariant, its history and the
  uniqueness of active rows per archive patient, and every row it adds belongs to the
  archive patient of one of the uploaded images.\<close>
theorem create_dummy_data_keeps_invariants:
  assumes inv: "store_inv st" and au: "archive_unique st"
  shows "case create_dummy_data answers uploads reg arch now st of (_, st') \<Rightarrow>
           store_inv st' \<and> keeps_history st st' \<and> archive_unique st' \<and>
           list_all (\<lambda>r. r \<in> set (rows st) \<or>
                          (\<exists>ur. Some ur \<in> set uploads \<and> ur_parent_patient ur = Some (orthanc_patient_id r)))
             (rows st')"
proof -
  let ?Q = "\<lambda>st1. store_inv st1 \<and> keeps_history st st1 \<and> archive_unique st1 \<and>
             list_all (\<lambda>r. r \<in> set (rows st) \<or>
                          (\<exists>ur. Some ur \<in> set uploads \<and> ur_parent_patient ur = Some (orthanc_patient_id r)))
               (rows st1)"
  have "?Q (snd (create_dummy_data answers uploads reg arch now st))"
    unfolding create_dummy_data_store
  proof (rule upload_dummies_preserves)
    fix d ur st1
    assume mem: "(d, Some ur) \<in> set (zip dummy_patients uploads)" and q: "?Q st1"
    let ?st2 = "snd (process_dicom_upload (snd (create_dummy_patients (zip dummy_patients answers) reg)) arch
                  (create_simple_dummy_dicom d) (ur_parent_patient ur) now st1)"
    from mem have up: "Some ur \<in> set uploads" by (rule set_zip_rightD)
    from q have inv1: "store_inv st1" by simp
    have "list_all (\<lambda>r. r \<in> set (rows st) \<or>
            (\<exists>ur. Some ur \<in> set uploads \<and> ur_parent_patient ur = Some (orthanc_patient_id r))) (rows ?st2)"
      unfolding list_all_iff
    proof
      fix r assume "r \<in> set (rows ?st2)"
      from process_dicom_upload_rows [OF inv1 this] q up
      show "r \<in> set (rows st) \<or> (\<exists>ur. Some ur \<in> set uploads \<and> ur_parent_patient ur = Some (orthanc_patient_id r))"
        by (auto simp: list_all_iff)
    qed
    with q show "?Q ?st2"
      by (blast intro: process_dicom_upload_inv process_dicom_upload_archive_unique
                       keeps_history_trans process_dicom_upload_history)
  qed (use inv au in \<open>simp add: list_all_iff\<close>)
  then show ?thesis by (cases "create_dummy_data answers uploads reg arch now st") simp
qed

text \<open>C22: the test mappings \<open>create_dummy_data\<close> creates are invisible to the clean-up:
  when the table and the archive's answers hold only archive ids of Orthanc's form,
  \<open>clear_dummy_data\<close> run after \<open>create_dummy_data\<close> deletes nothing and
  \<open>get_mapping_test_status\<close> counts nothing; the \<open>DUMMY\<close> marker is in the images'
  \<open>PatientID\<close> tag, which the table does not store.\<close>
theorem dummy_data_survives_clear:
  assumes inv: "store_inv st"
    and fmt: "list_all (\<lambda>r. orthanc_format (orthanc_patient_id r)) (rows st)"
    and ufmt: "list_all upload_in_orthanc_format uploads"
  shows "case create_dummy_data answers uploads reg arch now st of (_, st') \<Rightarrow>
           clear_dummy_data st' = ((200, ClearDone 0), st') \<and>
           get_mapping_test_status st' =
             (200, TestStatus \<lparr>ts_total = 0, ts_auto = 0, ts_manual = 0, ts_successful = 0\<rparr> [])"
proof -
  let ?Q = "\<lambda>st1. store_inv st1 \<and> list_all (\<lambda>r. orthanc_format (orthanc_patient_id r)) (rows st1)"
  have "?Q (snd (create_dummy_data answers uploads reg arch now st))"
    unfolding create_dummy_data_store
  proof (rule upload_dummies_preserves)
    fix d ur st1
    assume mem: "(d, Some ur) \<in> set (zip dummy_patients uploads)" and q: "?Q st1"
    let ?st2 = "snd (process_dicom_upload (snd (create_dummy_patients (zip dummy_patients answers) reg)) arch
                  (create_simple_dummy_dicom d) (ur_parent_patient ur) now st1)"
    from mem have "Some ur \<in> set uploads" by (rule set_zip_rightD)
    with ufmt have uf: "upload_in_orthanc_format (Some ur)" by (simp add: list_all_iff)
    have "list_all (\<lambda>r. orthanc_format (orthanc_patient_id r)) (rows ?st2)"
      unfolding list_all_iff
    proof
      fix r assume "r \<in> set (rows ?st2)"
      from process_dicom_upload_rows [OF _ this] q uf
      show "orthanc_format (orthanc_patient_id r)"
        by (auto simp: list_all_iff upload_in_orthanc_format_def)
    qed
    with q show "?Q ?st2" by (blast intro: process_dicom_upload_inv)
  qed (use inv fmt in simp)
  then have "dummy_mappings (snd (create_dummy_data answers uploads reg arch now st)) = []"
    by (blast intro: orthanc_rows_no_dummy)
  then show ?thesis
    by (cases "create_dummy_data answers uploads reg arch now st")
       (simp add: clear_dummy_data_def get_mapping_test_status_def)
qed

lemma empty_store_archive_unique_dd: "archive_unique empty_store"
  by (simp add: archive_unique_def mapped_patient_ids_def get_active_mappings_def empty_store_def)

theorem create_dummy_data_keeps_invariants_witness:
  "case create_dummy_data [Some (''uuid-1'', []), Some (''uuid-2'', []), Some (''uuid-3'', [])] ex_dummy_uploads
          [] ex_archive 1 empty_store of (_, st') \<Rightarrow>
     store_inv st' \<and> keeps_history empty_store st' \<and> archive_unique st' \<and>
     list_all (\<lambda>r. r \<in> set (rows empty_store) \<or>
                    (\<exists>ur. Some ur \<in> set ex_dummy_uploads \<and> ur_parent_patient ur = Some (orthanc_patient_id r)))
       (rows st')"
  using create_dummy_data_keeps_invariants
      [where answers = "[Some (''uuid-1'', []), Some (''uuid-2'', []), Some (''uuid-3'', [])]"
         and uploads = ex_dummy_uploads and reg = "[]" and arch = ex_archive and now = 1,
       OF empty_store_inv empty_store_archive_unique_dd] .

theorem dummy_data_survives_clear_witness:
  "case create_dummy_data [Some (''uuid-1'', []), Some (''uuid-2'', []), Some (''uuid-3'', [])] ex_dummy_uploads
          [] ex_archive 1 empty_store of (_, st') \<Rightarrow>
     clear_dummy_data st' = ((200, ClearDone 0), st') \<and>
     get_mapping_test_status st' =
       (200, TestStatus \<lparr>ts_total = 0, ts_auto = 0, ts_manual = 0, ts_successful = 0\<rparr> [])"
proof -
  have fmt: "list_all (\<lambda>r. orthanc_format (orthanc_patient_id r)) (rows empty_store)"
    by (simp add: empty_store_def)
  have ufmt: "list_all upload_in_orthanc_format ex_dummy_uploads"
    by (simp add: ex_dummy_uploads_def ex_ur_def upload_in_orthanc_format_def orthanc_format_def
        orthanc_id_char_def)
  show ?thesis
    using dummy_data_survives_clear
        [where answers = "[Some (''uuid-1'', []), Some (''uuid-2'', []), Some (''uuid-3'', [])]"
           and reg = "[]" and arch = ex_archive and now = 1, OF empty_store_inv fmt ufmt] .
qed

end
