(* ===== verification/Age.thy ===== *)
theory Age
  imports Prelude "HOL-Library.Product_Lexorder"
begin

text \<open>
  \<open>calculate_age_from_birthdate\<close> of \<open>views.py\<close>: the part of the birth date before a
  \<open>T\<close> is parsed with \<open>datetime.strptime(.., '%Y-%m-%d')\<close>, and the age is the year
  difference to today, less one when today's month and day come before the birthday's.
  Any exception (no string, a string that does not parse, an invalid date) gives
  \<open>None\<close>. The parser follows CPython's \<open>_strptime\<close>: the format becomes the regular
  expression \<open>(\d\d\d\d)-(1[0-2]|0[1-9]|[1-9])-(3[01]|[12]\d|0[1-9]|[1-9]| [1-9])\<close>,
  matched at the start of the string with backtracking; text left after the match is an
  error; the groups are read with \<open>int()\<close>; and the date must exist (year at least 1,
  day within the month, leap years by the Gregorian rule). Digits are ASCII digits
  (Python's \<open>\d\<close> also accepts other Unicode digits, which are not modelled); today
  is an input.
\<close>

subsection \<open>Digits\<close>

definition digit_value :: "char \<Rightarrow> nat" where
  "digit_value c = of_char c - 48"

text \<open>\<open>int(s)\<close> for a string of ASCII digits.\<close>

definition digits_value :: "string \<Rightarrow> nat" where
  "digits_value s = foldl (\<lambda>n c. 10 * n + digit_value c) 0 s"

text \<open>The character class \<open>[lo-hi]\<close> over digits.\<close>

definition digit_in :: "nat \<Rightarrow> nat \<Rightarrow> char \<Rightarrow> bool" where
  "digit_in lo hi c \<longleftrightarrow> is_digit c \<and> lo \<le> digit_value c \<and> digit_value c \<le> hi"

subsection \<open>The regular expression of \<open>'%Y-%m-%d'\<close>\<close>

text \<open>\<open>(?P<Y>\d\d\d\d)\<close>\<close>

definition match_year :: "string \<Rightarrow> (string \<times> string) option" where
  "match_year s = (if 4 \<le> length s \<and> list_all is_digit (take 4 s) then Some (take 4 s, drop 4 s) else None)"

text \<open>\<open>(?P<m>1[0-2]|0[1-9]|[1-9])\<close>: the matches of the alternatives at the start of
  the input, in the order the regular expression tries them.\<close>

fun alts_month :: "string \<Rightarrow> (string \<times> string) list" where
  "alts_month (a # b # r) =
     (if a = CHR ''1'' \<and> digit_in 0 2 b then [([a, b], r)] else []) @
     (if a = CHR ''0'' \<and> digit_in 1 9 b then [([a, b], r)] else []) @
     (if digit_in 1 9 a then [([a], b # r)] else [])"
| "alts_month [a] = (if digit_in 1 9 a then [([a], [])] else [])"
| "alts_month [] = []"

text \<open>\<open>(?P<d>3[0-1]|[1-2]\d|0[1-9]|[1-9]| [1-9])\<close>\<close>

fun alts_day :: "string \<Rightarrow> (string \<times> string) list" where
  "alts_day (a # b # r) =
     (if a = CHR ''3'' \<and> digit_in 0 1 b then [([a, b], r)] else []) @
     (if digit_in 1 2 a \<and> is_digit b then [([a, b], r)] else []) @
     (if a = CHR ''0'' \<and> digit_in 1 9 b then [([a, b], r)] else []) @
     (if digit_in 1 9 a then [([a], b # r)] else []) @
     (if a = CHR '' '' \<and> digit_in 1 9 b then [([a, b], r)] else [])"
| "alts_day [a] = (if digit_in 1 9 a then [([a], [])] else [])"
| "alts_day [] = []"

text \<open>The first candidate for which the rest of the expression matches.\<close>

fun first_match :: "('a \<Rightarrow> 'b option) \<Rightarrow> 'a list \<Rightarrow> 'b option" where
  "first_match f [] = None"
| "first_match f (x # xs) = (case f x of None \<Rightarrow> first_match f xs | Some y \<Rightarrow> Some y)"

text \<open>\<open>format_regex.match(s)\<close>: the groups and the unmatched rest. The day group ends
  the expression, so its first matching alternative ends the match.\<close>

definition match_ymd :: "string \<Rightarrow> (string \<times> string \<times> string \<times> string) option" where
  "match_ymd s =
     (case match_year s of
        None \<Rightarrow> None
      | Some (y, r0) \<Rightarrow>
          (case r0 of
             [] \<Rightarrow> None
           | c # r1 \<Rightarrow>
               if c \<noteq> CHR ''-'' then None
               else first_match
                      (\<lambda>(m, r2). case r2 of
                          [] \<Rightarrow> None
                        | c2 # r3 \<Rightarrow>
                            if c2 \<noteq> CHR ''-'' then None
                            else (case alts_day r3 of [] \<Rightarrow> None | (d, r4) # _ \<Rightarrow> Some (y, m, d, r4)))
                      (alts_month r1)))"

subsection \<open>Dates\<close>

text \<open>\<open>calendar.isleap\<close> and the month lengths of \<open>datetime\<close>.\<close>

definition is_leap :: "nat \<Rightarrow> bool" where
  "is_leap y \<longleftrightarrow> y mod 4 = 0 \<and> (y mod 100 \<noteq> 0 \<or> y mod 400 = 0)"

definition days_in_month :: "nat \<Rightarrow> nat \<Rightarrow> nat" where
  "days_in_month y m =
     (if m = 2 \<and> is_leap y then 29 else [31, 28, 31, 30, 31, 30, 31, 31, 30, 31, 30, 31] ! (m - 1))"

text \<open>\<open>datetime.strptime(s, '%Y-%m-%d')\<close> as the date it denotes, \<open>None\<close> for a
  \<open>ValueError\<close>.\<close>

definition strptime_ymd :: "string \<Rightarrow> (nat \<times> nat \<times> nat) option" where
  "strptime_ymd s =
     (case match_ymd s of
        None \<Rightarrow> None
      | Some (y, m, d, rest) \<Rightarrow>
          if rest \<noteq> [] then None
          else (let year = digits_value y; month = digits_value m;
                    day = digits_value (dropWhile (\<lambda>c. c = CHR '' '') d)
                in if 1 \<le> year \<and> day \<le> days_in_month year month then Some (year, month, day) else None))"

subsection \<open>\<open>calculate_age_from_birthdate\<close>\<close>

text \<open>The argument is \<open>None\<close> when it is not a string; today is year, month and day.\<close>

definition calculate_age_from_birthdate :: "string option \<Rightarrow> nat \<times> nat \<times> nat \<Rightarrow> int option" where
  "calculate_age_from_birthdate birthdate today =
     (case birthdate of
        None \<Rightarrow> None
      | Some s \<Rightarrow>
          if s = [] then None
          else (case strptime_ymd (takeWhile (\<lambda>c. c \<noteq> CHR ''T'') s) of
                  None \<Rightarrow> None
                | Some (by, bm, bd) \<Rightarrow>
                    (case today of (ty, tm, td) \<Rightarrow>
                       Some (int ty - int by - (if (tm, td) < (bm, bd) then 1 else 0)))))"

subsection \<open>Well-formed dates and their ISO form\<close>

definition valid_date :: "nat \<times> nat \<times> nat \<Rightarrow> bool" where
  "valid_date t = (case t of (y, m, d) \<Rightarrow>
     1 \<le> y \<and> y \<le> 9999 \<and> 1 \<le> m \<and> m \<le> 12 \<and> 1 \<le> d \<and> d \<le> days_in_month y m)"

text \<open>\<open>'%0*d' % (w, n)\<close>: the last \<open>w\<close> decimal digits of \<open>n\<close>.\<close>

definition pad_digits :: "nat \<Rightarrow> nat \<Rightarrow> string" where
  "pad_digits w n = map (\<lambda>i. char_of (48 + n div 10 ^ (w - 1 - i) mod 10)) [0..<w]"

text \<open>\<open>date.isoformat()\<close>, the form in which the registry reports birth dates.\<close>

definition iso_date :: "nat \<times> nat \<times> nat \<Rightarrow> string" where
  "iso_date t = (case t of (y, m, d) \<Rightarrow> pad_digits 4 y @ ''-'' @ pad_digits 2 m @ ''-'' @ pad_digits 2 d)"

subsection \<open>Lemmas\<close>

lemma of_char_digit [simp]: "(k::nat) < 10 \<Longrightarrow> of_char (char_of (48 + k)) = (48 + k :: nat)"
  by simp

lemma char_of_eq_iff_of_char:
  fixes n :: nat assumes "n < 256"
  shows "(char_of n = c) \<longleftrightarrow> (of_char c = n)"
proof
  assume "char_of n = c"
  then show "of_char c = n" using assms by auto
next
  assume "of_char c = n"
  then have "char_of (of_char c :: nat) = char_of n" by simp
  then show "char_of n = c" by simp
qed

lemma char_of_digit_eq:
  "(k::nat) < 10 \<Longrightarrow> (char_of (48 + k) = c) \<longleftrightarrow> (of_char c = (48 + k :: nat))"
  by (rule char_of_eq_iff_of_char) simp

lemma digit_char [simp]:
  "(k::nat) < 10 \<Longrightarrow> is_digit (char_of (48 + k))"
  "(k::nat) < 10 \<Longrightarrow> digit_value (char_of (48 + k)) = k"
  by (simp_all add: is_digit_def digit_value_def)

lemma digits_value_snoc [simp]: "digits_value (xs @ [c]) = 10 * digits_value xs + digit_value c"
  by (simp add: digits_value_def)

lemma pad_digits_Suc: "pad_digits (Suc w) n = pad_digits w (n div 10) @ [char_of (48 + n mod 10)]"
proof -
  have "map (\<lambda>i. char_of (48 + n div 10 ^ (Suc w - 1 - i) mod 10)) [0..<w] =
        map (\<lambda>i. char_of (48 + n div 10 div 10 ^ (w - 1 - i) mod 10)) [0..<w]"
  proof (rule map_cong [OF refl])
    fix i assume "i \<in> set [0..<w]"
    then have "Suc w - 1 - i = Suc (w - 1 - i)" by auto
    then show "char_of (48 + n div 10 ^ (Suc w - 1 - i) mod 10) =
               char_of (48 + n div 10 div 10 ^ (w - 1 - i) mod 10)"
      by (simp add: div_mult2_eq)
  qed
  then show ?thesis by (simp add: pad_digits_def)
qed

lemma pad_digits_value: "digits_value (pad_digits w n) = n mod 10 ^ w"
proof (induction w arbitrary: n)
  case 0
  then show ?case by (simp add: pad_digits_def digits_value_def)
next
  case (Suc w)
  have "n mod 10 ^ Suc w = n mod 10 + 10 * (n div 10 mod 10 ^ w)"
    by (simp add: mod_mult2_eq)
  with Suc show ?case by (simp add: pad_digits_Suc)
qed

lemma pad_digits_digits: "list_all is_digit (pad_digits w n)"
  by (simp add: pad_digits_def list_all_iff)

lemma length_pad_digits [simp]: "length (pad_digits w n) = w"
  by (simp add: pad_digits_def)

lemma pad_digits_2: "pad_digits 2 n = [char_of (48 + n div 10 mod 10), char_of (48 + n mod 10)]"
  by (simp add: pad_digits_def upt_rec)

lemma digit_value_le: "is_digit c \<Longrightarrow> digit_value c \<le> 9"
  unfolding is_digit_def digit_value_def Let_def by linarith

lemma digits_value_foldl_bound:
  "list_all is_digit xs \<Longrightarrow> foldl (\<lambda>n c. 10 * n + digit_value c) a xs < (a + 1) * 10 ^ length xs"
proof (induction xs arbitrary: a)
  case Nil
  then show ?case by simp
next
  case (Cons c xs)
  then have "foldl (\<lambda>n c. 10 * n + digit_value c) (10 * a + digit_value c) xs
               < (10 * a + digit_value c + 1) * 10 ^ length xs" by simp
  also have "\<dots> \<le> (a + 1) * 10 ^ length (c # xs)"
  proof -
    have "digit_value c + 1 \<le> 10" using digit_value_le [of c] Cons.prems by simp
    then have "(10 * a + digit_value c + 1) * 10 ^ length xs \<le> (10 * a + 10) * 10 ^ length xs"
      by (intro mult_right_mono) simp_all
    then show ?thesis by (simp add: algebra_simps)
  qed
  finally show ?case by simp
qed

lemma digits_value_bound: "list_all is_digit xs \<Longrightarrow> digits_value xs < 10 ^ length xs"
  using digits_value_foldl_bound [of xs 0] by (simp add: digits_value_def)

lemma digits_value_two [simp]: "digits_value [a, b] = 10 * digit_value a + digit_value b"
  by (simp add: digits_value_def)

lemma alts_month_range:
  "(m, r) \<in> set (alts_month s) \<Longrightarrow> 1 \<le> digits_value m \<and> digits_value m \<le> 12"
  by (induction s rule: alts_month.induct)
     (auto simp: digit_in_def digit_value_def digits_value_def split: if_splits)

lemma digit_not_space: "is_digit c \<Longrightarrow> c \<noteq> CHR '' ''"
  by (auto simp: is_digit_def)

lemma alts_day_range:
  "(d, r) \<in> set (alts_day s) \<Longrightarrow> 1 \<le> digits_value (dropWhile (\<lambda>c. c = CHR '' '') d)"
  by (induction s rule: alts_day.induct)
     (auto simp: digit_in_def digit_value_def digits_value_def dest: digit_not_space split: if_splits)

lemma first_match_Some: "first_match f xs = Some y \<Longrightarrow> \<exists>x \<in> set xs. f x = Some y"
  by (induction f xs rule: first_match.induct) (auto split: option.splits)

lemma first_match_None: "first_match f xs = None \<longleftrightarrow> (\<forall>x \<in> set xs. f x = None)"
  by (induction f xs rule: first_match.induct) (auto split: option.splits)

lemma first_match_cong [fundef_cong]:
  "xs = ys \<Longrightarrow> (\<And>x. x \<in> set ys \<Longrightarrow> f x = g x) \<Longrightarrow> first_match f xs = first_match g ys"
  by (induction g ys arbitrary: xs rule: first_match.induct) (auto split: option.splits)

lemma match_ymd_Some:
  assumes "match_ymd s = Some (y, m, d, r)"
  shows "length y = 4 \<and> list_all is_digit y \<and> (\<exists>s1 r1. (m, r1) \<in> set (alts_month s1)) \<and>
         (\<exists>s3 r3. (d, r3) \<in> set (alts_day s3))"
proof -
  obtain y0 r0 where my: "match_year s = Some (y0, r0)"
    using assms by (auto simp: match_ymd_def split: option.splits)
  then have y0: "length y0 = 4 \<and> list_all is_digit y0"
    by (auto simp: match_year_def split: if_splits)
  obtain c r1 where r0: "r0 = c # r1" using assms my by (cases r0) (auto simp: match_ymd_def)
  from assms my r0 obtain x where x: "x \<in> set (alts_month r1)"
    and fx: "(case x of (m', r2) \<Rightarrow> (case r2 of [] \<Rightarrow> None | c2 # r3 \<Rightarrow>
               if c2 \<noteq> CHR ''-'' then None
               else (case alts_day r3 of [] \<Rightarrow> None | (d', r4) # _ \<Rightarrow> Some (y0, m', d', r4)))) =
             Some (y, m, d, r)"
    by (auto simp: match_ymd_def split: if_splits dest!: first_match_Some)
  obtain m' r2 where xm: "x = (m', r2)" by (cases x)
  from fx xm obtain c2 r3 where "r2 = c2 # r3" by (cases r2) auto
  with fx xm have "y = y0 \<and> m = m' \<and> (\<exists>r4. (d, r4) \<in> set (alts_day r3))"
    by (auto split: if_splits list.splits)
  with x xm y0 show ?thesis by blast
qed

lemma strptime_ymd_valid: "strptime_ymd s = Some t \<Longrightarrow> valid_date t"
proof -
  assume st: "strptime_ymd s = Some t"
  then obtain y m d where md: "match_ymd s = Some (y, m, d, [])"
    by (auto simp: strptime_ymd_def split: option.splits if_splits)
  note parts = match_ymd_Some [OF md]
  then have "digits_value y < 10000" using digits_value_bound [of y] by auto
  moreover have "1 \<le> digits_value m \<and> digits_value m \<le> 12" using parts alts_month_range by blast
  moreover have "1 \<le> digits_value (dropWhile (\<lambda>c. c = CHR '' '') d)" using parts alts_day_range by blast
  ultimately show "valid_date t"
    using st md by (auto simp: strptime_ymd_def valid_date_def Let_def split: if_splits)
qed

lemma alts_month_pad:
  assumes "1 \<le> m" "m \<le> 12"
  shows "\<exists>rest. alts_month (pad_digits 2 m @ r) = (pad_digits 2 m, r) # rest"
proof (cases "10 \<le> m")
  case True
  then have "m = 10 \<or> m = 11 \<or> m = 12" using assms by auto
  then have "m div 10 mod 10 = 1" "m mod 10 \<le> 2" by auto
  then show ?thesis by (simp add: pad_digits_2 char_of_eq_iff_of_char digit_in_def is_digit_def digit_value_def)
next
  case False
  then have "m div 10 mod 10 = 0" "1 \<le> m mod 10" "m mod 10 \<le> 9" using assms by auto
  then show ?thesis by (simp add: pad_digits_2 char_of_eq_iff_of_char digit_in_def is_digit_def digit_value_def)
qed

lemma alts_day_pad:
  assumes "1 \<le> d" "d \<le> 31"
  shows "\<exists>rest. alts_day (pad_digits 2 d) = (pad_digits 2 d, []) # rest"
proof -
  consider "30 \<le> d" | "10 \<le> d" "d < 30" | "d < 10" by linarith
  then show ?thesis
  proof cases
    case 1
    then have "d = 30 \<or> d = 31" using assms by auto
    then have "d div 10 mod 10 = 3" "d mod 10 \<le> 1" by auto
    then show ?thesis by (simp add: pad_digits_2 char_of_eq_iff_of_char digit_in_def is_digit_def digit_value_def)
  next
    case 2
    then have "1 \<le> d div 10 mod 10" "d div 10 mod 10 \<le> 2" by auto
    then show ?thesis by (simp add: pad_digits_2 char_of_eq_iff_of_char digit_in_def is_digit_def digit_value_def)
  next
    case 3
    then have "d div 10 mod 10 = 0" "1 \<le> d mod 10" using assms by auto
    then show ?thesis by (simp add: pad_digits_2 char_of_eq_iff_of_char digit_in_def is_digit_def digit_value_def)
  qed
qed

lemma days_in_month_le: "1 \<le> m \<Longrightarrow> m \<le> 12 \<Longrightarrow> days_in_month y m \<le> 31"
proof -
  assume "1 \<le> m" "m \<le> 12"
  then have "m - 1 < length [31, 28, 31, 30, 31, 30, 31, 31, 30, 31, 30, 31::nat]" by simp
  then have "[31, 28, 31, 30, 31, 30, 31, 31, 30, 31, 30, 31::nat] ! (m - 1) \<in> {28, 30, 31}"
    by (auto simp: nth_Cons' split: if_splits)
  then show ?thesis by (auto simp: days_in_month_def)
qed

lemma match_ymd_iso:
  assumes m: "1 \<le> m" "m \<le> 12" and d: "1 \<le> d" "d \<le> 31"
  shows "match_ymd (iso_date (y, m, d)) = Some (pad_digits 4 y, pad_digits 2 m, pad_digits 2 d, [])"
proof -
  obtain rm where am: "alts_month (pad_digits 2 m @ CHR ''-'' # pad_digits 2 d) =
                       (pad_digits 2 m, CHR ''-'' # pad_digits 2 d) # rm"
    using alts_month_pad [OF m] by blast
  obtain rd where ad: "alts_day (pad_digits 2 d) = (pad_digits 2 d, []) # rd"
    using alts_day_pad [OF d] by blast
  show ?thesis
    using am ad pad_digits_digits [of 4 y] by (simp add: iso_date_def match_ymd_def match_year_def)
qed

lemma strptime_ymd_iso_eq:
  assumes "1 \<le> m" "m \<le> 12" "1 \<le> d" "d \<le> 31" "y \<le> 9999"
  shows "strptime_ymd (iso_date (y, m, d)) =
           (if 1 \<le> y \<and> d \<le> days_in_month y m then Some (y, m, d) else None)"
proof -
  have "dropWhile (\<lambda>c. c = CHR '' '') (pad_digits 2 d) = pad_digits 2 d"
    by (simp add: pad_digits_2 char_of_digit_eq)
  then show ?thesis
    using match_ymd_iso [OF assms(1-4), of y] assms by (simp add: strptime_ymd_def pad_digits_value)
qed

lemma valid_date_ranges:
  assumes "valid_date (y, m, d)"
  shows "1 \<le> m \<and> m \<le> 12 \<and> 1 \<le> d \<and> d \<le> 31 \<and> 1 \<le> y \<and> y \<le> 9999 \<and> d \<le> days_in_month y m"
proof -
  from assms have r: "1 \<le> y" "y \<le> 9999" "1 \<le> m" "m \<le> 12" "1 \<le> d" "d \<le> days_in_month y m"
    by (simp_all add: valid_date_def)
  then have "days_in_month y m \<le> 31" by (intro days_in_month_le)
  with r show ?thesis by linarith
qed

lemma strptime_ymd_iso: "valid_date t \<Longrightarrow> strptime_ymd (iso_date t) = Some t"
proof (cases t)
  case (fields y m d)
  assume "valid_date t"
  with fields have r: "1 \<le> m \<and> m \<le> 12 \<and> 1 \<le> d \<and> d \<le> 31 \<and> 1 \<le> y \<and> y \<le> 9999 \<and> d \<le> days_in_month y m"
    by (simp only: valid_date_ranges)
  then have "strptime_ymd (iso_date (y, m, d)) = Some (y, m, d)"
    by (simp only: strptime_ymd_iso_eq) simp
  with fields show ?thesis by simp
qed

lemma iso_date_no_T: "c \<in> set (iso_date t) \<Longrightarrow> c \<noteq> CHR ''T''"
proof -
  have nd: "\<not> is_digit CHR ''T''" and nd2: "CHR ''-'' \<noteq> CHR ''T''" by (simp_all add: is_digit_def)
  have "\<And>w n. CHR ''T'' \<notin> set (pad_digits w n)"
    using pad_digits_digits nd by (metis list_all_iff)
  then show "c \<in> set (iso_date t) \<Longrightarrow> c \<noteq> CHR ''T''"
    using nd2 by (cases t) (auto simp: iso_date_def)
qed

lemma takeWhile_iso_date:
  assumes "suffix = [] \<or> hd suffix = CHR ''T''"
  shows "takeWhile (\<lambda>c. c \<noteq> CHR ''T'') (iso_date t @ suffix) = iso_date t"
proof -
  have "takeWhile (\<lambda>c. c \<noteq> CHR ''T'') suffix = []" using assms by (cases suffix) auto
  then show ?thesis using iso_date_no_T by (simp add: takeWhile_append2)
qed

lemma iso_date_nonempty: "iso_date t \<noteq> []"
  by (cases t) (simp add: iso_date_def)

text \<open>C23: the parser of \<open>calculate_age_from_birthdate\<close> reads back exactly the dates it
  should: the ISO form of a date (four-digit year, two-digit month and day) parses to
  that date if and only if the date exists (year 1 to 9999, month 1 to 12, day within
  the month, 29 February only in leap years).\<close>
theorem strptime_iso_roundtrip: "strptime_ymd (iso_date t) = Some t \<longleftrightarrow> valid_date t"
  using strptime_ymd_iso strptime_ymd_valid by blast

lemma calculate_age_iso:
  assumes valid: "valid_date (by, bm, bd)" and sfx: "suffix = [] \<or> hd suffix = CHR ''T''"
  shows "calculate_age_from_birthdate (Some (iso_date (by, bm, bd) @ suffix)) (ty, tm, td) =
           Some (int ty - int by - (if (tm, td) < (bm, bd) then 1 else 0))"
  using strptime_ymd_iso [OF valid] iso_date_nonempty
  by (simp add: calculate_age_from_birthdate_def takeWhile_iso_date [OF sfx])

text \<open>C24: for a birth date in ISO form, optionally followed by a time part starting with
  \<open>T\<close> as the registry reports it, \<open>calculate_age_from_birthdate\<close> returns the number of
  whole years from the birth date to today: adding it to the birth year gives a date no
  later than today, and adding one more gives a date later than today.\<close>
theorem calculate_age_whole_years:
  assumes valid: "valid_date (by, bm, bd)" and sfx: "suffix = [] \<or> hd suffix = CHR ''T''"
  shows "\<exists>a. calculate_age_from_birthdate (Some (iso_date (by, bm, bd) @ suffix)) (ty, tm, td) = Some a \<and>
             (int by + a, bm, bd) \<le> (int ty, tm, td) \<and> (int ty, tm, td) < (int by + a + 1, bm, bd)"
proof -
  let ?a = "int ty - int by - (if (tm, td) < (bm, bd) then 1 else 0)"
  have "(int by + ?a, bm, bd) \<le> (int ty, tm, td) \<and> (int ty, tm, td) < (int by + ?a + 1, bm, bd)"
    by (auto simp: less_prod_def less_eq_prod_def)
  with calculate_age_iso [OF valid sfx] show ?thesis by blast
qed

text \<open>A date string naming a day that its month does not have (such as 29 February
  of a common year, or 31 April) makes \<open>strptime\<close> raise, and
  \<open>calculate_age_from_birthdate\<close> answers \<open>None\<close>.\<close>
theorem calculate_age_rejects_missing_day:
  assumes "1 \<le> y" "y \<le> 9999" "1 \<le> m" "m \<le> 12" "days_in_month y m < d" "d \<le> 31"
  shows "calculate_age_from_birthdate (Some (iso_date (y, m, d))) today = None"
proof -
  have "strptime_ymd (iso_date (y, m, d)) = None"
    using strptime_ymd_iso_eq [of m d y] assms by simp
  moreover have tw: "takeWhile (\<lambda>c. c \<noteq> CHR ''T'') (iso_date (y, m, d)) = iso_date (y, m, d)"
    using takeWhile_iso_date [of "[]" "(y, m, d)"] by (metis append_Nil2)
  ultimately show ?thesis
    using iso_date_nonempty by (simp add: calculate_age_from_birthdate_def tw)
qed


theorem strptime_iso_roundtrip_witness:
  "strptime_ymd (iso_date (2024, 2, 29)) = Some (2024, 2, 29) \<and> strptime_ymd (iso_date (2023, 2, 29)) \<noteq> Some (2023, 2, 29)"
  using strptime_iso_roundtrip [of "(2024, 2, 29)"] strptime_iso_roundtrip [of "(2023, 2, 29)"]
  by (simp add: valid_date_def days_in_month_def is_leap_def)

theorem calculate_age_whole_years_witness:
  "valid_date (1985, 3, 15) \<and> hd ''T00:00:00.000+0000'' = CHR ''T'' \<and>
   calculate_age_from_birthdate (Some (iso_date (1985, 3, 15) @ ''T00:00:00.000+0000'')) (2025, 3, 14) = Some 39 \<and>
   (\<exists>a. calculate_age_from_birthdate (Some (iso_date (1985, 3, 15) @ ''T00:00:00.000+0000'')) (2025, 3, 14) = Some a \<and>
        (int 1985 + a, 3::nat, 15::nat) \<le> (int 2025, 3, 14) \<and> (int 2025, 3::nat, 14::nat) < (int 1985 + a + 1, 3, 15))"
proof -
  have v: "valid_date (1985, 3, 15)" by (simp add: valid_date_def days_in_month_def is_leap_def)
  have h: "hd ''T00:00:00.000+0000'' = CHR ''T''" by simp
  have r: "calculate_age_from_birthdate (Some (iso_date (1985, 3, 15) @ ''T00:00:00.000+0000'')) (2025, 3, 14) = Some 39"
    using calculate_age_iso [OF v, of "''T00:00:00.000+0000''" 2025 3 14] h by simp
  show ?thesis using calculate_age_whole_years [OF v, of "''T00:00:00.000+0000''" 2025 3 14] v h r by simp
qed

theorem calculate_age_rejects_missing_day_witness:
  "(1::nat) \<le> 2023 \<and> days_in_month 2023 2 < 29 \<and>
   calculate_age_from_birthdate (Some (iso_date (2023, 2, 29))) (2025, 1, 1) = None"
proof -
  have "days_in_month 2023 2 < 29" by (simp add: days_in_month_def is_leap_def)
  then show ?thesis using calculate_age_rejects_missing_day [of 2023 2 29 "(2025, 1, 1)"] by simp
qed

end
