(* ===== verification/OcsLogs.thy ===== *)
theory OcsLogs
  imports Age "HOL-Library.List_Lexorder" "HOL-Library.Char_ord" "HOL-Library.Multiset"
begin

text \<open>
  The order-communication log application (\<open>src/backend/ocs\<close>). Its views
  (\<open>ocs/views.py\<close>) store and query laboratory log rows through a model \<open>LISLog\<close> and
  merge them with the documents of a MongoDB collection; the rows are modelled with
  exactly the fields the views read and write. A date-time is the tuple (year, month,
  day, hour, minute, second, microsecond), ordered lexicographically, which is the
  order of \<open>datetime\<close> values of one time zone. Strings compare as Python compares
  them, by code points and with a proper prefix first (\<open>List_Lexorder\<close> over
  \<open>Char_ord\<close>; UTF-8 bytes compare as the code points they encode).
\<close>

type_synonym datetime = "nat \<times> nat \<times> nat \<times> nat \<times> nat \<times> nat \<times> nat"

subsection \<open>The log rows\<close>

record lis_log =
  lis_id :: nat
  lis_step :: string
  lis_patient_id :: string
  lis_doctor_id :: string
  lis_order_id :: "string option"
  lis_sample_id :: "string option"
  lis_request_detail :: "string option"
  lis_result_detail :: "string option"
  lis_created_at :: datetime

record lis_table =
  lis_rows :: "lis_log list"
  lis_next :: nat

text \<open>The request values: \<open>request.data\<close> or \<open>request.GET\<close> as an association list.\<close>

type_synonym query = "(string \<times> string) list"

subsection \<open>\<open>LISLogListAPIView.get_queryset\<close>\<close>

text \<open>\<open>order_by('-created_at')\<close>; rows created at the same instant keep their key order.\<close>

definition newest_first :: "lis_log list \<Rightarrow> lis_log list" where
  "newest_first ls = sort_desc_key lis_created_at ls"

definition lis_list_queryset :: "string option \<Rightarrow> lis_table \<Rightarrow> lis_log list" where
  "lis_list_queryset patient_id tbl =
     (if py_truthy patient_id
      then newest_first (filter (\<lambda>l. lis_patient_id l = the patient_id) (lis_rows tbl))
      else newest_first (lis_rows tbl))"

subsection \<open>\<open>create_log_view\<close>\<close>

datatype create_log_body = LogMissingFields | LogCreated nat

definition create_log_view ::
  "query \<Rightarrow> datetime \<Rightarrow> lis_table \<Rightarrow> create_log_body response \<times> lis_table" where
  "create_log_view data now tbl =
     (let patient_id = lookup_default [] data ''patient_id'';
          doctor_id = lookup_default [] data ''doctor_id'';
          order_id = map_of data ''order_id'';
          sample_id = map_of data ''sample_id'';
          step = lookup_default [] data ''step'';
          request_detail = lookup_default [] data ''request_detail'';
          result_detail = lookup_default [] data ''result_detail''
      in if \<not> (patient_id \<noteq> [] \<and> doctor_id \<noteq> [] \<and> step \<noteq> []) then ((400, LogMissingFields), tbl)
         else (let log = \<lparr>lis_id = lis_next tbl, lis_step = step, lis_patient_id = patient_id,
                         lis_doctor_id = doctor_id, lis_order_id = order_id, lis_sample_id = sample_id,
                         lis_request_detail = Some request_detail, lis_result_detail = Some result_detail,
                         lis_created_at = now\<rparr>
               in ((201, LogCreated (lis_next tbl)),
                   tbl\<lparr>lis_rows := lis_rows tbl @ [log], lis_next := Suc (lis_next tbl)\<rparr>)))"

subsection \<open>\<open>get_logs_view\<close>\<close>

text \<open>What \<open>parse_datetime\<close> and \<open>make_aware\<close> make of a date parameter: no usable
  value (the parameter is missing or empty, or the text is not a date-time, and the
  filter is skipped), a naive date-time made aware in the one time zone of the model,
  or a \<open>ValueError\<close>: \<open>parse_datetime\<close> raises it for a well-formed but impossible
  date-time, and \<open>make_aware\<close> for a text with a UTC offset, which parses to an aware
  date-time.\<close>

datatype date_param = NoDate | ParsedDate datetime | InvalidDate

datatype logs_body = LogsList "lis_log list" | LogsError

text \<open>The filters applied one after the other, as the view narrows its queryset.\<close>

definition get_logs_view ::
  "string option \<Rightarrow> string option \<Rightarrow> string option \<Rightarrow> date_param \<Rightarrow> date_param \<Rightarrow> lis_table \<Rightarrow>
   logs_body response" where
  "get_logs_view patient_id doctor_id step start_date end_date tbl =
     (let logs0 = lis_rows tbl;
          logs1 = (if py_truthy patient_id then filter (\<lambda>l. lis_patient_id l = the patient_id) logs0 else logs0);
          logs2 = (if py_truthy doctor_id then filter (\<lambda>l. lis_doctor_id l = the doctor_id) logs1 else logs1);
          logs3 = (if py_truthy step then filter (\<lambda>l. lis_step l = the step) logs2 else logs2)
      in case start_date of
           InvalidDate \<Rightarrow> (500, LogsError)
         | _ \<Rightarrow>
           (let logs4 = (case start_date of ParsedDate dt \<Rightarrow> filter (\<lambda>l. dt \<le> lis_created_at l) logs3
                                           | _ \<Rightarrow> logs3)
            in case end_date of
                 InvalidDate \<Rightarrow> (500, LogsError)
               | _ \<Rightarrow>
                 (let logs5 = (case end_date of ParsedDate dt \<Rightarrow> filter (\<lambda>l. lis_created_at l \<le> dt) logs4
                                                | _ \<Rightarrow> logs4)
                  in (200, LogsList (newest_first logs5)))))"

subsection \<open>\<open>combined_log_view\<close>\<close>

text \<open>\<open>strftime("%Y-%m-%d %H:%M:%S")\<close>: the year in decimal without padding (the C
  library's \<open>%Y\<close>, \<open>show_dec\<close>), the other fields as two digits; microseconds are dropped.\<close>

definition fmt_datetime :: "datetime \<Rightarrow> string" where
  "fmt_datetime t = (case t of (y, mo, d, h, mi, s, us) \<Rightarrow>
     show_dec y @ ''-'' @ pad_digits 2 mo @ ''-'' @ pad_digits 2 d @ '' '' @
     pad_digits 2 h @ '':'' @ pad_digits 2 mi @ '':'' @ pad_digits 2 s)"

record combined_row =
  cr_patient_id :: "string option"
  cr_doctor_id :: "string option"
  cr_request_type :: "string option"
  cr_request_and_result :: "string option"
  cr_time :: string
  cr_diagnosis_detail :: "string option"

text \<open>\<open>x or ''\<close> for a text column that may be null.\<close>

definition py_or_empty :: "string option \<Rightarrow> string" where
  "py_or_empty x = (case x of None \<Rightarrow> [] | Some s \<Rightarrow> s)"

text \<open>A LIS row in the merged list; the request type is the Korean word for
  examination, written as its UTF-8 bytes.\<close>

definition lis_entry :: "lis_log \<Rightarrow> combined_row" where
  "lis_entry l =
     \<lparr>cr_patient_id = Some (lis_patient_id l), cr_doctor_id = Some (lis_doctor_id l),
      cr_request_type = Some [CHR 0xEA, CHR 0xB2, CHR 0x80, CHR 0xEC, CHR 0x82, CHR 0xAC],
      cr_request_and_result =
        Some (py_strip (py_or_empty (lis_request_detail l) @ [CHR 0x0A] @
                        py_or_empty (lis_result_detail l))),
      cr_time = fmt_datetime (lis_created_at l),
      cr_diagnosis_detail = Some ''-''\<rparr>"

text \<open>A MongoDB document: each field absent, or present with a value (JSON \<open>null\<close> is
  \<open>Some None\<close>); the timestamp is absent or falsy, a date-time, or some other truthy
  value, whose \<open>strftime\<close> raises.\<close>

datatype mongo_ts = NoTimestamp | TsDate datetime | TsOther

record mongo_doc =
  md_patient_id :: "string option option"
  md_doctor_id :: "string option option"
  md_request_type :: "string option option"
  md_request_detail :: "string option option"
  md_diagnosis_detail :: "string option option"
  md_timestamp :: mongo_ts

text \<open>\<open>log.get(key, "-")\<close>\<close>

definition get_dash :: "string option option \<Rightarrow> string option" where
  "get_dash v = (case v of None \<Rightarrow> Some ''-'' | Some x \<Rightarrow> x)"

text \<open>One document of the loop; \<open>None\<close> when building it raises.\<close>

definition mongo_entry :: "mongo_doc \<Rightarrow> combined_row option" where
  "mongo_entry doc =
     (case md_timestamp doc of
        TsOther \<Rightarrow> None
      | ts \<Rightarrow> Some \<lparr>cr_patient_id = get_dash (md_patient_id doc), cr_doctor_id = get_dash (md_doctor_id doc),
                   cr_request_type = get_dash (md_request_type doc),
                   cr_request_and_result = get_dash (md_request_detail doc),
                   cr_time = (case ts of TsDate t \<Rightarrow> fmt_datetime t | _ \<Rightarrow> ''-''),
                   cr_diagnosis_detail = get_dash (md_diagnosis_detail doc)\<rparr>)"

text \<open>The \<open>try\<close> block over the collection: the documents as \<open>find().sort("timestamp", -1)\<close>
  returns them, or the exception of the connection; any exception, also one raised
  by a single document, leaves \<open>mongo_data = []\<close>.\<close>

fun mongo_loop :: "mongo_doc list \<Rightarrow> combined_row list option" where
  "mongo_loop [] = Some []"
| "mongo_loop (doc # docs) =
     (case mongo_entry doc of
        None \<Rightarrow> None
      | Some e \<Rightarrow> (case mongo_loop docs of None \<Rightarrow> None | Some es \<Rightarrow> Some (e # es)))"

definition mongo_data :: "mongo_doc list ext \<Rightarrow> combined_row list" where
  "mongo_data docs = (case docs of Inl _ \<Rightarrow> [] | Inr ds \<Rightarrow> (case mongo_loop ds of None \<Rightarrow> [] | Some es \<Rightarrow> es))"

definition combined_log_view :: "lis_table \<Rightarrow> mongo_doc list ext \<Rightarrow> combined_row list response" where
  "combined_log_view tbl docs =
     (let lis_data = map lis_entry (newest_first (lis_rows tbl));
          combined = lis_data @ mongo_data docs
      in (200, sort_desc_key cr_time combined))"

subsection \<open>The reference of \<open>get_logs_view\<close>\<close>

text \<open>A row satisfies the query when it satisfies every filter whose parameter is given.\<close>

definition log_matches ::
  "string option \<Rightarrow> string option \<Rightarrow> string option \<Rightarrow> date_param \<Rightarrow> date_param \<Rightarrow> lis_log \<Rightarrow> bool" where
  "log_matches patient_id doctor_id step start_date end_date l \<longleftrightarrow>
     (if py_truthy patient_id then lis_patient_id l = the patient_id else True) \<and>
     (if py_truthy doctor_id then lis_doctor_id l = the doctor_id else True) \<and>
     (if py_truthy step then lis_step l = the step else True) \<and>
     (case start_date of ParsedDate dt \<Rightarrow> dt \<le> lis_created_at l | _ \<Rightarrow> True) \<and>
     (case end_date of ParsedDate dt \<Rightarrow> lis_created_at l \<le> dt | _ \<Rightarrow> True)"

subsection \<open>The table invariant and the formatted times\<close>

text \<open>The primary keys of the table are distinct and below the next key the database
  hands out.\<close>

definition lis_inv :: "lis_table \<Rightarrow> bool" where
  "lis_inv tbl \<longleftrightarrow>
     distinct (map lis_id (lis_rows tbl)) \<and> list_all (\<lambda>l. lis_id l < lis_next tbl) (lis_rows tbl)"

text \<open>A date-time whose \<open>strftime\<close> text has the fixed width of the format: a
  four-digit year and two-digit fields.\<close>

definition fmt_exact :: "datetime \<Rightarrow> bool" where
  "fmt_exact t = (case t of (y, mo, d, h, mi, s, us) \<Rightarrow>
     1000 \<le> y \<and> y < 10000 \<and> mo < 100 \<and> d < 100 \<and> h < 100 \<and> mi < 100 \<and> s < 100)"

definition to_second :: "datetime \<Rightarrow> nat \<times> nat \<times> nat \<times> nat \<times> nat \<times> nat" where
  "to_second t = (case t of (y, mo, d, h, mi, s, us) \<Rightarrow> (y, mo, d, h, mi, s))"

subsection \<open>Examples\<close>

definition ex_old_log :: lis_log where
  "ex_old_log = \<lparr>lis_id = 1, lis_step = ''order'', lis_patient_id = ''P1'', lis_doctor_id = ''D1'',
     lis_order_id = None, lis_sample_id = None, lis_request_detail = Some ''CBC'',
     lis_result_detail = None, lis_created_at = (2024, 5, 1, 9, 30, 0, 0)\<rparr>"

definition ex_lis_table :: lis_table where
  "ex_lis_table = \<lparr>lis_rows = [ex_old_log], lis_next = 2\<rparr>"

definition ex_log_data :: query where
  "ex_log_data = [(''patient_id'', ''P1''), (''doctor_id'', ''D1''), (''step'', ''result'')]"

definition ex_bad_doc :: mongo_doc where
  "ex_bad_doc = \<lparr>md_patient_id = Some (Some ''P1''), md_doctor_id = None, md_request_type = None,
     md_request_detail = None, md_diagnosis_detail = None, md_timestamp = TsOther\<rparr>"

subsection \<open>Lemmas: digits and formatted times\<close>

lemma pad_digits_Cons:
  "pad_digits (Suc w) n = char_of (48 + n div 10 ^ w mod 10) # pad_digits w n"
proof -
  have "[0..<Suc w] = 0 # map Suc [0..<w]" by (simp add: map_Suc_upt upt_conv_Cons)
  then show ?thesis by (simp add: pad_digits_def comp_def)
qed

lemma digit_char_less:
  "(x::nat) < 10 \<Longrightarrow> y < 10 \<Longrightarrow> char_of (48 + x) < char_of (48 + y) \<longleftrightarrow> x < y"
  by (simp add: less_char_def)

lemma num_lex_less:
  fixes x y r s P :: nat
  assumes "r < P" "s < P"
  shows "x * P + r < y * P + s \<longleftrightarrow> x < y \<or> (x = y \<and> r < s)"
proof (cases x y rule: linorder_cases)
  case less
  have "x * P + r < (x + 1) * P" using assms by simp
  moreover have "(x + 1) * P \<le> y * P" using less by (intro mult_le_mono1) simp
  ultimately show ?thesis using less by linarith
next
  case greater
  have "y * P + s < (y + 1) * P" using assms by simp
  moreover have "(y + 1) * P \<le> x * P" using greater by (intro mult_le_mono1) simp
  ultimately show ?thesis using greater by linarith
qed simp

lemma pad_digits_less: "pad_digits w a < pad_digits w b \<longleftrightarrow> a mod 10 ^ w < b mod 10 ^ w"
proof (induction w)
  case 0
  then show ?case by (simp add: pad_digits_def)
next
  case (Suc w)
  have m: "\<And>n::nat. n mod 10 ^ Suc w = (n div 10 ^ w mod 10) * 10 ^ w + n mod 10 ^ w"
    by (metis add.commute mod_mult2_eq mult.commute power_Suc2)
  have "(a div 10 ^ w mod 10) * 10 ^ w + a mod 10 ^ w < (b div 10 ^ w mod 10) * 10 ^ w + b mod 10 ^ w
        \<longleftrightarrow> a div 10 ^ w mod 10 < b div 10 ^ w mod 10 \<or>
            (a div 10 ^ w mod 10 = b div 10 ^ w mod 10 \<and> a mod 10 ^ w < b mod 10 ^ w)"
    by (rule num_lex_less) simp_all
  with Suc.IH show ?case
    unfolding m by (simp add: pad_digits_Cons digit_char_less)
qed

lemma pad_digits_eq: "pad_digits w a = pad_digits w b \<longleftrightarrow> a mod 10 ^ w = b mod 10 ^ w"
  using pad_digits_less [of w a b] pad_digits_less [of w b a]
  by (metis linorder_neqE_nat not_less_iff_gr_or_eq)

lemma append_less_same_length:
  "length xs = length ys \<Longrightarrow> (xs @ us < ys @ vs) \<longleftrightarrow> (xs < ys \<or> (xs = ys \<and> us < (vs :: 'a::linorder list)))"
proof (induction xs ys rule: list_induct2)
  case Nil
  then show ?case by simp
next
  case (Cons x xs y ys)
  then show ?case by (auto simp: Cons_less_Cons)
qed

lemma show_dec_pad:
  "10 ^ w \<le> n \<Longrightarrow> n < 10 ^ Suc w \<Longrightarrow> show_dec n = pad_digits (Suc w) n"
proof (induction w arbitrary: n)
  case 0
  then show ?case by (simp add: show_dec_small pad_digits_def)
next
  case (Suc w)
  have ge: "10 \<le> n"
    using Suc.prems(1) order_trans [of 10 "10 ^ Suc w" n] by simp
  have "(10 * 10 ^ w) div 10 \<le> n div 10"
    using Suc.prems(1) by (intro div_le_mono) simp
  moreover have "n div 10 < 10 ^ Suc w"
    using Suc.prems(2) by (intro less_mult_imp_div_less) (simp add: mult.commute)
  ultimately have "10 ^ w \<le> n div 10" "n div 10 < 10 ^ Suc w" by simp_all
  with Suc.IH [of "n div 10"] ge show ?case
    by (simp add: show_dec_big pad_digits_Suc)
qed
lemma fmt_datetime_blocks:
  assumes "fmt_exact (y, mo, d, h, mi, s, us)"
  shows "fmt_datetime (y, mo, d, h, mi, s, us) =
    pad_digits 4 y @ ''-'' @ pad_digits 2 mo @ ''-'' @ pad_digits 2 d @ '' '' @
    pad_digits 2 h @ '':'' @ pad_digits 2 mi @ '':'' @ pad_digits 2 s"
proof -
  have "show_dec y = pad_digits (Suc 3) y"
    using assms by (intro show_dec_pad) (simp_all add: fmt_exact_def)
  then show ?thesis by (simp add: fmt_datetime_def numeral_eq_Suc)
qed

lemma fmt_datetime_less:
  assumes "fmt_exact a" "fmt_exact b"
  shows "fmt_datetime a < fmt_datetime b \<longleftrightarrow> to_second a < to_second b"
proof -
  obtain y mo d h mi s us where a: "a = (y, mo, d, h, mi, s, us)" by (cases a) auto
  obtain y' mo' d' h' mi' s' us' where b: "b = (y', mo', d', h', mi', s', us')" by (cases b) auto
  show ?thesis using assms unfolding a b
    by (simp add: fmt_datetime_blocks append_less_same_length length_pad_digits pad_digits_less
                  pad_digits_eq fmt_exact_def to_second_def) (simp add: le_less; blast)
qed

subsection \<open>Lemmas: the merged list\<close>

lemma mset_sort_desc_key: "mset (sort_desc_key f xs) = mset xs"
  by (simp add: sort_desc_key_def)
lemma show_dec_Cons: "\<exists>k rest. k < (10::nat) \<and> show_dec n = char_of (48 + k) # rest"
proof (induction n rule: show_dec.induct)
  case (1 n)
  show ?case
  proof (cases "n < 10")
    case True
    then show ?thesis by (intro exI [of _ n] exI [of _ "[]"]) (simp add: show_dec_small)
  next
    case False
    with 1 obtain k :: nat and rest where "k < 10" "show_dec (n div 10) = char_of (48 + k) # rest" by auto
    with False show ?thesis by (auto simp add: show_dec_big)
  qed
qed

lemma dash_less_fmt_datetime: "''-'' < fmt_datetime t"
proof -
  obtain k :: nat and rest where k: "k < 10" "show_dec (fst t) = char_of (48 + k) # rest"
    using show_dec_Cons by blast
  then have "CHR ''-'' < char_of (48 + k)" by (simp add: less_char_def of_char_of)
  then show ?thesis using k by (cases t) (simp add: fmt_datetime_def)
qed

lemma mongo_loop_None: "mongo_loop ds = None \<longleftrightarrow> (\<exists>d \<in> set ds. mongo_entry d = None)"
  by (induction ds) (auto split: option.splits)

lemma mongo_loop_Some: "mongo_loop ds = Some es \<Longrightarrow> e \<in> set es \<Longrightarrow> \<exists>d \<in> set ds. mongo_entry d = Some e"
  by (induction ds arbitrary: es) (auto split: option.splits)

lemma mongo_entry_None: "mongo_entry d = None \<longleftrightarrow> md_timestamp d = TsOther"
  by (simp add: mongo_entry_def split: mongo_ts.splits)

lemma mongo_entry_time:
  "mongo_entry d = Some e \<Longrightarrow> cr_time e \<in> insert ''-'' (range fmt_datetime)"
  by (auto simp: mongo_entry_def split: mongo_ts.splits)

lemma mongo_data_time:
  assumes "e \<in> set (mongo_data docs)"
  shows " cr_time e \<in> insert ''-'' (range fmt_datetime)"
proof (cases docs)
  case (Inr ds)
  with assms show ?thesis
    by (cases "mongo_loop ds") (auto simp: mongo_data_def dest: mongo_loop_Some mongo_entry_time)
qed (use assms in \<open>simp add: mongo_data_def\<close>)

lemma combined_time:
  "e \<in> set (snd (combined_log_view tbl docs)) \<Longrightarrow> cr_time e \<in> insert ''-'' (range fmt_datetime)"
  by (auto simp: combined_log_view_def lis_entry_def dest: mongo_data_time)

lemma combined_sorted:
  "sorted_wrt (\<lambda>a b. cr_time b \<le> cr_time a) (snd (combined_log_view tbl docs))"
  by (simp add: combined_log_view_def sorted_wrt_sort_desc_key)

lemma combined_dash_last:
  "snd (combined_log_view tbl docs) =
     filter (\<lambda>r. cr_time r \<noteq> ''-'') (snd (combined_log_view tbl docs)) @
     filter (\<lambda>r. cr_time r = ''-'') (snd (combined_log_view tbl docs))"
proof -
  have "cr_time y < cr_time x"
    if "x \<in> set (snd (combined_log_view tbl docs))" "y \<in> set (snd (combined_log_view tbl docs))"
       "cr_time x \<noteq> ''-''" "cr_time y = ''-''" for x y
    using combined_time [OF that(1)] that(3,4) dash_less_fmt_datetime by auto
  then show ?thesis
    using sorted_wrt_partition [OF combined_sorted, where P = "\<lambda>r. cr_time r \<noteq> ''-''"] by simp
qed

lemma to_second_mono: "b \<le> a \<Longrightarrow> to_second b \<le> to_second (a :: datetime)"
  by (cases a; cases b) (auto simp: to_second_def)

lemma fmt_datetime_mono:
  "fmt_exact a \<Longrightarrow> fmt_exact b \<Longrightarrow> b \<le> a \<Longrightarrow> fmt_datetime b \<le> fmt_datetime a"
  using fmt_datetime_less [of a b] to_second_mono [of b a] by (simp add: not_less [symmetric])

lemma newest_first_sorted: "sorted_wrt (\<lambda>a b. lis_created_at b \<le> lis_created_at a) (newest_first ls)"
  by (simp add: newest_first_def sorted_wrt_sort_desc_key)

lemma lis_entries_sorted:
  assumes "list_all (\<lambda>l. fmt_exact (lis_created_at l)) ls"
  shows "sorted_wrt (\<lambda>a b. cr_time b \<le> cr_time a) (map lis_entry (newest_first ls))"
  unfolding sorted_wrt_map
proof (rule sorted_wrt_mono_rel [OF _ newest_first_sorted])
  fix x y assume "x \<in> set (newest_first ls)" "y \<in> set (newest_first ls)"
    "lis_created_at y \<le> lis_created_at x"
  with assms show "cr_time (lis_entry y) \<le> cr_time (lis_entry x)"
    by (simp add: lis_entry_def newest_first_def list_all_iff fmt_datetime_mono)
qed

lemma mongo_data_failure:
  "TsOther \<in> md_timestamp ` set ds \<Longrightarrow> mongo_data (Inr ds) = []"
proof -
  assume "TsOther \<in> md_timestamp ` set ds"
  then have "mongo_loop ds = None" unfolding mongo_loop_None mongo_entry_None by (metis image_iff)
  then show ?thesis by (simp add: mongo_data_def)
qed

subsection \<open>Properties of the log views\<close>

text \<open>C26: \<open>get_logs_view\<close>, which narrows its queryset one filter after the other,
  answers 500 when a date parameter is an impossible date-time and otherwise lists, newest
  first, exactly the rows that satisfy every given filter.\<close>

theorem get_logs_view_reference:
  "get_logs_view patient_id doctor_id step start_date end_date tbl =
     (if start_date = InvalidDate \<or> end_date = InvalidDate then (500, LogsError)
      else (200, LogsList (newest_first (filter (log_matches patient_id doctor_id step start_date end_date)
                                               (lis_rows tbl)))))"
proof -
  have f: "\<And>c P xs. (if c then filter P xs else xs) = filter (\<lambda>x. if c then P x else True) xs"
    by simp
  show ?thesis
    by (cases start_date; cases end_date; simp add: get_logs_view_def Let_def f filter_filter;
        (intro arg_cong [where f = newest_first] filter_cong refl; auto simp: log_matches_def)?)
qed

text \<open>C27: the merged list of \<open>combined_log_view\<close> answers 200 and is sorted by its time
  text, newest first; it holds exactly the LIS rows and the Mongo entries, and entries
  with the same time text keep the order of the LIS rows (newest first) followed by the
  Mongo documents.\<close>

theorem combined_log_view_merge:
  "fst (combined_log_view tbl docs) = 200 \<and>
   sorted_wrt (\<lambda>a b. cr_time b \<le> cr_time a) (snd (combined_log_view tbl docs)) \<and>
   mset (snd (combined_log_view tbl docs)) = mset (map lis_entry (lis_rows tbl)) + mset (mongo_data docs) \<and>
   (\<forall>k. filter (\<lambda>r. cr_time r = k) (snd (combined_log_view tbl docs)) =
        filter (\<lambda>r. cr_time r = k) (map lis_entry (newest_first (lis_rows tbl)) @ mongo_data docs))"
  by (simp add: sorted_wrt_sort_desc_key combined_log_view_def sort_desc_key_stable mset_sort_desc_key
                newest_first_def)

text \<open>The Mongo entries without a timestamp (time text \<open>"-"\<close>) come after every
  entry with a time, in the order they had.\<close>

theorem combined_log_view_undated_last:
  "snd (combined_log_view tbl docs) =
     filter (\<lambda>r. cr_time r \<noteq> ''-'') (snd (combined_log_view tbl docs)) @
     filter (\<lambda>r. cr_time r = ''-'') (snd (combined_log_view tbl docs))"
  by (rule combined_dash_last)

text \<open>C29: for years of four digits, the time texts of \<open>strftime("%Y-%m-%d %H:%M:%S")\<close>
  compare as strings as the date-times compare, to the second; so sorting by the text
  is sorting by time.\<close>

theorem fmt_datetime_order:
  "fmt_exact a \<Longrightarrow> fmt_exact b \<Longrightarrow> fmt_datetime a < fmt_datetime b \<longleftrightarrow> to_second a < to_second b"
  by (rule fmt_datetime_less)

theorem fmt_datetime_order_witness:
  "fmt_datetime (2024, 3, 5, 9, 0, 0, 0) < fmt_datetime (2024, 12, 1, 0, 0, 0, 0)"
  using fmt_datetime_order [of "(2024, 3, 5, 9, 0, 0, 0)" "(2024, 12, 1, 0, 0, 0, 0)"]
  by (simp add: fmt_exact_def to_second_def)

text \<open>C30: \<open>create_log_view\<close> answers 400 exactly when the patient, the doctor or the
  step is missing or empty, and then leaves the table unchanged; every answer keeps the
  keys of the table distinct and below the next key.\<close>

theorem create_log_view_validation:
  assumes "lis_inv tbl"
  shows "lis_inv (snd (create_log_view data now tbl)) \<and>
    (fst (fst (create_log_view data now tbl)) = 400 \<longleftrightarrow>
       lookup_default [] data ''patient_id'' = [] \<or> lookup_default [] data ''doctor_id'' = [] \<or>
       lookup_default [] data ''step'' = []) \<and>
    (fst (fst (create_log_view data now tbl)) = 400 \<longrightarrow> snd (create_log_view data now tbl) = tbl)"
  using assms by (auto simp: create_log_view_def lis_inv_def Let_def list_all_iff)

theorem create_log_view_validation_witness:
  "lis_inv (snd (create_log_view ex_log_data (2024, 5, 1, 10, 0, 0, 0) ex_lis_table)) \<and>
   fst (fst (create_log_view ex_log_data (2024, 5, 1, 10, 0, 0, 0) ex_lis_table)) \<noteq> 400"
  using create_log_view_validation [of ex_lis_table ex_log_data "(2024, 5, 1, 10, 0, 0, 0)"]
  by (simp add: lis_inv_def ex_lis_table_def ex_old_log_def ex_log_data_def)

text \<open>C31: a log created later than every row of the table is the first row of the
  list of its patient, which otherwise is unchanged.\<close>

theorem create_then_list_newest:
  assumes "fst (fst (create_log_view data now tbl)) = 201"
    and "list_all (\<lambda>l. lis_created_at l < now) (lis_rows tbl)"
  shows "\<exists>log. lis_id log = lis_next tbl \<and> lis_patient_id log = lookup_default [] data ''patient_id'' \<and>
    lis_created_at log = now \<and>
    lis_list_queryset (Some (lookup_default [] data ''patient_id'')) (snd (create_log_view data now tbl)) =
      log # lis_list_queryset (Some (lookup_default [] data ''patient_id'')) tbl"
  using assms
  by (auto simp: create_log_view_def lis_list_queryset_def newest_first_def Let_def list_all_iff
                 sort_desc_key_append_max split: if_splits)

theorem create_then_list_newest_witness:
  "lis_id (hd (lis_list_queryset (Some ''P1'')
     (snd (create_log_view ex_log_data (2024, 5, 1, 10, 0, 0, 0) ex_lis_table)))) = 2"
proof -
  have "fst (fst (create_log_view ex_log_data (2024, 5, 1, 10, 0, 0, 0) ex_lis_table)) = 201"
    by (simp add: ex_lis_table_def ex_log_data_def create_log_view_def)
  moreover have "list_all (\<lambda>l. lis_created_at l < (2024, 5, 1, 10, 0, 0, 0)) (lis_rows ex_lis_table)"
    by (simp add: ex_lis_table_def ex_old_log_def)
  ultimately obtain log where "lis_id log = 2"
    "lis_list_queryset (Some ''P1'') (snd (create_log_view ex_log_data (2024, 5, 1, 10, 0, 0, 0) ex_lis_table)) =
       log # lis_list_queryset (Some ''P1'') ex_lis_table"
    using create_then_list_newest [of ex_log_data "(2024, 5, 1, 10, 0, 0, 0)" ex_lis_table]
    by (auto simp: ex_lis_table_def ex_log_data_def)
  then show ?thesis by simp
qed

text \<open>C32: one Mongo document whose timestamp is neither missing nor a date-time makes
  the whole Mongo part empty; the merged list is then the LIS rows, newest first, when
  their years have four digits.\<close>

theorem mongo_failure_drops_all:
  assumes "TsOther \<in> md_timestamp ` set ds"
    and "list_all (\<lambda>l. fmt_exact (lis_created_at l)) (lis_rows tbl)"
  shows "snd (combined_log_view tbl (Inr ds)) = map lis_entry (newest_first (lis_rows tbl))"
  using assms by (simp add: combined_log_view_def mongo_data_failure sort_desc_key_id lis_entries_sorted)

theorem mongo_failure_drops_all_witness:
  "snd (combined_log_view ex_lis_table (Inr [ex_bad_doc])) = map lis_entry (newest_first [ex_old_log])"
  using mongo_failure_drops_all [of "[ex_bad_doc]" ex_lis_table]
  by (simp add: ex_bad_doc_def ex_lis_table_def ex_old_log_def fmt_exact_def)

end
