(* ===== verification/Routing.thy ===== *)
theory Routing
  imports Age
begin

text \<open>
  The URL table of the integration application (\<open>medical_integration/urls.py\<close>) and
  the way Django and the REST framework serve it. A route of \<open>path()\<close> is a list of
  literal texts and converters; it matches a path when the whole path is the
  literals with, at each converter, a non-empty run of the converter's characters
  (\<open>[^/]+\<close> for \<open>str\<close>, \<open>[0-9]+\<close> for \<open>int\<close>), the regular expression's greedy search
  trying the longest run first. \<open>url_resolve\<close> (Django's \<open>resolve\<close>) answers the first route of the table that
  matches, with the converted keyword arguments; \<open>reverse\<close> builds the path of a named
  route and accepts it only when the route matches it. A handler decorated with
  \<open>@api_view([...])\<close> runs for the listed methods, answers \<open>OPTIONS\<close> with the
  framework's metadata when \<open>OPTIONS\<close> is not listed, and answers 405 otherwise.
\<close>

subsection \<open>Routes\<close>

datatype conv = StrC | IntC

datatype part = Lit string | Conv conv string

text \<open>A keyword argument of a view: a string (\<open>str\<close>) or a number (\<open>int\<close>).\<close>

datatype arg = SArg string | IArg nat

type_synonym kwargs = "(string \<times> arg) list"

text \<open>The characters a converter's regular expression accepts.\<close>

definition conv_ok :: "conv \<Rightarrow> char \<Rightarrow> bool" where
  "conv_ok c ch = (case c of StrC \<Rightarrow> ch \<noteq> CHR ''/'' | IntC \<Rightarrow> is_digit ch)"

text \<open>\<open>to_python\<close> of the converter: the text itself, or \<open>int(text)\<close>.\<close>

definition to_python :: "conv \<Rightarrow> string \<Rightarrow> arg" where
  "to_python c s = (case c of StrC \<Rightarrow> SArg s | IntC \<Rightarrow> IArg (digits_value s))"

text \<open>\<open>to_url\<close> and the \<open>%s\<close> substitution of \<open>reverse\<close>: \<open>str(value)\<close>.\<close>

definition to_url :: "arg \<Rightarrow> string" where
  "to_url a = (case a of SArg s \<Rightarrow> s | IArg n \<Rightarrow> show_dec n)"

text \<open>\<open>regex.fullmatch(path)\<close> of a route: the keyword arguments in the order of the
  route's converters.\<close>

fun match_parts :: "part list \<Rightarrow> string \<Rightarrow> kwargs option" where
  "match_parts [] s = (if s = [] then Some [] else None)"
| "match_parts (Lit l # ps) s =
     (if take (length l) s = l then match_parts ps (drop (length l) s) else None)"
| "match_parts (Conv c n # ps) s =
     first_match (\<lambda>k. if list_all (conv_ok c) (take k s)
                     then map_option (Cons (n, to_python c (take k s))) (match_parts ps (drop k s))
                     else None)
       (rev [1..<Suc (length s)])"

text \<open>The path \<open>reverse\<close> substitutes for a route: each converter replaced by the text
  of its keyword argument; \<open>None\<close> when an argument is missing.\<close>

fun fill :: "part list \<Rightarrow> kwargs \<Rightarrow> string option" where
  "fill [] kw = Some []"
| "fill (Lit l # ps) kw = map_option (\<lambda>r. l @ r) (fill ps kw)"
| "fill (Conv c n # ps) kw =
     (case map_of kw n of None \<Rightarrow> None
      | Some a \<Rightarrow> map_option (\<lambda>r. to_url a @ r) (fill ps kw))"

fun params :: "part list \<Rightarrow> string list" where
  "params [] = []"
| "params (Lit l # ps) = params ps"
| "params (Conv c n # ps) = n # params ps"

text \<open>Keyword arguments a route's converters produce: one per converter, in order,
  a non-empty text without \<open>/\<close> for \<open>str\<close> and a number for \<open>int\<close>.\<close>

fun convs :: "part list \<Rightarrow> (conv \<times> string) list" where
  "convs [] = []"
| "convs (Lit l # ps) = convs ps"
| "convs (Conv c n # ps) = (c, n) # convs ps"

definition arg_ok :: "conv \<Rightarrow> arg \<Rightarrow> bool" where
  "arg_ok c a = (case (c, a) of
     (StrC, SArg s) \<Rightarrow> s \<noteq> [] \<and> list_all (conv_ok StrC) s
   | (IntC, IArg n) \<Rightarrow> True
   | _ \<Rightarrow> False)"

definition kw_ok :: "part list \<Rightarrow> kwargs \<Rightarrow> bool" where
  "kw_ok ps kw = list_all2 (\<lambda>(c, n) (n', a). n' = n \<and> arg_ok c a) (convs ps) kw"

subsection \<open>The handlers and the table\<close>

datatype view =
    HealthCheck | TestAllConnections | CreatePatient | SearchPatients | GetPatient
  | GetAllPatientsSimple | SearchOrthancPatients | GetOrthancPatient
  | UploadDicomWithAutoMapping | GetPatientDicomStudies | GetDicomStudyDetails
  | GetPatientMappings | CreatePatientMapping | CreateManualPatientMapping
  | GetPatientMapping | DeletePatientMapping | SyncPatientMapping
  | GetUnmappedOrthancPatients | BatchAutoMapping | CreateDummyData | ClearDummyData
  | GetMappingTestStatus | ProxyOpenmrsProviders | GetAllOpenmrsPatients
  | GetPatientByIdentifier | GetMappingStatus | CreateTestMapping

record url_pattern =
  up_route :: "part list"
  up_view :: view
  up_name :: string

definition url_path :: "part list \<Rightarrow> view \<Rightarrow> string \<Rightarrow> url_pattern" where
  "url_path r v n = \<lparr>up_route = r, up_view = v, up_name = n\<rparr>"

definition urlpatterns :: "url_pattern list" where
  "urlpatterns = [
    url_path [Lit ''health/''] HealthCheck ''health_check'',
    url_path [Lit ''test-connections/''] TestAllConnections ''test_connections'',
    url_path [Lit ''openmrs/patients/create/''] CreatePatient ''create_openmrs_patient'',
    url_path [Lit ''openmrs/patients/search/''] SearchPatients ''search_openmrs_patients'',
    url_path [Lit ''openmrs/patients/'', Conv StrC ''uuid'', Lit ''/''] GetPatient ''get_openmrs_patient'',
    url_path [Lit ''openmrs/patients/''] GetAllPatientsSimple ''get_all_patients'',
    url_path [Lit ''orthanc/patients/search/''] SearchOrthancPatients ''search_orthanc_patients'',
    url_path [Lit ''orthanc/patients/'', Conv StrC ''patient_id'', Lit ''/''] GetOrthancPatient ''get_orthanc_patient'',
    url_path [Lit ''dicom/upload-with-mapping/''] UploadDicomWithAutoMapping ''upload_dicom_with_auto_mapping'',
    url_path [Lit ''dicom/upload/''] UploadDicomWithAutoMapping ''upload_dicom'',
    url_path [Lit ''patients/'', Conv StrC ''patient_uuid'', Lit ''/dicom-studies/''] GetPatientDicomStudies ''get_patient_dicom_studies'',
    url_path [Lit ''dicom/studies/'', Conv StrC ''study_id'', Lit ''/details/''] GetDicomStudyDetails ''get_dicom_study_details'',
    url_path [Lit ''patient-mappings/''] GetPatientMappings ''get_patient_mappings'',
    url_path [Lit ''patient-mappings/create/''] CreatePatientMapping ''create_patient_mapping'',
    url_path [Lit ''patient-mappings/manual/''] CreateManualPatientMapping ''create_manual_patient_mapping'',
    url_path [Lit ''patient-mappings/'', Conv IntC ''mapping_id'', Lit ''/''] GetPatientMapping ''get_patient_mapping'',
    url_path [Lit ''patient-mappings/'', Conv IntC ''mapping_id'', Lit ''/delete/''] DeletePatientMapping ''delete_patient_mapping'',
    url_path [Lit ''patient-mappings/'', Conv IntC ''mapping_id'', Lit ''/sync/''] SyncPatientMapping ''sync_patient_mapping'',
    url_path [Lit ''orthanc/unmapped-patients/''] GetUnmappedOrthancPatients ''get_unmapped_orthanc_patients'',
    url_path [Lit ''mappings/batch-auto-mapping/''] BatchAutoMapping ''batch_auto_mapping'',
    url_path [Lit ''dummy-data/create/''] CreateDummyData ''create_dummy_data'',
    url_path [Lit ''dummy-data/clear/''] ClearDummyData ''clear_dummy_data'',
    url_path [Lit ''mappings/test-status/''] GetMappingTestStatus ''get_mapping_test_status'',
    url_path [Lit ''openmrs/providers/''] ProxyOpenmrsProviders ''openmrs_providers'',
    url_path [Lit ''openmrs-patients/''] GetAllOpenmrsPatients ''get_all_openmrs_patients'']"

text \<open>The methods of each handler's \<open>@api_view\<close> decorator (for
  \<open>delete_patient_mapping\<close>, the second definition, which the module name is bound to).\<close>

fun api_methods :: "view \<Rightarrow> string list" where
  "api_methods CreatePatient = [''POST'', ''OPTIONS'']"
| "api_methods UploadDicomWithAutoMapping = [''POST'']"
| "api_methods CreatePatientMapping = [''POST'']"
| "api_methods CreateManualPatientMapping = [''POST'']"
| "api_methods DeletePatientMapping = [''DELETE'']"
| "api_methods SyncPatientMapping = [''POST'']"
| "api_methods BatchAutoMapping = [''POST'']"
| "api_methods CreateDummyData = [''POST'']"
| "api_methods ClearDummyData = [''DELETE'']"
| "api_methods CreateTestMapping = [''POST'']"
| "api_methods _ = [''GET'']"

subsection \<open>Resolution, reversal and dispatch\<close>

definition url_resolve :: "url_pattern list \<Rightarrow> string \<Rightarrow> (view \<times> kwargs) option" where
  "url_resolve pats s = first_match (\<lambda>p. map_option (Pair (up_view p)) (match_parts (up_route p) s)) pats"

text \<open>\<open>reverse(name, kwargs=...)\<close>: the candidates of the name, the last route first
  (the resolver fills its reverse dictionary from the end of the table); a candidate
  needs exactly its converters' names as keys, and its path must match it.\<close>

definition reverse :: "url_pattern list \<Rightarrow> string \<Rightarrow> kwargs \<Rightarrow> string option" where
  "reverse pats name kw =
     first_match (\<lambda>p. if up_name p = name \<and> set (map fst kw) = set (params (up_route p))
                      then (case fill (up_route p) kw of
                              None \<Rightarrow> None
                            | Some s \<Rightarrow> if match_parts (up_route p) s = None then None else Some s)
                      else None)
       (rev pats)"

datatype dispatch_result = NotFound | NotAllowed | Metadata | Call view kwargs

text \<open>\<open>APIView.dispatch\<close> of the resolved handler; \<open>request.method\<close> is upper case.\<close>

definition dispatch :: "string \<Rightarrow> string \<Rightarrow> dispatch_result" where
  "dispatch meth s =
     (case url_resolve urlpatterns s of
        None \<Rightarrow> NotFound
      | Some (v, kw) \<Rightarrow>
          if meth \<in> set (api_methods v) then Call v kw
          else if meth = ''OPTIONS'' then Metadata
          else NotAllowed)"

text \<open>The handlers whose model changes the mapping table or the registry (theories
  \<open>MappingViews\<close>, \<open>BatchSweep\<close>, \<open>PatientViews\<close>, \<open>Maintenance\<close>, \<open>DummyData\<close>).\<close>

fun changes_state :: "view \<Rightarrow> bool" where
  "changes_state CreatePatient = True"
| "changes_state UploadDicomWithAutoMapping = True"
| "changes_state CreatePatientMapping = True"
| "changes_state CreateManualPatientMapping = True"
| "changes_state DeletePatientMapping = True"
| "changes_state SyncPatientMapping = True"
| "changes_state BatchAutoMapping = True"
| "changes_state CreateDummyData = True"
| "changes_state ClearDummyData = True"
| "changes_state CreateTestMapping = True"
| "changes_state _ = False"

text \<open>The path of a route without converters.\<close>

definition lits :: "part list \<Rightarrow> string" where
  "lits ps = concat (map (\<lambda>q. case q of Lit l \<Rightarrow> l | Conv c n \<Rightarrow> []) ps)"

text \<open>The requests whose path an earlier route of the table also matches.\<close>

definition shadowed_requests :: "(string \<times> kwargs) list" where
  "shadowed_requests = [(''get_openmrs_patient'', [(''uuid'', SArg ''create'')]),
                        (''get_openmrs_patient'', [(''uuid'', SArg ''search'')]),
                        (''get_orthanc_patient'', [(''patient_id'', SArg ''search'')])]"

subsection \<open>Lemmas: matching a route\<close>

lemma conv_ok_slash [simp]: "\<not> conv_ok c CHR ''/''"
  by (simp add: conv_ok_def is_digit_def split: conv.splits)

lemma first_match_only:
  "k0 \<in> set ks \<Longrightarrow> (\<And>k. k \<in> set ks \<Longrightarrow> k \<noteq> k0 \<Longrightarrow> g k = None) \<Longrightarrow> first_match g ks = g k0"
proof (induction ks)
  case Nil
  then show ?case by simp
next
  case (Cons k ks)
  show ?case
  proof (cases "k = k0")
    case True
    have "first_match g ks = None" if "g k0 = None"
      using Cons.prems(2) that True by (auto simp: first_match_None)
    with True show ?thesis by (auto split: option.splits)
  next
    case False
    with Cons show ?thesis by simp
  qed
qed

lemma match_parts_lit_only: "match_parts [Lit l] s = (if s = l then Some [] else None)"
proof (cases "take (length l) s = l \<and> drop (length l) s = []")
  case True
  then have "s = l" by (metis append_Nil2 append_take_drop_id)
  then show ?thesis by simp
next
  case False
  then have "s \<noteq> l" by auto
  with False show ?thesis by auto
qed

lemma match_parts_conv_slash:
  assumes x: "x \<noteq> []" "list_all (conv_ok c) x"
  shows "match_parts (Conv c n # Lit (CHR ''/'' # l) # ps) (x @ CHR ''/'' # r) =
         map_option (Cons (n, to_python c x)) (match_parts (Lit (CHR ''/'' # l) # ps) (CHR ''/'' # r))"
proof -
  let ?s = "x @ CHR ''/'' # r"
  let ?g = "\<lambda>k. if list_all (conv_ok c) (take k ?s)
                 then map_option (Cons (n, to_python c (take k ?s)))
                        (match_parts (Lit (CHR ''/'' # l) # ps) (drop k ?s))
                 else None"
  have "1 \<le> length x" "length x < Suc (length ?s)"
    using x(1) by (simp_all add: Suc_le_eq)
  then have mem: "length x \<in> set (rev [1..<Suc (length ?s)])"
    by (simp only: set_rev set_upt atLeastLessThan_iff)
  have other: "?g k = None" if "k \<in> set (rev [1..<Suc (length ?s)])" "k \<noteq> length x" for k
  proof (cases "k < length x")
    case True
    then have "conv_ok c (x ! k)" using x(2) by (simp add: list_all_length)
    then have ne: "x ! k \<noteq> CHR ''/''" by auto
    have d: "drop k ?s = x ! k # drop (Suc k) x @ CHR ''/'' # r"
      using True by (simp add: Cons_nth_drop_Suc)
    have "match_parts (Lit (CHR ''/'' # l) # ps) (drop k ?s) = None"
      unfolding d using ne by simp
    then show ?thesis by (simp only: option.map(1) if_cancel)
  next
    case False
    with that have "length x < k" by simp
    then have "take k ?s = x @ CHR ''/'' # take (k - Suc (length x)) r"
      by (simp add: take_append take_Cons')
    then have "CHR ''/'' \<in> set (take k ?s)" by simp
    then have "\<not> list_all (conv_ok c) (take k ?s)"
      by (metis conv_ok_slash list_all_iff)
    then show ?thesis by (rule if_not_P)
  qed
  have "match_parts (Conv c n # Lit (CHR ''/'' # l) # ps) ?s = first_match ?g (rev [1..<Suc (length ?s)])"
    by (rule match_parts.simps(3))
  also have "\<dots> = ?g (length x)" by (rule first_match_only [OF mem other])
  also have "\<dots> = map_option (Cons (n, to_python c x)) (match_parts (Lit (CHR ''/'' # l) # ps) (CHR ''/'' # r))"
    using x by simp
  finally show ?thesis .
qed
lemma match_parts_lit_cons:
  "match_parts (Lit l # p # ps) s = (if take (length l) s = l then match_parts (p # ps) (drop (length l) s) else None)"
  by simp

lemma match_parts_conv_Nil: "match_parts (Conv c n # ps) [] = None"
  by simp

lemmas route_simps = match_parts_lit_only match_parts_lit_cons match_parts_conv_Nil match_parts_conv_slash
  url_resolve_def urlpatterns_def url_path_def to_python_def append_eq_Cons_conv

lemma resolve_get_patient:
  assumes "x \<noteq> []" "list_all (conv_ok StrC) x"
  shows "url_resolve urlpatterns (''openmrs/patients/'' @ x @ ''/'') =
    (if x = ''create'' then Some (CreatePatient, []) else if x = ''search'' then Some (SearchPatients, [])
     else Some (GetPatient, [(''uuid'', SArg x)]))"
  using assms by (simp add: route_simps del: match_parts.simps(2,3))

lemma resolve_get_orthanc_patient:
  assumes "x \<noteq> []" "list_all (conv_ok StrC) x"
  shows "url_resolve urlpatterns (''orthanc/patients/'' @ x @ ''/'') =
    (if x = ''search'' then Some (SearchOrthancPatients, []) else Some (GetOrthancPatient, [(''patient_id'', SArg x)]))"
  using assms by (simp add: route_simps del: match_parts.simps(2,3))

lemma resolve_get_patient_dicom_studies:
  assumes "x \<noteq> []" "list_all (conv_ok StrC) x"
  shows "url_resolve urlpatterns (''patients/'' @ x @ ''/dicom-studies/'') =
    Some (GetPatientDicomStudies, [(''patient_uuid'', SArg x)])"
  using assms by (simp add: route_simps del: match_parts.simps(2,3))

lemma resolve_get_dicom_study_details:
  assumes "x \<noteq> []" "list_all (conv_ok StrC) x"
  shows "url_resolve urlpatterns (''dicom/studies/'' @ x @ ''/details/'') =
    Some (GetDicomStudyDetails, [(''study_id'', SArg x)])"
  using assms by (simp add: route_simps del: match_parts.simps(2,3))

lemma digits_not_word:
  "list_all (conv_ok IntC) d \<Longrightarrow> d \<noteq> ''create'' \<and> d \<noteq> ''manual''"
  by (auto simp: conv_ok_def is_digit_def)

lemma resolve_get_patient_mapping:
  assumes "d \<noteq> []" "list_all (conv_ok IntC) d"
  shows "url_resolve urlpatterns (''patient-mappings/'' @ d @ ''/'') =
    Some (GetPatientMapping, [(''mapping_id'', IArg (digits_value d))])"
  using assms digits_not_word [OF assms(2)] by (simp add: route_simps del: match_parts.simps(2,3))

lemma resolve_delete_patient_mapping:
  assumes "d \<noteq> []" "list_all (conv_ok IntC) d"
  shows "url_resolve urlpatterns (''patient-mappings/'' @ d @ ''/delete/'') =
    Some (DeletePatientMapping, [(''mapping_id'', IArg (digits_value d))])"
  using assms digits_not_word [OF assms(2)] by (simp add: route_simps del: match_parts.simps(2,3))

lemma resolve_sync_patient_mapping:
  assumes "d \<noteq> []" "list_all (conv_ok IntC) d"
  shows "url_resolve urlpatterns (''patient-mappings/'' @ d @ ''/sync/'') =
    Some (SyncPatientMapping, [(''mapping_id'', IArg (digits_value d))])"
  using assms digits_not_word [OF assms(2)] by (simp add: route_simps del: match_parts.simps(2,3))
lemma show_dec_digits: "show_dec m \<noteq> [] \<and> list_all (conv_ok IntC) (show_dec m)"
proof (induction m rule: show_dec.induct)
  case (1 m)
  show ?case
  proof (cases "m < 10")
    case True
    then show ?thesis by (simp add: show_dec_small conv_ok_def)
  next
    case False
    with 1 show ?thesis by (simp add: show_dec_big conv_ok_def)
  qed
qed

lemma digits_value_show_dec [simp]: "digits_value (show_dec m) = m"
proof (induction m rule: show_dec.induct)
  case (1 m)
  show ?case
  proof (cases "m < 10")
    case True
    then show ?thesis by (simp add: show_dec_small digits_value_def)
  next
    case False
    with 1 show ?thesis by (simp add: show_dec_big)
  qed
qed

lemma arg_ok_text:
  "arg_ok c a \<Longrightarrow> to_url a \<noteq> [] \<and> list_all (conv_ok c) (to_url a) \<and> to_python c (to_url a) = a"
  using show_dec_digits
  by (auto simp: arg_ok_def to_url_def to_python_def split: conv.splits arg.splits)

lemma reverse_name:
  assumes "distinct (map up_name pats)" "p \<in> set pats"
  shows "reverse pats (up_name p) kw =
    (if set (map fst kw) = set (params (up_route p))
     then (case fill (up_route p) kw of
             None \<Rightarrow> None
           | Some s \<Rightarrow> if match_parts (up_route p) s = None then None else Some s)
     else None)"
proof -
  have "q = p" if "q \<in> set (rev pats)" "up_name q = up_name p" for q
    using assms that by (metis distinct_map inj_on_contraD set_rev)
  then show ?thesis
    unfolding reverse_def
    by (subst first_match_only [of p]) (use assms(2) in auto)
qed

lemma urlpatterns_names: "distinct (map up_name urlpatterns)"
  by (simp add: urlpatterns_def url_path_def)

lemma reverse_conv_route:
  assumes "url_path [Lit a, Conv c n, Lit (CHR ''/'' # b)] v name \<in> set urlpatterns" "arg_ok c arg"
  shows "reverse urlpatterns name [(n, arg)] = Some (a @ to_url arg @ CHR ''/'' # b) \<and>
         match_parts [Lit a, Conv c n, Lit (CHR ''/'' # b)] (a @ to_url arg @ CHR ''/'' # b) = Some [(n, arg)]"
proof -
  note t = arg_ok_text [OF assms(2)]
  have m: "match_parts [Lit a, Conv c n, Lit (CHR ''/'' # b)] (a @ to_url arg @ CHR ''/'' # b) = Some [(n, arg)]"
    using t by (simp add: match_parts_conv_slash del: match_parts.simps(3))
  show ?thesis
    using reverse_name [OF urlpatterns_names assms(1), of "[(n, arg)]"] m
    by (simp add: url_path_def)
qed

lemma roundtrip_literal_all:
  "list_all (\<lambda>p. convs (up_route p) = [] \<longrightarrow>
      reverse urlpatterns (up_name p) [] = Some (lits (up_route p)) \<and>
      match_parts (up_route p) (lits (up_route p)) = Some [] \<and>
      url_resolve urlpatterns (lits (up_route p)) = Some (up_view p, [])) urlpatterns"
  by code_simp
lemma roundtrip_conv_route:
  assumes "url_path [Lit a, Conv c n, Lit (CHR ''/'' # b)] v name \<in> set urlpatterns" "arg_ok c arg"
    and "url_resolve urlpatterns (a @ to_url arg @ CHR ''/'' # b) = R"
  shows "\<exists>s. reverse urlpatterns name [(n, arg)] = Some s \<and>
    match_parts [Lit a, Conv c n, Lit (CHR ''/'' # b)] s = Some [(n, arg)] \<and> url_resolve urlpatterns s = R"
  using reverse_conv_route [OF assms(1,2)] assms(3) by blast

lemma arg_ok_StrC: "arg_ok StrC a \<longleftrightarrow> (\<exists>x. a = SArg x \<and> x \<noteq> [] \<and> list_all (conv_ok StrC) x)"
  by (auto simp: arg_ok_def split: arg.splits)

lemma arg_ok_IntC: "arg_ok IntC a \<longleftrightarrow> (\<exists>m. a = IArg m)"
  by (auto simp: arg_ok_def split: arg.splits)

lemma kw_ok_single: "convs ps = [(c, n)] \<Longrightarrow> kw_ok ps kw \<longleftrightarrow> (\<exists>a. kw = [(n, a)] \<and> arg_ok c a)"
  by (auto simp: kw_ok_def list_all2_Cons1)

lemma kw_ok_none: "convs ps = [] \<Longrightarrow> kw_ok ps kw \<longleftrightarrow> kw = []"
  by (simp add: kw_ok_def)

lemma conv_routes:
  assumes "p \<in> set urlpatterns" "convs (up_route p) \<noteq> []"
  shows "p \<in> set [url_path [Lit ''openmrs/patients/'', Conv StrC ''uuid'', Lit ''/''] GetPatient ''get_openmrs_patient'',
    url_path [Lit ''orthanc/patients/'', Conv StrC ''patient_id'', Lit ''/''] GetOrthancPatient ''get_orthanc_patient'',
    url_path [Lit ''patients/'', Conv StrC ''patient_uuid'', Lit ''/dicom-studies/''] GetPatientDicomStudies ''get_patient_dicom_studies'',
    url_path [Lit ''dicom/studies/'', Conv StrC ''study_id'', Lit ''/details/''] GetDicomStudyDetails ''get_dicom_study_details'',
    url_path [Lit ''patient-mappings/'', Conv IntC ''mapping_id'', Lit ''/''] GetPatientMapping ''get_patient_mapping'',
    url_path [Lit ''patient-mappings/'', Conv IntC ''mapping_id'', Lit ''/delete/''] DeletePatientMapping ''delete_patient_mapping'',
    url_path [Lit ''patient-mappings/'', Conv IntC ''mapping_id'', Lit ''/sync/''] SyncPatientMapping ''sync_patient_mapping'']"
proof -
  have "list_all (\<lambda>p. convs (up_route p) \<noteq> [] \<longrightarrow> p \<in> set [url_path [Lit ''openmrs/patients/'', Conv StrC ''uuid'', Lit ''/''] GetPatient ''get_openmrs_patient'',
    url_path [Lit ''orthanc/patients/'', Conv StrC ''patient_id'', Lit ''/''] GetOrthancPatient ''get_orthanc_patient'',
    url_path [Lit ''patients/'', Conv StrC ''patient_uuid'', Lit ''/dicom-studies/''] GetPatientDicomStudies ''get_patient_dicom_studies'',
    url_path [Lit ''dicom/studies/'', Conv StrC ''study_id'', Lit ''/details/''] GetDicomStudyDetails ''get_dicom_study_details'',
    url_path [Lit ''patient-mappings/'', Conv IntC ''mapping_id'', Lit ''/''] GetPatientMapping ''get_patient_mapping'',
    url_path [Lit ''patient-mappings/'', Conv IntC ''mapping_id'', Lit ''/delete/''] DeletePatientMapping ''delete_patient_mapping'',
    url_path [Lit ''patient-mappings/'', Conv IntC ''mapping_id'', Lit ''/sync/''] SyncPatientMapping ''sync_patient_mapping'']) urlpatterns"
    by (simp add: urlpatterns_def url_path_def)
  then show ?thesis using assms by (simp add: list_all_iff)
qed

lemma roundtrip_literal:
  assumes "p \<in> set urlpatterns" "convs (up_route p) = []"
  shows "reverse urlpatterns (up_name p) [] = Some (lits (up_route p)) \<and>
    match_parts (up_route p) (lits (up_route p)) = Some [] \<and>
    url_resolve urlpatterns (lits (up_route p)) = Some (up_view p, [])"
  using roundtrip_literal_all assms unfolding list_all_iff by blast

lemma rt_get_patient:
  assumes "arg_ok StrC arg"
  shows "\<exists>s. reverse urlpatterns ''get_openmrs_patient'' [(''uuid'', arg)] = Some s \<and>
    match_parts [Lit ''openmrs/patients/'', Conv StrC ''uuid'', Lit ''/''] s = Some [(''uuid'', arg)] \<and>
    (url_resolve urlpatterns s = Some (GetPatient, [(''uuid'', arg)]) \<longleftrightarrow> (''get_openmrs_patient'', [(''uuid'', arg)]) \<notin> set shadowed_requests)"
proof -
  obtain x where a: "arg = SArg x" "x \<noteq> []" "list_all (conv_ok StrC) x"
    using assms by (auto simp: arg_ok_StrC)
  have R: "url_resolve urlpatterns (''openmrs/patients/'' @ to_url arg @ ''/'') =
    (if x = ''create'' then Some (CreatePatient, []) else if x = ''search'' then Some (SearchPatients, []) else Some (GetPatient, [(''uuid'', SArg x)]))"
    using resolve_get_patient [OF a(2,3)] a(1) by (simp add: to_url_def)
  have mem: "url_path [Lit ''openmrs/patients/'', Conv StrC ''uuid'', Lit ''/''] GetPatient ''get_openmrs_patient'' \<in> set urlpatterns"
    by (simp add: urlpatterns_def url_path_def)
  have iff: "(if x = ''create'' then Some (CreatePatient, []) else if x = ''search'' then Some (SearchPatients, []) else Some (GetPatient, [(''uuid'', SArg x)])) = Some (GetPatient, [(''uuid'', arg)]) \<longleftrightarrow> (''get_openmrs_patient'', [(''uuid'', arg)]) \<notin> set shadowed_requests"
    using a by (simp add: shadowed_requests_def)
  from roundtrip_conv_route [OF mem assms R]
  obtain s where "reverse urlpatterns ''get_openmrs_patient'' [(''uuid'', arg)] = Some s \<and> match_parts [Lit ''openmrs/patients/'', Conv StrC ''uuid'', Lit ''/''] s = Some [(''uuid'', arg)] \<and>
    url_resolve urlpatterns s = (if x = ''create'' then Some (CreatePatient, []) else if x = ''search'' then Some (SearchPatients, []) else Some (GetPatient, [(''uuid'', SArg x)]))" by blast
  then show ?thesis using iff by (intro exI [of _ s]) (simp only: simp_thms)
qed

lemma rt_get_orthanc_patient:
  assumes "arg_ok StrC arg"
  shows "\<exists>s. reverse urlpatterns ''get_orthanc_patient'' [(''patient_id'', arg)] = Some s \<and>
    match_parts [Lit ''orthanc/patients/'', Conv StrC ''patient_id'', Lit ''/''] s = Some [(''patient_id'', arg)] \<and>
    (url_resolve urlpatterns s = Some (GetOrthancPatient, [(''patient_id'', arg)]) \<longleftrightarrow> (''get_orthanc_patient'', [(''patient_id'', arg)]) \<notin> set shadowed_requests)"
proof -
  obtain x where a: "arg = SArg x" "x \<noteq> []" "list_all (conv_ok StrC) x"
    using assms by (auto simp: arg_ok_StrC)
  have R: "url_resolve urlpatterns (''orthanc/patients/'' @ to_url arg @ ''/'') =
    (if x = ''search'' then Some (SearchOrthancPatients, []) else Some (GetOrthancPatient, [(''patient_id'', SArg x)]))"
    using resolve_get_orthanc_patient [OF a(2,3)] a(1) by (simp add: to_url_def)
  have mem: "url_path [Lit ''orthanc/patients/'', Conv StrC ''patient_id'', Lit ''/''] GetOrthancPatient ''get_orthanc_patient'' \<in> set urlpatterns"
    by (simp add: urlpatterns_def url_path_def)
  have iff: "(if x = ''search'' then Some (SearchOrthancPatients, []) else Some (GetOrthancPatient, [(''patient_id'', SArg x)])) = Some (GetOrthancPatient, [(''patient_id'', arg)]) \<longleftrightarrow> (''get_orthanc_patient'', [(''patient_id'', arg)]) \<notin> set shadowed_requests"
    using a by (simp add: shadowed_requests_def)
  from roundtrip_conv_route [OF mem assms R]
  obtain s where "reverse urlpatterns ''get_orthanc_patient'' [(''patient_id'', arg)] = Some s \<and> match_parts [Lit ''orthanc/patients/'', Conv StrC ''patient_id'', Lit ''/''] s = Some [(''patient_id'', arg)] \<and>
    url_resolve urlpatterns s = (if x = ''search'' then Some (SearchOrthancPatients, []) else Some (GetOrthancPatient, [(''patient_id'', SArg x)]))" by blast
  then show ?thesis using iff by (intro exI [of _ s]) (simp only: simp_thms)
qed

lemma rt_get_patient_dicom_studies:
  assumes "arg_ok StrC arg"
  shows "\<exists>s. reverse urlpatterns ''get_patient_dicom_studies'' [(''patient_uuid'', arg)] = Some s \<and>
    match_parts [Lit ''patients/'', Conv StrC ''patient_uuid'', Lit ''/dicom-studies/''] s = Some [(''patient_uuid'', arg)] \<and>
    (url_resolve urlpatterns s = Some (GetPatientDicomStudies, [(''patient_uuid'', arg)]) \<longleftrightarrow> (''get_patient_dicom_studies'', [(''patient_uuid'', arg)]) \<notin> set shadowed_requests)"
proof -
  obtain x where a: "arg = SArg x" "x \<noteq> []" "list_all (conv_ok StrC) x"
    using assms by (auto simp: arg_ok_StrC)
  have R: "url_resolve urlpatterns (''patients/'' @ to_url arg @ ''/dicom-studies/'') =
    Some (GetPatientDicomStudies, [(''patient_uuid'', SArg x)])"
    using resolve_get_patient_dicom_studies [OF a(2,3)] a(1) by (simp add: to_url_def)
  have mem: "url_path [Lit ''patients/'', Conv StrC ''patient_uuid'', Lit ''/dicom-studies/''] GetPatientDicomStudies ''get_patient_dicom_studies'' \<in> set urlpatterns"
    by (simp add: urlpatterns_def url_path_def)
  have iff: "Some (GetPatientDicomStudies, [(''patient_uuid'', SArg x)]) = Some (GetPatientDicomStudies, [(''patient_uuid'', arg)]) \<longleftrightarrow> (''get_patient_dicom_studies'', [(''patient_uuid'', arg)]) \<notin> set shadowed_requests"
    using a by (simp add: shadowed_requests_def)
  from roundtrip_conv_route [OF mem assms R]
  obtain s where "reverse urlpatterns ''get_patient_dicom_studies'' [(''patient_uuid'', arg)] = Some s \<and> match_parts [Lit ''patients/'', Conv StrC ''patient_uuid'', Lit ''/dicom-studies/''] s = Some [(''patient_uuid'', arg)] \<and>
    url_resolve urlpatterns s = Some (GetPatientDicomStudies, [(''patient_uuid'', SArg x)])" by blast
  then show ?thesis using iff by (intro exI [of _ s]) (simp only: simp_thms)
qed

lemma rt_get_dicom_study_details:
  assumes "arg_ok StrC arg"
  shows "\<exists>s. reverse urlpatterns ''get_dicom_study_details'' [(''study_id'', arg)] = Some s \<and>
    match_parts [Lit ''dicom/studies/'', Conv StrC ''study_id'', Lit ''/details/''] s = Some [(''study_id'', arg)] \<and>
    (url_resolve urlpatterns s = Some (GetDicomStudyDetails, [(''study_id'', arg)]) \<longleftrightarrow> (''get_dicom_study_details'', [(''study_id'', arg)]) \<notin> set shadowed_requests)"
proof -
  obtain x where a: "arg = SArg x" "x \<noteq> []" "list_all (conv_ok StrC) x"
    using assms by (auto simp: arg_ok_StrC)
  have R: "url_resolve urlpatterns (''dicom/studies/'' @ to_url arg @ ''/details/'') =
    Some (GetDicomStudyDetails, [(''study_id'', SArg x)])"
    using resolve_get_dicom_study_details [OF a(2,3)] a(1) by (simp add: to_url_def)
  have mem: "url_path [Lit ''dicom/studies/'', Conv StrC ''study_id'', Lit ''/details/''] GetDicomStudyDetails ''get_dicom_study_details'' \<in> set urlpatterns"
    by (simp add: urlpatterns_def url_path_def)
  have iff: "Some (GetDicomStudyDetails, [(''study_id'', SArg x)]) = Some (GetDicomStudyDetails, [(''study_id'', arg)]) \<longleftrightarrow> (''get_dicom_study_details'', [(''study_id'', arg)]) \<notin> set shadowed_requests"
    using a by (simp add: shadowed_requests_def)
  from roundtrip_conv_route [OF mem assms R]
  obtain s where "reverse urlpatterns ''get_dicom_study_details'' [(''study_id'', arg)] = Some s \<and> match_parts [Lit ''dicom/studies/'', Conv StrC ''study_id'', Lit ''/details/''] s = Some [(''study_id'', arg)] \<and>
    url_resolve urlpatterns s = Some (GetDicomStudyDetails, [(''study_id'', SArg x)])" by blast
  then show ?thesis using iff by (intro exI [of _ s]) (simp only: simp_thms)
qed

lemma rt_get_patient_mapping:
  assumes "arg_ok IntC arg"
  shows "\<exists>s. reverse urlpatterns ''get_patient_mapping'' [(''mapping_id'', arg)] = Some s \<and>
    match_parts [Lit ''patient-mappings/'', Conv IntC ''mapping_id'', Lit ''/''] s = Some [(''mapping_id'', arg)] \<and>
    (url_resolve urlpatterns s = Some (GetPatientMapping, [(''mapping_id'', arg)]) \<longleftrightarrow> (''get_patient_mapping'', [(''mapping_id'', arg)]) \<notin> set shadowed_requests)"
proof -
  obtain m where a: "arg = IArg m" using assms by (auto simp: arg_ok_IntC)
  have R: "url_resolve urlpatterns (''patient-mappings/'' @ to_url arg @ ''/'') =
    Some (GetPatientMapping, [(''mapping_id'', IArg m)])"
    using resolve_get_patient_mapping [OF conjunct1 [OF show_dec_digits] conjunct2 [OF show_dec_digits]] a(1)
    by (simp add: to_url_def)
  have mem: "url_path [Lit ''patient-mappings/'', Conv IntC ''mapping_id'', Lit ''/''] GetPatientMapping ''get_patient_mapping'' \<in> set urlpatterns"
    by (simp add: urlpatterns_def url_path_def)
  have iff: "Some (GetPatientMapping, [(''mapping_id'', IArg m)]) = Some (GetPatientMapping, [(''mapping_id'', arg)]) \<longleftrightarrow> (''get_patient_mapping'', [(''mapping_id'', arg)]) \<notin> set shadowed_requests"
    using a by (simp add: shadowed_requests_def)
  from roundtrip_conv_route [OF mem assms R]
  obtain s where "reverse urlpatterns ''get_patient_mapping'' [(''mapping_id'', arg)] = Some s \<and> match_parts [Lit ''patient-mappings/'', Conv IntC ''mapping_id'', Lit ''/''] s = Some [(''mapping_id'', arg)] \<and>
    url_resolve urlpatterns s = Some (GetPatientMapping, [(''mapping_id'', IArg m)])" by blast
  then show ?thesis using iff by (intro exI [of _ s]) (simp only: simp_thms)
qed

lemma rt_delete_patient_mapping:
  assumes "arg_ok IntC arg"
  shows "\<exists>s. reverse urlpatterns ''delete_patient_mapping'' [(''mapping_id'', arg)] = Some s \<and>
    match_parts [Lit ''patient-mappings/'', Conv IntC ''mapping_id'', Lit ''/delete/''] s = Some [(''mapping_id'', arg)] \<and>
    (url_resolve urlpatterns s = Some (DeletePatientMapping, [(''mapping_id'', arg)]) \<longleftrightarrow> (''delete_patient_mapping'', [(''mapping_id'', arg)]) \<notin> set shadowed_requests)"
proof -
  obtain m where a: "arg = IArg m" using assms by (auto simp: arg_ok_IntC)
  have R: "url_resolve urlpatterns (''patient-mappings/'' @ to_url arg @ ''/delete/'') =
    Some (DeletePatientMapping, [(''mapping_id'', IArg m)])"
    using resolve_delete_patient_mapping [OF conjunct1 [OF show_dec_digits] conjunct2 [OF show_dec_digits]] a(1)
    by (simp add: to_url_def)
  have mem: "url_path [Lit ''patient-mappings/'', Conv IntC ''mapping_id'', Lit ''/delete/''] DeletePatientMapping ''delete_patient_mapping'' \<in> set urlpatterns"
    by (simp add: urlpatterns_def url_path_def)
  have iff: "Some (DeletePatientMapping, [(''mapping_id'', IArg m)]) = Some (DeletePatientMapping, [(''mapping_id'', arg)]) \<longleftrightarrow> (''delete_patient_mapping'', [(''mapping_id'', arg)]) \<notin> set shadowed_requests"
    using a by (simp add: shadowed_requests_def)
  from roundtrip_conv_route [OF mem assms R]
  obtain s where "reverse urlpatterns ''delete_patient_mapping'' [(''mapping_id'', arg)] = Some s \<and> match_parts [Lit ''patient-mappings/'', Conv IntC ''mapping_id'', Lit ''/delete/''] s = Some [(''mapping_id'', arg)] \<and>
    url_resolve urlpatterns s = Some (DeletePatientMapping, [(''mapping_id'', IArg m)])" by blast
  then show ?thesis using iff by (intro exI [of _ s]) (simp only: simp_thms)
qed

lemma rt_sync_patient_mapping:
  assumes "arg_ok IntC arg"
  shows "\<exists>s. reverse urlpatterns ''sync_patient_mapping'' [(''mapping_id'', arg)] = Some s \<and>
    match_parts [Lit ''patient-mappings/'', Conv IntC ''mapping_id'', Lit ''/sync/''] s = Some [(''mapping_id'', arg)] \<and>
    (url_resolve urlpatterns s = Some (SyncPatientMapping, [(''mapping_id'', arg)]) \<longleftrightarrow> (''sync_patient_mapping'', [(''mapping_id'', arg)]) \<notin> set shadowed_requests)"
proof -
  obtain m where a: "arg = IArg m" using assms by (auto simp: arg_ok_IntC)
  have R: "url_resolve urlpatterns (''patient-mappings/'' @ to_url arg @ ''/sync/'') =
    Some (SyncPatientMapping, [(''mapping_id'', IArg m)])"
    using resolve_sync_patient_mapping [OF conjunct1 [OF show_dec_digits] conjunct2 [OF show_dec_digits]] a(1)
    by (simp add: to_url_def)
  have mem: "url_path [Lit ''patient-mappings/'', Conv IntC ''mapping_id'', Lit ''/sync/''] SyncPatientMapping ''sync_patient_mapping'' \<in> set urlpatterns"
    by (simp add: urlpatterns_def url_path_def)
  have iff: "Some (SyncPatientMapping, [(''mapping_id'', IArg m)]) = Some (SyncPatientMapping, [(''mapping_id'', arg)]) \<longleftrightarrow> (''sync_patient_mapping'', [(''mapping_id'', arg)]) \<notin> set shadowed_requests"
    using a by (simp add: shadowed_requests_def)
  from roundtrip_conv_route [OF mem assms R]
  obtain s where "reverse urlpatterns ''sync_patient_mapping'' [(''mapping_id'', arg)] = Some s \<and> match_parts [Lit ''patient-mappings/'', Conv IntC ''mapping_id'', Lit ''/sync/''] s = Some [(''mapping_id'', arg)] \<and>
    url_resolve urlpatterns s = Some (SyncPatientMapping, [(''mapping_id'', IArg m)])" by blast
  then show ?thesis using iff by (intro exI [of _ s]) (simp only: simp_thms)
qed

subsection \<open>Reversal and resolution\<close>

text \<open>C33: for every route of the table and every keyword argument its converters
  produce, \<open>reverse\<close> builds a path that the route matches with exactly these
  arguments, and \<open>resolve\<close> serves that path with the route's handler unless an
  earlier route also matches it; this happens for exactly three requests, the
  OpenMRS patients with uuid \<open>create\<close> or \<open>search\<close> and the Orthanc patient with id
  \<open>search\<close>.\<close>

theorem reverse_resolve_roundtrip:
  assumes "p \<in> set urlpatterns" "kw_ok (up_route p) kw"
  shows "\<exists>s. reverse urlpatterns (up_name p) kw = Some s \<and> match_parts (up_route p) s = Some kw \<and>
    (url_resolve urlpatterns s = Some (up_view p, kw) \<longleftrightarrow> (up_name p, kw) \<notin> set shadowed_requests)"
proof (cases "convs (up_route p) = []")
  case True
  then have "kw = []" using assms(2) by (simp add: kw_ok_none)
  with roundtrip_literal [OF assms(1) True] show ?thesis
    by (auto simp: shadowed_requests_def)
next
  case False
  from conv_routes [OF assms(1) False]
  have "p = url_path [Lit ''openmrs/patients/'', Conv StrC ''uuid'', Lit ''/''] GetPatient ''get_openmrs_patient'' \<or>
      p = url_path [Lit ''orthanc/patients/'', Conv StrC ''patient_id'', Lit ''/''] GetOrthancPatient ''get_orthanc_patient'' \<or>
      p = url_path [Lit ''patients/'', Conv StrC ''patient_uuid'', Lit ''/dicom-studies/''] GetPatientDicomStudies ''get_patient_dicom_studies'' \<or>
      p = url_path [Lit ''dicom/studies/'', Conv StrC ''study_id'', Lit ''/details/''] GetDicomStudyDetails ''get_dicom_study_details'' \<or>
      p = url_path [Lit ''patient-mappings/'', Conv IntC ''mapping_id'', Lit ''/''] GetPatientMapping ''get_patient_mapping'' \<or>
      p = url_path [Lit ''patient-mappings/'', Conv IntC ''mapping_id'', Lit ''/delete/''] DeletePatientMapping ''delete_patient_mapping'' \<or>
      p = url_path [Lit ''patient-mappings/'', Conv IntC ''mapping_id'', Lit ''/sync/''] SyncPatientMapping ''sync_patient_mapping''"
    by (simp only: set_simps insert_iff empty_iff simp_thms)
  then show ?thesis
  proof (elim disjE)
    assume p: "p = url_path [Lit ''openmrs/patients/'', Conv StrC ''uuid'', Lit ''/''] GetPatient ''get_openmrs_patient''"
    then obtain a where kw: "kw = [(''uuid'', a)]" and a: "arg_ok StrC a"
      using assms(2) by (auto simp: kw_ok_single url_path_def)
    show ?thesis
      using rt_get_patient [OF a] unfolding p kw by (simp only: url_path_def url_pattern.simps)
  next
    assume p: "p = url_path [Lit ''orthanc/patients/'', Conv StrC ''patient_id'', Lit ''/''] GetOrthancPatient ''get_orthanc_patient''"
    then obtain a where kw: "kw = [(''patient_id'', a)]" and a: "arg_ok StrC a"
      using assms(2) by (auto simp: kw_ok_single url_path_def)
    show ?thesis
      using rt_get_orthanc_patient [OF a] unfolding p kw by (simp only: url_path_def url_pattern.simps)
  next
    assume p: "p = url_path [Lit ''patients/'', Conv StrC ''patient_uuid'', Lit ''/dicom-studies/''] GetPatientDicomStudies ''get_patient_dicom_studies''"
    then obtain a where kw: "kw = [(''patient_uuid'', a)]" and a: "arg_ok StrC a"
      using assms(2) by (auto simp: kw_ok_single url_path_def)
    show ?thesis
      using rt_get_patient_dicom_studies [OF a] unfolding p kw by (simp only: url_path_def url_pattern.simps)
  next
    assume p: "p = url_path [Lit ''dicom/studies/'', Conv StrC ''study_id'', Lit ''/details/''] GetDicomStudyDetails ''get_dicom_study_details''"
    then obtain a where kw: "kw = [(''study_id'', a)]" and a: "arg_ok StrC a"
      using assms(2) by (auto simp: kw_ok_single url_path_def)
    show ?thesis
      using rt_get_dicom_study_details [OF a] unfolding p kw by (simp only: url_path_def url_pattern.simps)
  next
    assume p: "p = url_path [Lit ''patient-mappings/'', Conv IntC ''mapping_id'', Lit ''/''] GetPatientMapping ''get_patient_mapping''"
    then obtain a where kw: "kw = [(''mapping_id'', a)]" and a: "arg_ok IntC a"
      using assms(2) by (auto simp: kw_ok_single url_path_def)
    show ?thesis
      using rt_get_patient_mapping [OF a] unfolding p kw by (simp only: url_path_def url_pattern.simps)
  next
    assume p: "p = url_path [Lit ''patient-mappings/'', Conv IntC ''mapping_id'', Lit ''/delete/''] DeletePatientMapping ''delete_patient_mapping''"
    then obtain a where kw: "kw = [(''mapping_id'', a)]" and a: "arg_ok IntC a"
      using assms(2) by (auto simp: kw_ok_single url_path_def)
    show ?thesis
      using rt_delete_patient_mapping [OF a] unfolding p kw by (simp only: url_path_def url_pattern.simps)
  next
    assume p: "p = url_path [Lit ''patient-mappings/'', Conv IntC ''mapping_id'', Lit ''/sync/''] SyncPatientMapping ''sync_patient_mapping''"
    then obtain a where kw: "kw = [(''mapping_id'', a)]" and a: "arg_ok IntC a"
      using assms(2) by (auto simp: kw_ok_single url_path_def)
    show ?thesis
      using rt_sync_patient_mapping [OF a] unfolding p kw by (simp only: url_path_def url_pattern.simps)
  qed
qed

theorem reverse_resolve_roundtrip_witness:
  "\<exists>s. reverse urlpatterns ''get_openmrs_patient'' [(''uuid'', SArg ''abc'')] = Some s \<and>
       url_resolve urlpatterns s = Some (GetPatient, [(''uuid'', SArg ''abc'')])"
proof -
  have mem: "url_path [Lit ''openmrs/patients/'', Conv StrC ''uuid'', Lit ''/''] GetPatient ''get_openmrs_patient''
      \<in> set urlpatterns"
    by (simp add: urlpatterns_def url_path_def)
  have ok: "kw_ok (up_route (url_path [Lit ''openmrs/patients/'', Conv StrC ''uuid'', Lit ''/''] GetPatient
      ''get_openmrs_patient'')) [(''uuid'', SArg ''abc'')]"
    by (simp add: kw_ok_def arg_ok_def conv_ok_def url_path_def)
  have ns: "(''get_openmrs_patient'', [(''uuid'', SArg ''abc'')]) \<notin> set shadowed_requests"
    by (simp add: shadowed_requests_def)
  from reverse_resolve_roundtrip [OF mem ok] ns show ?thesis
    by (simp only: url_path_def url_pattern.simps) blast
qed

subsection \<open>Dispatch\<close>

lemma resolve_Some:
  "url_resolve pats s = Some (v, kw) \<Longrightarrow> \<exists>p \<in> set pats. up_view p = v \<and> match_parts (up_route p) s = Some kw"
  unfolding url_resolve_def by (auto dest!: first_match_Some)

lemma routed_views:
  "p \<in> set urlpatterns \<Longrightarrow> up_view p \<notin> {GetPatientByIdentifier, GetMappingStatus, CreateTestMapping}"
  by (auto simp: urlpatterns_def url_path_def)

text \<open>C34: a request reaches a handler only with a method of its \<open>@api_view\<close>; so no
  handler that changes the mapping table or the registry runs for \<open>GET\<close> or \<open>HEAD\<close>, and
  the handlers \<open>get_patient_by_identifier\<close>, \<open>get_mapping_status\<close> and
  \<open>create_test_mapping\<close>, which no route names, run for no request.\<close>

theorem dispatch_safe:
  assumes "dispatch m s = Call v kw"
  shows "m \<in> set (api_methods v) \<and> (changes_state v \<longrightarrow> m \<noteq> ''GET'' \<and> m \<noteq> ''HEAD'') \<and>
         v \<notin> {GetPatientByIdentifier, GetMappingStatus, CreateTestMapping}"
proof -
  obtain kw' where r: "url_resolve urlpatterns s = Some (v, kw')" and m: "m \<in> set (api_methods v)"
    using assms by (auto simp: dispatch_def split: option.splits if_splits)
  from resolve_Some [OF r] obtain p where "p \<in> set urlpatterns" "up_view p = v" by blast
  with routed_views have "v \<notin> {GetPatientByIdentifier, GetMappingStatus, CreateTestMapping}" by blast
  moreover have "changes_state v \<longrightarrow> m \<noteq> ''GET'' \<and> m \<noteq> ''HEAD''"
    using m by (cases v) auto
  ultimately show ?thesis using m by blast
qed

theorem dispatch_safe_witness:
  "changes_state DeletePatientMapping \<and> ''DELETE'' \<noteq> ''GET'' \<and>
   dispatch ''DELETE'' ''patient-mappings/7/delete/'' = Call DeletePatientMapping [(''mapping_id'', IArg 7)]"
proof -
  have d: "dispatch ''DELETE'' ''patient-mappings/7/delete/'' = Call DeletePatientMapping [(''mapping_id'', IArg 7)]"
    by code_simp
  from dispatch_safe [OF d] d show ?thesis by simp
qed

lemma get_on_delete_route_not_allowed:
  "dispatch ''GET'' ''patient-mappings/7/delete/'' = NotAllowed"
  by code_simp

end
