(* ===== verification/Health.thy ===== *)
theory Health
  imports Prelude
begin

text \<open>
  The status handlers of \<open>views.py\<close>: \<open>health_check\<close>, a constant answer with the
  current time, and \<open>test_all_connections\<close>, which asks each external service in its
  own \<open>try\<close> block and aggregates the two flags with \<open>all\<close> and \<open>any\<close>. What the two
  clients answer is an input: \<open>OpenMRSAPI.get_session()\<close> raises, returns a falsy value,
  or returns a dictionary (the truthiness of each of its values), and
  \<open>OrthancAPI.test_connection()\<close> raises (\<open>None\<close>) or returns a truth value.
\<close>

datatype session_answer = SessRaised | SessFalsy | SessDict "(string \<times> bool) list"

record health_body =
  hb_status :: string
  hb_timestamp :: timestamp
  hb_service :: string

text \<open>The service name \<open>Django ... API\<close> as its UTF-8 bytes.\<close>

definition service_name :: string where
  "service_name = [CHR 0x44, CHR 0x6A, CHR 0x61, CHR 0x6E, CHR 0x67, CHR 0x6F, CHR 0x20, CHR 0xEC, CHR 0x9D, CHR 0x98, CHR 0xEB, CHR 0xA3, CHR 0x8C, CHR 0x20, CHR 0xED, CHR 0x86, CHR 0xB5, CHR 0xED, CHR 0x95, CHR 0xA9, CHR 0x20, CHR 0x41, CHR 0x50, CHR 0x49]"

definition health_check :: "timestamp \<Rightarrow> health_body response" where
  "health_check now = (200, \<lparr>hb_status = ''healthy'', hb_timestamp = now,
                              hb_service = service_name\<rparr>)"

record connections_body =
  cb_status :: string
  cb_openmrs :: bool
  cb_orthanc :: bool

text \<open>\<open>if session_info and not session_info.get('error')\<close>: a non-empty dictionary
  whose \<open>error\<close> entry is missing or falsy.\<close>

definition openmrs_ok :: "session_answer \<Rightarrow> bool" where
  "openmrs_ok a = (case a of
      SessDict d \<Rightarrow> d \<noteq> [] \<and> \<not> (case map_of d ''error'' of None \<Rightarrow> False | Some b \<Rightarrow> b)
    | _ \<Rightarrow> False)"

definition orthanc_ok :: "bool option \<Rightarrow> bool" where
  "orthanc_ok a = (case a of Some b \<Rightarrow> b | None \<Rightarrow> False)"

text \<open>\<open>'success' if all(results.values()) else 'partial' if any(results.values())
  else 'failure'\<close>\<close>

definition connection_status :: "bool list \<Rightarrow> string" where
  "connection_status vs =
     (if list_all id vs then ''success'' else if list_ex id vs then ''partial'' else ''failure'')"

definition test_all_connections :: "session_answer \<Rightarrow> bool option \<Rightarrow> connections_body response" where
  "test_all_connections sess orth =
     (let results_openmrs = openmrs_ok sess;
          results_orthanc = orthanc_ok orth
      in (200, \<lparr>cb_status = connection_status [results_openmrs, results_orthanc],
                cb_openmrs = results_openmrs, cb_orthanc = results_orthanc\<rparr>))"

text \<open>C35: \<open>test_all_connections\<close> always answers 200, even when a client raises. The
  OpenMRS flag holds exactly when the session is a non-empty dictionary whose
  \<open>error\<close> entry is missing or falsy, so an exception, a falsy session or an error
  entry all report OpenMRS down; the Orthanc flag holds exactly when the connection
  test returns \<open>True\<close>; and the status is \<open>success\<close> when both services answer,
  \<open>partial\<close> when exactly one does and \<open>failure\<close> when none does.\<close>

theorem test_all_connections_status:
  "fst (test_all_connections sess orth) = 200 \<and>
   (cb_openmrs (snd (test_all_connections sess orth)) \<longleftrightarrow>
      (\<exists>d. sess = SessDict d \<and> d \<noteq> [] \<and> map_of d ''error'' \<noteq> Some True)) \<and>
   cb_orthanc (snd (test_all_connections sess orth)) = (orth = Some True) \<and>
   cb_status (snd (test_all_connections sess orth)) =
     (if cb_openmrs (snd (test_all_connections sess orth)) \<and> orth = Some True then ''success''
      else if cb_openmrs (snd (test_all_connections sess orth)) \<or> orth = Some True then ''partial''
      else ''failure'')"
proof -
  have ok: "openmrs_ok sess \<longleftrightarrow> (\<exists>d. sess = SessDict d \<and> d \<noteq> [] \<and> map_of d ''error'' \<noteq> Some True)"
    by (auto simp: openmrs_ok_def split: session_answer.split option.split)
  then show ?thesis
    by (simp add: test_all_connections_def connection_status_def orthanc_ok_def Let_def split: option.split)
qed

end
