(* ===== verification/ActiveLinks.thy ===== *)
theory ActiveLinks
  imports MappingViews Maintenance "HOL-Library.Multiset"
begin

text \<open>
  An abstract view of the mapping table: the multiset of links (archive patient,
  registry patient) of its active rows, and the four things a mapping handler may
  do to it: add a link, remove one, leave the links alone, or drop every link that
  satisfies a condition. The handlers of \<open>views.py\<close> that change the table are
  gathered in one request datatype and one step function \<open>handle_mapping\<close>;
  \<open>abstract_op\<close> reads the abstract operation off the request, the table before, and
  the handler's answer. The refinement theorem says each handler changes the links
  exactly as the operation its answer announces.
\<close>

type_synonym link = "orthanc_pid \<times> uuid"

definition link_of :: "patient_mapping \<Rightarrow> link" where
  "link_of m = (orthanc_patient_id m, openmrs_patient_uuid m)"

definition active_links :: "mapping_store \<Rightarrow> link multiset" where
  "active_links st = mset (map link_of (get_active_mappings st))"

datatype link_op = Link link | Unlink link | KeepLinks | DropLinks "link \<Rightarrow> bool"

fun apply_link_op :: "link_op \<Rightarrow> link multiset \<Rightarrow> link multiset" where
  "apply_link_op (Link l) A = add_mset l A"
| "apply_link_op (Unlink l) A = A - {#l#}"
| "apply_link_op KeepLinks A = A"
| "apply_link_op (DropLinks P) A = filter_mset (\<lambda>l. \<not> P l) A"

datatype mapping_request =
    ReqCreateMapping "string option" "string option"
  | ReqManualMapping "string option" "string option"
  | ReqDeleteMapping nat
  | ReqSyncMapping nat
  | ReqUpload "tag_map option" "upload_result option"
  | ReqClearDummy

datatype mapping_reply =
    RCreate "create_mapping_body response"
  | RManual "manual_body response"
  | RDelete "delete_body response"
  | RSync "sync_body response"
  | RUpload "upload_body response"
  | RClear "clear_body response"

text \<open>The handler a request reaches, with the registry, the archive and the clock.\<close>

fun handle_mapping ::
  "registry \<Rightarrow> archive \<Rightarrow> timestamp \<Rightarrow> mapping_request \<Rightarrow> mapping_store \<Rightarrow> mapping_reply \<times> mapping_store" where
  "handle_mapping reg arch now (ReqCreateMapping o_req u_req) st =
     (let (r, st') = create_patient_mapping reg arch o_req u_req now st in (RCreate r, st'))"
| "handle_mapping reg arch now (ReqManualMapping o_req u_req) st =
     (let (r, st') = create_manual_patient_mapping reg arch o_req u_req now st in (RManual r, st'))"
| "handle_mapping reg arch now (ReqDeleteMapping i) st =
     (let (r, st') = delete_patient_mapping i st in (RDelete r, st'))"
| "handle_mapping reg arch now (ReqSyncMapping i) st =
     (let (r, st') = sync_patient_mapping reg arch i now st in (RSync r, st'))"
| "handle_mapping reg arch now (ReqUpload file reply) st =
     (let (r, st') = upload_dicom_with_auto_mapping reg arch file reply now st in (RUpload r, st'))"
| "handle_mapping reg arch now ReqClearDummy st =
     (let (r, st') = clear_dummy_data st in (RClear r, st'))"

text \<open>The operation an answer announces: a created row adds its link, a deletion
  removes the link of the row the request named, the clean-up drops the links whose
  archive id contains \<open>DUMMY\<close>, anything else leaves the links alone.\<close>

definition abstract_op :: "mapping_request \<Rightarrow> mapping_store \<Rightarrow> mapping_reply \<Rightarrow> link_op" where
  "abstract_op req st rep =
     (case rep of
        RCreate (c, CMCreated m _) \<Rightarrow> if c = 201 then Link (link_of m) else KeepLinks
      | RManual (c, MMResult (Mapped m)) \<Rightarrow> if c = 201 then Link (link_of m) else KeepLinks
      | RUpload (c, UpDone _ (Mapped m) _) \<Rightarrow> if c = 201 then Link (link_of m) else KeepLinks
      | RDelete (c, DelDone) \<Rightarrow>
          (case req of
             ReqDeleteMapping i \<Rightarrow>
               (case get_active_by_id i st of Some m \<Rightarrow> Unlink (link_of m) | None \<Rightarrow> KeepLinks)
           | _ \<Rightarrow> KeepLinks)
      | RClear _ \<Rightarrow> DropLinks (\<lambda>l. icontains (fst l) ''DUMMY'')
      | _ \<Rightarrow> KeepLinks)"

subsection \<open>The first \<open>delete_patient_mapping\<close>\<close>

text \<open>Lines 399 to 418 define \<open>delete_patient_mapping\<close> a first time; the definition of
  line 725 rebinds the name, so the URL table never reaches this one. It differs from
  the live one only in its messages (and its 404 body has no \<open>success\<close> entry).\<close>

datatype delete_v1_body = DelV1NotFound | DelV1Deactivated

definition delete_patient_mapping_v1 ::
  "nat \<Rightarrow> mapping_store \<Rightarrow> delete_v1_body response \<times> mapping_store" where
  "delete_patient_mapping_v1 i st =
     (case get_active_by_id i st of
        None \<Rightarrow> ((404, DelV1NotFound), st)
      | Some m \<Rightarrow> ((200, DelV1Deactivated), deactivate m st))"

subsection \<open>Lemmas: the links of a changed table\<close>

lemma mset_update_where_one:
  assumes "distinct (map key xs)" "m \<in> set xs" "key m' = key m"
  shows "mset (map g (filter act (update_where (\<lambda>r. key r = key m) (\<lambda>_. m') xs))) +
           (if act m then {#g m#} else {#}) =
         mset (map g (filter act xs)) + (if act m' then {#g m'#} else {#})"
proof -
  obtain ys zs where xs: "xs = ys @ m # zs" using split_list [OF assms(2)] by blast
  with assms(1) have "\<forall>r \<in> set ys \<union> set zs. key r \<noteq> key m" by (auto simp: rev_image_eqI)
  then have "update_where (\<lambda>r. key r = key m) (\<lambda>_. m') xs = ys @ m' # zs"
    unfolding xs update_where_def by (auto intro: map_idI)
  then show ?thesis unfolding xs by (simp add: ac_simps)
qed

lemma active_links_save_row:
  assumes "store_inv st" "m \<in> set (rows st)" "mapping_id m' = mapping_id m"
  shows "active_links (save_row m' st) + (if is_active m then {#link_of m#} else {#}) =
         active_links st + (if is_active m' then {#link_of m'#} else {#})"
  using mset_update_where_one [of mapping_id "rows st" m m' link_of is_active] assms
  by (simp add: active_links_def get_active_mappings_def save_row_def store_inv_def)

lemma active_links_update_sync_time:
  assumes "store_inv st" "m \<in> set (rows st)"
  shows "active_links (snd (update_sync_time s e now m st)) = active_links st"
  using active_links_save_row [OF assms, of "m\<lparr>sync_status := s, error_message := e, last_sync := Some now\<rparr>"]
  by (cases "is_active m") (simp_all add: update_sync_time_def link_of_def Let_def)

lemma active_links_update_sync_time_run:
  "store_inv st \<Longrightarrow> m \<in> set (rows st) \<Longrightarrow> update_sync_time s e now m st = (m', st') \<Longrightarrow>
   active_links st' = active_links st"
  using active_links_update_sync_time [of st m s e now] by simp

lemma active_links_record_validation:
  assumes "store_inv st" "m \<in> set (rows st)"
  shows "active_links (snd (record_validation reg arch ok now m st)) = active_links st"
  using active_links_update_sync_time [OF assms] by (simp add: record_validation_def Let_def)

lemma active_links_deactivate:
  assumes "store_inv st" "m \<in> set (rows st)" "is_active m"
  shows "active_links (deactivate m st) = active_links st - {#link_of m#}"
proof -
  have "active_links (deactivate m st) + {#link_of m#} = active_links st"
    using active_links_save_row [OF assms(1,2), of "m\<lparr>is_active := False\<rparr>"] assms(3)
    by (simp add: deactivate_def)
  then show ?thesis by (metis add_diff_cancel_right')
qed

lemma active_links_create_and_validate:
  assumes "store_inv st" "create_and_validate reg arch ty opid u now st = (m, st')"
  shows "active_links st' = add_mset (link_of m) (active_links st) \<and> link_of m = (opid, u)"
  using create_and_validate_result [OF assms]
  by (simp add: active_links_def get_active_mappings_def link_of_def)


lemma active_links_deactivate_where:
  "active_links (st\<lparr>rows := deactivate_where (\<lambda>r. Q (link_of r)) (rows st)\<rparr>) =
   filter_mset (\<lambda>l. \<not> Q l) (active_links st)"
proof -
  have "mset (map link_of (filter is_active (deactivate_where (\<lambda>r. Q (link_of r)) rs))) =
        filter_mset (\<lambda>l. \<not> Q l) (mset (map link_of (filter is_active rs)))" for rs
    by (induction rs) (auto simp: deactivate_where_def)
  then show ?thesis by (simp add: active_links_def get_active_mappings_def)
qed

subsection \<open>Lemmas: each handler against its announced operation\<close>

lemma refine_create_mapping:
  assumes inv: "store_inv st" and run: "create_patient_mapping reg arch o_req u_req now st = (r, st')"
  shows "active_links st' = apply_link_op (abstract_op req st (RCreate r)) (active_links st)"
proof -
  obtain code body where r: "r = (code, body)" by (cases r)
  from create_patient_mapping_cases [OF run [unfolded r]] show ?thesis
  proof (elim disjE exE conjE)
    assume "st' = st" "code = 400" "\<forall>m e. body \<noteq> CMCreated m e"
    then show ?thesis by (cases body) (auto simp: r abstract_op_def)
  next
    fix opid u m0 st1 m
    assume c: "objects_create default_mapping_type opid u now st = (m0, st1)"
      and v: "record_validation reg arch SYNCED now m0 st1 = (m, st')"
      and code: "code = 201"
      and b: "body = CMCreated m (if validate_mapping reg arch m0 \<noteq> [] then Some (validate_mapping reg arch m0) else None)"
    note o = objects_create_result [OF c]
    have inv1: "store_inv st1" using objects_create_inv [OF inv, of default_mapping_type opid u now] c by simp
    have mem: "m0 \<in> set (rows st1)" using o by simp
    have "active_links st' = active_links st1"
      using active_links_record_validation [OF inv1 mem, of reg arch SYNCED now] v by simp
    moreover have "active_links st1 = add_mset (link_of m0) (active_links st)"
      using o by (simp add: active_links_def get_active_mappings_def)
    moreover have "link_of m = link_of m0"
      using v by (auto simp: record_validation_eq Let_def link_of_def)
    ultimately show ?thesis by (simp add: r code b abstract_op_def)
  qed
qed

lemma refine_manual_mapping:
  assumes inv: "store_inv st"
    and run: "create_manual_patient_mapping reg arch o_req u_req now st = (r, st')"
  shows "active_links st' = apply_link_op (abstract_op req st (RManual r)) (active_links st)"
proof (cases "\<not> py_truthy o_req \<or> \<not> py_truthy u_req")
  case True
  with run show ?thesis by (auto simp: create_manual_patient_mapping_def abstract_op_def)
next
  case False
  obtain res st2 where cm: "create_manual_mapping reg arch (the o_req) (the u_req) now st = (res, st2)"
    by (cases "create_manual_mapping reg arch (the o_req) (the u_req) now st")
  have r: "r = (if outcome_success res then (201, MMResult res) else (400, MMResult res))" and s: "st' = st2"
    using run False cm by (auto simp: create_manual_patient_mapping_def split: if_splits)
  from create_manual_mapping_cases [OF cm] show ?thesis
  proof (elim disjE exE conjE)
    assume "st2 = st" "\<forall>m. res \<noteq> Mapped m"
    then show ?thesis using r s by (cases res) (auto simp: abstract_op_def)
  next
    fix m assume "create_and_validate reg arch MANUAL (the o_req) (the u_req) now st = (m, st2)" "res = Mapped m"
    with active_links_create_and_validate [OF inv] r s show ?thesis by (simp add: abstract_op_def)
  qed
qed

lemma refine_delete_mapping:
  assumes inv: "store_inv st" and run: "delete_patient_mapping i st = (r, st')"
  shows "active_links st' = apply_link_op (abstract_op (ReqDeleteMapping i) st (RDelete r)) (active_links st)"
proof (cases "get_active_by_id i st")
  case None
  with run show ?thesis by (auto simp: delete_patient_mapping_def abstract_op_def)
next
  case (Some m)
  note g = get_active_by_id_Some [OF Some]
  with run Some active_links_deactivate [OF inv] show ?thesis
    by (auto simp: delete_patient_mapping_def abstract_op_def)
qed

lemma refine_sync_mapping:
  assumes inv: "store_inv st" and run: "sync_patient_mapping reg arch i now st = (r, st')"
  shows "active_links st' = apply_link_op (abstract_op req st (RSync r)) (active_links st)"
proof (cases "get_active_by_id i st")
  case None
  with run show ?thesis by (auto simp: sync_patient_mapping_def abstract_op_def)
next
  case (Some m)
  note g = get_active_by_id_Some [OF Some]
  then have "active_links st' = active_links st"
    using run Some g
    by (auto simp: sync_patient_mapping_def Let_def split: prod.splits if_splits
             simp del: update_sync_time_fst dest: active_links_update_sync_time_run [OF inv])
  then show ?thesis by (simp add: abstract_op_def split: sync_body.split prod.split)
qed

lemma refine_upload:
  assumes inv: "store_inv st"
    and run: "upload_dicom_with_auto_mapping reg arch fl reply now st = (r, st')"
  shows "active_links st' = apply_link_op (abstract_op req st (RUpload r)) (active_links st)"
proof (cases "fl = None \<or> reply = None")
  case True
  with run show ?thesis
    by (cases fl) (auto simp: upload_dicom_with_auto_mapping_def abstract_op_def)
next
  case False
  then obtain tags ur where f: "fl = Some tags" and u: "reply = Some ur" by auto
  obtain res st2 where pu: "process_dicom_upload reg arch tags (ur_parent_patient ur) now st = (res, st2)"
    by (cases "process_dicom_upload reg arch tags (ur_parent_patient ur) now st")
  have r: "r = (if outcome_success res then (201, UpDone ur res True) else (206, UpDone ur res False))"
    and s: "st' = st2"
    using run f u pu by (auto simp: upload_dicom_with_auto_mapping_def split: if_splits)
  from process_dicom_upload_cases [OF pu] show ?thesis
  proof (elim disjE exE conjE)
    assume "st2 = st" "\<forall>m. res \<noteq> Mapped m"
    then show ?thesis using r s by (cases res) (auto simp: abstract_op_def)
  next
    fix opid u' m
    assume "create_and_validate reg arch AUTO opid u' now st = (m, st2)" "res = Mapped m"
    with active_links_create_and_validate [OF inv] r s show ?thesis by (simp add: abstract_op_def)
  qed
qed

lemma refine_clear_dummy:
  assumes inv: "store_inv st" and run: "clear_dummy_data st = (r, st')"
  shows "active_links st' = apply_link_op (abstract_op req st (RClear r)) (active_links st)"
proof -
  have "st' = st\<lparr>rows := deactivate_where (\<lambda>r. icontains (fst (link_of r)) ''DUMMY'') (rows st)\<rparr>"
    using run clear_dummy_data_rows [OF inv] by (simp add: link_of_def)
  then show ?thesis
    using active_links_deactivate_where [of "\<lambda>l. icontains (fst l) ''DUMMY''" st]
    by (simp add: abstract_op_def)
qed

subsection \<open>Refinement\<close>

text \<open>C36: every handler that changes the mapping table refines the abstract link
  multiset: the active links after the request are the links before with the
  operation the answer announces applied (a created row adds its link, a deletion
  removes the link of the row it named, the clean-up drops the links of archive ids
  containing \<open>DUMMY\<close>, every other answer leaves the links as they were).\<close>

theorem handle_mapping_refines:
  assumes inv: "store_inv st"
  shows "active_links (snd (handle_mapping reg arch now req st)) =
         apply_link_op (abstract_op req st (fst (handle_mapping reg arch now req st))) (active_links st)"
proof (cases req)
  case (ReqCreateMapping o_req u_req)
  obtain r st' where run: "create_patient_mapping reg arch o_req u_req now st = (r, st')" by fastforce
  from refine_create_mapping [OF inv run] run ReqCreateMapping show ?thesis by simp
next
  case (ReqManualMapping o_req u_req)
  obtain r st' where run: "create_manual_patient_mapping reg arch o_req u_req now st = (r, st')" by fastforce
  from refine_manual_mapping [OF inv run] run ReqManualMapping show ?thesis by simp
next
  case (ReqDeleteMapping i)
  obtain r st' where run: "delete_patient_mapping i st = (r, st')" by fastforce
  from refine_delete_mapping [OF inv run] run ReqDeleteMapping show ?thesis by simp
next
  case (ReqSyncMapping i)
  obtain r st' where run: "sync_patient_mapping reg arch i now st = (r, st')" by fastforce
  from refine_sync_mapping [OF inv run] run ReqSyncMapping show ?thesis by simp
next
  case (ReqUpload fl reply)
  obtain r st' where run: "upload_dicom_with_auto_mapping reg arch fl reply now st = (r, st')" by fastforce
  from refine_upload [OF inv run] run ReqUpload show ?thesis by simp
next
  case ReqClearDummy
  obtain r st' where run: "clear_dummy_data st = (r, st')" by fastforce
  from refine_clear_dummy [OF inv run] run ReqClearDummy show ?thesis by simp
qed

theorem handle_mapping_refines_witness:
  "store_inv empty_store \<and>
   active_links (snd (handle_mapping ex_registry ex_archive 5 (ReqManualMapping (Some ''o1'') (Some ''uuid-a''))
     empty_store)) = {#(''o1'', ''uuid-a'')#}"
proof -
  have r: "fst (handle_mapping ex_registry ex_archive 5 (ReqManualMapping (Some ''o1'') (Some ''uuid-a'')) empty_store)
     = RManual (201, MMResult (Mapped \<lparr>mapping_id = 1, orthanc_patient_id = ''o1'', openmrs_patient_uuid = ''uuid-a'',
         mapping_type = MANUAL, sync_status = MANUAL_MAPPED, error_message = None, created_date = 5,
         last_sync = Some 5, is_active = True\<rparr>))"
    by code_simp
  have e: "active_links empty_store = {#}"
    by (simp add: active_links_def get_active_mappings_def empty_store_def)
  show ?thesis
    using handle_mapping_refines [OF empty_store_inv, of ex_registry ex_archive 5
        "ReqManualMapping (Some ''o1'') (Some ''uuid-a'')"] r e empty_store_inv
    by (simp add: abstract_op_def link_of_def)
qed

subsection \<open>The shadowed definition\<close>

lemma delete_patient_mapping_v1_same_effect:
  "snd (delete_patient_mapping_v1 i st) = snd (delete_patient_mapping i st) \<and>
   fst (fst (delete_patient_mapping_v1 i st)) = fst (fst (delete_patient_mapping i st))"
  by (simp add: delete_patient_mapping_v1_def delete_patient_mapping_def split: option.split)

subsection \<open>The statistics count each new mapping\<close>

lemma create_and_validate_active:
  assumes inv: "store_inv st" and c: "create_and_validate reg arch ty opid u now st = (m, st')"
  shows "get_active_mappings st' = get_active_mappings st @ [m] \<and>
         dummy_mappings st' = dummy_mappings st @ (if icontains opid ''DUMMY'' then [m] else []) \<and>
         mapping_type m = ty \<and> (successful_status (sync_status m) \<longleftrightarrow> validate_mapping reg arch m = [])"
proof -
  note r = create_and_validate_result [OF inv c]
  have "successful_status (sync_status m) \<longleftrightarrow> sync_status m \<noteq> ERROR"
    using r by (cases ty) (auto simp: successful_status_def first_sync_status_def)
  then show ?thesis using r by (simp add: get_active_mappings_def dummy_mappings_def)
qed

text \<open>C19: every mapping the handlers create (through \<open>create_and_validate\<close>, as an
  upload, the batch sweep, \<open>create_dummy_data\<close> and a manual mapping do) is
  counted by \<open>get_mapping_status\<close>: the total and the count of its own type grow by
  one and the other type's count stays. When its archive id contains \<open>DUMMY\<close>,
  \<open>get_mapping_test_status\<close> counts it the same way, and counts it as successful
  exactly when its first validation passed; otherwise the test statistics are
  unchanged.\<close>

theorem statistics_count_new_mapping:
  assumes inv: "store_inv st" and c: "create_and_validate reg arch ty opid u now st = (m, st')"
  shows "(\<forall>t a mm r t' a' mm' r'. get_mapping_status st = (200, MappingStatus t a mm r) \<longrightarrow>
            get_mapping_status st' = (200, MappingStatus t' a' mm' r') \<longrightarrow>
            t' = Suc t \<and> a' = a + (if ty = AUTO then 1 else 0) \<and> mm' = mm + (if ty = MANUAL then 1 else 0)) \<and>
         (\<forall>s s' ms ms'. get_mapping_test_status st = (200, TestStatus s ms) \<longrightarrow>
            get_mapping_test_status st' = (200, TestStatus s' ms') \<longrightarrow>
            (if icontains opid ''DUMMY''
             then ts_total s' = Suc (ts_total s) \<and>
                  ts_auto s' = ts_auto s + (if ty = AUTO then 1 else 0) \<and>
                  ts_manual s' = ts_manual s + (if ty = MANUAL then 1 else 0) \<and>
                  ts_successful s' = ts_successful s + (if validate_mapping reg arch m = [] then 1 else 0)
             else s' = s))"
  using create_and_validate_active [OF inv c]
  by (cases ty) (auto simp: get_mapping_status_def get_mapping_test_status_def Let_def)

theorem statistics_count_new_mapping_witness:
  "get_mapping_test_status (snd (create_and_validate ex_registry ex_archive MANUAL ''DUMMY-02'' ''uuid-z'' 9 ex_maint_store)) =
     (200, TestStatus \<lparr>ts_total = 2, ts_auto = 1, ts_manual = 1, ts_successful = 1\<rparr>
             (dummy_mappings (snd (create_and_validate ex_registry ex_archive MANUAL ''DUMMY-02'' ''uuid-z'' 9 ex_maint_store))))"
proof -
  obtain m st' where c: "create_and_validate ex_registry ex_archive MANUAL ''DUMMY-02'' ''uuid-z'' 9 ex_maint_store = (m, st')"
    by (cases "create_and_validate ex_registry ex_archive MANUAL ''DUMMY-02'' ''uuid-z'' 9 ex_maint_store")
  have v: "validate_mapping ex_registry ex_archive m \<noteq> []"
  proof -
    have "validate_mapping ex_registry ex_archive (fst (create_and_validate ex_registry ex_archive MANUAL ''DUMMY-02'' ''uuid-z'' 9 ex_maint_store)) \<noteq> []"
      by code_simp
    then show ?thesis using c by simp
  qed
  have d: "icontains ''DUMMY-02'' ''DUMMY''" by code_simp
  have s0: "get_mapping_test_status ex_maint_store =
     (200, TestStatus \<lparr>ts_total = 1, ts_auto = 1, ts_manual = 0, ts_successful = 1\<rparr> [ex_dummy_row])"
    by code_simp
  obtain s' ms' where s1: "get_mapping_test_status st' = (200, TestStatus s' ms')"
    by (simp add: get_mapping_test_status_def Let_def)
  have "ts_total s' = 2 \<and> ts_auto s' = 1 \<and> ts_manual s' = 1 \<and> ts_successful s' = 1"
    using statistics_count_new_mapping [OF ex_maint_store_inv c] s0 s1 d v by auto
  moreover have "ms' = dummy_mappings st'" using s1 by (simp add: get_mapping_test_status_def Let_def)
  ultimately show ?thesis using s1 c by (cases s') simp
qed

end
