(* ===== verification/Migrations.thy ===== *)
theory Migrations
  imports Services "HOL-Library.AList"
begin

text \<open>
  The database migrations of the repository (\<open>orders/migrations/0001_initial.py\<close>,
  \<open>ocs/migrations/0001_initial.py\<close>, \<open>ocs/migrations/0002_ocslog_delete_lislog.py\<close>)
  and the model \<open>OCSLog\<close> of \<open>ocs/models.py\<close>, with the part of Django's migration
  executor they exercise. A schema is the list of applied migrations, the project
  state (the fields of each model, keyed by app label and lower-case model name) and
  the tables of the database. \<open>CreateModel\<close> records the model in the state, which
  overwrites an earlier entry, and creates its table, which fails when the table
  exists; \<open>DeleteModel\<close> removes the model from the state, which raises \<open>KeyError\<close>
  when the state has no such model, and drops its table. A migration runs in one
  transaction: when one operation fails nothing of it is kept. A migration may run
  when it is not applied yet and its dependencies are.
\<close>

subsection \<open>Migrations\<close>

datatype field_kind =
    BigAutoField | CharField nat | IntegerField | TextField | DateTimeField | JSONField | UUIDField

text \<open>A field: its name, its kind (with \<open>max_length\<close> for text columns) and whether it is
  nullable; \<open>blank\<close>, \<open>choices\<close>, defaults and \<open>auto_now_add\<close> do not change the columns
  and are left out.\<close>

record field =
  fd_name :: string
  fd_kind :: field_kind
  fd_null :: bool

definition fld :: "string \<Rightarrow> field_kind \<Rightarrow> bool \<Rightarrow> field" where
  "fld n k nl = \<lparr>fd_name = n, fd_kind = k, fd_null = nl\<rparr>"

datatype migration_op = CreateModel string "field list" | DeleteModel string

record migration =
  mg_app :: string
  mg_name :: string
  mg_deps :: "(string \<times> string) list"
  mg_ops :: "migration_op list"

definition id_field :: field where
  "id_field = fld ''id'' BigAutoField False"

definition orders_0001 :: migration where
  "orders_0001 = \<lparr>mg_app = ''orders'', mg_name = ''0001_initial'', mg_deps = [],
     mg_ops = [CreateModel ''TestOrder''
       [id_field, fld ''patient_id'' IntegerField False, fld ''doctor_id'' IntegerField False,
        fld ''test_type'' (CharField 50) False, fld ''order_date'' DateTimeField False]]\<rparr>"

definition ocs_0001 :: migration where
  "ocs_0001 = \<lparr>mg_app = ''ocs'', mg_name = ''0001_initial'', mg_deps = [],
     mg_ops = [CreateModel ''OCSLog''
       [id_field, fld ''patient_id'' (CharField 100) False, fld ''patient_name'' (CharField 100) True,
        fld ''doctor_id'' (CharField 100) False, fld ''doctor_name'' (CharField 100) True,
        fld ''request_type'' (CharField 100) False, fld ''request_detail'' TextField False,
        fld ''request_time'' DateTimeField False, fld ''result_type'' (CharField 100) True,
        fld ''result_time'' DateTimeField True]]\<rparr>"

definition ocs_0002 :: migration where
  "ocs_0002 = \<lparr>mg_app = ''ocs'', mg_name = ''0002_ocslog_delete_lislog'',
     mg_deps = [(''ocs'', ''0001_initial'')],
     mg_ops = [CreateModel ''OCSLog''
       [id_field, fld ''category'' (CharField 20) False, fld ''patient_uuid'' (CharField 36) True,
        fld ''doctor_uuid'' (CharField 36) True, fld ''detail'' JSONField True,
        fld ''step'' (CharField 10) False, fld ''patient_id'' (CharField 100) False,
        fld ''doctor_id'' (CharField 100) True, fld ''created_at'' DateTimeField False],
       DeleteModel ''LISLog'']\<rparr>"

definition repo_migrations :: "migration list" where
  "repo_migrations = [orders_0001, ocs_0001, ocs_0002]"

text \<open>The columns of \<open>class OCSLog(models.Model)\<close> in \<open>ocs/models.py\<close> (the key is the
  implicit \<open>id\<close> the migrations create).\<close>

definition ocslog_model :: "field list" where
  "ocslog_model =
     [id_field, fld ''timestamp'' DateTimeField False, fld ''patient_id'' UUIDField True,
      fld ''doctor_id'' UUIDField True, fld ''raw_data'' JSONField False,
      fld ''system'' (CharField 50) False]"

subsection \<open>The executor\<close>

record schema =
  sc_applied :: "(string \<times> string) list"
  sc_models :: "((string \<times> string) \<times> field list) list"
  sc_tables :: "string list"

definition empty_schema :: schema where
  "empty_schema = \<lparr>sc_applied = [], sc_models = [], sc_tables = []\<rparr>"

text \<open>\<open>db_table\<close> of a model: the app label, an underscore and the lower-case name.\<close>

definition table_name :: "string \<Rightarrow> string \<Rightarrow> string" where
  "table_name app n = app @ ''_'' @ py_lower n"

text \<open>\<open>state_forwards\<close> and \<open>database_forwards\<close> of one operation.\<close>

fun apply_op :: "string \<Rightarrow> migration_op \<Rightarrow> schema \<Rightarrow> schema option" where
  "apply_op app (CreateModel n fs) s =
     (if table_name app n \<in> set (sc_tables s) then None
      else Some (s\<lparr>sc_models := AList.update (app, py_lower n) fs (sc_models s),
                   sc_tables := sc_tables s @ [table_name app n]\<rparr>))"
| "apply_op app (DeleteModel n) s =
     (if (app, py_lower n) \<notin> fst ` set (sc_models s) then None
      else Some (s\<lparr>sc_models := AList.delete (app, py_lower n) (sc_models s),
                   sc_tables := removeAll (table_name app n) (sc_tables s)\<rparr>))"

fun apply_ops :: "string \<Rightarrow> migration_op list \<Rightarrow> schema \<Rightarrow> schema option" where
  "apply_ops app [] s = Some s"
| "apply_ops app (op # ops) s = (case apply_op app op s of None \<Rightarrow> None | Some s' \<Rightarrow> apply_ops app ops s')"

text \<open>One migration, recorded as applied when all its operations succeed.\<close>

definition run_migration :: "migration \<Rightarrow> schema \<Rightarrow> schema option" where
  "run_migration m s =
     map_option (\<lambda>s'. s'\<lparr>sc_applied := sc_applied s' @ [(mg_app m, mg_name m)]\<rparr>)
       (apply_ops (mg_app m) (mg_ops m) s)"

inductive migrate_step :: "schema \<Rightarrow> schema \<Rightarrow> bool" where
  run: "m \<in> set repo_migrations \<Longrightarrow> (mg_app m, mg_name m) \<notin> set (sc_applied s) \<Longrightarrow>
        set (mg_deps m) \<subseteq> set (sc_applied s) \<Longrightarrow> run_migration m s = Some s' \<Longrightarrow> migrate_step s s'"

text \<open>The schemas a successful step can lead to: each migration that may run, run.\<close>

definition step_targets :: "schema \<Rightarrow> schema list" where
  "step_targets s =
     List.map_filter (\<lambda>m. if (mg_app m, mg_name m) \<notin> set (sc_applied s) \<and> set (mg_deps m) \<subseteq> set (sc_applied s)
                          then run_migration m s else None) repo_migrations"

text \<open>The schemas reachable from the empty database: nothing, or the two initial
  migrations in either order.\<close>

definition reachable_schemas :: "schema list" where
  "reachable_schemas =
     (let s_o = the (run_migration orders_0001 empty_schema);
          s_c = the (run_migration ocs_0001 empty_schema)
      in [empty_schema, s_o, s_c, the (run_migration ocs_0001 s_o), the (run_migration orders_0001 s_c)])"


subsection \<open>Lemmas: the reachable schemas\<close>

lemma set_map_filter_iff: "y \<in> set (List.map_filter f xs) \<longleftrightarrow> (\<exists>x \<in> set xs. f x = Some y)"
  by (induction xs) (auto split: option.splits)

lemma migrate_step_iff: "migrate_step s s' \<longleftrightarrow> s' \<in> set (step_targets s)"
  by (auto simp: migrate_step.simps step_targets_def set_map_filter_iff split: if_splits)

lemma reachable_closed_all:
  "list_all (\<lambda>s. list_all (\<lambda>s'. s' \<in> set reachable_schemas) (step_targets s)) reachable_schemas"
  by code_simp

lemma reachable_schemas_closed:
  "migrate_step\<^sup>*\<^sup>* empty_schema s \<Longrightarrow> s \<in> set reachable_schemas"
proof (induction rule: rtranclp_induct)
  case base
  then show ?case by (simp add: reachable_schemas_def Let_def)
next
  case (step s s')
  with reachable_closed_all show ?case by (auto simp: migrate_step_iff list_all_iff)
qed

lemma reachable_schemas_facts:
  "list_all (\<lambda>s. (''ocs'', ''0002_ocslog_delete_lislog'') \<notin> set (sc_applied s) \<and>
                 (''ocs'', ''lislog'') \<notin> fst ` set (sc_models s) \<and> ''ocs_lislog'' \<notin> set (sc_tables s) \<and>
                 map_of (sc_models s) (''ocs'', ''ocslog'') \<noteq> Some ocslog_model) reachable_schemas"
  by code_simp

lemma reachable_can_finish_all:
  "list_all (\<lambda>s. list_ex (\<lambda>s'. (s' = s \<or> s' \<in> set (step_targets s) \<or>
                                 (\<exists>s1 \<in> set (step_targets s). s' \<in> set (step_targets s1))) \<and>
                               step_targets s' = [] \<and>
                               (''orders'', ''0001_initial'') \<in> set (sc_applied s') \<and>
                               (''ocs'', ''0001_initial'') \<in> set (sc_applied s')) reachable_schemas)
     reachable_schemas"
  by code_simp

lemma two_steps_empty:
  "migrate_step\<^sup>*\<^sup>* empty_schema (the (run_migration ocs_0001 (the (run_migration orders_0001 empty_schema))))"
proof -
  have a: "the (run_migration orders_0001 empty_schema) \<in> set (step_targets empty_schema)" by code_simp
  have b: "the (run_migration ocs_0001 (the (run_migration orders_0001 empty_schema)))
           \<in> set (step_targets (the (run_migration orders_0001 empty_schema)))" by code_simp
  from a b show ?thesis
    by (meson migrate_step_iff rtranclp.rtrancl_into_rtrancl rtranclp.rtrancl_refl)
qed

subsection \<open>Lemmas: every step applies one more migration\<close>






subsection \<open>Properties of the migrations\<close>

text \<open>C37: in every database the repository's migrations can produce from an empty one,
  \<open>0002_ocslog_delete_lislog\<close> is not applied, the state has no model \<open>LISLog\<close> and the
  database no table \<open>ocs_lislog\<close> (which the OCS views query), and the state of
  \<open>OCSLog\<close> is not the declaration of \<open>ocs/models.py\<close>.\<close>

theorem migrations_invariant:
  assumes "migrate_step\<^sup>*\<^sup>* empty_schema s"
  shows "(''ocs'', ''0002_ocslog_delete_lislog'') \<notin> set (sc_applied s) \<and>
         (''ocs'', ''lislog'') \<notin> fst ` set (sc_models s) \<and> ''ocs_lislog'' \<notin> set (sc_tables s) \<and>
         map_of (sc_models s) (''ocs'', ''ocslog'') \<noteq> Some ocslog_model"
  using reachable_schemas_closed [OF assms] reachable_schemas_facts by (simp add: list_all_iff)

theorem migrations_invariant_witness:
  "''ocs_lislog'' \<notin> set (sc_tables (the (run_migration ocs_0001 (the (run_migration orders_0001 empty_schema))))) \<and>
   (''ocs'', ''0002_ocslog_delete_lislog'') \<notin>
     set (sc_applied (the (run_migration ocs_0001 (the (run_migration orders_0001 empty_schema)))))"
  using migrations_invariant [OF two_steps_empty] by simp

text \<open>C38: \<open>migrate\<close> always gets to the end: from every reachable database a sequence of
  steps reaches one where no migration can run any more, and there both initial
  migrations are applied (while \<open>0002\<close> stays pending, C37).\<close>

theorem migrations_complete:
  assumes "migrate_step\<^sup>*\<^sup>* empty_schema s"
  shows "\<exists>s'. migrate_step\<^sup>*\<^sup>* s s' \<and> (\<forall>s''. \<not> migrate_step s' s'') \<and>
              (''orders'', ''0001_initial'') \<in> set (sc_applied s') \<and>
              (''ocs'', ''0001_initial'') \<in> set (sc_applied s')"
proof -
  from reachable_schemas_closed [OF assms] reachable_can_finish_all
  obtain s' where path: "s' = s \<or> s' \<in> set (step_targets s) \<or> (\<exists>s1 \<in> set (step_targets s). s' \<in> set (step_targets s1))"
    and fin: "step_targets s' = []"
    and ap: "(''orders'', ''0001_initial'') \<in> set (sc_applied s')" "(''ocs'', ''0001_initial'') \<in> set (sc_applied s')"
    by (auto simp: list_all_iff list_ex_iff)
  from path have "migrate_step\<^sup>*\<^sup>* s s'"
    by (auto simp flip: migrate_step_iff
             intro: rtranclp.rtrancl_into_rtrancl [OF r_into_rtranclp])
  moreover from fin have "\<forall>s''. \<not> migrate_step s' s''" by (simp add: migrate_step_iff)
  ultimately show ?thesis using ap by blast
qed

theorem migrations_complete_witness:
  "\<exists>s'. migrate_step\<^sup>*\<^sup>* (the (run_migration ocs_0001 (the (run_migration orders_0001 empty_schema)))) s' \<and>
        (\<forall>s''. \<not> migrate_step s' s'')"
  using migrations_complete [OF two_steps_empty] by blast





end
