(* ===== verification/OpenmrsProxy.thy ===== *)
theory OpenmrsProxy
  imports Routing
begin

text \<open>
  The two OpenMRS pass-through handlers of \<open>src/backend/medical_integration/views.py\<close>:
  \<open>get_all_patients_simple\<close>, which forwards the paging parameters \<open>limit\<close> and
  \<open>startIndex\<close> to the custom patient resource and echoes them back through Python's
  \<open>int()\<close>, and \<open>proxy_openmrs_providers\<close>, which relays the provider list.
  \<open>settings.EXTERNAL_SERVICES['openmrs']\<close> is an input (\<open>None\<close> when the lookup
  raises, otherwise the configuration's entries as their f-string renderings), and so is
  what \<open>requests.get\<close> answers. The handler returns the request it sent, if it sent one,
  together with its response, so that the order of the call and of the checks is visible.
\<close>

subsection \<open>Python's \<open>int(s)\<close> on a string\<close>

text \<open>Base 10: surrounding white space is stripped, an optional sign follows, then
  decimal digits in which single underscores may separate two digits.\<close>

fun py_int_body :: "string \<Rightarrow> bool" where
  "py_int_body [] = False"
| "py_int_body (c # r) =
     (is_digit c \<and> (case r of [] \<Rightarrow> True
                    | d # r' \<Rightarrow> if d = CHR ''_'' then py_int_body r' else py_int_body r))"

definition py_int_unsigned :: "string \<Rightarrow> int option" where
  "py_int_unsigned u =
     (if py_int_body u then Some (int (digits_value (filter is_digit u))) else None)"

definition py_int :: "string \<Rightarrow> int option" where
  "py_int s =
     (case py_strip s of
        c # r \<Rightarrow> if c = CHR ''-'' then map_option uminus (py_int_unsigned r)
                 else if c = CHR ''+'' then py_int_unsigned r
                 else py_int_unsigned (c # r)
      | [] \<Rightarrow> None)"

text \<open>\<open>str(i)\<close> of an integer.\<close>

definition py_str_int :: "int \<Rightarrow> string" where
  "py_str_int i = (if i < 0 then CHR ''-'' # show_dec (nat (- i)) else show_dec (nat i))"

subsection \<open>\<open>get_all_patients_simple\<close>\<close>

text \<open>What \<open>requests.get\<close> does: it raises a \<open>RequestException\<close>, or answers a status
  and a body. The body of the custom resource is not JSON (\<open>response.json()\<close> raises),
  a JSON object with or without a \<open>results\<close> entry, or another JSON value, whose
  \<open>.get\<close> raises \<open>AttributeError\<close>. The \<open>results\<close> value is an array, a value
  with a length (a string or an object), or one without (a number, a truth value,
  \<open>null\<close>), on which \<open>len\<close> raises \<open>TypeError\<close>.\<close>

datatype 'b upstream = UpRaised | UpAnswer nat 'b

datatype 'p results_value = RArray "'p list" | RSized nat | RUnsized

datatype 'p patients_json = NotJson | JsonObject "'p results_value option" | JsonNonObject

fun py_len :: "'p results_value \<Rightarrow> nat option" where
  "py_len (RArray xs) = Some (length xs)"
| "py_len (RSized n) = Some n"
| "py_len RUnsized = None"

text \<open>The request of lines 1140 to 1149.\<close>

record outbound =
  ob_url :: string
  ob_params :: "(string \<times> string) list"

text \<open>Each \<open>except\<close> clause of the handler: the configuration lookup (line 1127), a
  missing configuration key (a \<open>KeyError\<close> caught on line 1174), an upstream status
  other than 200 (line 1153), a \<open>RequestException\<close> (line 1170, which also catches the
  \<open>JSONDecodeError\<close> of \<open>response.json()\<close>), and the errors of lines 1158 to 1167
  that the generic clause catches.\<close>

datatype simple_error =
    ConfigError | KeyMissing string | UpstreamStatus nat | RequestFailed
  | NotAnObject | Unsized | InvalidLiteral string

datatype 'p simple_body =
    SimpleList "'p results_value" nat int int
  | SimpleError simple_error

type_synonym config = "(string \<times> string) list"

text \<open>\<open>d.get(k, default)\<close> on a value looked up as an option.\<close>

definition get_or :: "'a option \<Rightarrow> 'a \<Rightarrow> 'a" where
  "get_or v d = (case v of Some x \<Rightarrow> x | None \<Rightarrow> d)"

text \<open>The entries read on lines 1135 to 1138, in that order.\<close>

definition config_keys :: "string list" where
  "config_keys = [''host'', ''port'', ''username'', ''password'']"

definition custompatient_url :: "string \<Rightarrow> string \<Rightarrow> string" where
  "custompatient_url host port =
     ''http://'' @ host @ '':'' @ port @ ''/openmrs/ws/rest/v1/custompatient''"

text \<open>Lines 1162 to 1168: the dictionary is built in order, so \<open>len(results)\<close> is
  evaluated before \<open>int(limit)\<close>, which comes before \<open>int(start_index)\<close>.\<close>

definition simple_reply :: "'p results_value \<Rightarrow> string \<Rightarrow> string \<Rightarrow> 'p simple_body response" where
  "simple_reply results limit start_index =
     (case py_len results of
        None \<Rightarrow> (500, SimpleError Unsized)
      | Some n \<Rightarrow>
          (case py_int limit of
             None \<Rightarrow> (500, SimpleError (InvalidLiteral limit))
           | Some l \<Rightarrow>
               (case py_int start_index of
                  None \<Rightarrow> (500, SimpleError (InvalidLiteral start_index))
                | Some i \<Rightarrow> (200, SimpleList results n l i))))"

definition get_all_patients_simple ::
  "config option \<Rightarrow> string option \<Rightarrow> string option \<Rightarrow> 'p patients_json upstream \<Rightarrow>
   outbound option \<times> 'p simple_body response" where
  "get_all_patients_simple cfg limit_param start_param answer =
     (case cfg of
        None \<Rightarrow> (None, (500, SimpleError ConfigError))
      | Some c \<Rightarrow>
          (let limit = get_or limit_param ''20'';
               start_index = get_or start_param ''0''
           in case find (\<lambda>k. map_of c k = None) config_keys of
                Some k \<Rightarrow> (None, (500, SimpleError (KeyMissing k)))
              | None \<Rightarrow>
                  (let req = \<lparr>ob_url = custompatient_url (the (map_of c ''host'')) (the (map_of c ''port'')),
                              ob_params = [(''limit'', limit), (''startIndex'', start_index)]\<rparr>
                   in (Some req,
                       case answer of
                         UpRaised \<Rightarrow> (500, SimpleError RequestFailed)
                       | UpAnswer st body \<Rightarrow>
                           if st \<noteq> 200 then (500, SimpleError (UpstreamStatus st))
                           else (case body of
                                   NotJson \<Rightarrow> (500, SimpleError RequestFailed)
                                 | JsonNonObject \<Rightarrow> (500, SimpleError NotAnObject)
                                 | JsonObject r \<Rightarrow>
                                     simple_reply (get_or r (RArray [])) limit start_index)))))"

text \<open>An OpenMRS configuration, as \<open>settings.EXTERNAL_SERVICES['openmrs']\<close> might hold it.\<close>

definition ex_config :: config where
  "ex_config = [(''host'', ''localhost''), (''port'', ''8082''), (''username'', ''admin''),
                (''password'', ''Admin123'')]"

subsection \<open>\<open>proxy_openmrs_providers\<close>\<close>

text \<open>The provider list is relayed as it is: \<open>None\<close> is a body that is not JSON, on
  which \<open>res.json()\<close> raises and the generic clause answers 500.\<close>

datatype 'j providers_body = ProvidersData 'j | ProvidersFailed | ProvidersError

definition providers_url :: string where
  "providers_url = ''http://localhost:8082/openmrs/ws/rest/v1/provider''"

definition proxy_openmrs_providers :: "'j option upstream \<Rightarrow> 'j providers_body response" where
  "proxy_openmrs_providers answer =
     (case answer of
        UpRaised \<Rightarrow> (500, ProvidersError)
      | UpAnswer st body \<Rightarrow>
          if st = 200 then (case body of Some j \<Rightarrow> (200, ProvidersData j) | None \<Rightarrow> (500, ProvidersError))
          else (st, ProvidersFailed))"

subsection \<open>\<open>int()\<close> reads back \<open>str()\<close>\<close>

lemma is_digit_not_space: "is_digit c \<Longrightarrow> \<not> is_py_space c"
  by (auto simp: is_digit_def is_py_space_def)

lemma py_strip_unchanged:
  assumes "s \<noteq> []" "\<not> is_py_space (hd s)" "\<not> is_py_space (last s)"
  shows "py_strip s = s"
proof -
  have "dropWhile is_py_space s = s" using assms(1,2) by (cases s) auto
  moreover have "dropWhile is_py_space (rev s) = rev s"
    using assms(1,3) by (cases "rev s") (auto simp: hd_rev[symmetric])
  ultimately show ?thesis by (simp add: py_strip_def)
qed

lemma py_int_body_digits: "s \<noteq> [] \<Longrightarrow> list_all is_digit s \<Longrightarrow> py_int_body s"
proof (induction s)
  case (Cons c r)
  then show ?case by (cases r) (auto simp: is_digit_def)
qed simp

lemma conv_ok_IntC: "conv_ok IntC = is_digit"
  by (rule ext) (simp add: conv_ok_def)

lemma show_dec_is_digits: "show_dec n \<noteq> [] \<and> list_all is_digit (show_dec n)"
  using show_dec_digits [of n] by (simp add: conv_ok_IntC)

lemma py_strip_digits: "s \<noteq> [] \<Longrightarrow> list_all is_digit s \<Longrightarrow> py_strip s = s"
  by (intro py_strip_unchanged) (auto simp: is_digit_not_space list_all_iff)

lemma py_int_unsigned_show_dec: "py_int_unsigned (show_dec n) = Some (int n)"
  using show_dec_is_digits [of n]
  by (simp add: py_int_unsigned_def py_int_body_digits filter_True list_all_iff)

lemma py_strip_show_dec: "py_strip (show_dec n) = show_dec n"
  using show_dec_is_digits [of n] by (simp add: py_strip_digits)

lemma py_strip_minus_show_dec: "py_strip (CHR ''-'' # show_dec n) = CHR ''-'' # show_dec n"
proof (rule py_strip_unchanged)
  have "is_digit (last (show_dec n))"
    using show_dec_is_digits [of n] last_in_set by (auto simp: list_all_iff)
  then show "\<not> is_py_space (last (CHR ''-'' # show_dec n))"
    using show_dec_is_digits [of n] by (simp add: is_digit_not_space)
qed (simp_all add: is_py_space_def)

lemma show_dec_hd: "hd (show_dec n) \<noteq> CHR ''-'' \<and> hd (show_dec n) \<noteq> CHR ''+''"
  using show_dec_is_digits [of n]
  by (cases "show_dec n") (auto simp: is_digit_def)

text \<open>\<open>int(str(i)) == i\<close>.\<close>

lemma py_int_py_str_int [simp]: "py_int (py_str_int i) = Some i"
proof (cases "i < 0")
  case True
  then show ?thesis
    by (simp add: py_int_def py_str_int_def py_strip_minus_show_dec py_int_unsigned_show_dec)
next
  case False
  obtain c r where cr: "show_dec (nat i) = c # r"
    using show_dec_is_digits [of "nat i"] by (cases "show_dec (nat i)") auto
  have "c \<noteq> CHR ''-'' \<and> c \<noteq> CHR ''+''" using show_dec_hd [of "nat i"] cr by simp
  then show ?thesis using False py_int_unsigned_show_dec [of "nat i"]
    by (simp add: py_int_def py_str_int_def py_strip_show_dec [of "nat i", unfolded cr] cr)
qed

subsection \<open>The behaviour of \<open>get_all_patients_simple\<close>\<close>

lemma find_config_keys_None:
  "find (\<lambda>k. map_of c k = None) config_keys = None \<longleftrightarrow> list_all (\<lambda>k. map_of c k \<noteq> None) config_keys"
  by (auto simp: find_None_iff list_all_iff)

lemma find_config_keys_Some:
  "find (\<lambda>k. map_of c k = None) config_keys = Some k \<Longrightarrow> \<not> list_all (\<lambda>k. map_of c k \<noteq> None) config_keys"
  by (auto simp: find_Some_iff list_all_iff dest: nth_mem)

lemma simple_reply_ok:
  "simple_reply v l s = (200, b) \<longleftrightarrow>
     (\<exists>n li i. py_len v = Some n \<and> py_int l = Some li \<and> py_int s = Some i \<and> b = SimpleList v n li i)"
  by (auto simp: simple_reply_def split: option.splits)

lemma simple_reply_bad_limit: "py_len v \<noteq> None \<Longrightarrow> py_int l = None \<Longrightarrow>
    simple_reply v l s = (500, SimpleError (InvalidLiteral l))"
  by (auto simp: simple_reply_def split: option.splits)

lemma get_all_patients_simple_sent:
  "list_all (\<lambda>k. map_of c k \<noteq> None) config_keys \<Longrightarrow>
   fst (get_all_patients_simple (Some c) lp sp answer) =
     Some \<lparr>ob_url = custompatient_url (the (map_of c ''host'')) (the (map_of c ''port'')),
           ob_params = [(''limit'', get_or lp ''20''), (''startIndex'', get_or sp ''0'')]\<rparr>"
proof -
  assume "list_all (\<lambda>k. map_of c k \<noteq> None) config_keys"
  then have "find (\<lambda>k. map_of c k = None) config_keys = None"
    using find_config_keys_None by blast
  then show ?thesis by (simp add: get_all_patients_simple_def Let_def)
qed

lemma get_all_patients_simple_500:
  "fst (snd (get_all_patients_simple cfg lp sp answer)) \<noteq> 200 \<Longrightarrow>
   \<exists>e. snd (get_all_patients_simple cfg lp sp answer) = (500, SimpleError e)"
  by (auto simp: get_all_patients_simple_def simple_reply_def Let_def
           split: option.splits upstream.splits patients_json.splits if_splits)

lemma get_all_patients_simple_200:
  "snd (get_all_patients_simple cfg lp sp answer) = (200, b) \<longleftrightarrow>
     (\<exists>c r n l i. cfg = Some c \<and> list_all (\<lambda>k. map_of c k \<noteq> None) config_keys \<and>
        answer = UpAnswer 200 (JsonObject r) \<and> py_len (get_or r (RArray [])) = Some n \<and>
        py_int (get_or lp ''20'') = Some l \<and> py_int (get_or sp ''0'') = Some i \<and>
        b = SimpleList (get_or r (RArray [])) n l i)"
  by (auto simp: get_all_patients_simple_def simple_reply_ok find_config_keys_None Let_def
           dest: find_config_keys_Some
           split: option.splits upstream.splits patients_json.splits if_splits)

lemma proxy_openmrs_providers_status:
  "fst (proxy_openmrs_providers a) =
     (case a of UpRaised \<Rightarrow> 500 | UpAnswer st b \<Rightarrow> if st = 200 \<and> b = None then 500 else st)"
  by (simp add: proxy_openmrs_providers_def split: upstream.split option.split)

lemma dispatch_openmrs_proxies:
  "dispatch ''GET'' ''openmrs/patients/'' = Call GetAllPatientsSimple [] \<and>
   dispatch ''GET'' ''openmrs/providers/'' = Call ProxyOpenmrsProviders [] \<and>
   dispatch ''POST'' ''openmrs/patients/'' = NotAllowed"
  by code_simp

text \<open>C39: with a complete configuration, a \<open>limit\<close> that Python's \<open>int()\<close> rejects is
  still sent to OpenMRS unchanged, and only afterwards does the handler answer 500;
  when OpenMRS answers a list, the error is the invalid literal itself.\<close>

theorem invalid_limit_forwarded:
  assumes keys: "list_all (\<lambda>k. map_of c k \<noteq> None) config_keys"
    and bad: "py_int (get_or lp ''20'') = None"
  shows "\<exists>e. get_all_patients_simple (Some c) lp sp answer =
           (Some \<lparr>ob_url = custompatient_url (the (map_of c ''host'')) (the (map_of c ''port'')),
                  ob_params = [(''limit'', get_or lp ''20''), (''startIndex'', get_or sp ''0'')]\<rparr>,
            (500, SimpleError e)) \<and>
         (answer = UpAnswer 200 (JsonObject (Some (RArray xs))) \<longrightarrow> e = InvalidLiteral (get_or lp ''20''))"
proof -
  have sent: "fst (get_all_patients_simple (Some c) lp sp answer) =
     Some \<lparr>ob_url = custompatient_url (the (map_of c ''host'')) (the (map_of c ''port'')),
           ob_params = [(''limit'', get_or lp ''20''), (''startIndex'', get_or sp ''0'')]\<rparr>"
    using get_all_patients_simple_sent [OF keys] .
  have not_ok: "fst (snd (get_all_patients_simple (Some c) lp sp answer)) \<noteq> 200"
    using get_all_patients_simple_200 [of "Some c" lp sp answer] bad by (metis option.distinct(1) prod.collapse)
  obtain e where e: "snd (get_all_patients_simple (Some c) lp sp answer) = (500, SimpleError e)"
    using get_all_patients_simple_500 not_ok by blast
  have "answer = UpAnswer 200 (JsonObject (Some (RArray xs))) \<Longrightarrow> e = InvalidLiteral (get_or lp ''20'')"
    using e keys bad find_config_keys_None [of c]
    by (simp add: get_all_patients_simple_def simple_reply_bad_limit get_or_def Let_def)
  then show ?thesis using sent e by (metis prod.collapse)
qed

theorem invalid_limit_forwarded_witness:
  "get_all_patients_simple (Some ex_config) (Some ''abc'') None
     (UpAnswer 200 (JsonObject (Some (RArray [1::nat])))) =
   (Some \<lparr>ob_url = ''http://localhost:8082/openmrs/ws/rest/v1/custompatient'',
          ob_params = [(''limit'', ''abc''), (''startIndex'', ''0'')]\<rparr>,
    (500, SimpleError (InvalidLiteral ''abc'')))"
proof -
  have k: "list_all (\<lambda>k. map_of ex_config k \<noteq> None) config_keys"
    by (simp add: ex_config_def config_keys_def)
  have b: "py_int (get_or (Some ''abc'') ''20'') = None" by code_simp
  obtain e where
    "get_all_patients_simple (Some ex_config) (Some ''abc'') None
       (UpAnswer 200 (JsonObject (Some (RArray [1::nat])))) =
     (Some \<lparr>ob_url = custompatient_url (the (map_of ex_config ''host'')) (the (map_of ex_config ''port'')),
            ob_params = [(''limit'', get_or (Some ''abc'') ''20''), (''startIndex'', get_or None ''0'')]\<rparr>,
      (500, SimpleError e))"
    "e = InvalidLiteral (get_or (Some ''abc'') ''20'')"
    using invalid_limit_forwarded [OF k b, of None "UpAnswer 200 (JsonObject (Some (RArray [1::nat])))" "[1]"]
    by blast
  then show ?thesis by (simp add: ex_config_def custompatient_url_def get_or_def)
qed


text \<open>C40: \<open>get_all_patients_simple\<close> answers only 200 or 500, and 200 exactly when the
  configuration holds the four entries, OpenMRS answers 200 with a JSON object whose
  \<open>results\<close> (an empty list when absent) has a length, and both paging parameters
  (by default \<open>'20'\<close> and \<open>'0'\<close>) are integers; the body then carries the results,
  their number and the two parsed integers.\<close>

theorem get_all_patients_simple_ok:
  "fst (snd (get_all_patients_simple cfg lp sp answer)) \<in> {200, 500} \<and>
   (snd (get_all_patients_simple cfg lp sp answer) = (200, b) \<longleftrightarrow>
     (\<exists>c r n l i. cfg = Some c \<and> list_all (\<lambda>k. map_of c k \<noteq> None) config_keys \<and>
        answer = UpAnswer 200 (JsonObject r) \<and> py_len (get_or r (RArray [])) = Some n \<and>
        py_int (get_or lp ''20'') = Some l \<and> py_int (get_or sp ''0'') = Some i \<and>
        b = SimpleList (get_or r (RArray [])) n l i))"
proof (rule conjI)
  show "fst (snd (get_all_patients_simple cfg lp sp answer)) \<in> {200, 500}"
    using get_all_patients_simple_500 [of cfg lp sp answer]
    by (cases "fst (snd (get_all_patients_simple cfg lp sp answer)) = 200") auto
qed (rule get_all_patients_simple_200)

theorem get_all_patients_simple_ok_witness:
  "snd (get_all_patients_simple (Some ex_config) None None
          (UpAnswer 200 (JsonObject (Some (RArray [1::nat, 2]))))) =
   (200, SimpleList (RArray [1, 2]) 2 20 0)"
proof -
  have k: "list_all (\<lambda>k. map_of ex_config k \<noteq> None) config_keys"
    by (simp add: ex_config_def config_keys_def)
  have l: "py_int ''20'' = Some 20" and i: "py_int ''0'' = Some 0" by code_simp+
  show ?thesis
    using get_all_patients_simple_ok [of "Some ex_config" None None
            "UpAnswer 200 (JsonObject (Some (RArray [1::nat, 2])))" "SimpleList (RArray [1, 2]) 2 20 0"]
          k l i
    by (simp add: get_or_def)
qed

end
