(* ===== verification/PyJson.thy ===== *)
theory PyJson
  imports OpenmrsProxy "HOL-Library.Monad_Syntax"
begin

text \<open>
  JSON values as the handlers of \<open>views.py\<close> see them after \<open>response.json()\<close>: Python's
  \<open>None\<close>, truth values, integers, strings, lists and dictionaries. A dictionary is the
  association list of its entries, keys distinct and in insertion order, as
  \<open>json.loads\<close> builds it. The Python operations the handlers apply to such values are
  functions into \<open>option\<close>, \<open>None\<close> being the exception the operation raises:
  \<open>d.get(k, default)\<close> raises \<open>AttributeError\<close> on anything but a dictionary,
  iteration raises \<open>TypeError\<close> on \<open>None\<close>, numbers and truth values, and so does
  \<open>len\<close>. \<open>str()\<close> and \<open>repr()\<close> follow CPython's rules for the ASCII characters; the
  bytes of a non-ASCII character are kept as they are (CPython also escapes the few
  non-printable non-ASCII characters). JSON numbers with a fraction (Python floats) are
  not modelled. A type of JSON values (\<open>jtype\<close>) describes the shape of a response body.
\<close>

datatype json = JNull | JBool bool | JNum int | JStr string | JArr "json list" | JObj "(string \<times> json) list"

subsection \<open>Python operations on JSON values\<close>

text \<open>\<open>d.get(k, default)\<close>; \<open>d.get(k)\<close> is \<open>py_get d k JNull\<close>.\<close>

definition py_get :: "json \<Rightarrow> string \<Rightarrow> json \<Rightarrow> json option" where
  "py_get d k dflt =
     (case d of JObj kvs \<Rightarrow> Some (case map_of kvs k of Some v \<Rightarrow> v | None \<Rightarrow> dflt) | _ \<Rightarrow> None)"

text \<open>\<open>for x in v\<close>: the elements of a list, the keys of a dictionary, the characters of
  a string.\<close>

definition py_iter :: "json \<Rightarrow> json list option" where
  "py_iter v = (case v of
      JArr xs \<Rightarrow> Some xs
    | JObj kvs \<Rightarrow> Some (map (JStr \<circ> fst) kvs)
    | JStr s \<Rightarrow> Some (map (\<lambda>c. JStr [c]) s)
    | _ \<Rightarrow> None)"

definition py_len_json :: "json \<Rightarrow> nat option" where
  "py_len_json v = (case v of
      JArr xs \<Rightarrow> Some (length xs) | JObj kvs \<Rightarrow> Some (length kvs) | JStr s \<Rightarrow> Some (length s)
    | _ \<Rightarrow> None)"

text \<open>\<open>bool(v)\<close>.\<close>

definition py_truthy_json :: "json \<Rightarrow> bool" where
  "py_truthy_json v = (case v of
      JNull \<Rightarrow> False | JBool b \<Rightarrow> b | JNum i \<Rightarrow> i \<noteq> 0 | JStr s \<Rightarrow> s \<noteq> []
    | JArr xs \<Rightarrow> xs \<noteq> [] | JObj kvs \<Rightarrow> kvs \<noteq> [])"

text \<open>\<open>[f(x) for x in xs]\<close> where \<open>f\<close> may raise: the first exception ends the loop.\<close>

definition py_list_comp :: "('a \<Rightarrow> 'b option) \<Rightarrow> 'a list \<Rightarrow> 'b list option" where
  "py_list_comp f xs = those (map f xs)"

subsection \<open>\<open>repr()\<close> and \<open>str()\<close>\<close>

definition hex_digit :: "nat \<Rightarrow> char" where
  "hex_digit n = ''0123456789abcdef'' ! n"

text \<open>One character of a string's \<open>repr\<close> between the quotes \<open>q\<close>.\<close>

definition repr_char :: "char \<Rightarrow> char \<Rightarrow> string" where
  "repr_char q c =
     (let n = of_char c :: nat in
      if c = q \<or> c = CHR 0x5C then [CHR 0x5C, c]
      else if c = CHR 0x09 then [CHR 0x5C, CHR ''t'']
      else if c = CHR 0x0A then [CHR 0x5C, CHR ''n'']
      else if c = CHR 0x0D then [CHR 0x5C, CHR ''r'']
      else if n < 32 \<or> n = 127 then [CHR 0x5C, CHR ''x'', hex_digit (n div 16), hex_digit (n mod 16)]
      else [c])"

text \<open>\<open>repr(s)\<close> of a string: single quotes, unless the string holds a single quote
  and no double quote.\<close>

definition repr_str :: "string \<Rightarrow> string" where
  "repr_str s =
     (let q = (if CHR 0x27 \<in> set s \<and> CHR 0x22 \<notin> set s then CHR 0x22 else CHR 0x27)
      in q # concat (map (repr_char q) s) @ [q])"

fun py_repr :: "json \<Rightarrow> string" where
  "py_repr JNull = ''None''"
| "py_repr (JBool b) = (if b then ''True'' else ''False'')"
| "py_repr (JNum i) = py_str_int i"
| "py_repr (JStr s) = repr_str s"
| "py_repr (JArr xs) = ''['' @ py_join '', '' (map py_repr xs) @ '']''"
| "py_repr (JObj kvs) = ''{'' @ py_join '', '' (map (\<lambda>(k, v). repr_str k @ '': '' @ py_repr v) kvs) @ ''}''"

text \<open>\<open>str(v)\<close>, as an f-string formats a value: a string is itself, anything else its
  \<open>repr\<close>.\<close>

definition py_str :: "json \<Rightarrow> string" where
  "py_str v = (case v of JStr s \<Rightarrow> s | _ \<Rightarrow> py_repr v)"

subsection \<open>The messages of the exceptions\<close>

text \<open>\<open>str(e)\<close> of the \<open>AttributeError\<close> that \<open>v.get\<close> raises on a value that is not a
  dictionary.\<close>

definition py_type_name :: "json \<Rightarrow> string" where
  "py_type_name v = (case v of
      JNull \<Rightarrow> ''NoneType'' | JBool b \<Rightarrow> ''bool'' | JNum i \<Rightarrow> ''int'' | JStr s \<Rightarrow> ''str''
    | JArr xs \<Rightarrow> ''list'' | JObj kvs \<Rightarrow> ''dict'')"

definition get_attribute_error :: "json \<Rightarrow> string" where
  "get_attribute_error v = CHR 0x27 # py_type_name v @ CHR 0x27 # '' object has no attribute '' @
                           [CHR 0x27] @ ''get'' @ [CHR 0x27]"

text \<open>\<open>str(e)\<close> of the \<open>TypeError\<close> of iterating over, or taking the length of, a
  value that has none.\<close>

definition not_iterable_error :: "json \<Rightarrow> string" where
  "not_iterable_error v = CHR 0x27 # py_type_name v @ CHR 0x27 # '' object is not iterable''"

definition no_len_error :: "json \<Rightarrow> string" where
  "no_len_error v = ''object of type '' @ CHR 0x27 # py_type_name v @ CHR 0x27 # '' has no len()''"

subsection \<open>Types of JSON values\<close>

text \<open>A shape of a response body: any value, a string, a list whose elements all have a
  type, or a dictionary with exactly the given keys, in order, each with its type.\<close>

datatype jtype = TAny | TStr | TArr jtype | TObj "(string \<times> jtype) list"

fun has_type :: "jtype \<Rightarrow> json \<Rightarrow> bool" where
  "has_type TAny v = True"
| "has_type TStr v = (case v of JStr s \<Rightarrow> True | _ \<Rightarrow> False)"
| "has_type (TArr t) v = (case v of JArr xs \<Rightarrow> list_all (has_type t) xs | _ \<Rightarrow> False)"
| "has_type (TObj fs) v =
     (case v of
        JObj kvs \<Rightarrow> map fst kvs = map fst fs \<and>
                   list_all (\<lambda>(k, t). case map_of kvs k of Some w \<Rightarrow> has_type t w | None \<Rightarrow> False) fs
      | _ \<Rightarrow> False)"

end
