(* ===== verification/PatientDetail.thy ===== *)
theory PatientDetail
  imports PyJson
begin

text \<open>
  The registry detail handlers of \<open>src/backend/medical_integration/views.py\<close>:
  \<open>get_patient\<close>, which reshapes the registry's patient into the response dictionary
  of lines 132 to 173 and has no \<open>try\<close> block, and \<open>get_patient_by_identifier\<close>, which
  passes selected entries through and catches every exception. What the registry
  client answers (\<open>OpenMRSAPI.get_patient\<close>, \<open>get_patient_by_identifier\<close>) is an input:
  its exception (\<open>Inl\<close>) or the JSON value it returns, \<open>JNull\<close> for \<open>None\<close>. An
  exception that leaves a handler is answered by Django with status 500.
\<close>

subsection \<open>\<open>get_patient\<close>\<close>

text \<open>The comprehensions of lines 135 to 169, one element each.\<close>

definition fmt_identifier :: "json \<Rightarrow> json option" where
  "fmt_identifier i = do {
     ident \<leftarrow> py_get i ''identifier'' JNull;
     ty \<leftarrow> py_get i ''identifierType'' (JObj []);
     disp \<leftarrow> py_get ty ''display'' JNull;
     Some (JObj [(''identifier'', ident), (''identifierType'', disp)])
   }"

definition fmt_name :: "json \<Rightarrow> json option" where
  "fmt_name n = do {
     given \<leftarrow> py_get n ''givenName'' JNull;
     middle \<leftarrow> py_get n ''middleName'' JNull;
     family \<leftarrow> py_get n ''familyName'' JNull;
     pref \<leftarrow> py_get n ''preferred'' (JBool False);
     Some (JObj [(''givenName'', given), (''middleName'', middle), (''familyName'', family),
                 (''preferred'', pref)])
   }"

definition address_keys :: "string list" where
  "address_keys = [''address1'', ''address2'', ''cityVillage'', ''stateProvince'', ''country'',
                   ''postalCode'']"

definition fmt_address :: "json \<Rightarrow> json option" where
  "fmt_address a = do {
     vs \<leftarrow> those (map (\<lambda>k. py_get a k JNull) address_keys);
     pref \<leftarrow> py_get a ''preferred'' (JBool False);
     Some (JObj (zip address_keys vs @ [(''preferred'', pref)]))
   }"

definition fmt_attribute :: "json \<Rightarrow> json option" where
  "fmt_attribute at = do {
     ty \<leftarrow> py_get at ''attributeType'' (JObj []);
     disp \<leftarrow> py_get ty ''display'' JNull;
     val \<leftarrow> py_get at ''value'' JNull;
     Some (JObj [(''attributeType'', disp), (''value'', val)])
   }"

text \<open>\<open>patient.get('person', {}).get(k, default)\<close>, evaluated afresh for every entry.\<close>

definition person_get :: "json \<Rightarrow> string \<Rightarrow> json \<Rightarrow> json option" where
  "person_get p k dflt = do { person \<leftarrow> py_get p ''person'' (JObj []); py_get person k dflt }"

text \<open>\<open>for x in patient.get('person', {}).get(k, [])\<close>, mapped by \<open>f\<close>.\<close>

definition person_list :: "json \<Rightarrow> string \<Rightarrow> (json \<Rightarrow> json option) \<Rightarrow> json option" where
  "person_list p k f = do {
     v \<leftarrow> person_get p k (JArr []);
     xs \<leftarrow> py_iter v;
     ys \<leftarrow> py_list_comp f xs;
     Some (JArr ys)
   }"

text \<open>\<open>patient.get('person', {}).get('preferredName', {}).get(k, '')\<close>.\<close>

definition preferred_name_part :: "json \<Rightarrow> string \<Rightarrow> json option" where
  "preferred_name_part p k = do {
     pn \<leftarrow> person_get p ''preferredName'' (JObj []);
     py_get pn k (JStr [])
   }"

text \<open>Lines 132 to 173; \<open>None\<close> when one of the expressions raises.\<close>

definition format_patient :: "json \<Rightarrow> json option" where
  "format_patient p = do {
     uuid \<leftarrow> py_get p ''uuid'' JNull;
     ids_v \<leftarrow> py_get p ''identifiers'' (JArr []);
     ids \<leftarrow> py_iter ids_v;
     first_ident \<leftarrow> (case ids of [] \<Rightarrow> Some JNull | i # _ \<Rightarrow> py_get i ''identifier'' JNull);
     identifiers \<leftarrow> py_list_comp fmt_identifier ids;
     given \<leftarrow> preferred_name_part p ''givenName'';
     family \<leftarrow> preferred_name_part p ''familyName'';
     names \<leftarrow> person_list p ''names'' fmt_name;
     gender \<leftarrow> person_get p ''gender'' JNull;
     birthdate \<leftarrow> person_get p ''birthdate'' JNull;
     age \<leftarrow> person_get p ''age'' JNull;
     addresses \<leftarrow> person_list p ''addresses'' fmt_address;
     attributes \<leftarrow> person_list p ''attributes'' fmt_attribute;
     dead \<leftarrow> person_get p ''dead'' (JBool False);
     death_date \<leftarrow> person_get p ''deathDate'' JNull;
     cause \<leftarrow> person_get p ''causeOfDeath'' JNull;
     cause_display \<leftarrow>
       (if py_truthy_json cause
        then do { c \<leftarrow> person_get p ''causeOfDeath'' (JObj []); py_get c ''display'' JNull }
        else Some JNull);
     Some (JObj [(''uuid'', uuid), (''identifier'', first_ident), (''identifiers'', JArr identifiers),
                 (''name'', JStr (py_str given @ '' '' @ py_str family)), (''names'', names),
                 (''gender'', gender), (''birthdate'', birthdate), (''age'', age),
                 (''addresses'', addresses), (''attributes'', attributes), (''dead'', dead),
                 (''deathDate'', death_date), (''causeOfDeath'', cause_display)])
   }"

datatype patient_body = PatientNotFound string | PatientUncaught | PatientDetail json

definition get_patient_view :: "string \<Rightarrow> json ext \<Rightarrow> patient_body response" where
  "get_patient_view uuid answer =
     (case answer of
        Inl e \<Rightarrow> (500, PatientUncaught)
      | Inr patient \<Rightarrow>
          if patient = JNull then (404, PatientNotFound uuid)
          else (case format_patient patient of
                  None \<Rightarrow> (500, PatientUncaught)
                | Some b \<Rightarrow> (200, PatientDetail b)))"

subsection \<open>\<open>get_patient_by_identifier\<close>\<close>

text \<open>Lines 190 to 198: the first \<open>.get\<close> on a value that is not a dictionary raises;
  that is the patient itself, or else its \<open>person\<close> entry.\<close>

definition format_by_identifier :: "string \<Rightarrow> json \<Rightarrow> string + json" where
  "format_by_identifier identifier p =
     (case p of
        JObj kvs \<Rightarrow>
          (let g = (\<lambda>k d. case map_of kvs k of Some v \<Rightarrow> v | None \<Rightarrow> d);
               person = g ''person'' (JObj [])
           in case person of
                JObj pkvs \<Rightarrow>
                  (let pg = (\<lambda>k d. case map_of pkvs k of Some v \<Rightarrow> v | None \<Rightarrow> d)
                   in Inr (JObj [(''uuid'', g ''uuid'' JNull), (''patient_identifier'', JStr identifier),
                                 (''display'', g ''display'' JNull), (''identifiers'', g ''identifiers'' (JArr [])),
                                 (''person'', person), (''addresses'', pg ''addresses'' (JArr [])),
                                 (''attributes'', pg ''attributes'' (JArr []))]))
              | _ \<Rightarrow> Inl (get_attribute_error person))
      | _ \<Rightarrow> Inl (get_attribute_error p))"

datatype by_identifier_body = ByIdNotFound string | ByIdError string | ByIdDetail json

definition get_patient_by_identifier :: "string \<Rightarrow> json ext \<Rightarrow> by_identifier_body response" where
  "get_patient_by_identifier identifier answer =
     (case answer of
        Inl (ExternalUnavailable msg) \<Rightarrow> (500, ByIdError msg)
      | Inr patient \<Rightarrow>
          if \<not> py_truthy_json patient then (404, ByIdNotFound identifier)
          else (case format_by_identifier identifier patient of
                  Inl msg \<Rightarrow> (500, ByIdError msg)
                | Inr b \<Rightarrow> (200, ByIdDetail b)))"

subsection \<open>\<open>get_all_openmrs_patients\<close>\<close>

text \<open>The handler reads the OpenMRS database through the models of \<open>openmrs_models\<close>
  (imported on line 1276; not in the repository), so the rows of
  \<open>Patient.objects.select_related('patient_id').filter(voided=False)\<close> are an input,
  in the order the database returns them, with what the loop reads of each: whether
  it is voided, the person's uuid, gender and birth date (as the response renders them)
  and the full name of \<open>get_active_name()\<close>, \<open>None\<close> when there is no active name.
  A failing query is the exception \<open>Inl\<close>.\<close>

record openmrs_patient_row =
  opr_voided :: bool
  opr_uuid :: string
  opr_gender :: json
  opr_birthdate :: json
  opr_full_name :: "string option"

text \<open>Lines 1287 to 1312 for one row.\<close>

definition fmt_openmrs_row :: "openmrs_patient_row \<Rightarrow> json" where
  "fmt_openmrs_row r =
     (let full_name = (case opr_full_name r of Some n \<Rightarrow> n | None \<Rightarrow> ''N/A'');
          identifier = opr_uuid r
      in JObj [(''uuid'', JStr (opr_uuid r)), (''identifier'', JStr identifier),
               (''display'', JStr full_name),
               (''person'', JObj [(''display'', JStr full_name), (''gender'', opr_gender r),
                                  (''birthdate'', opr_birthdate r)]),
               (''identifiers'', JArr [JObj [(''identifier'', JStr identifier)]])])"

datatype all_openmrs_body = AllOpenmrsList "json list" | AllOpenmrsError string

definition get_all_openmrs_patients ::
  "openmrs_patient_row list ext \<Rightarrow> all_openmrs_body response" where
  "get_all_openmrs_patients rows =
     (case rows of
        Inl (ExternalUnavailable msg) \<Rightarrow> (500, AllOpenmrsError msg)
      | Inr rs \<Rightarrow> (200, AllOpenmrsList (map fmt_openmrs_row (filter (\<lambda>r. \<not> opr_voided r) rs))))"

subsection \<open>The shape of the \<open>get_patient\<close> response\<close>

definition identifier_type :: jtype where
  "identifier_type = TObj [(''identifier'', TAny), (''identifierType'', TAny)]"

definition name_type :: jtype where
  "name_type = TObj [(''givenName'', TAny), (''middleName'', TAny), (''familyName'', TAny), (''preferred'', TAny)]"

definition address_type :: jtype where
  "address_type = TObj (map (\<lambda>k. (k, TAny)) address_keys @ [(''preferred'', TAny)])"

definition attribute_type :: jtype where
  "attribute_type = TObj [(''attributeType'', TAny), (''value'', TAny)]"

definition patient_schema :: jtype where
  "patient_schema = TObj [(''uuid'', TAny), (''identifier'', TAny), (''identifiers'', TArr identifier_type),
     (''name'', TStr), (''names'', TArr name_type), (''gender'', TAny), (''birthdate'', TAny), (''age'', TAny),
     (''addresses'', TArr address_type), (''attributes'', TArr attribute_type), (''dead'', TAny),
     (''deathDate'', TAny), (''causeOfDeath'', TAny)]"

definition openmrs_entry_type :: jtype where
  "openmrs_entry_type = TObj [(''uuid'', TStr), (''identifier'', TStr), (''display'', TStr),
     (''person'', TObj [(''display'', TStr), (''gender'', TAny), (''birthdate'', TAny)]),
     (''identifiers'', TArr (TObj [(''identifier'', TStr)]))]"

text \<open>A registry patient, as OpenMRS answers it.\<close>

definition ex_patient :: json where
  "ex_patient = JObj [(''uuid'', JStr ''u1''),
     (''identifiers'', JArr [JObj [(''identifier'', JStr ''P100''), (''identifierType'', JObj [(''display'', JStr ''OpenMRS ID'')])]]),
     (''person'', JObj [(''gender'', JStr ''M''),
        (''preferredName'', JObj [(''givenName'', JStr ''Min''), (''familyName'', JStr ''Kim'')]),
        (''names'', JArr [JObj [(''givenName'', JStr ''Min''), (''familyName'', JStr ''Kim'')]]),
        (''causeOfDeath'', JNull)])]"

subsection \<open>Lemmas: each comprehension yields elements of its type\<close>

lemma those_length: "those xs = Some ys \<Longrightarrow> length ys = length xs"
  by (induction xs arbitrary: ys) (auto split: option.splits)

lemma py_list_comp_type:
  assumes f: "\<And>x y. f x = Some y \<Longrightarrow> has_type t y"
  shows "py_list_comp f xs = Some ys \<Longrightarrow> list_all (has_type t) ys"
  by (induction xs arbitrary: ys) (auto simp: py_list_comp_def f split: option.splits)

lemma fmt_identifier_type: "fmt_identifier i = Some y \<Longrightarrow> has_type identifier_type y"
  by (auto simp: fmt_identifier_def identifier_type_def bind_eq_Some_conv)

lemma fmt_name_type: "fmt_name n = Some y \<Longrightarrow> has_type name_type y"
  by (auto simp: fmt_name_def name_type_def bind_eq_Some_conv)

lemma fmt_attribute_type: "fmt_attribute a = Some y \<Longrightarrow> has_type attribute_type y"
  by (auto simp: fmt_attribute_def attribute_type_def bind_eq_Some_conv)

lemma fmt_address_type: "fmt_address a = Some y \<Longrightarrow> has_type address_type y"
proof -
  assume "fmt_address a = Some y"
  then obtain vs pref where vs: "those (map (\<lambda>k. py_get a k JNull) address_keys) = Some vs"
    and y: "y = JObj (zip address_keys vs @ [(''preferred'', pref)])"
    by (auto simp: fmt_address_def bind_eq_Some_conv)
  have l: "length vs = 6" using those_length [OF vs] by (simp add: address_keys_def)
  then obtain v1 v2 v3 v4 v5 v6 where "vs = [v1, v2, v3, v4, v5, v6]"
    by (cases vs rule: list.exhaust; simp; (rename_tac xs; case_tac xs; simp)+)
  then show ?thesis by (simp add: y address_type_def address_keys_def)
qed

lemma person_list_type:
  assumes f: "\<And>x y. f x = Some y \<Longrightarrow> has_type t y"
  shows "person_list p k f = Some v \<Longrightarrow> has_type (TArr t) v"
  using py_list_comp_type [of f t, OF f] by (auto simp: person_list_def bind_eq_Some_conv)

lemma format_patient_type: "format_patient p = Some b \<Longrightarrow> has_type patient_schema b"
proof -
  assume "format_patient p = Some b"
  then obtain uuid fi ids ids_v idents given family names gender birthdate age addrs attrs dead dd cd where
    ids: "py_iter ids_v = Some ids" and idents: "py_list_comp fmt_identifier ids = Some idents"
    and names: "person_list p ''names'' fmt_name = Some names"
    and addrs: "person_list p ''addresses'' fmt_address = Some addrs"
    and attrs: "person_list p ''attributes'' fmt_attribute = Some attrs"
    and b: "b = JObj [(''uuid'', uuid), (''identifier'', fi), (''identifiers'', JArr idents),
                 (''name'', JStr (py_str given @ '' '' @ py_str family)), (''names'', names),
                 (''gender'', gender), (''birthdate'', birthdate), (''age'', age),
                 (''addresses'', addrs), (''attributes'', attrs), (''dead'', dead),
                 (''deathDate'', dd), (''causeOfDeath'', cd)]"
    unfolding format_patient_def by (auto simp: bind_eq_Some_conv)
  have "list_all (has_type identifier_type) idents"
    by (rule py_list_comp_type [OF fmt_identifier_type idents])
  moreover have "has_type (TArr name_type) names" by (rule person_list_type [OF fmt_name_type names])
  moreover have "has_type (TArr address_type) addrs" by (rule person_list_type [OF fmt_address_type addrs])
  moreover have "has_type (TArr attribute_type) attrs" by (rule person_list_type [OF fmt_attribute_type attrs])
  ultimately show ?thesis by (simp add: b patient_schema_def)
qed

lemma get_all_openmrs_patients_entries:
  assumes "get_all_openmrs_patients rows = (200, AllOpenmrsList vs)"
  shows "\<exists>rs. rows = Inr rs \<and> list_all (has_type openmrs_entry_type) vs \<and>
              map (\<lambda>v. py_get v ''uuid'' JNull) vs =
                map (\<lambda>r. Some (JStr (opr_uuid r))) (filter (\<lambda>r. \<not> opr_voided r) rs)"
  using assms
  by (auto simp: get_all_openmrs_patients_def fmt_openmrs_row_def openmrs_entry_type_def py_get_def
                 list_all_iff Let_def split: sum.splits ext_error.splits)

subsection \<open>Error paths\<close>

text \<open>The default \<open>{}\<close> of \<open>id.get('identifierType', {})\<close> applies only to a missing key: an
  explicit \<open>null\<close> makes the next \<open>.get\<close> raise, and as \<open>get_patient\<close> has no \<open>try\<close>,
  the request ends in Django's 500 answer.\<close>

lemma get_patient_null_identifier_type:
  assumes "map_of kvs ''identifiers'' = Some (JArr (JObj ikvs # rest))"
    and "map_of ikvs ''identifierType'' = Some JNull"
  shows "get_patient_view u (Inr (JObj kvs)) = (500, PatientUncaught)"
  using assms
  by (simp add: get_patient_view_def format_patient_def py_list_comp_def fmt_identifier_def py_get_def
                py_iter_def bind_eq_None_conv)

lemma get_patient_by_identifier_found:
  assumes "map_of kvs ''person'' = Some (JObj pkvs)" "kvs \<noteq> []"
  shows "\<exists>b. get_patient_by_identifier i (Inr (JObj kvs)) = (200, ByIdDetail b) \<and>
             py_get b ''patient_identifier'' JNull = Some (JStr i)"
  using assms by (simp add: get_patient_by_identifier_def format_by_identifier_def py_truthy_json_def py_get_def)

lemma get_patient_by_identifier_not_found:
  "\<not> py_truthy_json p \<Longrightarrow> get_patient_by_identifier i (Inr p) = (404, ByIdNotFound i)"
  by (simp add: get_patient_by_identifier_def)

text \<open>C28: \<open>get_patient\<close> answers 200, 404 or 500; 404 exactly when the registry client
  returns \<open>None\<close>; and every 200 body has the documented shape: the thirteen keys of
  lines 133 to 172 in order, \<open>name\<close> a string, and \<open>identifiers\<close>, \<open>names\<close>,
  \<open>addresses\<close> and \<open>attributes\<close> lists of dictionaries with exactly their keys.\<close>

theorem get_patient_response_type:
  "fst (get_patient_view u a) \<in> {200, 404, 500} \<and>
   (fst (get_patient_view u a) = 404 \<longleftrightarrow> a = Inr JNull) \<and>
   (snd (get_patient_view u a) = PatientDetail b \<longrightarrow> fst (get_patient_view u a) = 200 \<and> has_type patient_schema b)"
  by (auto simp: get_patient_view_def dest: format_patient_type split: sum.splits option.splits if_splits)

theorem get_patient_response_type_witness:
  "\<exists>b. snd (get_patient_view ''u1'' (Inr ex_patient)) = PatientDetail b \<and> has_type patient_schema b"
proof -
  have "format_patient ex_patient \<noteq> None" by code_simp
  then obtain b where fb: "format_patient ex_patient = Some b" by blast
  have "snd (get_patient_view ''u1'' (Inr ex_patient)) = PatientDetail b"
    by (simp add: get_patient_view_def fb) (simp add: ex_patient_def)
  then show ?thesis using get_patient_response_type [of "''u1''" "Inr ex_patient" b] by blast
qed

end
