(* ===== verification/OrthancViews.thy ===== *)
theory OrthancViews
  imports PatientDetail
begin

text \<open>
  The archive-side proxy handlers of \<open>src/backend/medical_integration/views.py\<close>:
  \<open>search_orthanc_patients\<close>, \<open>get_orthanc_patient\<close>, \<open>get_patient_dicom_studies\<close> and
  \<open>get_dicom_study_details\<close>. Each calls the archive client (or the mapper) and reshapes
  or relays the JSON value it returns; what the client answers is an input, its exception
  (\<open>Inl\<close>) or the value. Every handler catches all exceptions and answers 500 with
  \<open>str(e)\<close>, so a raising step of the reshaping is a value \<open>Inl msg\<close> of \<open>string + json\<close>.
\<close>

subsection \<open>\<open>search_orthanc_patients\<close>\<close>

text \<open>Lines 464 to 475 for one search result. The \<open>.get\<close> calls on \<open>result\<close>,
  \<open>patient_info\<close> and \<open>main_tags\<close> raise when these are not dictionaries, in that order,
  and \<open>len\<close> raises on a \<open>Studies\<close> entry that has no length.\<close>

definition json_lookup :: "(string \<times> json) list \<Rightarrow> string \<Rightarrow> json \<Rightarrow> json" where
  "json_lookup kvs k d = (case map_of kvs k of Some v \<Rightarrow> v | None \<Rightarrow> d)"

definition fmt_orthanc_result :: "json \<Rightarrow> string + json" where
  "fmt_orthanc_result r =
     (case r of
        JObj rkvs \<Rightarrow>
          (case json_lookup rkvs ''patient_info'' (JObj []) of
             JObj ikvs \<Rightarrow>
               (case json_lookup ikvs ''MainDicomTags'' (JObj []) of
                  JObj tkvs \<Rightarrow>
                    (let studies = json_lookup ikvs ''Studies'' (JArr []) in
                     case py_len_json studies of
                       None \<Rightarrow> Inl (no_len_error studies)
                     | Some n \<Rightarrow>
                         Inr (JObj [(''patient_id'', json_lookup rkvs ''patient_id'' JNull),
                                    (''patient_name'', json_lookup tkvs ''PatientName'' (JStr [])),
                                    (''patient_birth_date'', json_lookup tkvs ''PatientBirthDate'' (JStr [])),
                                    (''patient_sex'', json_lookup tkvs ''PatientSex'' (JStr [])),
                                    (''patient_id_dicom'', json_lookup tkvs ''PatientID'' (JStr [])),
                                    (''studies_count'', JNum (int n)),
                                    (''last_update'', json_lookup ikvs ''LastUpdate'' (JStr []))]))
                | tags \<Rightarrow> Inl (get_attribute_error tags))
           | info \<Rightarrow> Inl (get_attribute_error info))
      | _ \<Rightarrow> Inl (get_attribute_error r))"

text \<open>The loop of lines 463 to 476: the first exception ends it.\<close>

fun py_for_exc :: "('a \<Rightarrow> string + 'b) \<Rightarrow> 'a list \<Rightarrow> string + 'b list" where
  "py_for_exc f [] = Inr []"
| "py_for_exc f (x # xs) =
     (case f x of
        Inl e \<Rightarrow> Inl e
      | Inr y \<Rightarrow> (case py_for_exc f xs of Inl e \<Rightarrow> Inl e | Inr ys \<Rightarrow> Inr (y # ys)))"

datatype search_body = SearchMissingQuery | SearchError string | SearchResults "json list" nat

definition search_orthanc_patients :: "string option \<Rightarrow> json ext \<Rightarrow> search_body response" where
  "search_orthanc_patients q answer =
     (let query = get_or q [] in
      if query = [] then (400, SearchMissingQuery)
      else (case answer of
              Inl (ExternalUnavailable msg) \<Rightarrow> (500, SearchError msg)
            | Inr results \<Rightarrow>
                (case py_iter results of
                   None \<Rightarrow> (500, SearchError (not_iterable_error results))
                 | Some rs \<Rightarrow>
                     (case py_for_exc fmt_orthanc_result rs of
                        Inl msg \<Rightarrow> (500, SearchError msg)
                      | Inr patients \<Rightarrow> (200, SearchResults patients (length patients))))))"

subsection \<open>\<open>get_orthanc_patient\<close>\<close>

text \<open>The studies are asked for only after the patient was found (line 499); the
  response dictionary first reads \<open>MainDicomTags\<close>, which raises when the patient
  information is truthy but not a dictionary, then \<open>len(studies)\<close> when the studies
  are truthy.\<close>

datatype orthanc_patient_body = OPNotFound string | OPError string | OPDetail json

definition get_orthanc_patient :: "string \<Rightarrow> json ext \<Rightarrow> json ext \<Rightarrow> orthanc_patient_body response" where
  "get_orthanc_patient pid info_answer studies_answer =
     (case info_answer of
        Inl (ExternalUnavailable msg) \<Rightarrow> (500, OPError msg)
      | Inr info \<Rightarrow>
          if \<not> py_truthy_json info then (404, OPNotFound pid)
          else (case studies_answer of
                  Inl (ExternalUnavailable msg) \<Rightarrow> (500, OPError msg)
                | Inr studies \<Rightarrow>
                    (case info of
                       JObj ikvs \<Rightarrow>
                         (case (if py_truthy_json studies then py_len_json studies else Some 0) of
                            None \<Rightarrow> (500, OPError (no_len_error studies))
                          | Some n \<Rightarrow>
                              (200, OPDetail (JObj
                                 [(''patient_id'', JStr pid),
                                  (''main_dicom_tags'', json_lookup ikvs ''MainDicomTags'' (JObj [])),
                                  (''studies'', if py_truthy_json studies then studies else JArr []),
                                  (''studies_count'', JNum (int n)),
                                  (''last_update'', json_lookup ikvs ''LastUpdate'' (JStr [])),
                                  (''type'', json_lookup ikvs ''Type'' (JStr [])),
                                  (''is_stable'', json_lookup ikvs ''IsStable'' (JBool False))])))
                     | _ \<Rightarrow> (500, OPError (get_attribute_error info)))))"

subsection \<open>\<open>get_patient_dicom_studies\<close> and \<open>get_dicom_study_details\<close>\<close>

datatype dicom_studies_body = DSError string | DSList string json nat

definition get_patient_dicom_studies :: "string \<Rightarrow> json ext \<Rightarrow> dicom_studies_body response" where
  "get_patient_dicom_studies patient_uuid answer =
     (case answer of
        Inl (ExternalUnavailable msg) \<Rightarrow> (500, DSError msg)
      | Inr studies \<Rightarrow>
          (case py_len_json studies of
             None \<Rightarrow> (500, DSError (no_len_error studies))
           | Some n \<Rightarrow> (200, DSList patient_uuid studies n)))"

datatype study_details_body = SDNotFound string | SDError string | SDDetails string json

definition get_dicom_study_details :: "string \<Rightarrow> json ext \<Rightarrow> study_details_body response" where
  "get_dicom_study_details study_id answer =
     (case answer of
        Inl (ExternalUnavailable msg) \<Rightarrow> (500, SDError msg)
      | Inr details \<Rightarrow>
          if \<not> py_truthy_json details then (404, SDNotFound study_id)
          else (200, SDDetails study_id details))"

subsection \<open>The shape of a search result\<close>

definition search_result_type :: jtype where
  "search_result_type = TObj [(''patient_id'', TAny), (''patient_name'', TAny), (''patient_birth_date'', TAny),
     (''patient_sex'', TAny), (''patient_id_dicom'', TAny), (''studies_count'', TAny), (''last_update'', TAny)]"

subsection \<open>Lemmas\<close>

lemma py_for_exc_Inr:
  "py_for_exc f xs = Inr ys \<Longrightarrow> length ys = length xs \<and> (\<forall>i < length xs. f (xs ! i) = Inr (ys ! i))"
proof (induction xs arbitrary: ys)
  case (Cons x xs)
  then show ?case by (auto simp: nth_Cons' split: sum.splits)
qed simp

lemma fmt_orthanc_result_type: "fmt_orthanc_result r = Inr y \<Longrightarrow> has_type search_result_type y"
  by (auto simp: fmt_orthanc_result_def search_result_type_def Let_def
           split: json.splits option.splits)

lemma search_orthanc_patients_missing_query:
  "fst (search_orthanc_patients q a) = 400 \<longleftrightarrow> get_or q [] = []"
  by (auto simp: search_orthanc_patients_def split: sum.splits ext_error.splits option.splits)

lemma search_orthanc_patients_results:
  assumes "search_orthanc_patients q a = (200, SearchResults ps n)"
  shows "\<exists>results rs. a = Inr results \<and> py_iter results = Some rs \<and> length ps = length rs \<and>
           n = length ps \<and> list_all (has_type search_result_type) ps"
proof -
  from assms obtain results rs where a: "a = Inr results" and rs: "py_iter results = Some rs"
    and ps: "py_for_exc fmt_orthanc_result rs = Inr ps" and n: "n = length ps"
    by (auto simp: search_orthanc_patients_def Let_def
             split: if_splits sum.splits ext_error.splits option.splits)
  from py_for_exc_Inr [OF ps] have "length ps = length rs"
    and "\<forall>i < length rs. fmt_orthanc_result (rs ! i) = Inr (ps ! i)" by auto
  then have "list_all (has_type search_result_type) ps"
    by (auto simp: list_all_length intro: fmt_orthanc_result_type)
  with a rs n \<open>length ps = length rs\<close> show ?thesis by blast
qed

lemma get_orthanc_patient_not_found:
  "\<not> py_truthy_json info \<Longrightarrow>
   get_orthanc_patient pid (Inr info) st = (404, OPNotFound pid)"
  by (simp add: get_orthanc_patient_def)

lemma get_orthanc_patient_count:
  assumes "get_orthanc_patient pid ia sa = (200, OPDetail b)"
  shows "\<exists>ikvs studies. ia = Inr (JObj ikvs) \<and> sa = Inr studies \<and>
           py_get b ''studies_count'' JNull =
             Some (JNum (int (if py_truthy_json studies then the (py_len_json studies) else 0)))"
  using assms
  by (auto simp: get_orthanc_patient_def py_get_def split: sum.splits ext_error.splits json.splits if_splits option.splits)

end
