(* ===== verification/Spec2Isabelle.thy ===== *)
theory Spec2Isabelle
  imports BatchSweep PatientViews DummyData Age OcsLogs Routing Health ActiveLinks Migrations OpenmrsProxy PatientDetail OrthancViews
begin

text \<open>
  \<^bold>\<open>Identity reconciliation of the medical integration backend.\<close>
  The repository's Django backend (\<open>src/backend/medical_integration/views.py\<close>) links
  patients of an image archive (Orthanc) to patients of a demographic registry
  (OpenMRS) through a table of \<open>PatientMapping\<close> rows. Mappings are created
  automatically when an image is uploaded (\<open>upload_dicom_with_auto_mapping\<close>) or by the
  batch sweep over all archive patients without an active mapping
  (\<open>batch_auto_mapping\<close>), both through the engine \<open>DicomPatientMapper\<close>, and by hand
  (\<open>create_patient_mapping\<close>, \<open>create_manual_patient_mapping\<close>); they are re-validated
  (\<open>sync_patient_mapping\<close>), read, and soft-deleted (\<open>delete_patient_mapping\<close>).
  A second application, \<open>src/backend/ocs/views.py\<close>, stores laboratory (LIS) log rows
  and lists them, alone or merged with the log documents of a MongoDB collection.

  \<^bold>\<open>Theories.\<close>
  \<^item> \<open>Prelude\<close>: the model's type names (\<open>uuid\<close>, \<open>orthanc_pid\<close>, \<open>tag_map\<close>,
    \<open>timestamp\<close>, the \<open>response\<close> pair of status code and body, \<open>ext_error\<close> for
    an exception of an external call) and the Python idioms the handlers use:
    truthiness of request values (\<open>py_truthy\<close>), \<open>str.strip\<close> (\<open>py_strip\<close>),
    \<open>sep.join\<close> (\<open>py_join\<close>), \<open>dict.get\<close> with a default (\<open>lookup_default\<close>), and
    the row update of an ORM \<open>save()\<close> (\<open>update_where\<close>), with their lemmas in the
    collection \<open>model_simps\<close>.
  \<^item> \<open>MappingStore\<close>: the \<open>PatientMapping\<close> table as a record of rows in key order and
    the next auto-increment key; one function per ORM call (\<open>objects_create\<close>,
    \<open>first_pair\<close>, \<open>get_active_by_id\<close>, \<open>update_sync_time\<close>, \<open>deactivate\<close>,
    \<open>get_active_mappings\<close>, \<open>mapped_patient_ids\<close>); the invariant \<open>store_inv\<close>
    (distinct keys below the counter; an error message exactly in the \<open>ERROR\<close> state,
    never empty), the relation \<open>keeps_history\<close> (rows are only appended, their key,
    endpoints, type and creation time never change) and \<open>archive_unique\<close> (at most
    one active row per archive patient), each kept by the operations.
  \<^item> \<open>Services\<close>: the registry as a list of patients and the archive as a snapshot of
    what each Orthanc call answers, exceptions included.
  \<^item> \<open>Mapper\<close>: the engine (tag extraction, identity matching with the identifier
    channel before the demographic one, validation of both endpoints, the per-image
    \<open>process_dicom_upload\<close>, \<open>create_manual_mapping\<close>), with creation, idempotence
    and uniqueness lemmas.
  \<^item> \<open>MappingViews\<close>: the mapping handlers of \<open>views.py\<close> and claims C1 to C8.
  \<^item> \<open>BatchSweep\<close>: \<open>batch_auto_mapping\<close>, its per-patient step \<open>sweep_one\<close> and
    loop \<open>sweep_loop\<close>, and claims C9 to C12.
  \<^item> \<open>PatientViews\<close>: \<open>search_patients\<close> (the primary identifier the mapping matches
    on) and \<open>create_patient\<close>, claims C13 and C14.
  \<^item> \<open>Maintenance\<close>: \<open>clear_dummy_data\<close> (its loop \<open>clear_loop\<close> over the rows the
    \<open>icontains\<close> filter \<open>dummy_mappings\<close> selects), \<open>get_mapping_test_status\<close>,
    \<open>get_mapping_status\<close> with its ten newest rows \<open>recent_mappings\<close>, and
    \<open>create_test_mapping\<close>; claims C16 to C18.
  \<^item> \<open>DummyData\<close>: \<open>create_dummy_data\<close> with its two loops
    \<open>create_dummy_patients\<close> (registry creation) and \<open>upload_dummies\<close> (image, upload,
    reconciliation), and \<open>create_simple_dummy_dicom\<close>; claims C20 to C22.
  \<^item> \<open>Age\<close>: \<open>calculate_age_from_birthdate\<close> with the parser
    \<open>strptime_ymd\<close>, which follows CPython's \<open>_strptime\<close> for \<open>'%Y-%m-%d'\<close>: the
    regular expression of each directive as the list of its alternatives in order
    (\<open>match_year\<close>, \<open>alts_month\<close>, \<open>alts_day\<close>, \<open>match_ymd\<close>), then the date check of
    \<open>datetime\<close> (\<open>days_in_month\<close>, leap years); claims C23 and C24.
  \<^item> \<open>OcsLogs\<close>: the LIS log table (rows in key order and the next key, invariant
    \<open>lis_inv\<close>), \<open>LISLogListAPIView.get_queryset\<close> (\<open>lis_list_queryset\<close>),
    \<open>create_log_view\<close>, \<open>get_logs_view\<close> with its declarative reference
    \<open>log_matches\<close>, and \<open>combined_log_view\<close> with \<open>strftime\<close> (\<open>fmt_datetime\<close>), the
    entry of a LIS row (\<open>lis_entry\<close>) and of a Mongo document (\<open>mongo_entry\<close>), the
    loop under \<open>try\<close> (\<open>mongo_loop\<close>, \<open>mongo_data\<close>); claims C26, C27 and C29 to C32.
  \<^item> \<open>Routing\<close>: the URL table of \<open>urls.py\<close> (\<open>urlpatterns\<close>), Django's route
    matching (\<open>match_parts\<close>: a full match with greedy converters \<open>str\<close> and \<open>int\<close>),
    first-match resolution (\<open>url_resolve\<close>), \<open>reverse\<close>, and the REST framework's
    method dispatch of \<open>@api_view\<close> handlers (\<open>api_methods\<close>, \<open>dispatch\<close>); claims C33
    and C34.
  \<^item> \<open>Health\<close>: \<open>health_check\<close> and \<open>test_all_connections\<close>; claim C35.
  \<^item> \<open>ActiveLinks\<close>: the abstract specification of the mapping table (the multiset of
    active links, with the operations add, remove, keep and drop), the handlers that
    change the table as one step function \<open>handle_mapping\<close> over a request datatype,
    and the refinement theorem C36; how the statistics handlers count each created
    mapping (C19).
  \<^item> \<open>Migrations\<close>: the migrations of \<open>orders\<close> and \<open>ocs\<close>, the model \<open>OCSLog\<close> of
    \<open>ocs/models.py\<close>, Django's \<open>CreateModel\<close> and \<open>DeleteModel\<close> on the project state and
    the tables, and the executor as the step relation \<open>migrate_step\<close>; claims C25
    (termination), C37 and C38.
  \<^item> \<open>OpenmrsProxy\<close>: the pass-through handlers \<open>get_all_patients_simple\<close> and
    \<open>proxy_openmrs_providers\<close>, with Python's \<open>int()\<close> on a string (\<open>py_int\<close>, which
    reads back \<open>str()\<close>); the handler returns the request it sends to OpenMRS beside its
    response, so that the order of the call and of the parameter checks is part of the
    result; claims C39 and C40.
  \<^item> \<open>PyJson\<close>: JSON values as Python sees them after \<open>response.json()\<close>, the Python
    operations the handlers apply to them (\<open>.get\<close> with a default, iteration, \<open>len\<close>,
    truthiness, \<open>str()\<close> and \<open>repr()\<close>, the messages of the exceptions they raise),
    and types of JSON values (\<open>jtype\<close>, \<open>has_type\<close>) describing response bodies.
  \<^item> \<open>PatientDetail\<close>: \<open>get_patient\<close> (\<open>get_patient_view\<close>, with \<open>format_patient\<close>
    in the option monad, \<open>None\<close> for an exception, which Django answers with 500 as the
    handler has no \<open>try\<close>), \<open>get_patient_by_identifier\<close>, and
    \<open>get_all_openmrs_patients\<close> over the rows of the external \<open>openmrs_models\<close> tables;
    claim C28, the type of the \<open>get_patient\<close> response.
  \<^item> \<open>OrthancViews\<close>: \<open>search_orthanc_patients\<close>, \<open>get_orthanc_patient\<close>,
    \<open>get_patient_dicom_studies\<close> and \<open>get_dicom_study_details\<close>, each over the JSON value
    the archive client returns, with \<open>str(e)\<close> of every caught exception.
  \<^item> this theory: C15, which joins patient creation and image upload.

  \<^bold>\<open>Modelling choices.\<close>
  \<^item> The model module \<open>models.py\<close>, the engine \<open>dicom_patient_mapper.py\<close> and the API
    clients \<open>openmrs_api.py\<close> and \<open>orthanc_api.py\<close> are not among the sources; their
    definitions follow the spec (sections 3, 4 and 6) and are marked so in the
    manifest. The status a row has between \<open>objects.create\<close> and its first
    validation is the extra constructor \<open>PENDING\<close>; the type a row gets when the
    caller does not choose one is \<open>default_mapping_type\<close>.
  \<^item> A handler is a function of the request's values, the registry, the archive, a
    timestamp and the table, returning the status code with a body datatype (one
    constructor per \<open>return Response(...)\<close>) and the new table. What an external
    service answers to a call that has an effect (the upload to Orthanc, the patient
    creation in OpenMRS) is an input of the handler.
  \<^item> Every loop is structural recursion over a finite list, so no fuel is needed;
    Python integers are \<open>nat\<close> (keys, counts, status codes) and never overflow.
  \<^item> Django lookups: \<open>__icontains\<close> is containment after lower-casing both sides;
    \<open>order_by('-created_date')\<close> is the stable descending sort \<open>sort_desc_key\<close>, so rows
    created at the same time keep their key order; a query without \<open>order_by\<close> yields
    rows in key order.
  \<^item> Strings are character lists; the Korean names of the test patients of
    \<open>create_dummy_data\<close> are written as their UTF-8 bytes. What the archive and the
    registry answer to a creating call (upload, patient creation) is an input, one
    answer per call.
  \<^item> Dates: a birth date is a triple (year, month, day) and \<open>today\<close> an input of
    \<open>calculate_age_from_birthdate\<close>; \<open>strptime\<close>'s digit class is taken as the ASCII digits
    (CPython also accepts other Unicode digits) and its case-insensitive matching is
    immaterial for a pattern of digits and dashes. A date-time of the OCS application is
    the tuple (year, month, day, hour, minute, second, microsecond) of one time zone,
    ordered lexicographically; what \<open>parse_datetime\<close> makes of a date parameter
    (nothing, a date-time, or \<open>ValueError\<close>) is an input (\<open>date_param\<close>). \<open>%Y\<close> of
    \<open>strftime\<close> prints the year without padding (\<open>show_dec\<close>), so the order of the
    time texts is the order of time only for four-digit years (\<open>fmt_exact\<close>).
  \<^item> MongoDB: the documents of \<open>find().sort("timestamp", -1)\<close> are an input, in the
    order the server returns them, or the exception of the connection; a timestamp is
    absent or falsy, a date-time, or another value whose \<open>strftime\<close> raises.
  \<^item> Routing: paths are the part after the project's prefix for the application
    (the project \<open>urls.py\<close> is not in the repository), percent-decoded as the resolver
    sees them; the reachable schemas of the migrations are computed exhaustively, as
    there are three migrations.
  \<^item> Not modelled: logging, the temporary file of the upload, database
    failures (the ORM calls are total), JSON numbers with a fraction (the JSON values
    hold integers), the float \<open>success_rate\<close> and the per-row \<open>dicom_studies_count\<close>
    and \<open>notes\<close> of the statistics handlers, the clock- and random-dependent tags of
    the generated test image, the serializer of the OCS views (\<open>ocs/serializers.py\<close> is
    not in the repository; a list answer is the list of rows), the database errors the
    OCS handlers turn into 500, authentication and permission checks of the REST framework, and
    the columns' defaults, choices and \<open>auto_now_add\<close> in the migrations,
    the queries of \<open>get_all_openmrs_patients\<close> (the models of \<open>openmrs_models\<close> are not
    in the repository; their rows are an input), and the non-ASCII white space
    and digits that \<open>int()\<close> also accepts. No loop of the
    code can run forever (every loop walks a finite list), so the code's functions are
    structural recursion; the one process that repeats until nothing is left to do,
    Django's \<open>migrate\<close>, is shown to terminate (C25).

  \<^bold>\<open>What is shown.\<close> Uploads are idempotent (C1); a unique match creates exactly one
  active \<open>AUTO\<close> row (C2) and the identifier channel wins over demographics (C3); a
  repeated manual mapping is refused without effect (C4); \<open>create_patient_mapping\<close>
  refuses pairs that only exist as deactivated rows (C5) and records \<open>SYNCED\<close> as the
  first status (C6), both unlike the spec; re-validation follows the registry (C7);
  deletion is soft (C8); the batch sweep reports one result per unmapped patient
  (C9), keeps the invariants (C10), maps exactly the patients it reports successful
  (C11) and changes the table exactly as a live upload would (C12); the primary
  identifier loop equals its declarative reference (C13); a created patient's
  identifier is unused before and unique after (C14), so images carrying it map to
  that patient (C15). The clean-up \<open>clear_dummy_data\<close> soft-deletes exactly the active
  rows whose archive id contains \<open>DUMMY\<close> and keeps the invariants (C16), but archive ids
  of Orthanc's form never contain it (C17); the recent list of \<open>get_mapping_status\<close>
  holds the newest active rows (C18), and every created mapping is counted once, under
  its own type, and in the test statistics as successful exactly when its first
  validation passed (C19).
  \<open>create_dummy_data\<close> decides which images to reconcile by position, so a created
  patient's image can be skipped (C20); it keeps the table invariants (C21), and the
  test mappings it creates are invisible to the clean-up (C22).
  The date parser reads back exactly the valid dates from their ISO text (C23), so
  \<open>calculate_age_from_birthdate\<close> returns the number of whole years since the birth
  date (C24). \<open>migrate\<close> terminates, and from the empty database every run of the repository's
  migrations has at most two steps (C25). In the OCS views the
  filter chain of \<open>get_logs_view\<close> equals its conjunctive reference (C26); the merged
  list is a stable, newest-first permutation of its two sources (C27); every 200 answer
  of \<open>get_patient\<close> has the documented response type, and 404 comes exactly for an
  unknown patient (C28); the merged list's time texts sort as the times do for four-digit
  years (C29); log creation is refused exactly without patient, doctor or step (C30),
  a later log heads its patient's list (C31), and one malformed Mongo timestamp drops
  every Mongo entry (C32). Reversing a route and resolving the path gives back the
  route and its arguments except for three requests an earlier route shadows (C33);
  no handler that changes data runs for \<open>GET\<close>, and three handlers are not routed
  at all (C34); the connection test always answers 200 and reports OpenMRS up exactly
  for a non-empty session without a truthy error entry (C35). The
  mapping handlers refine the abstract multiset of active links (C36). In every
  database the migrations can produce, \<open>0002\<close> is unapplied and there is no \<open>LISLog\<close>
  table, the table the OCS views read (C37), and \<open>migrate\<close> always reaches a final
  database with both initial migrations applied (C38). \<open>get_all_patients_simple\<close>
  forwards a \<open>limit\<close> that is not an integer to OpenMRS and fails only afterwards (C39),
  and answers 200 exactly when the configuration, the upstream answer and both paging
  parameters are valid (C40).
\<close>

text \<open>C15: a patient created through \<open>create_patient\<close> is the one an uploaded image
  carrying its identifier maps to: the identifier is fresh, so the identifier channel
  of the matcher finds exactly that patient, and the upload creates an \<open>AUTO\<close>
  mapping to it.\<close>

theorem created_patient_images_auto_map:
  assumes created: "create_patient meth data answer reg = ((201, CPCreated u ident), reg')"
    and inv: "store_inv st" and par: "ur_parent_patient ur = Some opid" and ne: "opid \<noteq> []"
    and free: "active_for_archive opid st = None"
    and tag: "map_of tags ''PatientID'' = Some ident"
  shows "\<exists>m. fst (upload_dicom_with_auto_mapping reg' arch (Some tags) (Some ur) now st) =
               (201, UpDone ur (Mapped m) True) \<and>
             openmrs_patient_uuid m = u \<and> mapping_type m = AUTO"
proof -
  from create_patient_201 [OF created]
  have ine: "ident \<noteq> []" and reg': "reg' = reg @ [new_patient data ident u]"
    and fresh: "\<not> check_identifier_exists reg ident" by auto
  have "find_by_identifier reg' ident = [new_patient data ident u]"
    using reg' fresh by (simp add: find_by_identifier_append_new)
  then have uniq: "resolve reg' (extract_patient_info tags) = Unique u"
    using resolve_identifier_unique [OF tag ine] by (simp add: new_patient_def)
  obtain m st2 where cv: "create_and_validate reg' arch AUTO opid u now st = (m, st2)"
    by (cases "create_and_validate reg' arch AUTO opid u now st")
  note r = create_and_validate_result [OF inv cv]
  have "process_dicom_upload reg' arch tags (Some opid) now st = (Mapped m, st2)"
    using process_dicom_upload_Unique [OF ne free uniq] cv by simp
  with par r show ?thesis by (simp add: upload_some_eq)
qed

theorem created_patient_images_auto_map_witness:
  "create_patient POST ex_request (Some ''uuid-n'') ex_reg_one =
     ((201, CPCreated ''uuid-n'' ''P200''), ex_reg_one @ [new_patient ex_request ''P200'' ''uuid-n'']) \<and>
   store_inv empty_store \<and> ur_parent_patient ex_reply = Some ''o1'' \<and> ''o1'' \<noteq> [] \<and>
   active_for_archive ''o1'' empty_store = None \<and>
   map_of [(''PatientID'', ''P200'')] ''PatientID'' = Some ''P200'' \<and>
   (\<exists>m. fst (upload_dicom_with_auto_mapping (ex_reg_one @ [new_patient ex_request ''P200'' ''uuid-n''])
              ex_archive (Some [(''PatientID'', ''P200'')]) (Some ex_reply) 5 empty_store) =
          (201, UpDone ex_reply (Mapped m) True) \<and>
        openmrs_patient_uuid m = ''uuid-n'' \<and> mapping_type m = AUTO)"
proof -
  have par: "ur_parent_patient ex_reply = Some ''o1''" by (simp add: ex_reply_def)
  have tag: "map_of [(''PatientID'', ''P200'')] ''PatientID'' = Some ''P200''" by simp
  show ?thesis
    using created_patient_images_auto_map [OF ex_create_run empty_store_inv par _ ex_free tag,
        of ex_archive 5]
      ex_create_run empty_store_inv par ex_free by simp
qed

end
